(* ===== verification/Prelude.thy ===== *)
theory Prelude
  imports Main "HOL-Library.State_Monad" "HOL-Library.Monad_Syntax" "HOL-Library.Multiset"
begin

text \<open>
  Shared vocabulary of the development.

  Go code that has effects is written in the state monad of the library
  (\<^typ>\<open>('s, 'a) state\<close>), in \<open>do\<close> notation, one line per statement of the source; a Go
  pair \<open>(value, error)\<close> is a sum whose left side is the error.  This theory holds the two
  calculi the component proofs use for such programs:
  \<^item> \<open>wp\<close>: what holds of the result and the final state of a run (functional properties);
  \<^item> the locale \<open>state_preorder\<close>: a reflexive, transitive relation between the states before
    and after a run is kept by every combinator, so it holds of a whole program as soon as
    it holds of the primitive operations (frame properties, traces that only grow).
  It also holds sorting by a Go comparison function and the tables of the database, with the
  interface \<open>table\<close> the repository relies on.
\<close>

named_theorems wp_simps \<open>equations that push \<open>wp\<close> through the combinators\<close>

definition wp :: "('s, 'a) state \<Rightarrow> ('a \<Rightarrow> 's \<Rightarrow> bool) \<Rightarrow> 's \<Rightarrow> bool" where
  "wp m Q s = (case run_state m s of (a, t) \<Rightarrow> Q a t)"

text \<open>The state component of a run, and its result.\<close>

abbreviation exec_state :: "('s, 'a) state \<Rightarrow> 's \<Rightarrow> 's" where
  "exec_state m s \<equiv> snd (run_state m s)"

abbreviation result_of :: "('s, 'a) state \<Rightarrow> 's \<Rightarrow> 'a" where
  "result_of m s \<equiv> fst (run_state m s)"

section \<open>Weakest preconditions\<close>

lemma wp_run: "wp m Q s \<longleftrightarrow> Q (result_of m s) (exec_state m s)"
  by (simp add: wp_def split: prod.splits)

lemma wpD: "wp m Q s \<Longrightarrow> run_state m s = (a, t) \<Longrightarrow> Q a t"
  by (simp add: wp_def)

lemma wpI: "(\<And>a t. run_state m s = (a, t) \<Longrightarrow> Q a t) \<Longrightarrow> wp m Q s"
  by (simp add: wp_def split: prod.splits)

lemma wp_mono: "wp m Q s \<Longrightarrow> (\<And>a t. Q a t \<Longrightarrow> R a t) \<Longrightarrow> wp m R s"
  by (auto simp: wp_def split: prod.splits)

lemma wp_conj: "wp m (\<lambda>a t. Q a t \<and> R a t) s \<longleftrightarrow> wp m Q s \<and> wp m R s"
  by (auto simp: wp_def split: prod.splits)

lemma wp_return [wp_simps]: "wp (State_Monad.return a) Q s = Q a s"
  by (simp add: wp_def)

lemma wp_bind [wp_simps]: "wp (State_Monad.bind m f) Q s = wp m (\<lambda>a. wp (f a) Q) s"
  by (simp add: wp_def split: prod.splits)

lemma wp_get [wp_simps]: "wp State_Monad.get Q s = Q s s"
  by (simp add: wp_def)

lemma run_state_update [simp]: "run_state (State_Monad.update f) s = ((), f s)"
  by (simp add: State_Monad.update_def)

lemma wp_update [wp_simps]: "wp (State_Monad.update f) Q s = Q () (f s)"
  by (simp add: wp_def)

lemma wp_State [wp_simps]: "wp (State f) Q s = (case f s of (a, t) \<Rightarrow> Q a t)"
  by (simp add: wp_def)

lemma wp_if [wp_simps]: "wp (if b then m else n) Q s = (if b then wp m Q s else wp n Q s)"
  by simp

lemma wp_case_option [wp_simps]:
  "wp (case x of None \<Rightarrow> m | Some y \<Rightarrow> n y) Q s =
     (case x of None \<Rightarrow> wp m Q s | Some y \<Rightarrow> wp (n y) Q s)"
  by (cases x) simp_all

lemma wp_case_sum [wp_simps]:
  "wp (case x of Inl e \<Rightarrow> m e | Inr y \<Rightarrow> n y) Q s =
     (case x of Inl e \<Rightarrow> wp (m e) Q s | Inr y \<Rightarrow> wp (n y) Q s)"
  by (cases x) simp_all

lemma wp_case_prod [wp_simps]:
  "wp (case x of (a, b) \<Rightarrow> m a b) Q s = (case x of (a, b) \<Rightarrow> wp (m a b) Q s)"
  by (cases x) simp_all

lemma wp_let [wp_simps]: "wp (let x = a in m x) Q s = (let x = a in wp (m x) Q s)"
  by simp

section \<open>Errors in the monad\<close>

text \<open>
  \<^verbatim>\<open>x, err := f(); if err != nil { return err }\<close>: \<open>bindE\<close> runs \<open>f\<close> on the value of a step that
  succeeded and returns the error of one that failed.
\<close>

definition okE :: "'a \<Rightarrow> ('s, 'e + 'a) state" where
  "okE a = State_Monad.return (Inr a)"

definition failE :: "'e \<Rightarrow> ('s, 'e + 'a) state" where
  "failE e = State_Monad.return (Inl e)"

definition bindE :: "('s, 'e + 'a) state \<Rightarrow> ('a \<Rightarrow> ('s, 'e + 'b) state) \<Rightarrow> ('s, 'e + 'b) state" where
  "bindE m f = State_Monad.bind m (\<lambda>r. case r of Inl e \<Rightarrow> failE e | Inr a \<Rightarrow> f a)"

definition liftE :: "'e + 'a \<Rightarrow> ('s, 'e + 'a) state" where
  "liftE r = State_Monad.return r"

lemma wp_okE [wp_simps]: "wp (okE a) Q s = Q (Inr a) s"
  by (simp add: okE_def wp_return)

lemma wp_failE [wp_simps]: "wp (failE e) Q s = Q (Inl e) s"
  by (simp add: failE_def wp_return)

lemma wp_liftE [wp_simps]: "wp (liftE r) Q s = Q r s"
  by (simp add: liftE_def wp_return)

lemma wp_bindE [wp_simps]:
  "wp (bindE m f) Q s = wp m (\<lambda>r t. case r of Inl e \<Rightarrow> Q (Inl e) t | Inr a \<Rightarrow> wp (f a) Q t) s"
  unfolding bindE_def wp_bind wp_run [of m] by (cases "result_of m s") (simp_all add: wp_failE)

lemma wp_bindE_I:
  assumes "wp m (\<lambda>r t. case r of Inl e \<Rightarrow> Q (Inl e) t | Inr a \<Rightarrow> R a t) s"
    and "\<And>a t. R a t \<Longrightarrow> wp (f a) Q t"
  shows "wp (bindE m f) Q s"
  unfolding wp_bindE by (rule wp_mono [OF assms(1)]) (auto split: sum.splits intro: assms(2))

lemma bindE_failE: "bindE (failE e) f = failE e"
  by (simp add: bindE_def failE_def)

lemma bindE_okE: "bindE (okE a) f = f a"
  by (simp add: bindE_def okE_def)

section \<open>Relations kept by every step\<close>

locale state_preorder =
  fixes R :: "'s \<Rightarrow> 's \<Rightarrow> bool"
  assumes R_refl: "R s s"
    and R_trans: "R s t \<Longrightarrow> R t u \<Longrightarrow> R s u"
begin

lemma io_return: "state_io_rel R (State_Monad.return a)"
  by (rule state_io_relI) (auto intro: R_refl)

lemma io_get: "state_io_rel R State_Monad.get"
  by (rule state_io_relI) (auto intro: R_refl)

lemma io_update: "(\<And>s. R s (f s)) \<Longrightarrow> state_io_rel R (State_Monad.update f)"
  by (rule state_io_relI) auto

lemma io_State: "(\<And>s. R s (snd (f s))) \<Longrightarrow> state_io_rel R (State f)"
  by (rule state_io_relI) (metis snd_conv state.sel)

lemma io_bind:
  "state_io_rel R m \<Longrightarrow> (\<And>a. state_io_rel R (f a)) \<Longrightarrow> state_io_rel R (State_Monad.bind m f)"
  by (rule state_io_relI) (auto split: prod.splits intro: R_trans)

lemma io_if:
  "(b \<Longrightarrow> state_io_rel R m) \<Longrightarrow> (\<not> b \<Longrightarrow> state_io_rel R n) \<Longrightarrow>
     state_io_rel R (if b then m else n)"
  by simp

lemma io_case_option:
  "(x = None \<Longrightarrow> state_io_rel R m) \<Longrightarrow> (\<And>y. x = Some y \<Longrightarrow> state_io_rel R (n y)) \<Longrightarrow>
     state_io_rel R (case x of None \<Rightarrow> m | Some y \<Rightarrow> n y)"
  by (cases x) simp_all

lemma io_case_sum:
  "(\<And>e. x = Inl e \<Longrightarrow> state_io_rel R (m e)) \<Longrightarrow> (\<And>y. x = Inr y \<Longrightarrow> state_io_rel R (n y)) \<Longrightarrow>
     state_io_rel R (case x of Inl e \<Rightarrow> m e | Inr y \<Rightarrow> n y)"
  by (cases x) simp_all

lemma io_case_prod:
  "(\<And>a b. x = (a, b) \<Longrightarrow> state_io_rel R (m a b)) \<Longrightarrow>
     state_io_rel R (case x of (a, b) \<Rightarrow> m a b)"
  by (cases x) simp_all

lemma io_let: "state_io_rel R (m a) \<Longrightarrow> state_io_rel R (let x = a in m x)"
  by simp

lemma io_okE: "state_io_rel R (okE a)"
  by (simp add: okE_def io_return)

lemma io_failE: "state_io_rel R (failE e)"
  by (simp add: failE_def io_return)

lemma io_liftE: "state_io_rel R (liftE r)"
  by (simp add: liftE_def io_return)

lemma io_bindE:
  "state_io_rel R m \<Longrightarrow> (\<And>a. state_io_rel R (f a)) \<Longrightarrow> state_io_rel R (bindE m f)"
  unfolding bindE_def by (intro io_bind io_case_sum io_failE)

lemmas io_rules = io_return io_get io_okE io_failE io_liftE io_bindE io_bind io_if io_case_option io_case_sum io_case_prod io_let

lemma io_exec: "state_io_rel R m \<Longrightarrow> R s (exec_state m s)"
  by (simp add: state_io_rel_def)

end

section \<open>Traces\<close>

text \<open>
  A run appends events to a log kept in its state.  \<open>logs log m P\<close> says that every run of \<open>m\<close>
  only appends, and that \<open>P\<close> holds of its result and the events it appended, whatever the
  starting state.  The rules follow the program; an answer of the environment is universally
  quantified.
\<close>

definition logs :: "('s \<Rightarrow> 'e list) \<Rightarrow> ('s, 'a) state \<Rightarrow> ('a \<Rightarrow> 'e list \<Rightarrow> bool) \<Rightarrow> bool" where
  "logs log m P \<longleftrightarrow> (\<forall>s. \<exists>es. log (exec_state m s) = log s @ es \<and> P (result_of m s) es)"

named_theorems log_rules \<open>introduction rules for \<open>logs\<close>\<close>

lemma logsI:
  "(\<And>s a t. run_state m s = (a, t) \<Longrightarrow> \<exists>es. log t = log s @ es \<and> P a es) \<Longrightarrow> logs log m P"
  by (simp add: logs_def)

lemma logsD: "logs log m P \<Longrightarrow> run_state m s = (a, t) \<Longrightarrow> \<exists>es. log t = log s @ es \<and> P a es"
  by (metis fst_conv logs_def snd_conv)

lemma logs_mono: "logs log m P \<Longrightarrow> (\<And>a es. P a es \<Longrightarrow> Q a es) \<Longrightarrow> logs log m Q"
  unfolding logs_def by blast

lemma logs_return [log_rules]: "P a [] \<Longrightarrow> logs log (State_Monad.return a) P"
  by (simp add: logs_def)

lemma logs_okE [log_rules]: "P (Inr a) [] \<Longrightarrow> logs log (okE a) P"
  by (simp add: okE_def logs_return)

lemma logs_failE [log_rules]: "P (Inl e) [] \<Longrightarrow> logs log (failE e) P"
  by (simp add: failE_def logs_return)

lemma logs_liftE [log_rules]: "P r [] \<Longrightarrow> logs log (liftE r) P"
  by (simp add: liftE_def logs_return)

lemma logs_bind [log_rules]:
  assumes "logs log m (\<lambda>a es. logs log (f a) (\<lambda>r es'. P r (es @ es')))"
  shows "logs log (State_Monad.bind m f) P"
proof (rule logsI)
  fix s r u
  assume run: "run_state (State_Monad.bind m f) s = (r, u)"
  obtain a t where a: "run_state m s = (a, t)" by fastforce
  with run have f: "run_state (f a) t = (r, u)" by simp
  obtain es where "log t = log s @ es" and rest: "logs log (f a) (\<lambda>r es'. P r (es @ es'))"
    using logsD [OF assms a] by blast
  moreover obtain es' where "log u = log t @ es'" "P r (es @ es')"
    using logsD [OF rest f] by blast
  ultimately show "\<exists>es. log u = log s @ es \<and> P r es" by auto
qed

lemma logs_bindE [log_rules]:
  assumes "logs log m (\<lambda>x es. case x of Inl e \<Rightarrow> P (Inl e) es
      | Inr a \<Rightarrow> logs log (f a) (\<lambda>r es'. P r (es @ es')))"
  shows "logs log (bindE m f) P"
  unfolding bindE_def
  by (intro logs_bind logs_mono [OF assms]) (auto split: sum.splits intro: logs_failE)

lemma logs_if [log_rules]:
  "(b \<Longrightarrow> logs log m P) \<Longrightarrow> (\<not> b \<Longrightarrow> logs log n P) \<Longrightarrow> logs log (if b then m else n) P"
  by simp

lemma logs_case_option [log_rules]:
  "(x = None \<Longrightarrow> logs log m P) \<Longrightarrow> (\<And>y. x = Some y \<Longrightarrow> logs log (n y) P) \<Longrightarrow>
     logs log (case x of None \<Rightarrow> m | Some y \<Rightarrow> n y) P"
  by (cases x) simp_all

lemma logs_case_sum [log_rules]:
  "(\<And>e. x = Inl e \<Longrightarrow> logs log (m e) P) \<Longrightarrow> (\<And>y. x = Inr y \<Longrightarrow> logs log (n y) P) \<Longrightarrow>
     logs log (case x of Inl e \<Rightarrow> m e | Inr y \<Rightarrow> n y) P"
  by (cases x) simp_all

lemma logs_case_prod [log_rules]:
  "(\<And>a b. x = (a, b) \<Longrightarrow> logs log (m a b) P) \<Longrightarrow> logs log (case x of (a, b) \<Rightarrow> m a b) P"
  by (cases x) simp_all

lemma logs_let [log_rules]: "(\<And>x. x = a \<Longrightarrow> logs log (m x) P) \<Longrightarrow> logs log (let x = a in m x) P"
  by simp

lemma logs_bindE_liftE:
  assumes "\<And>e. r = Inl e \<Longrightarrow> P (Inl e) []" and "\<And>a. r = Inr a \<Longrightarrow> logs log (f a) P"
  shows "logs log (bindE (liftE r) f) P"
  by (cases r) (auto intro!: logs_bindE logs_liftE assms)

lemma bindE_bind: "bindE (State_Monad.bind m g) f = State_Monad.bind m (\<lambda>x. bindE (g x) f)"
  by (simp add: bindE_def)

lemma bindE_bindE: "bindE (bindE m g) f = bindE m (\<lambda>x. bindE (g x) f)"
  unfolding bindE_def State_Monad.bind_assoc
  by (rule arg_cong [where f = "State_Monad.bind m"]) (auto simp: fun_eq_iff failE_def split: sum.splits)

section \<open>Sorting with a Go comparison function\<close>

text \<open>
  \<^verbatim>\<open>sort.Slice\<close>, \<^verbatim>\<open>sort.Strings\<close> and SQL's \<^verbatim>\<open>ORDER BY\<close>: the argument is the strict comparison.
  Elements that compare equal keep their order here; Go's \<^verbatim>\<open>sort.Slice\<close> may permute them.
\<close>

fun insort_by :: "('a \<Rightarrow> 'a \<Rightarrow> bool) \<Rightarrow> 'a \<Rightarrow> 'a list \<Rightarrow> 'a list" where
  "insort_by lt x [] = [x]"
| "insort_by lt x (y # ys) = (if lt y x then y # insort_by lt x ys else x # y # ys)"

definition sort_by :: "('a \<Rightarrow> 'a \<Rightarrow> bool) \<Rightarrow> 'a list \<Rightarrow> 'a list" where
  "sort_by lt xs = foldr (insort_by lt) xs []"

lemma mset_insort_by [simp]: "mset (insort_by lt x xs) = add_mset x (mset xs)"
  by (induction xs) auto

lemma mset_sort_by [simp]: "mset (sort_by lt xs) = mset xs"
  by (induction xs) (simp_all add: sort_by_def)

lemma set_sort_by [simp]: "set (sort_by lt xs) = set xs"
  by (metis mset_sort_by set_mset_mset)

lemma length_sort_by [simp]: "length (sort_by lt xs) = length xs"
  by (metis mset_sort_by size_mset)

lemma set_insort_by [simp]: "set (insort_by lt x xs) = insert x (set xs)"
  by (metis mset_insort_by set_mset_add_mset_insert set_mset_mset)

locale strict_weak_order =
  fixes lt :: "'a \<Rightarrow> 'a \<Rightarrow> bool"
  assumes lt_asym: "lt x y \<Longrightarrow> \<not> lt y x"
    and lt_negtrans: "\<not> lt y x \<Longrightarrow> \<not> lt z y \<Longrightarrow> \<not> lt z x"
begin

lemma sorted_insort_by:
  "sorted_wrt (\<lambda>a b. \<not> lt b a) xs \<Longrightarrow> sorted_wrt (\<lambda>a b. \<not> lt b a) (insort_by lt x xs)"
  by (induction xs) (auto dest: lt_asym lt_negtrans)

lemma sorted_sort_by: "sorted_wrt (\<lambda>a b. \<not> lt b a) (sort_by lt xs)"
  by (induction xs) (simp_all add: sort_by_def sorted_insort_by)

end

section \<open>Tables\<close>

text \<open>
  An SQL table is the list of its rows with a key.  The locale \<open>table\<close> is what the repository
  relies on: reading a key after a keyed update, an insertion of a new key, and that both keep
  the keys distinct.
\<close>

definition tbl_lookup :: "('r \<Rightarrow> 'k) \<Rightarrow> 'k \<Rightarrow> 'r list \<Rightarrow> 'r option" where
  "tbl_lookup key k rows = List.find (\<lambda>r. key r = k) rows"

definition tbl_modify :: "('r \<Rightarrow> 'k) \<Rightarrow> 'k \<Rightarrow> ('r \<Rightarrow> 'r) \<Rightarrow> 'r list \<Rightarrow> 'r list" where
  "tbl_modify key k f rows = map (\<lambda>r. if key r = k then f r else r) rows"

definition tbl_insert :: "'r \<Rightarrow> 'r list \<Rightarrow> 'r list" where
  "tbl_insert r rows = rows @ [r]"

definition tbl_distinct :: "('r \<Rightarrow> 'k) \<Rightarrow> 'r list \<Rightarrow> bool" where
  "tbl_distinct key rows = distinct (map key rows)"

locale table =
  fixes key :: "'r \<Rightarrow> 'k"
    and lookup :: "'k \<Rightarrow> 't \<Rightarrow> 'r option"
    and modify :: "'k \<Rightarrow> ('r \<Rightarrow> 'r) \<Rightarrow> 't \<Rightarrow> 't"
    and add :: "'r \<Rightarrow> 't \<Rightarrow> 't"
    and keyed :: "'t \<Rightarrow> bool"
    and rows :: "'t \<Rightarrow> 'r set"
  assumes lookup_key: "lookup k t = Some r \<Longrightarrow> key r = k \<and> r \<in> rows t"
    and lookup_row: "keyed t \<Longrightarrow> r \<in> rows t \<Longrightarrow> lookup (key r) t = Some r"
    and lookup_modify: "(\<And>r. key (f r) = key r) \<Longrightarrow>
      lookup j (modify k f t) = (if j = k then map_option f (lookup k t) else lookup j t)"
    and lookup_add: "lookup (key r) t = None \<Longrightarrow>
      lookup j (add r t) = (if j = key r then Some r else lookup j t)"
    and keyed_modify: "(\<And>r. key (f r) = key r) \<Longrightarrow> keyed t \<Longrightarrow> keyed (modify k f t)"
    and keyed_add: "lookup (key r) t = None \<Longrightarrow> keyed t \<Longrightarrow> keyed (add r t)"
    and rows_modify: "rows (modify k f t) = (\<lambda>r. if key r = k then f r else r) ` rows t"
    and rows_add: "rows (add r t) = insert r (rows t)"
begin

lemma modify_frame: "(\<And>r. key (f r) = key r) \<Longrightarrow> j \<noteq> k \<Longrightarrow> lookup j (modify k f t) = lookup j t"
  by (simp add: lookup_modify)

lemma modify_missing: "(\<And>r. key (f r) = key r) \<Longrightarrow> lookup k t = None \<Longrightarrow>
    lookup j (modify k f t) = lookup j t"
  by (simp add: lookup_modify)

lemma modify_all:
  assumes "\<forall>r \<in> rows t. P r" and "\<And>r. P r \<Longrightarrow> P (f r)"
  shows "\<forall>r \<in> rows (modify k f t). P r"
  using assms by (auto simp: rows_modify)

lemma add_all: "\<forall>r \<in> rows t. P r \<Longrightarrow> P r \<Longrightarrow> \<forall>r \<in> rows (add r t). P r"
  by (simp add: rows_add)

lemma add_then_lookup: "lookup (key r) t = None \<Longrightarrow> lookup (key r) (add r t) = Some r"
  by (simp add: lookup_add)

lemma lookup_iff_row: "keyed t \<Longrightarrow> lookup k t = Some r \<longleftrightarrow> r \<in> rows t \<and> key r = k"
  using lookup_key lookup_row by blast

end

lemma tbl_lookup_modify:
  assumes "\<And>r. key (f r) = key r"
  shows "tbl_lookup key j (tbl_modify key k f rows) =
    (if j = k then map_option f (tbl_lookup key k rows) else tbl_lookup key j rows)"
  using assms by (induction rows) (auto simp: tbl_lookup_def tbl_modify_def)

lemma tbl_map_key: "(\<And>r. key (f r) = key r) \<Longrightarrow> map key (tbl_modify key k f rows) = map key rows"
  by (induction rows) (auto simp: tbl_modify_def)

lemma tbl_lookup_insert:
  "tbl_lookup key (key r) rows = None \<Longrightarrow>
     tbl_lookup key j (tbl_insert r rows) = (if j = key r then Some r else tbl_lookup key j rows)"
  by (induction rows) (auto simp: tbl_lookup_def tbl_insert_def split: if_splits)

lemma tbl_lookup_row: "tbl_distinct key rows \<Longrightarrow> r \<in> set rows \<Longrightarrow> tbl_lookup key (key r) rows = Some r"
  by (induction rows) (auto simp: tbl_lookup_def tbl_distinct_def)

lemma tbl_table: "table key (tbl_lookup key) (tbl_modify key) tbl_insert (tbl_distinct key) set"
proof unfold_locales
  show "tbl_distinct key (tbl_insert r t)"
    if "tbl_lookup key (key r) t = None" "tbl_distinct key t" for r t
    using that by (auto simp: tbl_distinct_def tbl_insert_def tbl_lookup_def find_None_iff)
  show "key r = k \<and> r \<in> set t" if "tbl_lookup key k t = Some r" for k t r
    using that by (auto simp: tbl_lookup_def find_Some_iff)
  show "tbl_distinct key (tbl_modify key k f t)"
    if "\<And>r. key (f r) = key r" "tbl_distinct key t" for f t k
    using that by (simp add: tbl_distinct_def tbl_map_key)
  show "set (tbl_modify key k f t) = (\<lambda>r. if key r = k then f r else r) ` set t" for k f t
    by (simp add: tbl_modify_def)
  show "set (tbl_insert r t) = insert r (set t)" for r :: 'a and t
    by (simp add: tbl_insert_def)
qed (simp_all add: tbl_lookup_modify tbl_lookup_insert tbl_lookup_row)

section \<open>Lists\<close>

lemma find_Some_iff_in: "List.find P xs = Some x \<Longrightarrow> x \<in> set xs \<and> P x"
  by (auto simp: find_Some_iff)

lemma find_None_all: "List.find P xs = None \<longleftrightarrow> (\<forall>x \<in> set xs. \<not> P x)"
  by (auto simp: find_None_iff)

lemma find_cong_on: "(\<And>x. x \<in> set xs \<Longrightarrow> P x = Q x) \<Longrightarrow> List.find P xs = List.find Q xs"
  by (induction xs) auto

end
