(* ===== verification/Go_Strings.thy ===== *)
theory Go_Strings
  imports Prelude
begin

text \<open>
  The parts of Go's \<^verbatim>\<open>strings\<close>, \<^verbatim>\<open>unicode/utf8\<close> and \<^verbatim>\<open>encoding/hex\<close> packages that the program
  uses.  A Go string is a sequence of bytes: \<^typ>\<open>string\<close>, with a \<^typ>\<open>char\<close> for a byte.
  \<open>TrimSpace\<close> is exact on every byte string: it removes the UTF-8 encodings of all of Go's
  white space characters.  \<open>ToLower\<close> maps the ASCII letters and leaves other bytes alone
  (the program applies it to domain names, codes and hexadecimal digits).
\<close>

section \<open>Bytes\<close>

abbreviation byte :: "char \<Rightarrow> nat" where
  "byte c \<equiv> of_char c"

definition is_digit :: "char \<Rightarrow> bool" where
  "is_digit c \<longleftrightarrow> 48 \<le> byte c \<and> byte c \<le> 57"

definition is_lower :: "char \<Rightarrow> bool" where
  "is_lower c \<longleftrightarrow> 97 \<le> byte c \<and> byte c \<le> 122"

definition is_upper :: "char \<Rightarrow> bool" where
  "is_upper c \<longleftrightarrow> 65 \<le> byte c \<and> byte c \<le> 90"

definition is_hex :: "char \<Rightarrow> bool" where
  "is_hex c \<longleftrightarrow> is_digit c \<or> 97 \<le> byte c \<and> byte c \<le> 102 \<or> 65 \<le> byte c \<and> byte c \<le> 70"

definition hex_val :: "char \<Rightarrow> nat" where
  "hex_val c = (if is_digit c then byte c - 48
                else if 97 \<le> byte c then byte c - 87 else byte c - 55)"

definition hex_char :: "nat \<Rightarrow> char" where
  "hex_char n = (if n < 10 then char_of (48 + n) else char_of (87 + n))"

section \<open>Trimming and case\<close>

text \<open>The UTF-8 encodings of the characters for which \<^verbatim>\<open>unicode.IsSpace\<close> holds.\<close>

definition space_seqs :: "string list" where
  "space_seqs = map (map char_of)
     ([[9], [10], [11], [12], [13], [32], [194, 133], [194, 160], [225, 154, 128],
       [226, 128, 168], [226, 128, 169], [226, 128, 175], [226, 129, 159], [227, 128, 128]]
      @ map (\<lambda>n. [226, 128, 128 + n]) [0..<11] :: nat list list)"

fun strip_prefix :: "string \<Rightarrow> string \<Rightarrow> string option" where
  "strip_prefix [] s = Some s"
| "strip_prefix (p # ps) [] = None"
| "strip_prefix (p # ps) (c # cs) = (if p = c then strip_prefix ps cs else None)"

fun strip_any :: "string list \<Rightarrow> string \<Rightarrow> string option" where
  "strip_any [] s = None"
| "strip_any (p # ps) s = (case strip_prefix p s of None \<Rightarrow> strip_any ps s | Some t \<Rightarrow> Some t)"

lemma strip_prefix_Some: "strip_prefix p s = Some t \<longleftrightarrow> s = p @ t"
  by (induction p s rule: strip_prefix.induct) auto

lemma strip_prefix_None: "strip_prefix p s = None \<longleftrightarrow> (\<forall>t. s \<noteq> p @ t)"
  by (metis not_None_eq strip_prefix_Some)

lemma strip_any_SomeD: "strip_any ps s = Some t \<Longrightarrow> \<exists>p \<in> set ps. s = p @ t"
  by (induction ps) (auto split: option.splits simp: strip_prefix_Some)

lemma strip_any_None: "strip_any ps s = None \<longleftrightarrow> (\<forall>p \<in> set ps. \<forall>t. s \<noteq> p @ t)"
  by (induction ps) (auto split: option.splits simp: strip_prefix_Some strip_prefix_None)

function trim_start :: "string list \<Rightarrow> string \<Rightarrow> string" where
  "trim_start ps s = (case strip_any (filter (\<lambda>p. p \<noteq> []) ps) s of
      None \<Rightarrow> s | Some t \<Rightarrow> trim_start ps t)"
  by pat_completeness auto
termination
  by (relation "measure (\<lambda>(ps, s). length s)") (auto dest!: strip_any_SomeD)

declare trim_start.simps [simp del]

definition TrimLeft :: "string \<Rightarrow> string" where
  "TrimLeft s = trim_start space_seqs s"

definition TrimRight :: "string \<Rightarrow> string" where
  "TrimRight s = rev (trim_start (map rev space_seqs) (rev s))"

definition TrimSpace :: "string \<Rightarrow> string" where
  "TrimSpace s = TrimRight (TrimLeft s)"

definition lower_char :: "char \<Rightarrow> char" where
  "lower_char c = (if is_upper c then char_of (byte c + 32) else c)"

definition upper_char :: "char \<Rightarrow> char" where
  "upper_char c = (if is_lower c then char_of (byte c - 32) else c)"

definition ToLower :: "string \<Rightarrow> string" where
  "ToLower s = map lower_char s"

definition ToUpper :: "string \<Rightarrow> string" where
  "ToUpper s = map upper_char s"

definition EqualFold :: "string \<Rightarrow> string \<Rightarrow> bool" where
  "EqualFold a b \<longleftrightarrow> ToLower a = ToLower b"

definition HasPrefix :: "string \<Rightarrow> string \<Rightarrow> bool" where
  "HasPrefix s p \<longleftrightarrow> take (length p) s = p"

definition TrimSuffix :: "string \<Rightarrow> string \<Rightarrow> string" where
  "TrimSuffix s p =
     (if p \<noteq> [] \<and> length p \<le> length s \<and> drop (length s - length p) s = p
      then take (length s - length p) s else s)"

text \<open>\<^verbatim>\<open>strings.ReplaceAll\<close> of one byte by another, and the removal of a byte.\<close>

definition ReplaceByte :: "string \<Rightarrow> char \<Rightarrow> char \<Rightarrow> string" where
  "ReplaceByte s a b = map (\<lambda>c. if c = a then b else c) s"

definition RemoveByte :: "string \<Rightarrow> char \<Rightarrow> string" where
  "RemoveByte s a = filter (\<lambda>c. c \<noteq> a) s"

text \<open>Byte-wise order of Go strings (\<^verbatim>\<open><\<close>, \<^verbatim>\<open>sort.Strings\<close>).\<close>

fun string_less :: "string \<Rightarrow> string \<Rightarrow> bool" where
  "string_less _ [] = False"
| "string_less [] (_ # _) = True"
| "string_less (a # as) (b # bs) =
     (byte a < byte b \<or> a = b \<and> string_less as bs)"

section \<open>UTF-8\<close>

text \<open>
  Size in bytes of the first rune (\<^verbatim>\<open>utf8.DecodeRuneInString\<close>); an invalid sequence counts
  one byte.  The accepted ranges of the second byte are those of Go's decoder.
\<close>

definition cont :: "nat \<Rightarrow> bool" where
  "cont b \<longleftrightarrow> 128 \<le> b \<and> b \<le> 191"

definition second_ok :: "nat \<Rightarrow> nat \<Rightarrow> bool" where
  "second_ok b0 b1 \<longleftrightarrow>
     (if b0 = 224 then 160 \<le> b1 \<and> b1 \<le> 191
      else if b0 = 237 then 128 \<le> b1 \<and> b1 \<le> 159
      else if b0 = 240 then 144 \<le> b1 \<and> b1 \<le> 191
      else if b0 = 244 then 128 \<le> b1 \<and> b1 \<le> 143
      else cont b1)"

definition rune_len :: "nat list \<Rightarrow> nat option" where
  "rune_len bs =
     (case bs of [] \<Rightarrow> None
      | b0 # r \<Rightarrow>
         if b0 < 128 then Some 1
         else if 194 \<le> b0 \<and> b0 \<le> 223 then
           (case r of b1 # _ \<Rightarrow> if cont b1 then Some 2 else None | _ \<Rightarrow> None)
         else if 224 \<le> b0 \<and> b0 \<le> 239 then
           (case r of b1 # b2 # _ \<Rightarrow> if second_ok b0 b1 \<and> cont b2 then Some 3 else None | _ \<Rightarrow> None)
         else if 240 \<le> b0 \<and> b0 \<le> 244 then
           (case r of b1 # b2 # b3 # _ \<Rightarrow>
               if second_ok b0 b1 \<and> cont b2 \<and> cont b3 then Some 4 else None | _ \<Rightarrow> None)
         else None)"

definition decode_size :: "string \<Rightarrow> nat" where
  "decode_size s = (case rune_len (map byte s) of Some n \<Rightarrow> n | None \<Rightarrow> 1)"

lemma rune_len_pos: "rune_len bs = Some n \<Longrightarrow> 0 < n \<and> n \<le> 4 \<and> n \<le> length bs"
  by (auto simp: rune_len_def split: list.splits if_splits)

lemma decode_size_pos: "0 < decode_size s"
  by (auto simp: decode_size_def split: option.splits dest: rune_len_pos)

text \<open>\<^verbatim>\<open>utf8.RuneCountInString\<close> and \<^verbatim>\<open>utf8.ValidString\<close>.\<close>

function RuneCount :: "string \<Rightarrow> nat" where
  "RuneCount s = (if s = [] then 0 else Suc (RuneCount (drop (decode_size s) s)))"
  by pat_completeness auto
termination
  by (relation "measure length") (use decode_size_pos in auto)

function valid_utf8 :: "string \<Rightarrow> bool" where
  "valid_utf8 s = (s = [] \<or> (case rune_len (map byte s) of None \<Rightarrow> False
                              | Some n \<Rightarrow> valid_utf8 (drop n s)))"
  by pat_completeness auto
termination
  by (relation "measure length") (use rune_len_pos in fastforce)+

declare RuneCount.simps [simp del] valid_utf8.simps [simp del]

text \<open>
  Size of the last rune (\<^verbatim>\<open>utf8.DecodeLastRuneInString\<close>): Go looks back over at most three
  continuation bytes for a byte that can start a rune, decodes there, and accepts the rune
  if it ends the string; otherwise the last byte alone is an error of size 1.
\<close>

definition rune_start :: "char \<Rightarrow> bool" where
  "rune_start c \<longleftrightarrow> \<not> cont (byte c)"

definition last_rune_size :: "string \<Rightarrow> nat" where
  "last_rune_size s =
     (if s = [] then 0
      else case List.find (\<lambda>k. k \<le> length s \<and> rune_start (s ! (length s - k))) [1, 2, 3, 4] of
        None \<Rightarrow> 1
      | Some k \<Rightarrow> (if rune_len (map byte (drop (length s - k) s)) = Some k then k else 1))"

lemma last_rune_size_pos: "s \<noteq> [] \<Longrightarrow> 0 < last_rune_size s"
  by (auto simp: last_rune_size_def split: option.splits dest: rune_len_pos)

lemma last_rune_size_le: "last_rune_size s \<le> length s"
proof (cases "s = []")
  case True
  then show ?thesis by (simp add: last_rune_size_def)
next
  case False
  then have "1 \<le> length s" by (cases s) auto
  then show ?thesis
    by (auto simp: last_rune_size_def split: option.splits dest: find_Some_iff_in)
qed

section \<open>Laws of trimming and case\<close>

lemma trim_start_suffix: "\<exists>p. s = p @ trim_start ps s"
proof (induction ps s rule: trim_start.induct)
  case (1 ps s)
  show ?case
  proof (cases "strip_any (filter (\<lambda>p. p \<noteq> []) ps) s")
    case None
    then show ?thesis by (simp add: trim_start.simps [of ps s])
  next
    case (Some t)
    then obtain p where "s = p @ t" by (auto dest: strip_any_SomeD)
    moreover obtain q where "t = q @ trim_start ps t" using "1.IH" Some by blast
    moreover have "trim_start ps s = trim_start ps t"
      using Some by (simp add: trim_start.simps [of ps s])
    ultimately have "s = (p @ q) @ trim_start ps s" by (metis append.assoc)
    then show ?thesis by blast
  qed
qed

lemma trim_start_stops: "strip_any (filter (\<lambda>p. p \<noteq> []) ps) (trim_start ps s) = None"
proof (induction ps s rule: trim_start.induct)
  case (1 ps s)
  then show ?case
    by (cases "strip_any (filter (\<lambda>p. p \<noteq> []) ps) s") (simp_all add: trim_start.simps [of ps s])
qed

lemma trim_start_id: "strip_any (filter (\<lambda>p. p \<noteq> []) ps) s = None \<Longrightarrow> trim_start ps s = s"
  by (simp add: trim_start.simps)

lemma trim_start_idem: "trim_start ps (trim_start ps s) = trim_start ps s"
  by (rule trim_start_id) (rule trim_start_stops)

lemma TrimRight_prefix: "\<exists>q. s = TrimRight s @ q"
proof -
  obtain p where "rev s = p @ trim_start (map rev space_seqs) (rev s)"
    using trim_start_suffix by blast
  then have "s = rev (p @ trim_start (map rev space_seqs) (rev s))"
    by (metis rev_rev_ident)
  then have "s = TrimRight s @ rev p"
    by (simp only: TrimRight_def rev_append)
  then show ?thesis by blast
qed

lemma TrimRight_idem: "TrimRight (TrimRight s) = TrimRight s"
  by (simp add: TrimRight_def trim_start_idem)

lemma TrimLeft_TrimRight: "TrimLeft (TrimRight (TrimLeft s)) = TrimRight (TrimLeft s)"
proof -
  let ?ps = "filter (\<lambda>p. p \<noteq> []) space_seqs"
  have stop: "strip_any ?ps (TrimLeft s) = None"
    by (simp add: TrimLeft_def trim_start_stops)
  obtain q where q: "TrimLeft s = TrimRight (TrimLeft s) @ q"
    using TrimRight_prefix by blast
  have "strip_any ?ps (TrimRight (TrimLeft s)) = None"
  proof (rule ccontr)
    assume "strip_any ?ps (TrimRight (TrimLeft s)) \<noteq> None"
    then obtain p t where "p \<in> set ?ps" and "TrimRight (TrimLeft s) = p @ t"
      by (auto dest: strip_any_SomeD)
    then have "TrimLeft s = p @ (t @ q)" using q by (metis append.assoc)
    with stop \<open>p \<in> set ?ps\<close> show False by (auto simp: strip_any_None)
  qed
  then show ?thesis by (simp add: TrimLeft_def [of "TrimRight (TrimLeft s)"] trim_start_id)
qed

lemma TrimSpace_idem [simp]: "TrimSpace (TrimSpace s) = TrimSpace s"
  by (simp add: TrimSpace_def TrimLeft_TrimRight TrimRight_idem)

lemma TrimSpace_Nil [simp]: "TrimSpace [] = []"
proof -
  have "TrimLeft [] = []" using trim_start_suffix [of "[]" space_seqs] by (simp add: TrimLeft_def)
  moreover have "TrimRight [] = []" using TrimRight_prefix [of "[]"] by simp
  ultimately show ?thesis by (simp add: TrimSpace_def)
qed

lemma strip_any_hd_None:
  assumes "s \<noteq> []" and "\<forall>p \<in> set ps. hd p \<noteq> hd s"
  shows "strip_any (filter (\<lambda>p. p \<noteq> []) ps) s = None"
  using assms by (auto simp: strip_any_None hd_append)

lemma TrimSpace_id:
  assumes "s \<noteq> []" and "\<forall>p \<in> set space_seqs. hd p \<noteq> hd s" and "\<forall>p \<in> set space_seqs. last p \<noteq> last s"
  shows "TrimSpace s = s"
proof -
  have "TrimLeft s = s"
    using assms(1,2) by (simp add: TrimLeft_def trim_start_id strip_any_hd_None)
  moreover have "TrimRight s = s"
    using assms(1,3) by (simp add: TrimRight_def trim_start_id strip_any_hd_None hd_rev)
  ultimately show ?thesis by (simp add: TrimSpace_def)
qed

text \<open>
  Strings that start and end with a printable ASCII character other than the space are their
  own trimming; the rule evaluates the concrete strings of the witnesses.
\<close>

definition printable :: "char \<Rightarrow> bool" where
  "printable c \<longleftrightarrow> 33 \<le> byte c \<and> byte c \<le> 126"

lemma space_seqs_edges:
  assumes "p \<in> set space_seqs"
  shows "byte (hd p) \<in> {9, 10, 11, 12, 13, 32, 194, 225, 226, 227}"
    and "byte (last p) < 33 \<or> 127 < byte (last p)"
  using assms unfolding space_seqs_def by (auto simp: of_char_of)

lemma TrimSpace_printable:
  assumes "s \<noteq> []" and "printable (hd s)" and "printable (last s)"
  shows "TrimSpace s = s"
  using assms space_seqs_edges
  by (intro TrimSpace_id) (force simp: printable_def)+

lemma TrimSpace_code [code]:
  "TrimSpace s = (if s = [] \<or> printable (hd s) \<and> printable (last s) then s
                  else TrimRight (TrimLeft s))"
  using TrimSpace_printable [of s] TrimSpace_Nil by (auto simp: TrimSpace_def)

lemma TrimSpace_infix: "\<exists>p q. s = p @ TrimSpace s @ q"
proof -
  obtain p where "s = p @ TrimLeft s" using trim_start_suffix by (metis TrimLeft_def)
  moreover obtain q where "TrimLeft s = TrimRight (TrimLeft s) @ q"
    using TrimRight_prefix by blast
  ultimately have "s = p @ TrimSpace s @ q" by (simp add: TrimSpace_def)
  then show ?thesis by blast
qed

lemma length_TrimSpace: "length (TrimSpace s) \<le> length s"
proof -
  obtain p q where "s = p @ TrimSpace s @ q" using TrimSpace_infix by blast
  then have "length s = length p + length (TrimSpace s) + length q"
    by (metis add.assoc length_append)
  then show ?thesis by simp
qed

lemma byte_less_256: "byte c < 256"
  using of_char_of [where 'a = nat] by (metis mod_less_divisor of_char_mod_256 zero_less_numeral)

lemma lower_char_idem [simp]: "lower_char (lower_char c) = lower_char c"
proof (cases "is_upper c")
  case True
  then have "byte (lower_char c) = byte c + 32"
    by (simp add: lower_char_def is_upper_def of_char_of)
  with True have "\<not> is_upper (lower_char c)" by (simp add: is_upper_def)
  then show ?thesis by (simp add: lower_char_def [of "lower_char c"])
next
  case False
  then show ?thesis by (simp add: lower_char_def)
qed

lemma ToLower_idem [simp]: "ToLower (ToLower s) = ToLower s"
  by (simp add: ToLower_def)

lemma ToLower_Nil_iff [simp]: "ToLower s = [] \<longleftrightarrow> s = []"
  by (simp add: ToLower_def)

lemma string_less_irrefl: "\<not> string_less s s"
  by (induction s) auto

lemma string_less_trans: "string_less a b \<Longrightarrow> string_less b c \<Longrightarrow> string_less a c"
proof (induction a b arbitrary: c rule: string_less.induct)
  case (1 uu)
  then show ?case by simp
next
  case (2 uv uw)
  then show ?case by (cases c) auto
next
  case (3 a as b bs)
  then show ?case by (cases c) auto
qed

lemma string_less_total: "string_less a b \<or> a = b \<or> string_less b a"
proof (induction a b rule: string_less.induct)
  case (1 uu)
  then show ?case by (cases uu) auto
next
  case (2 uv uw)
  then show ?case by simp
next
  case (3 a as b bs)
  have "byte a < byte b \<or> a = b \<or> byte b < byte a"
    by (metis of_char_eq_iff nat_neq_iff)
  with 3 show ?case by auto
qed

lemma string_less_asym: "string_less a b \<Longrightarrow> \<not> string_less b a"
  using string_less_trans [of a b a] string_less_irrefl [of a] by blast

lemma string_less_negtrans: "\<not> string_less y x \<Longrightarrow> \<not> string_less z y \<Longrightarrow> \<not> string_less z x"
  using string_less_total [of x y] string_less_total [of y z] string_less_trans [of z x y]
    string_less_irrefl [of x] string_less_trans [of z y x] string_less_asym by blast

interpretation string_order: strict_weak_order string_less
  by unfold_locales (rule string_less_asym, assumption, rule string_less_negtrans, assumption+)

text \<open>The comparisons of the program order by a number, then by a name.\<close>

lemma number_then_name_order:
  "strict_weak_order (\<lambda>a b. k a < k b \<or> k a = k b \<and> string_less (n a) (n b))"
  for k :: "'a \<Rightarrow> 'k::linorder"
proof unfold_locales
  fix x y z
  assume yx: "\<not> (k y < k x \<or> k y = k x \<and> string_less (n y) (n x))"
    and zy: "\<not> (k z < k y \<or> k z = k y \<and> string_less (n z) (n y))"
  then have "k x \<le> k y" "k y \<le> k z" by auto
  then show "\<not> (k z < k x \<or> k z = k x \<and> string_less (n z) (n x))"
    using yx zy string_less_negtrans [of "n y" "n x" "n z"] by auto
qed (auto dest: string_less_asym)

section \<open>Laws of UTF-8\<close>

text \<open>A rune is a byte sequence that decodes to its own length.\<close>

definition rune :: "string \<Rightarrow> bool" where
  "rune r \<longleftrightarrow> rune_len (map byte r) = Some (length r)"

lemma rune_len_append: "rune_len bs = Some n \<Longrightarrow> rune_len (bs @ cs) = Some n"
  by (auto simp: rune_len_def split: list.splits if_splits)

lemma rune_len_take: "rune_len bs = Some n \<Longrightarrow> rune_len (take n bs) = Some n"
proof -
  assume "rune_len bs = Some n"
  then consider a t where "bs = a # t" "n = 1" "rune_len [a] = Some 1"
    | a b t where "bs = a # b # t" "n = 2" "rune_len [a, b] = Some 2"
    | a b c t where "bs = a # b # c # t" "n = 3" "rune_len [a, b, c] = Some 3"
    | a b c d t where "bs = a # b # c # d # t" "n = 4" "rune_len [a, b, c, d] = Some 4"
    by (auto simp: rune_len_def split: list.splits if_splits)
  then show ?thesis by cases (simp_all add: eval_nat_numeral)
qed

lemma rune_not_Nil: "rune r \<Longrightarrow> r \<noteq> []"
  by (auto simp: rune_def rune_len_def)

lemma rune_cases:
  assumes "rune r"
  obtains a where "r = [a]" | a b where "r = [a, b]" | a b c where "r = [a, b, c]"
    | a b c d where "r = [a, b, c, d]"
proof -
  from assms have "0 < length r" and "length r \<le> 4"
    using rune_len_pos by (auto simp: rune_def)
  then consider "length r = 1" | "length r = 2" | "length r = 3" | "length r = 4" by linarith
  then show thesis
    by cases (auto simp: length_Suc_conv eval_nat_numeral intro: that)
qed

lemma rune_shape:
  assumes "rune r"
  shows "length r \<le> 4 \<and> rune_start (r ! 0) \<and> (\<forall>i. 0 < i \<and> i < length r \<longrightarrow> \<not> rune_start (r ! i))"
  by (cases rule: rune_cases [OF assms]; insert assms)
    (auto simp: rune_def rune_len_def rune_start_def cont_def second_ok_def less_Suc_eq
      split: if_splits)

lemma valid_utf8_Nil [simp]: "valid_utf8 []"
  by (simp add: valid_utf8.simps)

lemma valid_utf8_rune_append: "rune r \<Longrightarrow> valid_utf8 (r @ s) \<longleftrightarrow> valid_utf8 s"
proof -
  assume r: "rune r"
  then have "rune_len (map byte (r @ s)) = Some (length r)"
    by (simp add: rune_def rune_len_append)
  with rune_not_Nil [OF r] show ?thesis
    by (simp add: valid_utf8.simps [of "r @ s"])
qed

lemma valid_utf8_runes: "valid_utf8 s \<longleftrightarrow> (\<exists>rs. s = concat rs \<and> (\<forall>r \<in> set rs. rune r))"
proof
  show "valid_utf8 s \<Longrightarrow> \<exists>rs. s = concat rs \<and> (\<forall>r \<in> set rs. rune r)"
  proof (induction s rule: valid_utf8.induct)
    case (1 s)
    show ?case
    proof (cases "s = []")
      case True
      then show ?thesis by (intro exI [of _ "[]"]) simp
    next
      case False
      with "1.prems" obtain n where n: "rune_len (map byte s) = Some n" and v: "valid_utf8 (drop n s)"
        by (auto simp: valid_utf8.simps [of s] split: option.splits)
      with "1.IH" False obtain rs where rs: "drop n s = concat rs" "\<forall>r \<in> set rs. rune r" by blast
      have "rune (take n s)"
        using n rune_len_pos [OF n] rune_len_take [OF n] by (simp add: rune_def take_map)
      moreover have "s = concat (take n s # rs)"
        using rs by (metis append_take_drop_id concat.simps(2))
      ultimately show ?thesis using rs(2)
        by (metis (no_types, lifting) set_ConsD)
    qed
  qed
next
  assume "\<exists>rs. s = concat rs \<and> (\<forall>r \<in> set rs. rune r)"
  then obtain rs where "s = concat rs" and "\<forall>r \<in> set rs. rune r" by blast
  then show "valid_utf8 s"
    by (induction rs arbitrary: s) (auto simp: valid_utf8_rune_append)
qed

lemma last_rune_size_append:
  assumes "rune r"
  shows "last_rune_size (s @ r) = length r"
proof -
  let ?t = "s @ r"
  from rune_not_Nil [OF assms] rune_shape [OF assms]
  have len: "1 \<le> length r" "length r \<le> 4" and hd: "rune_start (r ! 0)"
    and tl: "\<forall>i. 0 < i \<and> i < length r \<longrightarrow> \<not> rune_start (r ! i)"
    by (auto simp: Suc_le_eq)
  have starts: "rune_start (?t ! (length ?t - k)) \<longleftrightarrow> k = length r" if "1 \<le> k" "k \<le> length r" for k
  proof -
    have "length ?t - k = length s + (length r - k)" using that by simp
    then have "?t ! (length ?t - k) = r ! (length r - k)"
      by (simp only: nth_append_length_plus)
    moreover have "length r - k = 0 \<longleftrightarrow> k = length r" using that by linarith
    ultimately show ?thesis
      using hd tl that by (metis diff_less gr0I less_le_trans zero_less_one)
  qed
  define P where "P = (\<lambda>k. k \<le> length ?t \<and> rune_start (?t ! (length ?t - k)))"
  have P: "P k \<longleftrightarrow> k = length r" if "1 \<le> k" "k \<le> length r" for k
    using starts [OF that] that by (simp add: P_def)
  have "List.find P [1, 2, 3, 4] = Some (length r)"
  proof -
    consider "length r = 1" | "length r = 2" | "length r = 3" | "length r = 4" using len by linarith
    then show ?thesis by cases (simp_all add: P)
  qed
  then show ?thesis
    using assms rune_not_Nil [OF assms] by (simp add: last_rune_size_def rune_def P_def)
qed

lemma valid_utf8_drop_last:
  assumes "valid_utf8 s" and "s \<noteq> []"
  shows "valid_utf8 (take (length s - last_rune_size s) s)"
proof -
  from assms(1) obtain rs where rs: "s = concat rs" "\<forall>r \<in> set rs. rune r"
    using valid_utf8_runes by blast
  with assms(2) have "rs \<noteq> []" by auto
  then have split: "s = concat (butlast rs) @ last rs"
    using rs(1) by (metis append_butlast_last_id concat.simps concat_append self_append_conv)
  have "rune (last rs)" using rs(2) \<open>rs \<noteq> []\<close> by simp
  then have "last_rune_size s = length (last rs)"
    using split last_rune_size_append by metis
  with split have "take (length s - last_rune_size s) s = concat (butlast rs)"
    by (metis append_eq_conv_conj diff_add_inverse2 length_append)
  then show ?thesis
    using rs(2) valid_utf8_runes by (metis in_set_butlastD)
qed

end
