(* ===== verification/Safe_Text.thy ===== *)
theory Safe_Text
  imports Go_Strings
begin

text \<open>
  Operator-facing text: \<^verbatim>\<open>safeText\<close>, \<^verbatim>\<open>stepOrFallback\<close>, \<^verbatim>\<open>warningCode\<close> and \<^verbatim>\<open>warningMessage\<close> of
  \<^verbatim>\<open>internal/orchestrator/service.go\<close>, and \<^verbatim>\<open>safeNodeMessage\<close> of \<^verbatim>\<open>internal/recovery/service.go\<close>.
  The lemmas show that \<open>safeText\<close> bounds its output, keeps it one line and keeps it valid
  UTF-8, and where \<open>safeNodeMessage\<close> differs from it.
\<close>

text \<open>\<^verbatim>\<open>strings.NewReplacer("\r", " ", "\n", " ", "\t", " ")\<close>.\<close>

definition one_line_char :: "char \<Rightarrow> char" where
  "one_line_char c = (if byte c = 13 \<or> byte c = 10 \<or> byte c = 9 then char_of (32 :: nat) else c)"

definition one_line :: "string \<Rightarrow> string" where
  "one_line s = map one_line_char s"

text \<open>The loop \<^verbatim>\<open>for len(value) > 200\<close> of \<^verbatim>\<open>safeText\<close>: drop the last rune until the value fits.\<close>

function truncate_runes :: "nat \<Rightarrow> string \<Rightarrow> string" where
  "truncate_runes n s =
     (if n < length s then truncate_runes n (take (length s - last_rune_size s) s) else s)"
  by pat_completeness auto
termination
proof (relation "measure (\<lambda>(n, s). length s)")
  fix n :: nat and s :: string
  assume "n < length s"
  then have "s \<noteq> []" by auto
  then have "0 < last_rune_size s" by (rule last_rune_size_pos)
  with \<open>s \<noteq> []\<close> show "((n, take (length s - last_rune_size s) s), n, s) \<in> measure (\<lambda>(n, s). length s)"
    by simp
qed simp

declare truncate_runes.simps [simp del]

definition safeText :: "string \<Rightarrow> string \<Rightarrow> string" where
  "safeText value fallback =
     (let value = TrimSpace (one_line value);
          value = (if value = [] then fallback else value)
      in truncate_runes 200 value)"

definition stepOrFallback :: "string \<Rightarrow> string" where
  "stepOrFallback step = (if TrimSpace step = [] then ''workflow'' else step)"

text \<open>\<^verbatim>\<open>strings.Trim(s, "-")\<close>: all leading and trailing hyphens.\<close>

definition trim_hyphens :: "string \<Rightarrow> string" where
  "trim_hyphens s = rev (dropWhile (\<lambda>c. c = CHR ''-'') (rev (dropWhile (\<lambda>c. c = CHR ''-'') s)))"

definition warningCode :: "string \<Rightarrow> string" where
  "warningCode code =
     (let code = trim_hyphens (ToUpper (ReplaceByte code (CHR ''_'') (CHR ''-'')))
      in if code = [] then ''W-GENERAL''
         else if HasPrefix code ''W-'' then code
         else ''W-'' @ code)"

text \<open>
  \<^verbatim>\<open>safeNodeMessage\<close> of the recovery service: the same cleaning, but the cut at 200 is a byte
  slice.
\<close>

definition safeNodeMessage :: "string option \<Rightarrow> string" where
  "safeNodeMessage value =
     (let fallback = ''Deployment requires manual review'' in
      case value of None \<Rightarrow> fallback
      | Some v \<Rightarrow>
          let message = TrimSpace (one_line v)
          in if message = [] then fallback
             else if 200 < length message then take 200 message
             else message)"

section \<open>Trimming keeps valid UTF-8\<close>

lemma space_seqs_runes: "p \<in> set space_seqs \<Longrightarrow> rune p"
  unfolding space_seqs_def
  by (auto simp: rune_def rune_len_def cont_def second_ok_def upt_rec_numeral of_char_of
      split: if_splits)

lemma valid_utf8_append_rune: "rune r \<Longrightarrow> valid_utf8 (s @ r) \<Longrightarrow> valid_utf8 s"
  using valid_utf8_drop_last [of "s @ r"] rune_not_Nil [of r] last_rune_size_append [of r s]
  by simp

lemma trim_start_keeps:
  assumes "P s" and "\<And>p t. p \<in> set ps \<Longrightarrow> P (p @ t) \<Longrightarrow> P t"
  shows "P (trim_start ps s)"
  using assms
proof (induction ps s rule: trim_start.induct)
  case (1 ps s)
  show ?case
  proof (cases "strip_any (filter (\<lambda>p. p \<noteq> []) ps) s")
    case None
    with "1.prems" show ?thesis by (simp add: trim_start.simps [of ps s])
  next
    case (Some t)
    from strip_any_SomeD [OF this] obtain p where "p \<in> set ps" and "s = p @ t" by auto
    with "1.prems"(1) have "P t" by (auto intro: "1.prems"(2))
    with Some "1.IH" "1.prems"(2) have "P (trim_start ps t)" by blast
    with Some show ?thesis by (simp add: trim_start.simps [of ps s])
  qed
qed

lemma valid_utf8_TrimSpace:
  assumes "valid_utf8 s"
  shows "valid_utf8 (TrimSpace s)"
proof -
  have left: "valid_utf8 (TrimLeft s)"
    unfolding TrimLeft_def using assms
    by (rule trim_start_keeps) (use space_seqs_runes valid_utf8_rune_append in blast)
  have "valid_utf8 (rev (trim_start (map rev space_seqs) (rev (TrimLeft s))))"
  proof (rule trim_start_keeps [where P = "\<lambda>t. valid_utf8 (rev t)"])
    show "valid_utf8 (rev (rev (TrimLeft s)))" using left by simp
  next
    fix p t
    assume "p \<in> set (map rev space_seqs)" and v: "valid_utf8 (rev (p @ t))"
    then have "rune (rev p)" using space_seqs_runes by auto
    with v show "valid_utf8 (rev t)" by (auto intro: valid_utf8_append_rune)
  qed
  then show ?thesis by (simp add: TrimSpace_def TrimRight_def)
qed

lemma byte_one_line: "byte (one_line_char c) = (if byte c = 13 \<or> byte c = 10 \<or> byte c = 9 then 32 else byte c)"
  by (simp add: one_line_char_def of_char_of)

lemma one_line_char_class:
  "byte (one_line_char c) < 128 \<longleftrightarrow> byte c < 128"
  "cont (byte (one_line_char c)) \<longleftrightarrow> cont (byte c)"
  "second_ok b (byte (one_line_char c)) \<longleftrightarrow> second_ok b (byte c)"
  by (auto simp: byte_one_line cont_def second_ok_def)

lemma one_line_char_high: "\<not> byte c < 128 \<Longrightarrow> one_line_char c = c"
  by (auto simp: one_line_char_def)

lemma rune_len_one_line: "rune_len (map byte (one_line s)) = rune_len (map byte s)"
proof (cases s)
  case Nil
  then show ?thesis by (simp add: one_line_def)
next
  case (Cons c r)
  show ?thesis
  proof (cases "byte c < 128")
    case True
    with Cons show ?thesis by (simp add: one_line_def rune_len_def one_line_char_class)
  next
    case False
    then have c: "one_line_char c = c" by (rule one_line_char_high)
    show ?thesis
      unfolding Cons one_line_def rune_len_def
      by (cases r; cases "tl r"; cases "tl (tl r)") (simp_all add: c one_line_char_class)
  qed
qed

lemma valid_utf8_one_line: "valid_utf8 (one_line s) \<longleftrightarrow> valid_utf8 s"
proof (induction s rule: valid_utf8.induct)
  case (1 s)
  have Nil: "one_line s = [] \<longleftrightarrow> s = []" by (simp add: one_line_def)
  have drop: "drop n (one_line s) = one_line (drop n s)" for n by (simp add: one_line_def drop_map)
  show ?case
    unfolding valid_utf8.simps [of s] valid_utf8.simps [of "one_line s"] rune_len_one_line drop Nil
    using 1 by (auto split: option.splits)
qed

section \<open>The truncation loop\<close>

lemma length_truncate_runes: "length (truncate_runes n s) \<le> n"
proof (induction n s rule: truncate_runes.induct)
  case (1 n s)
  then show ?case by (simp add: truncate_runes.simps [of n s])
qed

lemma truncate_runes_id: "length s \<le> n \<Longrightarrow> truncate_runes n s = s"
  by (simp add: truncate_runes.simps)

lemma truncate_runes_prefix: "\<exists>q. s = truncate_runes n s @ q"
proof (induction n s rule: truncate_runes.induct)
  case (1 n s)
  show ?case
  proof (cases "n < length s")
    case True
    with 1 obtain q where "take (length s - last_rune_size s) s = truncate_runes n s @ q"
      by (auto simp: truncate_runes.simps [of n s])
    then have "s = truncate_runes n s @ (q @ drop (length s - last_rune_size s) s)"
      by (metis append.assoc append_take_drop_id)
    then show ?thesis by blast
  qed (simp add: truncate_runes.simps [of n s])
qed

lemma valid_utf8_truncate_runes: "valid_utf8 s \<Longrightarrow> valid_utf8 (truncate_runes n s)"
proof (induction n s rule: truncate_runes.induct)
  case (1 n s)
  show ?case
  proof (cases "n < length s")
    case True
    then have "s \<noteq> []" by auto
    with 1 True show ?thesis
      by (simp add: truncate_runes.simps [of n s] valid_utf8_drop_last)
  qed (use "1.prems" in \<open>simp add: truncate_runes.simps [of n s]\<close>)
qed

definition line_break :: "char \<Rightarrow> bool" where
  "line_break c \<longleftrightarrow> byte c = 13 \<or> byte c = 10 \<or> byte c = 9"

lemma one_line_no_break: "c \<in> set (one_line s) \<Longrightarrow> \<not> line_break c"
  by (auto simp: one_line_def line_break_def byte_one_line split: if_splits)

lemma set_TrimSpace: "set (TrimSpace s) \<subseteq> set s"
proof -
  obtain p q where "s = p @ TrimSpace s @ q" using TrimSpace_infix by blast
  then have "set s = set p \<union> set (TrimSpace s) \<union> set q" by (metis set_append sup_assoc)
  then show ?thesis by blast
qed

lemma set_truncate_runes: "set (truncate_runes n s) \<subseteq> set s"
  using truncate_runes_prefix [of s n] by (metis Un_upper1 set_append)

lemma length_safeText: "length (safeText v fb) \<le> 200"
  by (simp add: safeText_def length_truncate_runes Let_def)

lemma valid_utf8_safeText: "valid_utf8 v \<Longrightarrow> valid_utf8 fb \<Longrightarrow> valid_utf8 (safeText v fb)"
  by (simp add: safeText_def Let_def valid_utf8_truncate_runes valid_utf8_TrimSpace valid_utf8_one_line)

lemma safeText_no_break: "\<forall>c \<in> set fb. \<not> line_break c \<Longrightarrow> c \<in> set (safeText v fb) \<Longrightarrow> \<not> line_break c"
  using set_truncate_runes set_TrimSpace one_line_no_break
  by (fastforce simp: safeText_def Let_def split: if_splits)

lemma safeText_nonempty: "fb \<noteq> [] \<Longrightarrow> length fb \<le> 200 \<Longrightarrow> v = [] \<Longrightarrow> safeText v fb = fb"
  by (simp add: safeText_def one_line_def truncate_runes_id)

text \<open>
  C35. \<open>safeText\<close>, the only way text reaches the deployment record and the operator, returns
  at most 200 bytes, with no carriage return, line feed or tab, and never cuts a character in
  two: on valid UTF-8 it returns valid UTF-8.
\<close>

theorem safeText_safe:
  assumes "valid_utf8 v" and "valid_utf8 fb" and "\<forall>c \<in> set fb. \<not> line_break c"
  shows "length (safeText v fb) \<le> 200 \<and> valid_utf8 (safeText v fb) \<and>
    (\<forall>c \<in> set (safeText v fb). \<not> line_break c)"
  using assms length_safeText valid_utf8_safeText safeText_no_break by blast

theorem safeText_safe_witness:
  "valid_utf8 ''a b'' \<and> safeText ''a b'' ''failed'' = ''a b'' \<and> length (safeText ''a b'' ''failed'') \<le> 200"
proof -
  have v: "valid_utf8 ''a b''" and f: "valid_utf8 ''failed''" by code_simp+
  have l: "\<forall>c \<in> set ''failed''. \<not> line_break c" by code_simp
  have e: "safeText ''a b'' ''failed'' = ''a b''" by code_simp
  show ?thesis using safeText_safe [OF v f l] v e by simp
qed

definition long_status :: string where
  "long_status = replicate 199 (CHR ''a'') @ map char_of [209, 143 :: nat]"

lemma long_status_cleaned: "TrimSpace (one_line long_status) = long_status"
proof -
  have "one_line long_status = long_status"
    by (simp add: one_line_def long_status_def one_line_char_def of_char_of)
  moreover have "TrimSpace long_status = long_status"
  proof (rule TrimSpace_id)
    show "long_status \<noteq> []" by (simp add: long_status_def)
    have "byte (hd long_status) = 97" and "byte (last long_status) = 143"
      by (simp_all add: long_status_def of_char_of)
    then show "\<forall>p \<in> set space_seqs. hd p \<noteq> hd long_status"
      using space_seqs_edges(1) by fastforce
    have "\<forall>p \<in> set space_seqs. byte (last p) \<noteq> 143"
      by (simp add: space_seqs_def of_char_of upt_rec_numeral)
    with \<open>byte (last long_status) = 143\<close>
    show "\<forall>p \<in> set space_seqs. last p \<noteq> last long_status" by metis
  qed
  ultimately show ?thesis by simp
qed

lemma valid_utf8_letters: "valid_utf8 (replicate n (CHR ''a'') @ s) \<longleftrightarrow> valid_utf8 s"
proof (induction n)
  case (Suc n)
  have "rune [CHR ''a'']" by (simp add: rune_def rune_len_def)
  from valid_utf8_rune_append [OF this] Suc show ?case by simp
qed simp

text \<open>
  The recovery service cuts a status message at 200 bytes without looking at character
  boundaries: on a valid UTF-8 message (199 letters and one two-byte character) it returns a
  string that is not valid UTF-8, where \<open>safeText\<close> on the same message stays valid.
\<close>

theorem safeNodeMessage_splits_runes:
  "valid_utf8 long_status \<and> \<not> valid_utf8 (safeNodeMessage (Some long_status)) \<and>
   valid_utf8 (safeText long_status [])"
proof -
  have v: "valid_utf8 long_status"
    unfolding long_status_def valid_utf8_letters
    by (simp add: valid_utf8.simps rune_len_def cont_def of_char_of)
  have "safeNodeMessage (Some long_status) = take 200 long_status"
    by (simp add: safeNodeMessage_def long_status_cleaned Let_def) (simp add: long_status_def)
  also have "\<dots> = replicate 199 (CHR ''a'') @ map char_of [209 :: nat]"
    by (simp add: long_status_def)
  finally have e: "safeNodeMessage (Some long_status) = \<dots>" .
  have "\<not> valid_utf8 (safeNodeMessage (Some long_status))"
    unfolding e valid_utf8_letters by (simp add: valid_utf8.simps rune_len_def of_char_of)
  moreover have "valid_utf8 (safeText long_status [])"
    using v by (rule valid_utf8_safeText) simp
  ultimately show ?thesis using v by (intro conjI)
qed

end
