(* ===== verification/Netip.thy ===== *)
theory Netip
  imports Go_Strings "HOL-Library.Word"
begin

unbundle bit_operations_syntax

text \<open>
  The parts of Go's \<^verbatim>\<open>net/netip\<close> the program uses: \<^verbatim>\<open>Addr\<close> with \<^verbatim>\<open>IsValid\<close>, \<^verbatim>\<open>Is4\<close>, \<^verbatim>\<open>Is4In6\<close>,
  \<^verbatim>\<open>Unmap\<close>, the address classes, \<^verbatim>\<open>Prefix.Contains\<close>, \<^verbatim>\<open>ParseAddr\<close> and \<^verbatim>\<open>String\<close>; and the two
  address filters built on them, \<^verbatim>\<open>publicIP\<close> of \<^verbatim>\<open>internal/orchestrator/service.go\<close> and
  \<^verbatim>\<open>parsePublicIP\<close> of \<^verbatim>\<open>internal/telegram/validation.go\<close>.  An IPv6 address is a 128-bit word
  with a zone (the empty string for none).
\<close>

datatype addr = AddrZero | Addr4 "32 word" | Addr6 "128 word" string

fun IsValid :: "addr \<Rightarrow> bool" where
  "IsValid AddrZero = False"
| "IsValid _ = True"

fun Is4 :: "addr \<Rightarrow> bool" where
  "Is4 (Addr4 _) = True"
| "Is4 _ = False"

fun Zone :: "addr \<Rightarrow> string" where
  "Zone (Addr6 _ z) = z"
| "Zone _ = []"

fun Is4In6 :: "addr \<Rightarrow> bool" where
  "Is4In6 (Addr6 w _) = (drop_bit 32 w = 0xFFFF)"
| "Is4In6 _ = False"

fun Unmap :: "addr \<Rightarrow> addr" where
  "Unmap (Addr6 w z) = (if Is4In6 (Addr6 w z) then Addr4 (ucast w) else Addr6 w z)"
| "Unmap a = a"

fun IsLoopback :: "addr \<Rightarrow> bool" where
  "IsLoopback AddrZero = False"
| "IsLoopback (Addr4 w) = (drop_bit 24 w = 127)"
| "IsLoopback (Addr6 w _) = (w = 1)"

fun IsMulticast :: "addr \<Rightarrow> bool" where
  "IsMulticast AddrZero = False"
| "IsMulticast (Addr4 w) = (drop_bit 28 w = 0xE)"
| "IsMulticast (Addr6 w _) = (drop_bit 120 w = 0xFF)"

fun IsLinkLocalUnicast :: "addr \<Rightarrow> bool" where
  "IsLinkLocalUnicast AddrZero = False"
| "IsLinkLocalUnicast (Addr4 w) = (drop_bit 16 w = 0xA9FE)"
| "IsLinkLocalUnicast (Addr6 w _) = (drop_bit 118 w = 0x3FA)"

fun IsPrivate :: "addr \<Rightarrow> bool" where
  "IsPrivate AddrZero = False"
| "IsPrivate (Addr4 w) = (drop_bit 24 w = 10 \<or> drop_bit 20 w = 0xAC1 \<or> drop_bit 16 w = 0xC0A8)"
| "IsPrivate (Addr6 w _) = (drop_bit 121 w = 0x7E)"

fun IsGlobalUnicast :: "addr \<Rightarrow> bool" where
  "IsGlobalUnicast AddrZero = False"
| "IsGlobalUnicast (Addr4 w) =
     (w \<noteq> 0 \<and> w \<noteq> 0xFFFFFFFF \<and> \<not> IsLoopback (Addr4 w) \<and> \<not> IsMulticast (Addr4 w)
      \<and> \<not> IsLinkLocalUnicast (Addr4 w))"
| "IsGlobalUnicast (Addr6 w z) =
     (\<not> (w = 0 \<and> z = []) \<and> \<not> IsLoopback (Addr6 w z) \<and> \<not> IsMulticast (Addr6 w z)
      \<and> \<not> IsLinkLocalUnicast (Addr6 w z))"

section \<open>Prefixes\<close>

datatype prefix = Prefix4 "32 word" nat | Prefix6 "128 word" nat

fun Contains :: "prefix \<Rightarrow> addr \<Rightarrow> bool" where
  "Contains (Prefix4 p b) (Addr4 w) = (drop_bit (32 - b) (w XOR p) = 0)"
| "Contains (Prefix6 p b) (Addr6 w z) = (z = [] \<and> drop_bit (128 - b) (w XOR p) = 0)"
| "Contains _ _ = False"

definition quad :: "int \<Rightarrow> int \<Rightarrow> int \<Rightarrow> int \<Rightarrow> 32 word" where
  "quad a b c d = word_of_int (((a * 256 + b) * 256 + c) * 256 + d)"

text \<open>\<^verbatim>\<open>publicIP\<close>: globally routable, outside the documentation and shared ranges.\<close>

definition reserved_prefixes :: "prefix list" where
  "reserved_prefixes =
     [Prefix4 (quad 100 64 0 0) 10, Prefix4 (quad 192 0 2 0) 24, Prefix4 (quad 198 18 0 0) 15,
      Prefix4 (quad 198 51 100 0) 24, Prefix4 (quad 203 0 113 0) 24,
      Prefix6 (push_bit 96 0x20010db8) 32]"

definition publicIP :: "addr \<Rightarrow> bool" where
  "publicIP address =
     (if \<not> IsValid address then False
      else let address = Unmap address in
        if \<not> IsGlobalUnicast address \<or> IsPrivate address \<or> IsLoopback address
           \<or> IsLinkLocalUnicast address \<or> IsMulticast address then False
        else \<not> list_ex (\<lambda>p. Contains p address) reserved_prefixes)"

section \<open>Parsing\<close>

text \<open>
  The loop of \<^verbatim>\<open>parseIPv4Fields\<close>: \<open>start\<close> says that the byte before is a dot or that there is
  none, \<open>val\<close> and \<open>digLen\<close> are the current octet, \<open>fields\<close> the finished ones.
\<close>

fun ip4_fields :: "bool \<Rightarrow> int \<Rightarrow> nat \<Rightarrow> int list \<Rightarrow> string \<Rightarrow> int list option" where
  "ip4_fields start val digLen fields [] =
     (if length fields < 3 then None else Some (fields @ [val]))"
| "ip4_fields start val digLen fields (c # cs) =
     (if is_digit c then
        (if digLen = 1 \<and> val = 0 then None
         else let val' = val * 10 + int (byte c - 48)
              in if 255 < val' then None else ip4_fields False val' (Suc digLen) fields cs)
      else if c = CHR ''.'' then
        (if start \<or> cs = [] then None
         else if length fields = 3 then None
         else ip4_fields True 0 0 (fields @ [val]) cs)
      else None)"

definition parse_ip4 :: "string \<Rightarrow> int list option" where
  "parse_ip4 s = ip4_fields True 0 0 [] s"

definition addr_of_octets :: "int list \<Rightarrow> addr" where
  "addr_of_octets os = (case os of [a, b, c, d] \<Rightarrow> Addr4 (quad a b c d) | _ \<Rightarrow> AddrZero)"

definition hex_int :: "string \<Rightarrow> int" where
  "hex_int ds = foldl (\<lambda>n c. n * 16 + int (hex_val c)) 0 ds"

text \<open>
  The loop of \<^verbatim>\<open>parseIPv6\<close>: \<open>groups\<close> are the 16-bit groups read so far, \<open>ell\<close> the position of
  the ellipsis.
\<close>

function ip6_loop :: "int list \<Rightarrow> nat option \<Rightarrow> string \<Rightarrow> (int list \<times> nat option) option" where
  "ip6_loop groups ell s =
     (if 8 \<le> length groups then (if s = [] then Some (groups, ell) else None)
      else
        let ds = takeWhile is_hex s; rest = dropWhile is_hex s in
        if ds = [] \<or> 4 < length ds then None
        else
          (case rest of
             [] \<Rightarrow> Some (groups @ [hex_int ds], ell)
           | c # r \<Rightarrow>
               if c = CHR ''.'' then
                 (if ell = None \<and> length groups \<noteq> 6 then None
                  else if 8 < length groups + 2 then None
                  else (case parse_ip4 s of
                          Some [a, b, x, y] \<Rightarrow> Some (groups @ [a * 256 + b, x * 256 + y], ell)
                        | _ \<Rightarrow> None))
               else if c \<noteq> CHR '':'' \<or> r = [] then None
               else if hd r = CHR '':'' then
                 (if ell \<noteq> None then None
                  else if tl r = [] then Some (groups @ [hex_int ds], Some (Suc (length groups)))
                  else ip6_loop (groups @ [hex_int ds]) (Some (Suc (length groups))) (tl r))
               else ip6_loop (groups @ [hex_int ds]) ell r))"
  by pat_completeness auto
termination
  by (relation "measure (\<lambda>(groups, ell, s). 8 - length groups)") auto

declare ip6_loop.simps [simp del]

definition ip6_expand :: "int list \<times> nat option \<Rightarrow> int list option" where
  "ip6_expand r = (case r of (groups, ell) \<Rightarrow>
     if length groups < 8 then
       (case ell of None \<Rightarrow> None
        | Some e \<Rightarrow> Some (take e groups @ replicate (8 - length groups) 0 @ drop e groups))
     else if ell \<noteq> None then None
     else Some groups)"

definition of_hextets :: "int list \<Rightarrow> 128 word" where
  "of_hextets hs = word_of_int (foldl (\<lambda>n h. n * 65536 + h) 0 hs)"

definition parse_ip6 :: "string \<Rightarrow> addr option" where
  "parse_ip6 s =
     (let addr_part = takeWhile (\<lambda>c. c \<noteq> CHR ''%'') s;
          zone_part = dropWhile (\<lambda>c. c \<noteq> CHR ''%'') s
      in if zone_part = ''%'' then None
         else
           let zone = tl zone_part;
               parsed = (if take 2 addr_part = ''::'' then
                           (if drop 2 addr_part = [] then Some ([], Some 0)
                            else ip6_loop [] (Some 0) (drop 2 addr_part))
                         else ip6_loop [] None addr_part)
           in case Option.bind parsed ip6_expand of
                None \<Rightarrow> None
              | Some hs \<Rightarrow> Some (Addr6 (of_hextets hs) zone))"

text \<open>\<^verbatim>\<open>ParseAddr\<close> looks for the first dot, colon or percent sign.\<close>

definition ParseAddr :: "string \<Rightarrow> addr option" where
  "ParseAddr s =
     (case List.find (\<lambda>c. c = CHR ''.'' \<or> c = CHR '':'' \<or> c = CHR ''%'') s of
        None \<Rightarrow> None
      | Some c \<Rightarrow>
          if c = CHR ''.'' then map_option addr_of_octets (parse_ip4 s)
          else if c = CHR '':'' then parse_ip6 s
          else None)"

section \<open>Printing\<close>

function digits :: "int \<Rightarrow> int \<Rightarrow> int list" where
  "digits base n = (if n < base \<or> base < 2 then [n] else digits base (n div base) @ [n mod base])"
  by pat_completeness auto
termination
proof (relation "measure (\<lambda>(base, n). nat n)")
  fix base n :: int
  assume "\<not> (n < base \<or> base < 2)"
  then have "n div base < n" by (intro int_div_less_self) auto
  with \<open>\<not> (n < base \<or> base < 2)\<close>
  show "((base, n div base), base, n) \<in> measure (\<lambda>(base, n). nat n)" by simp
qed simp

declare digits.simps [simp del]

definition Itoa :: "int \<Rightarrow> string" where
  "Itoa n = (if n < 0 then ''-'' @ map (\<lambda>d. hex_char (nat d)) (digits 10 (- n))
             else map (\<lambda>d. hex_char (nat d)) (digits 10 n))"

definition Itox :: "int \<Rightarrow> string" where
  "Itox n = map (\<lambda>d. hex_char (nat d)) (digits 16 n)"

fun join :: "string \<Rightarrow> string list \<Rightarrow> string" where
  "join sep [] = []"
| "join sep [x] = x"
| "join sep (x # y # xs) = x @ sep @ join sep (y # xs)"

definition octets :: "32 word \<Rightarrow> int list" where
  "octets w = map (\<lambda>k. uint (drop_bit k w) mod 256) [24, 16, 8, 0]"

definition string4 :: "32 word \<Rightarrow> string" where
  "string4 w = join ''.'' (map Itoa (octets w))"

definition hextets :: "128 word \<Rightarrow> int list" where
  "hextets w = map (\<lambda>k. uint (drop_bit k w) mod 65536) [112, 96, 80, 64, 48, 32, 16, 0]"

text \<open>The longest run of at least two zero groups, the first one if there are several.\<close>

definition zero_run :: "int list \<Rightarrow> (nat \<times> nat) option" where
  "zero_run hs =
     foldl (\<lambda>best i.
        let l = length (takeWhile (\<lambda>h. h = 0) (drop i hs));
            len = (case best of None \<Rightarrow> 0 | Some (a, b) \<Rightarrow> b - a)
        in if 2 \<le> l \<and> len < l then Some (i, i + l) else best) None [0..<8]"

definition string6 :: "128 word \<Rightarrow> string" where
  "string6 w =
     (let hs = hextets w in
      case zero_run hs of
        None \<Rightarrow> join '':'' (map Itox hs)
      | Some (a, b) \<Rightarrow>
          join '':'' (map Itox (take a hs)) @ ''::'' @ join '':'' (map Itox (drop b hs)))"

fun addr_String :: "addr \<Rightarrow> string" where
  "addr_String AddrZero = ''invalid IP''"
| "addr_String (Addr4 w) = string4 w"
| "addr_String (Addr6 w z) =
     (let zone = (if z = [] then [] else ''%'' @ z)
      in if Is4In6 (Addr6 w z) then ''::ffff:'' @ string4 (ucast w) @ zone
         else string6 w @ zone)"

section \<open>The filter of the Telegram wizard\<close>

definition nonPublicPrefixes :: "prefix list" where
  "nonPublicPrefixes =
     [Prefix4 (quad 0 0 0 0) 8, Prefix4 (quad 10 0 0 0) 8, Prefix4 (quad 100 64 0 0) 10,
      Prefix4 (quad 127 0 0 0) 8, Prefix4 (quad 169 254 0 0) 16, Prefix4 (quad 172 16 0 0) 12,
      Prefix4 (quad 192 0 0 0) 24, Prefix4 (quad 192 0 2 0) 24, Prefix4 (quad 192 168 0 0) 16,
      Prefix4 (quad 198 18 0 0) 15, Prefix4 (quad 198 51 100 0) 24, Prefix4 (quad 203 0 113 0) 24,
      Prefix4 (quad 224 0 0 0) 4, Prefix4 (quad 240 0 0 0) 4,
      Prefix6 0 128, Prefix6 1 128, Prefix6 (push_bit 96 0x20010db8) 32,
      Prefix6 (push_bit 120 0xfc) 7, Prefix6 (push_bit 112 0xfe80) 10, Prefix6 (push_bit 120 0xff) 8]"

definition parsePublicIP :: "string \<Rightarrow> addr option" where
  "parsePublicIP value =
     (case ParseAddr (TrimSpace value) of
        None \<Rightarrow> None
      | Some address \<Rightarrow>
          if Zone address \<noteq> [] then None
          else
            let address = Unmap address in
            if \<not> IsGlobalUnicast address then None
            else if list_ex (\<lambda>p. Contains p address) nonPublicPrefixes then None
            else Some address)"

definition parsePublicIPv4 :: "string \<Rightarrow> addr option" where
  "parsePublicIPv4 value =
     (case parsePublicIP value of
        Some address \<Rightarrow> if Is4 address then Some address else None
      | None \<Rightarrow> None)"

section \<open>Prefixes and classes as leading bits\<close>

lemma word_xor_eq_0: "x XOR y = 0 \<longleftrightarrow> x = y" for x y :: "'a::len word"
  by (metis xor.assoc xor.left_neutral xor.right_neutral xor_self_eq)

lemma Contains4_iff: "Contains (Prefix4 p b) (Addr4 w) \<longleftrightarrow> drop_bit (32 - b) w = drop_bit (32 - b) p"
  by (simp add: word_xor_eq_0)

lemma Contains6_iff:
  "Contains (Prefix6 p b) (Addr6 w z) \<longleftrightarrow> z = [] \<and> drop_bit (128 - b) w = drop_bit (128 - b) p"
  by (simp add: word_xor_eq_0)

lemma Unmap_Unmap [simp]: "Unmap (Unmap a) = Unmap a"
  by (cases a) auto

lemma IsValid_Unmap [simp]: "IsValid (Unmap a) = IsValid a"
  by (cases a) auto

lemma Zone_Unmap_Nil: "Zone a = [] \<Longrightarrow> Zone (Unmap a) = []"
  by (cases a) auto

lemma publicIP_Unmap [simp]: "publicIP (Unmap a) = publicIP a"
  by (simp add: publicIP_def)

section \<open>The round trip of an IPv4 address\<close>

lemma byte_digit: "0 \<le> d \<Longrightarrow> d < 10 \<Longrightarrow> byte (hex_char (nat d)) = 48 + nat d"
  by (simp add: hex_char_def of_char_of)

lemma digits_lt: "n < base \<Longrightarrow> digits base n = [n]"
  by (simp add: digits.simps)

lemma digits_ge: "base \<le> n \<Longrightarrow> 2 \<le> base \<Longrightarrow> digits base n = digits base (n div base) @ [n mod base]"
  by (subst digits.simps) simp

lemma digits10_octet:
  assumes "0 \<le> n" and "n < 256"
  shows "digits 10 n =
    (if n < 10 then [n] else if n < 100 then [n div 10, n mod 10]
     else [n div 100, n div 10 mod 10, n mod 10])"
proof -
  have "n div 10 div 10 = n div 100" by simp
  with assms show ?thesis
    by (auto simp: digits_lt digits_ge not_less)
qed

lemma ip4_fields_digit:
  assumes "0 \<le> d" and "d < 10"
  shows "ip4_fields st v k fs (hex_char (nat d) # cs) =
    (if k = 1 \<and> v = 0 then None
     else if 255 < v * 10 + d then None else ip4_fields False (v * 10 + d) (Suc k) fs cs)"
proof -
  have "is_digit (hex_char (nat d))" and "int (byte (hex_char (nat d)) - 48) = d"
    using assms by (auto simp: is_digit_def byte_digit nat_le_iff)
  then show ?thesis by (simp add: Let_def)
qed

lemma ip4_fields_digits2:
  assumes "0 < a" "a < 10" "0 \<le> b" "b < 10" "a * 10 + b = n"
  shows "ip4_fields True 0 0 fs (hex_char (nat a) # hex_char (nat b) # cs) = ip4_fields False n 2 fs cs"
proof -
  have "\<not> 255 < a" "\<not> 255 < n" using assms by linarith+
  with assms show ?thesis
    by (simp add: ip4_fields_digit numeral_2_eq_2 del: ip4_fields.simps)
qed

lemma ip4_fields_digits3:
  assumes "0 < a" "a < 10" "0 \<le> b" "b < 10" "0 \<le> c" "c < 10" "a * 10 + b = m" "m * 10 + c = n" "n < 256"
  shows "ip4_fields True 0 0 fs (hex_char (nat a) # hex_char (nat b) # hex_char (nat c) # cs) =
    ip4_fields False n 3 fs cs"
proof -
  have "\<not> 255 < a" "\<not> 255 < m" "\<not> 255 < n" using assms by linarith+
  with assms show ?thesis
    by (simp add: ip4_fields_digit numeral_3_eq_3 del: ip4_fields.simps)
qed

lemma ip4_fields_octet:
  assumes "0 \<le> n" and "n < 256"
  shows "ip4_fields True 0 0 fs (Itoa n @ cs) = ip4_fields False n (length (Itoa n)) fs cs"
proof -
  consider "n < 10" | "10 \<le> n" "n < 100" | "100 \<le> n" by linarith
  then show ?thesis
  proof cases
    case 1
    with assms show ?thesis
      by (simp add: Itoa_def digits10_octet ip4_fields_digit del: ip4_fields.simps)
  next
    case 2
    have "ip4_fields True 0 0 fs (hex_char (nat (n div 10)) # hex_char (nat (n mod 10)) # cs) =
      ip4_fields False n 2 fs cs"
      using 2 by (intro ip4_fields_digits2) presburger+
    with 2 assms show ?thesis by (simp add: Itoa_def digits10_octet numeral_2_eq_2 del: ip4_fields.simps)
  next
    case 3
    have "ip4_fields True 0 0 fs
        (hex_char (nat (n div 100)) # hex_char (nat (n div 10 mod 10)) # hex_char (nat (n mod 10)) # cs) =
      ip4_fields False n 3 fs cs"
    proof (rule ip4_fields_digits3)
      show "n div 100 * 10 + n div 10 mod 10 = n div 10"
        using div_mult_mod_eq [of "n div 10" 10] by (simp add: zdiv_zmult2_eq [symmetric])
      show "n div 10 * 10 + n mod 10 = n" by simp
      show "n div 100 < 10" using assms by linarith
    qed (use 3 assms in \<open>auto simp: pos_imp_zdiv_pos_iff\<close>)
    with 3 assms show ?thesis
      by (simp add: Itoa_def digits10_octet numeral_3_eq_3 del: ip4_fields.simps)
  qed
qed

lemma octets_range: "x \<in> set (octets w) \<Longrightarrow> 0 \<le> x \<and> x < 256"
  by (auto simp: octets_def)

lemma quad_octets:
  "quad (uint (drop_bit 24 w) mod 256) (uint (drop_bit 16 w) mod 256)
        (uint (drop_bit 8 w) mod 256) (uint w mod 256) = w"
proof -
  define u where "u = uint w"
  have u: "0 \<le> u" "u < 4294967296"
    using uint_lt2p [of w] by (simp_all add: u_def)
  have d: "uint (drop_bit k w) = u div 2 ^ k" for k
    using uint_lt2p [of w]
    by (simp only: u_def unsigned_drop_bit_eq) (simp add: drop_bit_eq_div take_bit_int_eq_self)
  have top: "u div 16777216 mod 256 = u div 16777216" using u by simp
  have step: "u div (m * 256) * 256 + u div m mod 256 = u div m" if "0 \<le> m" for m
    using that div_mult_mod_eq [of "u div m" 256] by (simp add: zdiv_zmult2_eq)
  have "((u div 16777216 mod 256 * 256 + u div 65536 mod 256) * 256 + u div 256 mod 256) * 256 + u mod 256 = u"
    using step [of 65536] step [of 256] step [of 1] by (simp add: top)
  moreover have "uint (drop_bit 24 w) = u div 16777216" "uint (drop_bit 16 w) = u div 65536"
    "uint (drop_bit 8 w) = u div 256" by (simp_all only: d) simp_all
  moreover have "word_of_int u = w" by (simp add: u_def)
  ultimately show ?thesis by (simp only: quad_def u_def [symmetric])
qed

lemma string4_shape:
  "string4 w = Itoa (uint (drop_bit 24 w) mod 256) @ ''.'' @ Itoa (uint (drop_bit 16 w) mod 256) @ ''.'' @
     Itoa (uint (drop_bit 8 w) mod 256) @ ''.'' @ Itoa (uint w mod 256)"
  by (simp add: string4_def octets_def)

lemma Itoa_digits: "0 \<le> n \<Longrightarrow> n < 256 \<Longrightarrow> c \<in> set (Itoa n) \<Longrightarrow> is_digit c"
  by (auto simp: Itoa_def digits10_octet is_digit_def byte_digit split: if_splits)

lemma Itoa_not_Nil: "Itoa n \<noteq> []"
  by (auto simp: Itoa_def digits.simps)

lemma ip4_fields_last:
  "0 \<le> n \<Longrightarrow> n < 256 \<Longrightarrow> ip4_fields True 0 0 fs (Itoa n) = (if length fs < 3 then None else Some (fs @ [n]))"
  using ip4_fields_octet [of n fs "[]"] by simp

lemma parse_ip4_string4: "parse_ip4 (string4 w) = Some (octets w)"
  by (simp add: parse_ip4_def string4_shape ip4_fields_octet ip4_fields_last is_digit_def
      Itoa_not_Nil octets_def)

lemma find_append_skip: "\<forall>x \<in> set xs. \<not> P x \<Longrightarrow> List.find P (xs @ ys) = List.find P ys"
  by (induction xs) auto

lemma ParseAddr_string4: "ParseAddr (string4 w) = Some (Addr4 w)"
proof -
  let ?sep = "\<lambda>c. c = CHR ''.'' \<or> c = CHR '':'' \<or> c = CHR ''%''"
  have "List.find ?sep (string4 w) = Some (CHR ''.'')"
    unfolding string4_shape
    by (subst find_append_skip) (auto dest!: Itoa_digits [rotated 2] simp: is_digit_def)
  then show ?thesis
    by (simp add: ParseAddr_def parse_ip4_string4 addr_of_octets_def octets_def quad_octets)
qed

text \<open>No text of an IPv4 address needs trimming.\<close>

lemma is_digit_printable: "is_digit c \<Longrightarrow> printable c"
  by (simp add: is_digit_def printable_def)

lemma TrimSpace_string4 [simp]: "TrimSpace (string4 w) = string4 w"
proof (rule TrimSpace_printable)
  have edge: "printable (hd (Itoa (n mod 256)))" "printable (last (Itoa (n mod 256)))" for n
    using Itoa_not_Nil Itoa_digits [of "n mod 256"] by (auto intro: is_digit_printable)
  show "printable (hd (string4 w))" and "printable (last (string4 w))" and "string4 w \<noteq> []"
    by (simp_all add: string4_shape hd_append Itoa_not_Nil edge)
qed

definition round_trips :: "addr \<Rightarrow> bool" where
  "round_trips a \<longleftrightarrow> ParseAddr (TrimSpace (addr_String a)) = Some a"

lemma round_trips_4: "round_trips (Addr4 w)"
  by (simp add: round_trips_def ParseAddr_string4)

section \<open>The two address filters\<close>

lemma parsePublicIP_public:
  assumes "parsePublicIP v = Some a"
  shows "publicIP a \<and> Zone a = [] \<and> Unmap a = a"
proof -
  obtain b where b: "ParseAddr (TrimSpace v) = Some b" "Zone b = []" and a: "a = Unmap b"
    and g: "IsGlobalUnicast a" and n: "\<not> list_ex (\<lambda>p. Contains p a) nonPublicPrefixes"
    using assms by (auto simp: parsePublicIP_def Let_def split: option.splits if_splits)
  have z: "Zone a = []" using a b(2) Zone_Unmap_Nil by simp
  have u: "Unmap a = a" using a by simp
  have "publicIP a"
  proof (cases a)
    case AddrZero
    with g show ?thesis by simp
  next
    case (Addr4 w)
    with g n show ?thesis
      by (auto simp: publicIP_def nonPublicPrefixes_def reserved_prefixes_def quad_def)
  next
    case (Addr6 w zone)
    with g n z u show ?thesis
      by (auto simp: publicIP_def nonPublicPrefixes_def reserved_prefixes_def simp del: Unmap.simps)
  qed
  with z u show ?thesis by simp
qed

text \<open>
  C36. An address that passes the filter of the Telegram wizard has no zone, is not an
  IPv4-mapped IPv6 address and passes the filter of the deployment service: the service
  never rejects an address the wizard has accepted.
\<close>

theorem wizard_address_accepted_by_service:
  assumes "parsePublicIP v = Some a"
  shows "publicIP a \<and> Zone a = [] \<and> Unmap a = a"
  using assms by (rule parsePublicIP_public)

lemma example_address: "parsePublicIP ''8.8.8.8'' = Some (Addr4 (quad 8 8 8 8))"
  by code_simp

theorem wizard_address_accepted_by_service_witness:
  "parsePublicIP ''8.8.8.8'' = Some (Addr4 (quad 8 8 8 8)) \<and> publicIP (Addr4 (quad 8 8 8 8))"
  using wizard_address_accepted_by_service [OF example_address] example_address by simp

text \<open>
  The text of an accepted IPv4 address is accepted again and reads back as the same address:
  what the service writes to the panel, to a DNS zone or to the database is what it later
  compares against.
\<close>

theorem parsePublicIPv4_roundtrip:
  assumes "parsePublicIPv4 v = Some a"
  shows "parsePublicIPv4 (addr_String a) = Some a \<and> ParseAddr (TrimSpace (addr_String a)) = Some a"
proof -
  have p: "parsePublicIP v = Some a" and "Is4 a"
    using assms by (auto simp: parsePublicIPv4_def split: option.splits if_splits)
  then obtain w where a: "a = Addr4 w" by (cases a) auto
  have "IsGlobalUnicast a" "\<not> list_ex (\<lambda>p. Contains p a) nonPublicPrefixes"
    using p by (auto simp: parsePublicIP_def Let_def split: option.splits if_splits)
  then have "parsePublicIP (addr_String a) = Some a"
    by (simp add: a parsePublicIP_def ParseAddr_string4 Let_def del: IsGlobalUnicast.simps)
  then show ?thesis by (simp add: a parsePublicIPv4_def ParseAddr_string4)
qed

theorem parsePublicIPv4_roundtrip_witness:
  "parsePublicIPv4 ''8.8.8.8'' = Some (Addr4 (quad 8 8 8 8)) \<and>
   parsePublicIPv4 (addr_String (Addr4 (quad 8 8 8 8))) = Some (Addr4 (quad 8 8 8 8))"
proof -
  have p: "parsePublicIPv4 ''8.8.8.8'' = Some (Addr4 (quad 8 8 8 8))"
    by (simp add: parsePublicIPv4_def example_address)
  show ?thesis using parsePublicIPv4_roundtrip [OF p] p by simp
qed

end
