(* ===== verification/Deployment.thy ===== *)
theory Deployment
  imports Go_Strings Netip
begin

text \<open>
  The domain types of \<^verbatim>\<open>internal/deployment/deployment.go\<close>.  A Go \<^verbatim>\<open>Status\<close> is a string: the
  constructors are the declared constants, and \<open>StatusOther\<close> is any other string.  Times are
  integers (a count of nanoseconds).
\<close>

type_synonym time = int

datatype Status =
    StatusCreated | StatusPreflight | StatusPreparingCertificate | StatusProvisioning
  | StatusCreatingRemnawave | StatusWaitingRemnawave | StatusAddingToDNS | StatusCompleted
  | StatusFailed | StatusCancelled | StatusDNSFailed | StatusManualReview
  | StatusOther string

fun Status_Valid :: "Status \<Rightarrow> bool" where
  "Status_Valid (StatusOther _) = False"
| "Status_Valid _ = True"

fun Status_Terminal :: "Status \<Rightarrow> bool" where
  "Status_Terminal StatusCompleted = True"
| "Status_Terminal StatusFailed = True"
| "Status_Terminal StatusCancelled = True"
| "Status_Terminal StatusDNSFailed = True"
| "Status_Terminal StatusManualReview = True"
| "Status_Terminal _ = False"

fun Status_text :: "Status \<Rightarrow> string" where
  "Status_text StatusCreated = ''CREATED''"
| "Status_text StatusPreflight = ''PREFLIGHT''"
| "Status_text StatusPreparingCertificate = ''PREPARING_CERTIFICATE''"
| "Status_text StatusProvisioning = ''PROVISIONING''"
| "Status_text StatusCreatingRemnawave = ''CREATING_REMNAWAVE_NODE''"
| "Status_text StatusWaitingRemnawave = ''WAITING_REMNAWAVE''"
| "Status_text StatusAddingToDNS = ''ADDING_TO_DNS''"
| "Status_text StatusCompleted = ''COMPLETED''"
| "Status_text StatusFailed = ''FAILED''"
| "Status_text StatusCancelled = ''CANCELLED''"
| "Status_text StatusDNSFailed = ''DNS_FAILED''"
| "Status_text StatusManualReview = ''MANUAL_REVIEW''"
| "Status_text (StatusOther s) = s"

datatype StepStatus =
    StepStatusPending | StepStatusRunning | StepStatusCompleted | StepStatusFailed
  | StepStatusSkipped | StepStatusOther string

fun StepStatus_Valid :: "StepStatus \<Rightarrow> bool" where
  "StepStatus_Valid (StepStatusOther _) = False"
| "StepStatus_Valid _ = True"

fun StepStatus_Terminal :: "StepStatus \<Rightarrow> bool" where
  "StepStatus_Terminal StepStatusCompleted = True"
| "StepStatus_Terminal StepStatusFailed = True"
| "StepStatus_Terminal StepStatusSkipped = True"
| "StepStatus_Terminal _ = False"

fun StepStatus_text :: "StepStatus \<Rightarrow> string" where
  "StepStatus_text StepStatusPending = ''PENDING''"
| "StepStatus_text StepStatusRunning = ''RUNNING''"
| "StepStatus_text StepStatusCompleted = ''COMPLETED''"
| "StepStatus_text StepStatusFailed = ''FAILED''"
| "StepStatus_text StepStatusSkipped = ''SKIPPED''"
| "StepStatus_text (StepStatusOther s) = s"

record Deployment =
  dep_ID :: string
  dep_PanelID :: string
  dep_TelegramOperatorUserID :: int
  dep_SelectedRemnawaveHostUUID :: string
  dep_SelectedHostRemark :: string
  dep_SNIDomain :: string
  dep_NodeName :: string
  dep_TargetVPSIP :: addr
  dep_RemnawaveNodeUUID :: "string option"
  dep_SSHHostKeyFingerprint :: "string option"
  dep_Status :: Status
  dep_CurrentStep :: string
  dep_SafeErrorCode :: "string option"
  dep_SafeErrorMessage :: "string option"
  dep_CreatedAt :: time
  dep_UpdatedAt :: time
  dep_StartedAt :: "time option"
  dep_CompletedAt :: "time option"

record Step =
  step_DeploymentID :: string
  step_Name :: string
  step_Status :: StepStatus
  step_SafeSummary :: "string option"
  step_ErrorMessage :: "string option"
  step_StartedAt :: "time option"
  step_CompletedAt :: "time option"

section \<open>Identifiers\<close>

definition hex_byte :: "8 word \<Rightarrow> string" where
  "hex_byte b = [hex_char (unat b div 16), hex_char (unat b mod 16)]"

definition hex_Encode :: "8 word list \<Rightarrow> string" where
  "hex_Encode bs = concat (map hex_byte bs)"

text \<open>
  \<^verbatim>\<open>NewID\<close>: the 16 random bytes are the argument (\<open>None\<close> where \<^verbatim>\<open>rand.Read\<close> fails); the version
  and variant bits are set and the bytes written in groups of 4, 2, 2, 2 and 6.
\<close>

definition uuid_stamp :: "8 word list \<Rightarrow> 8 word list" where
  "uuid_stamp value =
     (let value = value[6 := (value ! 6 AND 0x0f) OR 0x40]
      in value[8 := (value ! 8 AND 0x3f) OR 0x80])"

definition uuid_format :: "8 word list \<Rightarrow> string" where
  "uuid_format value =
     hex_Encode (take 4 value) @ ''-'' @ hex_Encode (take 2 (drop 4 value)) @ ''-'' @
     hex_Encode (take 2 (drop 6 value)) @ ''-'' @ hex_Encode (take 2 (drop 8 value)) @ ''-'' @
     hex_Encode (drop 10 value)"

definition NewID :: "8 word list option \<Rightarrow> string option" where
  "NewID random = (case random of None \<Rightarrow> None | Some value \<Rightarrow> Some (uuid_format (uuid_stamp value)))"

text \<open>
  \<^verbatim>\<open>validUUID\<close> (\<^verbatim>\<open>internal/repository/postgres/postgres.go\<close>, and again in
  \<^verbatim>\<open>internal/remnawave/validation.go\<close>): four hyphens in place, and what is left after removing
  every hyphen decodes as hexadecimal (an even number of digits, nothing else).
\<close>

definition hex_decodes :: "string \<Rightarrow> bool" where
  "hex_decodes s \<longleftrightarrow> list_all is_hex s \<and> even (length s)"

definition validUUID :: "string \<Rightarrow> bool" where
  "validUUID value =
     (if length value \<noteq> 36 \<or> value ! 8 \<noteq> CHR ''-'' \<or> value ! 13 \<noteq> CHR ''-'' \<or>
         value ! 18 \<noteq> CHR ''-'' \<or> value ! 23 \<noteq> CHR ''-'' then False
      else hex_decodes (RemoveByte value (CHR ''-'')))"

section \<open>Lemmas\<close>

lemma Terminal_Valid: "Status_Terminal s \<Longrightarrow> Status_Valid s"
  by (cases s) auto

lemma hex_char_facts: "n < 16 \<Longrightarrow> is_hex (hex_char n) \<and> hex_char n \<noteq> CHR ''-'' \<and> lower_char (hex_char n) = hex_char n"
  by (cases "n < 10")
    (auto simp: hex_char_def is_hex_def is_digit_def of_char_of lower_char_def is_upper_def
      dest: arg_cong [where f = byte])

lemma length_hex_Encode: "length (hex_Encode bs) = 2 * length bs"
  by (induction bs) (simp_all add: hex_Encode_def hex_byte_def)

lemma hex_byte_chars:
  "is_hex (hex_char (unat b div 16))" "hex_char (unat b div 16) \<noteq> CHR ''-''"
  "is_hex (hex_char (unat b mod 16))" "hex_char (unat b mod 16) \<noteq> CHR ''-''" for b :: "8 word"
proof -
  have "unat b div 16 < 16" using unsigned_less [where 'a = nat, of b] by simp
  then show "is_hex (hex_char (unat b div 16))" "hex_char (unat b div 16) \<noteq> CHR ''-''"
    "is_hex (hex_char (unat b mod 16))" "hex_char (unat b mod 16) \<noteq> CHR ''-''"
    using hex_char_facts [of "unat b div 16"] hex_char_facts [of "unat b mod 16"] by auto
qed

lemma length_16E:
  assumes "length xs = 16"
  obtains a b c d e f g h i j k l m n p q where "xs = [a, b, c, d, e, f, g, h, i, j, k, l, m, n, p, q]"
  using assms by (auto simp: length_Suc_conv eval_nat_numeral)

lemma uuid_stamp_bytes:
  assumes "length value = 16"
  shows "uuid_stamp value ! 6 = (value ! 6 AND 0x0f) OR 0x40"
    and "uuid_stamp value ! 8 = (value ! 8 AND 0x3f) OR 0x80"
    and "length (uuid_stamp value) = 16"
  using assms by (simp_all add: uuid_stamp_def Let_def)

lemma uuid_format_valid:
  assumes "length value = 16"
  shows "validUUID (uuid_format value) \<and> length (uuid_format value) = 36 \<and>
    uuid_format value ! 14 = hex_char (unat (value ! 6) div 16) \<and>
    uuid_format value ! 19 = hex_char (unat (value ! 8) div 16)"
  using assms
  by (elim length_16E)
    (simp add: uuid_format_def hex_Encode_def hex_byte_def validUUID_def RemoveByte_def
      hex_decodes_def hex_byte_chars)

lemma unat_drop_bit: "unat (drop_bit n x) = unat x div 2 ^ n" for x :: "8 word"
  using unsigned_less [where 'a = nat, of x]
  by (simp only: unsigned_drop_bit_eq) (simp add: drop_bit_eq_div take_bit_nat_eq_self)

lemma hex_char_literals:
  "hex_char 4 = CHR ''4''" "hex_char 8 = CHR ''8''" "hex_char 9 = CHR ''9''"
  "hex_char 10 = CHR ''a''" "hex_char 11 = CHR ''b''"
  by code_simp+

lemma version_nibble: "unat ((b AND 0x0f) OR 0x40) div 16 = 4" for b :: "8 word"
proof -
  have "drop_bit 4 ((b AND 0x0f) OR 0x40) = (4 :: 8 word)"
    by (rule bit_word_eqI) (auto simp: bit_simps)
  then show ?thesis using unat_drop_bit [of 4 "(b AND 0x0f) OR 0x40"] by simp
qed

lemma variant_nibble: "unat ((b AND 0x3f) OR 0x80) div 16 \<in> {8, 9, 10, 11}" for b :: "8 word"
proof -
  have "drop_bit 6 ((b AND 0x3f) OR 0x80) = (2 :: 8 word)"
    by (rule bit_word_eqI) (auto simp: bit_simps)
  then have "unat ((b AND 0x3f) OR 0x80) div 64 = 2"
    using unat_drop_bit [of 6 "(b AND 0x3f) OR 0x80"] by simp
  then have "unat ((b AND 0x3f) OR 0x80) div 16 div 4 = 2"
    by (simp add: div_mult2_eq [symmetric])
  then show ?thesis by (auto; linarith)
qed

text \<open>
  \<open>NewID\<close> writes a version 4 UUID: whatever the random bytes, the text has the shape
  \<open>validUUID\<close> accepts, its version digit is 4 and its variant digit one of 8, 9, a, b.
\<close>

theorem NewID_version4:
  assumes "length value = 16" and "NewID (Some value) = Some uuid"
  shows "validUUID uuid \<and> length uuid = 36 \<and> uuid ! 14 = CHR ''4'' \<and>
    uuid ! 19 \<in> {CHR ''8'', CHR ''9'', CHR ''a'', CHR ''b''}"
proof -
  note st = uuid_stamp_bytes [OF assms(1)]
  have uuid: "uuid = uuid_format (uuid_stamp value)" using assms(2) by (simp add: NewID_def)
  have "uuid ! 14 = hex_char 4"
    using uuid_format_valid [OF st(3)] by (simp only: uuid st(1) version_nibble)
  moreover have "uuid ! 19 \<in> hex_char ` {8, 9, 10, 11}"
    using uuid_format_valid [OF st(3)] variant_nibble by (simp only: uuid st(2)) blast
  ultimately show ?thesis
    using uuid_format_valid [OF st(3)] by (auto simp: uuid hex_char_literals)
qed

theorem NewID_version4_witness:
  "length (replicate 16 (0xff :: 8 word)) = 16 \<and>
   (\<exists>uuid. NewID (Some (replicate 16 0xff)) = Some uuid \<and> validUUID uuid \<and> uuid ! 14 = CHR ''4'')"
proof -
  have l: "length (replicate 16 (0xff :: 8 word)) = 16" by simp
  obtain uuid where uuid: "NewID (Some (replicate 16 0xff)) = Some uuid" by (simp add: NewID_def)
  show ?thesis using NewID_version4 [OF l uuid] uuid by simp
qed

text \<open>
  \<open>validUUID\<close> counts hyphens only at the four fixed places: it removes every hyphen before
  it decodes, so a text of 36 hyphens, which has no digit at all, passes as a UUID.
\<close>

theorem validUUID_accepts_hyphens: "validUUID (replicate 36 (CHR ''-''))"
  by (simp add: validUUID_def RemoveByte_def hex_decodes_def)

end
