(* ===== verification/Go_Errors.thy ===== *)
theory Go_Errors
  imports Prelude
begin

text \<open>
  The program's errors as one type, as Go's \<^verbatim>\<open>error\<close> interface is: the sentinel values of each
  package, the errors of a cancelled context, \<^verbatim>\<open>SafeError\<close> of \<^verbatim>\<open>internal/orchestrator/types.go\<close>
  and the joins built by \<^verbatim>\<open>errors.Join\<close>.  The text that \<^verbatim>\<open>fmt.Errorf("...: %w", err)\<close> adds in front
  of a wrapped error is dropped: no decision of the program reads it.
\<close>

datatype dns_error =
    DnsUnauthorized | DnsConflict | DnsUnprocessable | DnsInvalidResponse
  | DnsNotFound | DnsAmbiguousZone | DnsInvalidInput | DnsHTTP int | DnsTransport

datatype rw_error =
    RwUnauthorized | RwInvalidResponse | RwInvalidHostProfile
  | RwDuplicateNode bool bool | RwInvalidInput | RwHTTP int | RwTransport

datatype cert_error =
    CertNotFound | CertInvalidInput | CertIssuanceFailed | CertStorageFailed | CertPersistenceFailed
  | CertDistributionFailed | CertActivationFailed | CertNoUsableCertificate | CertInvalidMaterial

datatype orch_error =
    ErrInvalidInput | ErrHostUnavailable | ErrDuplicateNodeName | ErrDuplicateNodeAddress
  | ErrPreflightFailed | ErrCertificateUnavailable | ErrProvisioningFailed
  | ErrRemnawaveCreationFailed | ErrNodeConnectionFailed | ErrNodeConnectionTimeout
  | ErrDNSUpdateFailed | ErrDNSRetryRequired | ErrDeploymentAlreadyRunning
  | ErrDeploymentNotRunnable | ErrPersistenceFailed
  | ErrNodeIPChangeFailed | ErrNodeNotFound | ErrAmbiguousNode
  | ErrDNSSyncUnavailable | ErrDNSTargetUnknown
  | ErrNodeHostMoveFailed | ErrNodeStateChanged | ErrNodeHostUnchanged | ErrNodeSNISwitchFailed

datatype go_error =
    CtxCanceled | CtxDeadlineExceeded
  | RepoNotFound | RepoInvalidArgument | RepoQueryFailed
  | DnsErr dns_error
  | RwErr rw_error
  | CertErr cert_error string
  | VpsErr string
  | OrchErr orch_error
  | SafeError string string go_error
  | ErrJoin go_error go_error
  | OtherErr string

text \<open>
  \<^verbatim>\<open>errors.Is\<close>: the error itself, what it unwraps to, or a part of a join.  A \<^verbatim>\<open>CertErr\<close> is a
  sentinel of \<^verbatim>\<open>internal/certmanager\<close> (or \<^verbatim>\<open>certificates.ErrInvalidMaterial\<close>) when its message is empty,
  and the package's \<^verbatim>\<open>safe(message, kind)\<close> otherwise, which unwraps to its kind.
\<close>

fun errors_Is :: "go_error \<Rightarrow> go_error \<Rightarrow> bool" where
  "errors_Is (SafeError c m k) target = (SafeError c m k = target \<or> errors_Is k target)"
| "errors_Is (ErrJoin a b) target = (ErrJoin a b = target \<or> errors_Is a target \<or> errors_Is b target)"
| "errors_Is (CertErr kind message) target = (CertErr kind message = target \<or> CertErr kind [] = target)"
| "errors_Is e target = (e = target)"

end
