(* ===== verification/Repository.thy ===== *)
theory Repository
  imports Deployment Go_Errors
begin

text \<open>
  The deployment tables and their operations: \<^verbatim>\<open>internal/repository/repository.go\<close> and
  \<^verbatim>\<open>internal/repository/postgres/postgres.go\<close>.  Each SQL statement is written out on the rows of
  its table.  The connection pool is not part of the program: every operation takes the outcome
  of its statement, \<open>DbOk\<close>, \<open>DbError\<close> (nothing was executed) or \<open>DbLost\<close> (the server executed
  the statement and the answer did not arrive, as after a cancelled context), and the server's
  clock \<open>now\<close>.  UUID columns hold canonical lower-case text.
\<close>

datatype db_outcome = DbOk | DbError | DbLost

record database =
  deployments :: "Deployment list"
  deployment_steps :: "Step list"

record CreateDeploymentParams =
  cp_ID :: string
  cp_PanelID :: string
  cp_TelegramOperatorUserID :: int
  cp_SelectedRemnawaveHostUUID :: string
  cp_SelectedHostRemark :: string
  cp_SNIDomain :: string
  cp_NodeName :: string
  cp_TargetVPSIP :: addr

record UpdateDeploymentStateParams =
  up_Status :: Status
  up_CurrentStep :: string
  up_SafeErrorCode :: "string option"
  up_SafeErrorMessage :: "string option"

record SetNodeHostBindingParams =
  hb_HostUUID :: string
  hb_HostRemark :: string
  hb_SNIDomain :: string

record RecordStepParams =
  rp_DeploymentID :: string
  rp_Name :: string
  rp_Status :: StepStatus
  rp_SafeSummary :: "string option"
  rp_ErrorMessage :: "string option"

abbreviation dep_lookup :: "string \<Rightarrow> Deployment list \<Rightarrow> Deployment option" where
  "dep_lookup \<equiv> tbl_lookup dep_ID"

abbreviation dep_modify :: "string \<Rightarrow> (Deployment \<Rightarrow> Deployment) \<Rightarrow> Deployment list \<Rightarrow> Deployment list" where
  "dep_modify \<equiv> tbl_modify dep_ID"

definition step_key :: "Step \<Rightarrow> string \<times> string" where
  "step_key r = (step_DeploymentID r, step_Name r)"

section \<open>Validation\<close>

text \<open>
  A text given for a \<^verbatim>\<open>UUID\<close> column: the server reads 32 hexadecimal digits in any case and
  stores them in lower case; fewer digits are a query error.
\<close>

definition uuid_column :: "string \<Rightarrow> string option" where
  "uuid_column s = (if length (RemoveByte s (CHR ''-'')) = 32 then Some (ToLower s) else None)"

definition validPanelID :: "string \<Rightarrow> bool" where
  "validPanelID value =
     (if length value < 1 \<or> 32 < length value then False
      else list_all (\<lambda>i. let c = value ! i in
             is_lower c \<or> is_digit c \<or> 0 < i \<and> (c = CHR ''-'' \<or> c = CHR ''_'')) [0..<length value])"

definition validateCreate :: "CreateDeploymentParams \<Rightarrow> bool" where
  "validateCreate params =
     (if \<not> validUUID (cp_ID params) then False
      else if cp_TelegramOperatorUserID params \<le> 0 then False
      else if \<not> validPanelID (cp_PanelID params) then False
      else if \<not> validUUID (cp_SelectedRemnawaveHostUUID params) then False
      else if TrimSpace (cp_SNIDomain params) = [] then False
      else if TrimSpace (cp_NodeName params) = [] then False
      else if \<not> IsValid (cp_TargetVPSIP params) then False
      else True)"

section \<open>Statements\<close>

text \<open>
  An \<^verbatim>\<open>UPDATE ... WHERE id = $1 RETURNING\<close>: no row is \<^verbatim>\<open>pgx.ErrNoRows\<close>, mapped to
  \<^verbatim>\<open>ErrNotFound\<close>.
\<close>

definition update_returning ::
  "db_outcome \<Rightarrow> string \<Rightarrow> (Deployment \<Rightarrow> Deployment) \<Rightarrow> database \<Rightarrow> (go_error + Deployment) \<times> database" where
  "update_returning oc uuid f db =
     (case uuid_column uuid of
        None \<Rightarrow> (Inl RepoQueryFailed, db)
      | Some key \<Rightarrow>
          (case oc of
             DbError \<Rightarrow> (Inl RepoQueryFailed, db)
           | DbLost \<Rightarrow> (Inl RepoQueryFailed, db\<lparr>deployments := dep_modify key f (deployments db)\<rparr>)
           | DbOk \<Rightarrow>
               (case dep_lookup key (deployments db) of
                  None \<Rightarrow> (Inl RepoNotFound, db)
                | Some row \<Rightarrow> (Inr (f row), db\<lparr>deployments := dep_modify key f (deployments db)\<rparr>))))"

definition new_row :: "time \<Rightarrow> string \<Rightarrow> string \<Rightarrow> CreateDeploymentParams \<Rightarrow> Deployment" where
  "new_row now uuid host params =
     \<lparr>dep_ID = uuid, dep_PanelID = cp_PanelID params,
      dep_TelegramOperatorUserID = cp_TelegramOperatorUserID params,
      dep_SelectedRemnawaveHostUUID = host,
      dep_SelectedHostRemark = cp_SelectedHostRemark params,
      dep_SNIDomain = cp_SNIDomain params, dep_NodeName = cp_NodeName params,
      dep_TargetVPSIP = cp_TargetVPSIP params, dep_RemnawaveNodeUUID = None,
      dep_SSHHostKeyFingerprint = None, dep_Status = StatusCreated, dep_CurrentStep = ''created'',
      dep_SafeErrorCode = None, dep_SafeErrorMessage = None, dep_CreatedAt = now,
      dep_UpdatedAt = now, dep_StartedAt = None, dep_CompletedAt = None\<rparr>"

text \<open>\<^verbatim>\<open>CreateDeployment\<close>; an \<^verbatim>\<open>INET\<close> column takes no zone, and a used id breaks the primary key.\<close>

definition CreateDeployment ::
  "db_outcome \<Rightarrow> time \<Rightarrow> 8 word list option \<Rightarrow> CreateDeploymentParams \<Rightarrow> database
     \<Rightarrow> (go_error + Deployment) \<times> database" where
  "CreateDeployment oc now random params db =
     (let params = (if TrimSpace (cp_PanelID params) = [] then params\<lparr>cp_PanelID := ''default''\<rparr> else params);
          new_id = (if cp_ID params = [] then NewID random else Some (cp_ID params))
      in case new_id of
        None \<Rightarrow> (Inl (OtherErr ''generate deployment UUID''), db)
      | Some uuid \<Rightarrow>
          let params = params\<lparr>cp_ID := uuid\<rparr> in
          if \<not> validateCreate params then (Inl RepoInvalidArgument, db)
          else
            (case (uuid_column uuid, uuid_column (cp_SelectedRemnawaveHostUUID params)) of
               (Some key, Some host) \<Rightarrow>
                 if Zone (cp_TargetVPSIP params) \<noteq> [] \<or> dep_lookup key (deployments db) \<noteq> None \<or> oc = DbError
                 then (Inl RepoQueryFailed, db)
                 else
                   let row = new_row now key host params;
                       db' = db\<lparr>deployments := tbl_insert row (deployments db)\<rparr>
                   in if oc = DbLost then (Inl RepoQueryFailed, db') else (Inr row, db')
             | _ \<Rightarrow> (Inl RepoQueryFailed, db)))"

definition GetDeployment :: "db_outcome \<Rightarrow> string \<Rightarrow> database \<Rightarrow> go_error + Deployment" where
  "GetDeployment oc uuid db =
     (if \<not> validUUID uuid then Inl RepoInvalidArgument
      else case uuid_column uuid of
        None \<Rightarrow> Inl RepoQueryFailed
      | Some key \<Rightarrow>
          if oc \<noteq> DbOk then Inl RepoQueryFailed
          else (case dep_lookup key (deployments db) of
                  None \<Rightarrow> Inl RepoNotFound
                | Some row \<Rightarrow> Inr row))"

text \<open>The \<^verbatim>\<open>SET\<close> clause of \<^verbatim>\<open>UpdateDeploymentState\<close>, with its two \<^verbatim>\<open>COALESCE\<close> timestamps.\<close>

definition coalesce :: "'a option \<Rightarrow> 'a \<Rightarrow> 'a option" where
  "coalesce x d = (case x of None \<Rightarrow> Some d | Some v \<Rightarrow> Some v)"

definition state_row :: "time \<Rightarrow> UpdateDeploymentStateParams \<Rightarrow> Deployment \<Rightarrow> Deployment" where
  "state_row now params row =
     row\<lparr>dep_Status := up_Status params,
         dep_CurrentStep := up_CurrentStep params,
         dep_SafeErrorCode := up_SafeErrorCode params,
         dep_SafeErrorMessage := up_SafeErrorMessage params,
         dep_StartedAt := (if up_Status params \<noteq> StatusCreated then coalesce (dep_StartedAt row) now
                           else dep_StartedAt row),
         dep_CompletedAt := (if up_Status params \<in> {StatusCompleted, StatusFailed, StatusCancelled,
                                                     StatusDNSFailed, StatusManualReview}
                             then coalesce (dep_CompletedAt row) now else None),
         dep_UpdatedAt := now\<rparr>"

definition UpdateDeploymentState ::
  "db_outcome \<Rightarrow> time \<Rightarrow> string \<Rightarrow> UpdateDeploymentStateParams \<Rightarrow> database
     \<Rightarrow> (go_error + Deployment) \<times> database" where
  "UpdateDeploymentState oc now uuid params db =
     (if \<not> validUUID uuid then (Inl RepoInvalidArgument, db)
      else if \<not> Status_Valid (up_Status params) then (Inl RepoInvalidArgument, db)
      else if TrimSpace (up_CurrentStep params) = [] then (Inl RepoInvalidArgument, db)
      else update_returning oc uuid (state_row now params) db)"

definition SetRemnawaveNodeUUID ::
  "db_outcome \<Rightarrow> time \<Rightarrow> string \<Rightarrow> string \<Rightarrow> database \<Rightarrow> (go_error + Deployment) \<times> database" where
  "SetRemnawaveNodeUUID oc now uuid nodeUUID db =
     (if \<not> validUUID uuid then (Inl RepoInvalidArgument, db)
      else if \<not> validUUID nodeUUID then (Inl RepoInvalidArgument, db)
      else case uuid_column nodeUUID of
        None \<Rightarrow> (Inl RepoQueryFailed, db)
      | Some n \<Rightarrow>
          update_returning oc uuid
            (\<lambda>row. row\<lparr>dep_RemnawaveNodeUUID := Some n, dep_UpdatedAt := now\<rparr>) db)"

definition SetTargetVPSIP ::
  "db_outcome \<Rightarrow> time \<Rightarrow> string \<Rightarrow> addr \<Rightarrow> database \<Rightarrow> (go_error + Deployment) \<times> database" where
  "SetTargetVPSIP oc now uuid address db =
     (if \<not> validUUID uuid \<or> \<not> IsValid address then (Inl RepoInvalidArgument, db)
      else if Zone (Unmap address) \<noteq> [] then (Inl RepoQueryFailed, db)
      else update_returning oc uuid
             (\<lambda>row. row\<lparr>dep_TargetVPSIP := Unmap address, dep_UpdatedAt := now\<rparr>) db)"

definition SetNodeHostBinding ::
  "db_outcome \<Rightarrow> time \<Rightarrow> string \<Rightarrow> SetNodeHostBindingParams \<Rightarrow> database
     \<Rightarrow> (go_error + Deployment) \<times> database" where
  "SetNodeHostBinding oc now uuid params db =
     (if \<not> validUUID uuid \<or> \<not> validUUID (hb_HostUUID params) \<or> TrimSpace (hb_HostRemark params) = []
         \<or> TrimSpace (hb_SNIDomain params) = [] then (Inl RepoInvalidArgument, db)
      else case uuid_column (hb_HostUUID params) of
        None \<Rightarrow> (Inl RepoQueryFailed, db)
      | Some h \<Rightarrow>
          update_returning oc uuid
            (\<lambda>row. row\<lparr>dep_SelectedRemnawaveHostUUID := h,
                       dep_SelectedHostRemark := TrimSpace (hb_HostRemark params),
                       dep_SNIDomain := TrimSpace (hb_SNIDomain params),
                       dep_UpdatedAt := now\<rparr>) db)"

section \<open>Steps\<close>

definition step_terminal_text :: "StepStatus \<Rightarrow> bool" where
  "step_terminal_text st \<longleftrightarrow> st \<in> {StepStatusCompleted, StepStatusFailed, StepStatusSkipped}"

definition inserted_step :: "time \<Rightarrow> string \<Rightarrow> RecordStepParams \<Rightarrow> Step" where
  "inserted_step now key params =
     \<lparr>step_DeploymentID = key, step_Name = rp_Name params, step_Status = rp_Status params,
      step_SafeSummary = rp_SafeSummary params, step_ErrorMessage = rp_ErrorMessage params,
      step_StartedAt = (if rp_Status params = StepStatusPending then None else Some now),
      step_CompletedAt = (if step_terminal_text (rp_Status params) then Some now else None)\<rparr>"

definition conflicting_step :: "time \<Rightarrow> RecordStepParams \<Rightarrow> Step \<Rightarrow> Step" where
  "conflicting_step now params row =
     row\<lparr>step_Status := rp_Status params,
         step_SafeSummary := rp_SafeSummary params,
         step_ErrorMessage := rp_ErrorMessage params,
         step_StartedAt := (if rp_Status params = StepStatusPending then step_StartedAt row
                            else coalesce (step_StartedAt row) now),
         step_CompletedAt := (if step_terminal_text (rp_Status params)
                              then coalesce (step_CompletedAt row) now else None)\<rparr>"

text \<open>The upsert \<^verbatim>\<open>INSERT ... ON CONFLICT (deployment_id, step_name) DO UPDATE\<close>.\<close>

definition upsert_step :: "time \<Rightarrow> string \<Rightarrow> RecordStepParams \<Rightarrow> Step list \<Rightarrow> Step \<times> Step list" where
  "upsert_step now key params rows =
     (case tbl_lookup step_key (key, rp_Name params) rows of
        None \<Rightarrow> (inserted_step now key params, tbl_insert (inserted_step now key params) rows)
      | Some row \<Rightarrow> (conflicting_step now params row,
                      tbl_modify step_key (key, rp_Name params) (conflicting_step now params) rows))"

text \<open>
  \<^verbatim>\<open>RecordDeploymentStep\<close>: one transaction that touches the deployment row (a \<^verbatim>\<open>RUNNING\<close> step
  becomes the current step) and upserts the step.  \<open>DbError\<close> is a failure before or inside the
  transaction, which is rolled back.
\<close>

definition touch_row :: "time \<Rightarrow> RecordStepParams \<Rightarrow> Deployment \<Rightarrow> Deployment" where
  "touch_row now params row =
     row\<lparr>dep_CurrentStep := (if rp_Status params = StepStatusRunning then rp_Name params
                             else dep_CurrentStep row),
         dep_UpdatedAt := now\<rparr>"

definition RecordDeploymentStep ::
  "db_outcome \<Rightarrow> time \<Rightarrow> RecordStepParams \<Rightarrow> database \<Rightarrow> (go_error + Step) \<times> database" where
  "RecordDeploymentStep oc now params db =
     (if \<not> validUUID (rp_DeploymentID params) then (Inl RepoInvalidArgument, db)
      else if TrimSpace (rp_Name params) = [] then (Inl RepoInvalidArgument, db)
      else if \<not> StepStatus_Valid (rp_Status params) then (Inl RepoInvalidArgument, db)
      else case uuid_column (rp_DeploymentID params) of
        None \<Rightarrow> (Inl RepoQueryFailed, db)
      | Some key \<Rightarrow>
          if oc = DbError then (Inl RepoQueryFailed, db)
          else if dep_lookup key (deployments db) = None then (Inl RepoNotFound, db)
          else
            let (row, steps) = upsert_step now key params (deployment_steps db);
                db' = db\<lparr>deployments := dep_modify key (touch_row now params) (deployments db),
                         deployment_steps := steps\<rparr>
            in if oc = DbLost then (Inl RepoQueryFailed, db') else (Inr row, db'))"

definition step_before :: "Step \<Rightarrow> Step \<Rightarrow> bool" where
  "step_before a b =
     (case (step_StartedAt a, step_StartedAt b) of
        (None, Some _) \<Rightarrow> True
      | (Some _, None) \<Rightarrow> False
      | (Some x, Some y) \<Rightarrow> x < y \<or> x = y \<and> string_less (step_Name a) (step_Name b)
      | (None, None) \<Rightarrow> string_less (step_Name a) (step_Name b))"

definition ListDeploymentSteps :: "db_outcome \<Rightarrow> string \<Rightarrow> database \<Rightarrow> go_error + Step list" where
  "ListDeploymentSteps oc uuid db =
     (if \<not> validUUID uuid then Inl RepoInvalidArgument
      else case uuid_column uuid of
        None \<Rightarrow> Inl RepoQueryFailed
      | Some key \<Rightarrow>
          if oc \<noteq> DbOk then Inl RepoQueryFailed
          else Inr (sort_by step_before
                 (filter (\<lambda>r. step_DeploymentID r = key) (deployment_steps db))))"

section \<open>Queries over deployments\<close>

definition newest_first :: "Deployment \<Rightarrow> Deployment \<Rightarrow> bool" where
  "newest_first a b \<longleftrightarrow> dep_CreatedAt b < dep_CreatedAt a \<or>
     dep_CreatedAt a = dep_CreatedAt b \<and> string_less (dep_ID b) (dep_ID a)"

definition stale_first :: "Deployment \<Rightarrow> Deployment \<Rightarrow> bool" where
  "stale_first a b \<longleftrightarrow> dep_UpdatedAt a < dep_UpdatedAt b \<or>
     dep_UpdatedAt a = dep_UpdatedAt b \<and> string_less (dep_ID a) (dep_ID b)"

definition unfinished :: "Deployment \<Rightarrow> bool" where
  "unfinished row \<longleftrightarrow> dep_Status row \<notin> {StatusCompleted, StatusFailed, StatusCancelled,
     StatusDNSFailed, StatusManualReview}"

definition list_rows ::
  "db_outcome \<Rightarrow> int \<Rightarrow> (Deployment \<Rightarrow> bool) \<Rightarrow> (Deployment \<Rightarrow> Deployment \<Rightarrow> bool) \<Rightarrow> database
     \<Rightarrow> go_error + Deployment list" where
  "list_rows oc limit sel ord db =
     (if limit < 1 \<or> 100 < limit then Inl RepoInvalidArgument
      else if oc \<noteq> DbOk then Inl RepoQueryFailed
      else Inr (take (nat limit) (sort_by ord (filter sel (deployments db)))))"

definition ListRecentDeployments :: "db_outcome \<Rightarrow> int \<Rightarrow> database \<Rightarrow> go_error + Deployment list" where
  "ListRecentDeployments oc limit db = list_rows oc limit (\<lambda>_. True) newest_first db"

definition FindUnfinishedDeployments :: "db_outcome \<Rightarrow> int \<Rightarrow> database \<Rightarrow> go_error + Deployment list" where
  "FindUnfinishedDeployments oc limit db = list_rows oc limit unfinished stale_first db"

definition FindUnfinishedDeploymentsByPanel ::
  "db_outcome \<Rightarrow> string \<Rightarrow> int \<Rightarrow> database \<Rightarrow> go_error + Deployment list" where
  "FindUnfinishedDeploymentsByPanel oc panelID limit db =
     (if \<not> validPanelID panelID then Inl RepoInvalidArgument
      else list_rows oc limit (\<lambda>row. dep_PanelID row = panelID \<and> unfinished row) stale_first db)"

definition FindDeploymentByPanelNodeUUID ::
  "db_outcome \<Rightarrow> string \<Rightarrow> string \<Rightarrow> database \<Rightarrow> go_error + Deployment" where
  "FindDeploymentByPanelNodeUUID oc panelID nodeUUID db =
     (if \<not> validPanelID panelID \<or> \<not> validUUID nodeUUID then Inl RepoInvalidArgument
      else case uuid_column nodeUUID of
        None \<Rightarrow> Inl RepoQueryFailed
      | Some n \<Rightarrow>
          if oc \<noteq> DbOk then Inl RepoQueryFailed
          else (case sort_by (\<lambda>a b. dep_UpdatedAt b < dep_UpdatedAt a)
                       (filter (\<lambda>row. dep_PanelID row = panelID \<and> dep_RemnawaveNodeUUID row = Some n)
                          (deployments db)) of
                  [] \<Rightarrow> Inl RepoNotFound
                | row # _ \<Rightarrow> Inr row))"

section \<open>Well-formed databases\<close>

definition dep_row_ok :: "Deployment \<Rightarrow> bool" where
  "dep_row_ok row \<longleftrightarrow>
     Status_Valid (dep_Status row) \<and>
     (dep_CompletedAt row \<noteq> None \<longleftrightarrow> Status_Terminal (dep_Status row)) \<and>
     (dep_StartedAt row = None \<longrightarrow> dep_Status row = StatusCreated) \<and>
     ToLower (dep_ID row) = dep_ID row"

definition step_row_ok :: "Step \<Rightarrow> bool" where
  "step_row_ok row \<longleftrightarrow>
     StepStatus_Valid (step_Status row) \<and>
     (step_CompletedAt row \<noteq> None \<longleftrightarrow> StepStatus_Terminal (step_Status row)) \<and>
     (step_CompletedAt row \<noteq> None \<longrightarrow> step_StartedAt row \<noteq> None)"

definition db_wf :: "database \<Rightarrow> bool" where
  "db_wf db \<longleftrightarrow>
     tbl_distinct dep_ID (deployments db) \<and> (\<forall>row \<in> set (deployments db). dep_row_ok row) \<and>
     tbl_distinct step_key (deployment_steps db) \<and>
     (\<forall>row \<in> set (deployment_steps db). step_row_ok row \<and>
        dep_lookup (step_DeploymentID row) (deployments db) \<noteq> None)"

text \<open>Both tables satisfy the table interface.\<close>

interpretation dep_tbl: table dep_ID dep_lookup dep_modify tbl_insert "tbl_distinct dep_ID" set
  by (rule tbl_table)

interpretation step_tbl: table step_key "tbl_lookup step_key" "tbl_modify step_key" tbl_insert
    "tbl_distinct step_key" set
  by (rule tbl_table)

lemma dep_ID_kept [simp]:
  "dep_ID (state_row now params row) = dep_ID row"
  "dep_ID (touch_row now rp row) = dep_ID row"
  by (simp_all add: state_row_def touch_row_def)

lemma step_key_kept [simp]: "step_key (conflicting_step now params row) = step_key row"
  by (simp add: step_key_def conflicting_step_def)

lemma step_key_inserted [simp]: "step_key (inserted_step now key params) = (key, rp_Name params)"
  by (simp add: step_key_def inserted_step_def)

lemma step_DeploymentID_simps [simp]:
  "step_DeploymentID (conflicting_step now params row) = step_DeploymentID row"
  "step_DeploymentID (inserted_step now key params) = key"
  by (simp_all add: conflicting_step_def inserted_step_def)

lemma state_row_ok: "Status_Valid (up_Status params) \<Longrightarrow> dep_row_ok row \<Longrightarrow> dep_row_ok (state_row now params row)"
  by (cases "up_Status params")
    (auto simp: dep_row_ok_def state_row_def coalesce_def split: option.splits)

lemma conflicting_step_ok:
  "StepStatus_Valid (rp_Status params) \<Longrightarrow> step_row_ok row \<Longrightarrow> step_row_ok (conflicting_step now params row)"
  by (cases "rp_Status params")
    (auto simp: step_row_ok_def conflicting_step_def coalesce_def step_terminal_text_def split: option.splits)

lemma inserted_step_ok: "StepStatus_Valid (rp_Status params) \<Longrightarrow> step_row_ok (inserted_step now key params)"
  by (cases "rp_Status params") (auto simp: step_row_ok_def inserted_step_def step_terminal_text_def)

lemma dep_lookup_modify_None:
  "(\<And>r. dep_ID (f r) = dep_ID r) \<Longrightarrow>
     dep_lookup j (dep_modify k f rows) = None \<longleftrightarrow> dep_lookup j rows = None"
  by (auto simp: dep_tbl.lookup_modify)

text \<open>An update that keeps the row condition keeps the whole database well-formed.\<close>

lemma db_wf_modify:
  assumes "db_wf db" and "\<And>r. dep_ID (f r) = dep_ID r" and "\<And>r. dep_row_ok r \<Longrightarrow> dep_row_ok (f r)"
  shows "db_wf (db\<lparr>deployments := dep_modify k f (deployments db)\<rparr>)"
  using assms dep_tbl.keyed_modify [of f "deployments db" k] dep_tbl.modify_all [of "deployments db" dep_row_ok f k]
  by (simp add: db_wf_def dep_lookup_modify_None)

lemma update_returning_wf:
  assumes "db_wf db" and "\<And>r. dep_ID (f r) = dep_ID r" and "\<And>r. dep_row_ok r \<Longrightarrow> dep_row_ok (f r)"
  shows "db_wf (snd (update_returning oc uuid f db))"
  using assms by (auto simp: update_returning_def db_wf_modify split: option.splits db_outcome.splits)

lemma update_returning_Inr:
  assumes "update_returning oc uuid f db = (Inr row, db')" and "\<And>r. dep_ID (f r) = dep_ID r"
  obtains key old where "uuid_column uuid = Some key" and "oc = DbOk"
    and "dep_lookup key (deployments db) = Some old" and "row = f old"
    and "db' = db\<lparr>deployments := dep_modify key f (deployments db)\<rparr>"
    and "dep_lookup key (deployments db') = Some row"
proof -
  from assms(1) obtain key old where *: "uuid_column uuid = Some key" "oc = DbOk"
      "dep_lookup key (deployments db) = Some old" "row = f old"
      "db' = db\<lparr>deployments := dep_modify key f (deployments db)\<rparr>"
    by (auto simp: update_returning_def split: option.splits db_outcome.splits)
  moreover have "dep_lookup key (deployments db') = Some row"
    using * assms(2) by (simp add: dep_tbl.lookup_modify)
  ultimately show thesis by (rule that)
qed

lemma upsert_step_keyed:
  "tbl_distinct step_key rows \<Longrightarrow> tbl_distinct step_key (snd (upsert_step now key params rows))"
  using step_tbl.keyed_modify [of "conflicting_step now params" rows "(key, rp_Name params)"]
    step_tbl.keyed_add [of "inserted_step now key params" rows]
  by (auto simp: upsert_step_def split: option.splits)

lemma upsert_step_rows:
  "r \<in> set (snd (upsert_step now key params rows)) \<Longrightarrow>
     r \<in> set rows \<or> r = inserted_step now key params \<or> (\<exists>r0 \<in> set rows. r = conflicting_step now params r0)"
  by (auto simp: upsert_step_def tbl_insert_def tbl_modify_def split: option.splits if_splits)

lemma upsert_step_lookup:
  "tbl_lookup step_key (key, rp_Name params) (snd (upsert_step now key params rows)) =
     Some (fst (upsert_step now key params rows))"
  using step_tbl.add_then_lookup [of "inserted_step now key params" rows]
  by (auto simp: upsert_step_def step_tbl.lookup_modify split: option.splits)

lemma touch_row_ok: "dep_row_ok row \<Longrightarrow> dep_row_ok (touch_row now params row)"
  by (simp add: dep_row_ok_def touch_row_def)

lemma record_step_wf:
  assumes wf: "db_wf db" and valid: "StepStatus_Valid (rp_Status params)"
    and known: "dep_lookup key (deployments db) \<noteq> None"
  shows "db_wf (db\<lparr>deployments := dep_modify key (touch_row now params) (deployments db),
    deployment_steps := snd (upsert_step now key params (deployment_steps db))\<rparr>)"
proof -
  let ?deps = "dep_modify key (touch_row now params) (deployments db)"
  let ?steps = "snd (upsert_step now key params (deployment_steps db))"
  have "step_row_ok r \<and> dep_lookup (step_DeploymentID r) ?deps \<noteq> None" if "r \<in> set ?steps" for r
    using upsert_step_rows [OF that] wf known valid
    by (auto simp: db_wf_def dep_lookup_modify_None inserted_step_ok conflicting_step_ok)
  moreover have "tbl_distinct step_key ?steps"
    using wf by (simp add: db_wf_def upsert_step_keyed)
  moreover have "tbl_distinct dep_ID ?deps" and "\<forall>r \<in> set ?deps. dep_row_ok r"
    using wf dep_tbl.keyed_modify [of "touch_row now params" "deployments db" key]
      dep_tbl.modify_all [of "deployments db" dep_row_ok "touch_row now params" key] touch_row_ok
    by (simp_all add: db_wf_def)
  ultimately show ?thesis by (simp add: db_wf_def)
qed

lemma CreateDeployment_wf: "db_wf db \<Longrightarrow> db_wf (snd (CreateDeployment oc now random params db))"
proof -
  assume wf: "db_wf db"
  have insert: "db_wf (db\<lparr>deployments := tbl_insert row (deployments db)\<rparr>)"
    if "dep_row_ok row" "dep_lookup (dep_ID row) (deployments db) = None" for row
    using wf that dep_tbl.keyed_add [of row "deployments db"] dep_tbl.add_all [of "deployments db" dep_row_ok row]
    by (auto simp: db_wf_def dep_tbl.lookup_add)
  have row: "dep_row_ok (new_row now key host p)" "dep_ID (new_row now key host p) = key"
    if "uuid_column u = Some key" for key host p u
    using that by (auto simp: dep_row_ok_def new_row_def uuid_column_def split: if_splits)
  show ?thesis
    using wf insert row
    by (auto simp: CreateDeployment_def Let_def split: option.splits)
qed

lemma UpdateDeploymentState_wf: "db_wf db \<Longrightarrow> db_wf (snd (UpdateDeploymentState oc now uuid params db))"
  by (simp add: UpdateDeploymentState_def update_returning_wf state_row_ok)

lemma SetRemnawaveNodeUUID_wf: "db_wf db \<Longrightarrow> db_wf (snd (SetRemnawaveNodeUUID oc now uuid n db))"
  by (auto simp: SetRemnawaveNodeUUID_def dep_row_ok_def intro!: update_returning_wf split: option.splits)

lemma SetTargetVPSIP_wf: "db_wf db \<Longrightarrow> db_wf (snd (SetTargetVPSIP oc now uuid a db))"
  by (auto simp: SetTargetVPSIP_def dep_row_ok_def intro!: update_returning_wf)

lemma SetNodeHostBinding_wf: "db_wf db \<Longrightarrow> db_wf (snd (SetNodeHostBinding oc now uuid params db))"
  by (auto simp: SetNodeHostBinding_def dep_row_ok_def intro!: update_returning_wf split: option.splits)

lemma RecordDeploymentStep_wf: "db_wf db \<Longrightarrow> db_wf (snd (RecordDeploymentStep oc now params db))"
  using record_step_wf [of db params]
  by (auto simp: RecordDeploymentStep_def Let_def case_prod_beta split: option.splits)

lemmas repository_wf = CreateDeployment_wf UpdateDeploymentState_wf SetRemnawaveNodeUUID_wf
  SetTargetVPSIP_wf SetNodeHostBinding_wf RecordDeploymentStep_wf

section \<open>Properties\<close>

text \<open>
  C31. Every operation of the repository keeps the database well-formed, whatever becomes of its
  statement: identifiers and (deployment, step) pairs stay unique, a row has a completion time
  exactly when its status is terminal, a start time as soon as it has left \<open>CREATED\<close>, and every
  step belongs to a stored deployment.
\<close>

theorem repository_keeps_db_wf:
  assumes "db_wf db"
  shows "db_wf (snd (CreateDeployment oc now random cp db)) \<and>
    db_wf (snd (UpdateDeploymentState oc now uuid up db)) \<and>
    db_wf (snd (SetRemnawaveNodeUUID oc now uuid node db)) \<and>
    db_wf (snd (SetTargetVPSIP oc now uuid address db)) \<and>
    db_wf (snd (SetNodeHostBinding oc now uuid hb db)) \<and>
    db_wf (snd (RecordDeploymentStep oc now rp db))"
  using assms by (simp add: repository_wf)

theorem repository_keeps_db_wf_witness:
  "db_wf \<lparr>deployments = [], deployment_steps = []\<rparr> \<and>
   db_wf (snd (CreateDeployment DbOk 5 (Some (replicate 16 7))
     \<lparr>cp_ID = [], cp_PanelID = ''default'', cp_TelegramOperatorUserID = 1,
      cp_SelectedRemnawaveHostUUID = ''11111111-1111-1111-1111-111111111111'',
      cp_SelectedHostRemark = ''h'', cp_SNIDomain = ''a.b'', cp_NodeName = ''node'',
      cp_TargetVPSIP = Addr4 1\<rparr> \<lparr>deployments = [], deployment_steps = []\<rparr>))"
proof -
  have e: "db_wf \<lparr>deployments = [], deployment_steps = []\<rparr>"
    by (simp add: db_wf_def tbl_distinct_def)
  show ?thesis using repository_keeps_db_wf [OF e] e by blast
qed

text \<open>
  A state update that succeeds is read back: the row has the new status, step and error
  fields, its start time is set once and kept, its completion time is set exactly for a terminal
  status, its node, host and address are untouched, no other deployment and no step changes.
\<close>

theorem UpdateDeploymentState_readback:
  assumes "UpdateDeploymentState oc now uuid params db = (Inr row, db')" and "db_wf db"
  shows "GetDeployment DbOk uuid db' = Inr row \<and>
    dep_Status row = up_Status params \<and> dep_CurrentStep row = up_CurrentStep params \<and>
    dep_SafeErrorCode row = up_SafeErrorCode params \<and>
    (dep_CompletedAt row \<noteq> None \<longleftrightarrow> Status_Terminal (up_Status params)) \<and>
    (\<exists>old. GetDeployment DbOk uuid db = Inr old \<and>
       dep_RemnawaveNodeUUID row = dep_RemnawaveNodeUUID old \<and> dep_TargetVPSIP row = dep_TargetVPSIP old \<and>
       (dep_StartedAt old \<noteq> None \<longrightarrow> dep_StartedAt row = dep_StartedAt old)) \<and>
    (\<forall>other. uuid_column other \<noteq> uuid_column uuid \<longrightarrow> GetDeployment DbOk other db' = GetDeployment DbOk other db) \<and>
    deployment_steps db' = deployment_steps db"
proof -
  from assms(1) have v: "validUUID uuid" "Status_Valid (up_Status params)"
    and u: "update_returning oc uuid (state_row now params) db = (Inr row, db')"
    by (auto simp: UpdateDeploymentState_def split: if_splits)
  obtain key old where key: "uuid_column uuid = Some key" and old: "dep_lookup key (deployments db) = Some old"
    and row: "row = state_row now params old"
    and db': "db' = db\<lparr>deployments := dep_modify key (state_row now params) (deployments db)\<rparr>"
    and new: "dep_lookup key (deployments db') = Some row"
    by (rule update_returning_Inr [OF u]) simp
  have "dep_row_ok old"
    using dep_tbl.lookup_key [OF old] assms(2) by (auto simp: db_wf_def)
  then have ok: "dep_row_ok row" using row v(2) by (simp add: state_row_ok)
  have others: "GetDeployment DbOk other db' = GetDeployment DbOk other db"
    if "uuid_column other \<noteq> uuid_column uuid" for other
  proof (cases "uuid_column other")
    case (Some k)
    with that key have "k \<noteq> key" by auto
    then have "dep_lookup k (deployments db') = dep_lookup k (deployments db)"
      by (simp add: db' dep_tbl.lookup_modify)
    with Some show ?thesis by (simp add: GetDeployment_def)
  qed (simp add: GetDeployment_def)
  have get: "GetDeployment DbOk uuid db' = Inr row" "GetDeployment DbOk uuid db = Inr old"
    using v(1) key old new by (simp_all add: GetDeployment_def)
  have fields: "dep_Status row = up_Status params" "dep_CurrentStep row = up_CurrentStep params"
    "dep_SafeErrorCode row = up_SafeErrorCode params"
    "dep_RemnawaveNodeUUID row = dep_RemnawaveNodeUUID old" "dep_TargetVPSIP row = dep_TargetVPSIP old"
    by (simp_all add: row state_row_def)
  have started: "dep_StartedAt old \<noteq> None \<Longrightarrow> dep_StartedAt row = dep_StartedAt old"
    by (auto simp: row state_row_def coalesce_def)
  have completed: "dep_CompletedAt row \<noteq> None \<longleftrightarrow> Status_Terminal (up_Status params)"
    using ok fields(1) by (simp add: dep_row_ok_def)
  have steps: "deployment_steps db' = deployment_steps db" by (simp add: db')
  show ?thesis
    using get fields started completed others steps by (intro conjI allI impI exI [of _ old])
qed

definition sample_row :: Deployment where
  "sample_row = new_row 1 ''0a000000-0000-4000-8000-000000000001'' ''11111111-1111-1111-1111-111111111111''
     \<lparr>cp_ID = [], cp_PanelID = ''default'', cp_TelegramOperatorUserID = 1,
      cp_SelectedRemnawaveHostUUID = [], cp_SelectedHostRemark = ''h'', cp_SNIDomain = ''a.example'',
      cp_NodeName = ''node'', cp_TargetVPSIP = Addr4 0x08080808\<rparr>"

definition sample_db :: database where
  "sample_db = \<lparr>deployments = [sample_row], deployment_steps = []\<rparr>"

lemma sample_db_wf: "db_wf sample_db"
  by code_simp

theorem UpdateDeploymentState_readback_witness:
  "\<exists>row db'. UpdateDeploymentState DbOk 9 (dep_ID sample_row)
       \<lparr>up_Status = StatusFailed, up_CurrentStep = ''preflight'', up_SafeErrorCode = None,
        up_SafeErrorMessage = None\<rparr> sample_db = (Inr row, db') \<and>
     GetDeployment DbOk (dep_ID sample_row) db' = Inr row \<and> dep_CompletedAt row \<noteq> None"
proof -
  let ?p = "\<lparr>up_Status = StatusFailed, up_CurrentStep = ''preflight'', up_SafeErrorCode = None,
        up_SafeErrorMessage = None\<rparr>"
  have run: "case fst (UpdateDeploymentState DbOk 9 (dep_ID sample_row) ?p sample_db) of
      Inl _ \<Rightarrow> False | Inr row \<Rightarrow> dep_CompletedAt row \<noteq> None"
    by code_simp
  obtain row db' where r: "UpdateDeploymentState DbOk 9 (dep_ID sample_row) ?p sample_db = (Inr row, db')"
    and c: "dep_CompletedAt row \<noteq> None"
    using run by (cases "UpdateDeploymentState DbOk 9 (dep_ID sample_row) ?p sample_db") (auto split: sum.splits)
  show ?thesis using UpdateDeploymentState_readback [OF r sample_db_wf] r c by blast
qed

lemma filter_single_key:
  assumes "tbl_distinct key rows" and "tbl_lookup key k rows = Some r"
  shows "filter (\<lambda>x. key x = k) rows = [r]"
  using assms
  by (induction rows) (auto simp: tbl_distinct_def tbl_lookup_def filter_empty_conv image_iff split: if_splits)

lemma RecordDeploymentStep_Inr:
  assumes "RecordDeploymentStep oc now rp db = (Inr row, db')"
  obtains key where "validUUID (rp_DeploymentID rp)" and "uuid_column (rp_DeploymentID rp) = Some key"
    and "oc = DbOk" and "dep_lookup key (deployments db) \<noteq> None"
    and "row = fst (upsert_step now key rp (deployment_steps db))"
    and "db' = db\<lparr>deployments := dep_modify key (touch_row now rp) (deployments db),
      deployment_steps := snd (upsert_step now key rp (deployment_steps db))\<rparr>"
proof -
  from assms show thesis
    by (cases oc)
      (auto simp: RecordDeploymentStep_def Let_def case_prod_beta intro!: that split: option.splits if_splits)
qed

lemma upsert_step_fields:
  "step_Status (fst (upsert_step now key rp rows)) = rp_Status rp"
  "step_ErrorMessage (fst (upsert_step now key rp rows)) = rp_ErrorMessage rp"
  "tbl_lookup step_key (key, rp_Name rp) rows = Some old \<Longrightarrow> step_StartedAt old \<noteq> None \<Longrightarrow>
     step_StartedAt (fst (upsert_step now key rp rows)) = step_StartedAt old"
  by (auto simp: upsert_step_def inserted_step_def conflicting_step_def coalesce_def split: option.splits)

text \<open>
  Recording a step keeps one row per step name: after a successful call the table has exactly
  one row for the deployment and the name, with the new status and message; a start time once
  recorded is kept, a running step becomes the current step, and the deployment's status is
  untouched.
\<close>

theorem RecordDeploymentStep_one_row:
  assumes "RecordDeploymentStep oc now rp db = (Inr row, db')" and "db_wf db"
  shows "\<exists>key. uuid_column (rp_DeploymentID rp) = Some key \<and>
    filter (\<lambda>r. step_key r = (key, rp_Name rp)) (deployment_steps db') = [row] \<and>
    step_Status row = rp_Status rp \<and> step_ErrorMessage row = rp_ErrorMessage rp \<and>
    (\<forall>old \<in> set (deployment_steps db). step_key old = (key, rp_Name rp) \<and> step_StartedAt old \<noteq> None \<longrightarrow>
       step_StartedAt row = step_StartedAt old) \<and>
    (\<exists>d d'. GetDeployment DbOk (rp_DeploymentID rp) db = Inr d \<and> GetDeployment DbOk (rp_DeploymentID rp) db' = Inr d' \<and>
       dep_Status d' = dep_Status d \<and>
       (rp_Status rp = StepStatusRunning \<longrightarrow> dep_CurrentStep d' = rp_Name rp))"
proof -
  obtain key where v: "validUUID (rp_DeploymentID rp)" and key: "uuid_column (rp_DeploymentID rp) = Some key"
    and dep: "dep_lookup key (deployments db) \<noteq> None"
    and row: "row = fst (upsert_step now key rp (deployment_steps db))"
    and db': "db' = db\<lparr>deployments := dep_modify key (touch_row now rp) (deployments db),
      deployment_steps := snd (upsert_step now key rp (deployment_steps db))\<rparr>"
    by (rule RecordDeploymentStep_Inr [OF assms(1)])
  from assms(2) have dist: "tbl_distinct step_key (deployment_steps db)" by (simp add: db_wf_def)
  have one: "filter (\<lambda>r. step_key r = (key, rp_Name rp)) (deployment_steps db') = [row]"
    unfolding row db' using upsert_step_keyed [OF dist] upsert_step_lookup
    by (simp add: filter_single_key)
  have old: "step_StartedAt row = step_StartedAt r"
    if "r \<in> set (deployment_steps db)" "step_key r = (key, rp_Name rp)" "step_StartedAt r \<noteq> None" for r
    using upsert_step_fields(3) step_tbl.lookup_row [OF dist that(1)] that(2,3) by (simp add: row)
  obtain d where d: "dep_lookup key (deployments db) = Some d" using dep by blast
  have d': "dep_lookup key (deployments db') = Some (touch_row now rp d)"
    using d by (simp add: db' dep_tbl.lookup_modify)
  have get: "GetDeployment DbOk (rp_DeploymentID rp) db = Inr d"
    "GetDeployment DbOk (rp_DeploymentID rp) db' = Inr (touch_row now rp d)"
    using v key d d' by (simp_all add: GetDeployment_def)
  have fields: "step_Status row = rp_Status rp" "step_ErrorMessage row = rp_ErrorMessage rp"
    by (simp_all add: row upsert_step_fields)
  have touched: "dep_Status (touch_row now rp d) = dep_Status d"
    "rp_Status rp = StepStatusRunning \<Longrightarrow> dep_CurrentStep (touch_row now rp d) = rp_Name rp"
    by (simp_all add: touch_row_def)
  show ?thesis using key one fields old get touched
    by (intro exI [of _ key] conjI ballI impI exI [of _ d] exI [of _ "touch_row now rp d"]) auto
qed

theorem RecordDeploymentStep_one_row_witness:
  "\<exists>row db'. RecordDeploymentStep DbOk 9 \<lparr>rp_DeploymentID = dep_ID sample_row, rp_Name = ''preflight'',
       rp_Status = StepStatusRunning, rp_SafeSummary = None, rp_ErrorMessage = None\<rparr> sample_db = (Inr row, db') \<and>
     step_Status row = StepStatusRunning"
proof -
  let ?p = "\<lparr>rp_DeploymentID = dep_ID sample_row, rp_Name = ''preflight'',
       rp_Status = StepStatusRunning, rp_SafeSummary = None, rp_ErrorMessage = None\<rparr>"
  have run: "case fst (RecordDeploymentStep DbOk 9 ?p sample_db) of Inl _ \<Rightarrow> False | Inr _ \<Rightarrow> True"
    by code_simp
  obtain row db' where r: "RecordDeploymentStep DbOk 9 ?p sample_db = (Inr row, db')"
    using run by (cases "RecordDeploymentStep DbOk 9 ?p sample_db") (auto split: sum.splits)
  show ?thesis using RecordDeploymentStep_one_row [OF r sample_db_wf] r by fastforce
qed

lemma unfinished_iff: "unfinished row \<longleftrightarrow> \<not> Status_Terminal (dep_Status row)"
  by (cases "dep_Status row") (auto simp: unfinished_def)

interpretation stale: strict_weak_order stale_first
  unfolding stale_first_def by (rule number_then_name_order)

text \<open>
  The rows are the \<open>limit\<close> stalest of \<open>selected\<close>, or all of them: \<open>selected\<close> is these rows and a rest
  such that the rows followed by the rest are ordered with the one untouched for longest first.
\<close>

definition stalest :: "int \<Rightarrow> Deployment list \<Rightarrow> Deployment list \<Rightarrow> bool" where
  "stalest limit selected rows \<longleftrightarrow>
     (\<exists>rest. mset (rows @ rest) = mset selected \<and> sorted_wrt (\<lambda>a b. \<not> stale_first b a) (rows @ rest)) \<and>
     length rows = min (nat limit) (length selected)"

lemma list_rows_stalest:
  assumes "list_rows oc limit sel stale_first db = Inr rows"
  shows "1 \<le> limit \<and> limit \<le> 100 \<and> stalest limit (filter sel (deployments db)) rows"
proof -
  let ?selected = "filter sel (deployments db)"
  have lim: "1 \<le> limit" "limit \<le> 100" and rows: "rows = take (nat limit) (sort_by stale_first ?selected)"
    using assms by (auto simp: list_rows_def not_less split: if_splits)
  have split: "rows @ drop (nat limit) (sort_by stale_first ?selected) = sort_by stale_first ?selected"
    by (simp add: rows)
  have "length rows = min (nat limit) (length ?selected)"
    unfolding rows length_take by (simp add: min.commute)
  then show ?thesis
    unfolding stalest_def using lim split mset_sort_by stale.sorted_sort_by by metis
qed

text \<open>
  C32. The recovery query returns the \<open>limit\<close> deployments untouched for longest among those whose
  status is not terminal (in the sense of \<^verbatim>\<open>Status.Terminal\<close>), in that order, or all of them when
  there are fewer: no row it leaves out is staler than one it returns.  A limit is between 1 and 100.
\<close>

theorem FindUnfinishedDeployments_exact:
  assumes "FindUnfinishedDeployments oc limit db = Inr rows"
  shows "1 \<le> limit \<and> limit \<le> 100 \<and>
    stalest limit (filter (\<lambda>r. \<not> Status_Terminal (dep_Status r)) (deployments db)) rows"
  using list_rows_stalest [of oc limit unfinished db rows] assms
  by (simp add: FindUnfinishedDeployments_def unfinished_iff [abs_def])

text \<open>The same for the query of one panel.\<close>

lemma FindUnfinishedDeploymentsByPanel_exact:
  "FindUnfinishedDeploymentsByPanel oc panelID limit db = Inr rows \<Longrightarrow>
     stalest limit (filter (\<lambda>r. dep_PanelID r = panelID \<and> \<not> Status_Terminal (dep_Status r)) (deployments db)) rows"
  using list_rows_stalest [of oc limit "\<lambda>row. dep_PanelID row = panelID \<and> unfinished row" db rows]
  by (simp add: FindUnfinishedDeploymentsByPanel_def unfinished_iff split: if_splits)

lemma stalest_subset: "stalest limit selected rows \<Longrightarrow> set rows \<subseteq> set selected"
  unfolding stalest_def by (metis Un_upper1 set_append set_mset_mset)

theorem FindUnfinishedDeployments_exact_witness:
  "let newer = sample_row\<lparr>dep_UpdatedAt := dep_UpdatedAt sample_row + 5\<rparr> in
   FindUnfinishedDeployments DbOk 1 (sample_db\<lparr>deployments := [newer, sample_row]\<rparr>) = Inr [sample_row] \<and>
   \<not> stale_first newer sample_row"
proof -
  let ?newer = "sample_row\<lparr>dep_UpdatedAt := dep_UpdatedAt sample_row + 5\<rparr>"
  have r: "FindUnfinishedDeployments DbOk 1 (sample_db\<lparr>deployments := [?newer, sample_row]\<rparr>) = Inr [sample_row]"
    by (simp add: FindUnfinishedDeployments_def list_rows_def sample_db_def sort_by_def unfinished_def
        sample_row_def new_row_def stale_first_def)
  obtain rest where "mset ([sample_row] @ rest) = mset [?newer, sample_row]"
      and sorted: "sorted_wrt (\<lambda>a b. \<not> stale_first b a) ([sample_row] @ rest)"
    using FindUnfinishedDeployments_exact [OF r] by (auto simp: stalest_def sample_row_def new_row_def)
  then have "rest = [?newer]" by simp
  then show ?thesis using r sorted by (simp add: Let_def)
qed

end
