(* ===== verification/Dns_Zone.thy ===== *)
theory Dns_Zone
  imports Netip Go_Errors
begin

text \<open>
  The data of the DNS-balancer client (\<^verbatim>\<open>internal/dnsbalancer/models.go\<close>, \<^verbatim>\<open>wire.go\<close> and
  \<^verbatim>\<open>matching.go\<close>) and its pure functions: names of zones, the check of a response, and the
  lookup of a zone by its complete name.  A slice that Go distinguishes from \<^verbatim>\<open>nil\<close> is an
  option: \<open>None\<close> is \<^verbatim>\<open>nil\<close>.
\<close>

section \<open>Models\<close>

record ZoneNode =
  zn_IP :: string
  zn_Address :: string

record Zone =
  z_Name :: string
  z_TTL :: int
  z_Proxied :: bool
  z_IPs :: "string list option"
  z_Nodes :: "ZoneNode list option"

record Domain =
  d_Name :: string
  d_Zones :: "Zone list"

record ZoneMatch =
  zm_Domain :: string
  zm_ZoneName :: string
  zm_FQDN :: string
  zm_Zone :: Zone

text \<open>The elements of a slice, and \<^verbatim>\<open>append([]T(nil), xs...)\<close>, which is \<^verbatim>\<open>nil\<close> when there are none.\<close>

definition elems :: "'a list option \<Rightarrow> 'a list" where
  "elems xs = (case xs of None \<Rightarrow> [] | Some ys \<Rightarrow> ys)"

definition copy_slice :: "'a list option \<Rightarrow> 'a list option" where
  "copy_slice xs = (if elems xs = [] then None else xs)"

definition append_slice :: "'a list option \<Rightarrow> 'a \<Rightarrow> 'a list option" where
  "append_slice xs x = Some (elems xs @ [x])"

section \<open>Names\<close>

definition normalizeFQDN :: "string \<Rightarrow> string" where
  "normalizeFQDN value = ToLower (TrimSuffix (TrimSpace value) ''.'')"

definition zoneFQDN :: "string \<Rightarrow> string \<Rightarrow> string" where
  "zoneFQDN parent zone =
     (let parent = normalizeFQDN parent; zone = normalizeFQDN zone
      in if zone = ''@'' then parent
         else if parent = [] \<or> zone = [] then []
         else zone @ ''.'' @ parent)"

text \<open>
  \<^verbatim>\<open>LocateZone\<close>: the two nested loops, over the zones in order, carry the match found so far.
\<close>

fun locate_zones :: "string \<Rightarrow> string \<Rightarrow> Zone list \<Rightarrow> ZoneMatch option \<Rightarrow> dns_error + ZoneMatch option" where
  "locate_zones target parent [] found = Inr found"
| "locate_zones target parent (zone # zones) found =
     (let candidate = zoneFQDN parent (z_Name zone)
      in if candidate \<noteq> target then locate_zones target parent zones found
         else if found \<noteq> None then Inl DnsAmbiguousZone
         else locate_zones target parent zones
                (Some \<lparr>zm_Domain = parent, zm_ZoneName = z_Name zone, zm_FQDN = candidate, zm_Zone = zone\<rparr>))"

fun locate_domains :: "string \<Rightarrow> Domain list \<Rightarrow> ZoneMatch option \<Rightarrow> dns_error + ZoneMatch option" where
  "locate_domains target [] found = Inr found"
| "locate_domains target (parent # domains) found =
     (case locate_zones target (d_Name parent) (d_Zones parent) found of
        Inl e \<Rightarrow> Inl e
      | Inr found' \<Rightarrow> locate_domains target domains found')"

definition LocateZone :: "Domain list \<Rightarrow> string \<Rightarrow> dns_error + ZoneMatch" where
  "LocateZone domains fqdn =
     (let target = normalizeFQDN fqdn
      in if target = [] then Inl DnsInvalidInput
         else case locate_domains target domains None of
                Inl e \<Rightarrow> Inl e
              | Inr None \<Rightarrow> Inl DnsNotFound
              | Inr (Some m) \<Rightarrow> Inr m)"

section \<open>Responses\<close>

record zoneNodeWire =
  wn_IP :: "string option"
  wn_Address :: "string option"

record zoneWire =
  wz_Name :: "string option"
  wz_TTL :: "int option"
  wz_Proxied :: "bool option"
  wz_IPs :: "string list option"
  wz_Nodes :: "zoneNodeWire list option"

record domainWire =
  wd_Domain :: "string option"
  wd_Zones :: "zoneWire list option"

definition is_ip :: "string \<Rightarrow> bool" where
  "is_ip value \<longleftrightarrow> ParseAddr (TrimSpace value) \<noteq> None"

fun node_models :: "zoneNodeWire list \<Rightarrow> ZoneNode list option" where
  "node_models [] = Some []"
| "node_models (item # items) =
     (case wn_IP item of
        None \<Rightarrow> None
      | Some ip \<Rightarrow>
          if \<not> is_ip ip then None
          else case node_models items of
            None \<Rightarrow> None
          | Some nodes \<Rightarrow>
              Some (\<lparr>zn_IP = ip, zn_Address = (case wn_Address item of None \<Rightarrow> ip | Some a \<Rightarrow> a)\<rparr> # nodes))"

text \<open>\<^verbatim>\<open>zoneWire.model\<close>: both formats may be present, at least one must be.\<close>

definition zone_model :: "zoneWire \<Rightarrow> Zone option" where
  "zone_model z =
     (case (wz_Name z, wz_TTL z, wz_Proxied z) of
        (Some name, Some ttl, Some proxied) \<Rightarrow>
          if TrimSpace name = [] \<or> ttl < 1 \<or> (wz_IPs z = None \<and> wz_Nodes z = None) then None
          else if \<not> list_all is_ip (elems (wz_IPs z)) then None
          else
            (case wz_Nodes z of
               None \<Rightarrow> Some \<lparr>z_Name = name, z_TTL = ttl, z_Proxied = proxied, z_IPs = wz_IPs z, z_Nodes = None\<rparr>
             | Some items \<Rightarrow>
                 (case node_models items of
                    None \<Rightarrow> None
                  | Some nodes \<Rightarrow>
                      Some \<lparr>z_Name = name, z_TTL = ttl, z_Proxied = proxied, z_IPs = wz_IPs z,
                            z_Nodes = Some nodes\<rparr>))
      | _ \<Rightarrow> None)"

fun zone_models :: "zoneWire list \<Rightarrow> Zone list option" where
  "zone_models [] = Some []"
| "zone_models (item # items) =
     (case zone_model item of
        None \<Rightarrow> None
      | Some zone \<Rightarrow> (case zone_models items of None \<Rightarrow> None | Some zones \<Rightarrow> Some (zone # zones)))"

definition domain_model :: "domainWire \<Rightarrow> Domain option" where
  "domain_model d =
     (case (wd_Domain d, wd_Zones d) of
        (Some name, Some items) \<Rightarrow>
          if normalizeFQDN name = [] then None
          else (case zone_models items of
                  None \<Rightarrow> None
                | Some zones \<Rightarrow> Some \<lparr>d_Name = name, d_Zones = zones\<rparr>)
      | _ \<Rightarrow> None)"

fun domain_models :: "domainWire list \<Rightarrow> Domain list option" where
  "domain_models [] = Some []"
| "domain_models (item # items) =
     (case domain_model item of
        None \<Rightarrow> None
      | Some parent \<Rightarrow> (case domain_models items of None \<Rightarrow> None | Some doms \<Rightarrow> Some (parent # doms)))"

section \<open>Paths\<close>

text \<open>
  \<^verbatim>\<open>url.PathEscape\<close>: a byte stands for itself when it is a letter, a digit or one of the marks
  below, and is written \<^verbatim>\<open>%XX\<close> in upper-case hexadecimal otherwise.
\<close>

definition path_safe :: "char \<Rightarrow> bool" where
  "path_safe c \<longleftrightarrow> is_lower c \<or> is_upper c \<or> is_digit c \<or> c \<in> set ''-_.~$&+:=@''"

definition hex_upper :: "nat \<Rightarrow> char" where
  "hex_upper n = ''0123456789ABCDEF'' ! n"

definition escape_char :: "char \<Rightarrow> string" where
  "escape_char c = (if path_safe c then [c] else [CHR ''%'', hex_upper (byte c div 16), hex_upper (byte c mod 16)])"

definition PathEscape :: "string \<Rightarrow> string" where
  "PathEscape s = concat (map escape_char s)"

text \<open>The path of \<^verbatim>\<open>zoneEndpoint\<close>, below the base URL.\<close>

definition zoneEndpoint :: "string \<Rightarrow> string \<Rightarrow> string" where
  "zoneEndpoint parent zone =
     (let escapedZone = (if zone = ''@'' then ''%40'' else PathEscape zone)
      in ''/api/config/domains/'' @ PathEscape parent @ ''/zones/'' @ escapedZone)"

section \<open>Zones that hold an address\<close>

definition names_ip :: "addr \<Rightarrow> string \<Rightarrow> bool" where
  "names_ip ip value \<longleftrightarrow> (case ParseAddr (TrimSpace value) of None \<Rightarrow> False | Some a \<Rightarrow> Unmap a = ip)"

definition zone_has_ip :: "addr \<Rightarrow> Zone \<Rightarrow> bool" where
  "zone_has_ip ip zone \<longleftrightarrow>
     list_ex (names_ip ip) (elems (z_IPs zone)) \<or> list_ex (\<lambda>n. names_ip ip (zn_IP n)) (elems (z_Nodes zone))"

text \<open>The body of \<^verbatim>\<open>FindZonesByIP\<close> once the domains are read.\<close>

definition zone_entry :: "string \<Rightarrow> Zone \<Rightarrow> ZoneMatch" where
  "zone_entry parent zone =
     (let fqdn = (if z_Name zone = ''@'' then parent else z_Name zone @ ''.'' @ parent)
      in \<lparr>zm_Domain = parent, zm_ZoneName = z_Name zone, zm_FQDN = normalizeFQDN fqdn, zm_Zone = zone\<rparr>)"

definition zones_by_ip :: "Domain list \<Rightarrow> addr \<Rightarrow> ZoneMatch list" where
  "zones_by_ip domains ip =
     concat (map (\<lambda>d. map (zone_entry (d_Name d)) (filter (zone_has_ip ip) (d_Zones d))) domains)"

section \<open>Locating a zone\<close>

text \<open>Every zone of the configuration as a possible match, and those with the complete name asked for.\<close>

definition all_matches :: "Domain list \<Rightarrow> ZoneMatch list" where
  "all_matches domains =
     concat (map (\<lambda>d. map (\<lambda>z. \<lparr>zm_Domain = d_Name d, zm_ZoneName = z_Name z,
       zm_FQDN = zoneFQDN (d_Name d) (z_Name z), zm_Zone = z\<rparr>) (d_Zones d)) domains)"

lemma locate_zones_filter:
  "locate_zones target parent zones found =
     (let hits = (case found of None \<Rightarrow> [] | Some m \<Rightarrow> [m]) @
        filter (\<lambda>m. zm_FQDN m = target) (map (\<lambda>z. \<lparr>zm_Domain = parent, zm_ZoneName = z_Name z,
          zm_FQDN = zoneFQDN parent (z_Name z), zm_Zone = z\<rparr>) zones)
      in case hits of [] \<Rightarrow> Inr None | [m] \<Rightarrow> Inr (Some m) | _ \<Rightarrow> Inl DnsAmbiguousZone)"
proof (induction zones arbitrary: found)
  case Nil
  then show ?case by (cases found) simp_all
next
  case (Cons zone zones)
  show ?case
    by (cases "zoneFQDN parent (z_Name zone) = target"; cases found) (simp_all add: Cons.IH Let_def)
qed

lemma locate_domains_filter:
  "locate_domains target domains found =
     (let hits = (case found of None \<Rightarrow> [] | Some m \<Rightarrow> [m]) @
        filter (\<lambda>m. zm_FQDN m = target) (all_matches domains)
      in case hits of [] \<Rightarrow> Inr None | [m] \<Rightarrow> Inr (Some m) | _ \<Rightarrow> Inl DnsAmbiguousZone)"
proof (induction domains arbitrary: found)
  case Nil
  then show ?case by (cases found) (simp_all add: all_matches_def)
next
  case (Cons parent domains)
  show ?case
    by (simp add: locate_zones_filter Let_def)
      (auto simp: Cons.IH Let_def all_matches_def split: option.splits list.splits)
qed

text \<open>
  C33. \<open>LocateZone\<close> is exact: it answers with a zone only when that zone is the single one of the
  whole configuration whose complete name, built from its own domain and zone names, is the name
  asked for; no zone is an error, and two zones are another one.
\<close>

theorem LocateZone_exact:
  "LocateZone domains fqdn =
     (if normalizeFQDN fqdn = [] then Inl DnsInvalidInput
      else case filter (\<lambda>m. zm_FQDN m = normalizeFQDN fqdn) (all_matches domains) of
        [] \<Rightarrow> Inl DnsNotFound
      | [m] \<Rightarrow> Inr m
      | _ \<Rightarrow> Inl DnsAmbiguousZone)"
  by (auto simp: LocateZone_def Let_def locate_domains_filter split: list.splits)

section \<open>One path per zone\<close>

lemma hex_upper_cases: "n < 16 \<Longrightarrow> hex_upper n \<in> set ''0123456789ABCDEF''"
  unfolding hex_upper_def by (rule nth_mem) simp

lemma hex_upper_inj: "m < 16 \<Longrightarrow> n < 16 \<Longrightarrow> hex_upper m = hex_upper n \<Longrightarrow> m = n"
  unfolding hex_upper_def by (subst (asm) nth_eq_iff_index_eq) simp_all

lemma byte_div_16: "byte c div 16 < 16"
  using of_char_of [of "byte c"] by (simp add: less_mult_imp_div_less)

lemma escape_char_step:
  assumes "escape_char c @ xs = escape_char d @ ys"
  shows "c = d \<and> xs = ys"
proof -
  have pct: "\<not> path_safe (CHR ''%'')" by code_simp
  show ?thesis
  proof (cases "path_safe c"; cases "path_safe d")
    assume "\<not> path_safe c" "\<not> path_safe d"
    then have "hex_upper (byte c div 16) = hex_upper (byte d div 16)"
      "hex_upper (byte c mod 16) = hex_upper (byte d mod 16)" and rest: "xs = ys"
      using assms by (simp_all add: escape_char_def)
    then have "byte c div 16 = byte d div 16" "byte c mod 16 = byte d mod 16"
      by (simp_all add: hex_upper_inj byte_div_16)
    then have "byte c = byte d" by (metis div_mult_mod_eq)
    then show ?thesis using rest by simp
  qed (use assms pct in \<open>auto simp: escape_char_def\<close>)
qed

lemma escape_char_nonempty [simp]: "escape_char c \<noteq> []"
  by (simp add: escape_char_def)

lemma PathEscape_inj: "PathEscape s = PathEscape t \<Longrightarrow> s = t"
proof (induction s arbitrary: t)
  case Nil
  then show ?case by (cases t) (simp_all add: PathEscape_def)
next
  case (Cons c s)
  then obtain d t' where t: "t = d # t'" by (cases t) (simp_all add: PathEscape_def)
  have "escape_char c @ PathEscape s = escape_char d @ PathEscape t'"
    using Cons.prems by (simp add: t PathEscape_def)
  then show ?case using escape_char_step Cons.IH t by blast
qed

lemma PathEscape_no_slash: "CHR ''/'' \<notin> set (PathEscape s)"
proof -
  have "CHR ''/'' \<notin> set (escape_char c)" for c
  proof -
    have "\<not> path_safe (CHR ''/'')" by code_simp
    moreover have "hex_upper (byte c div 16) \<noteq> CHR ''/''" "hex_upper (byte c mod 16) \<noteq> CHR ''/''"
      using hex_upper_cases [OF byte_div_16, of c] hex_upper_cases [of "byte c mod 16"] by fastforce+
    ultimately show ?thesis by (auto simp: escape_char_def)
  qed
  then show ?thesis by (auto simp: PathEscape_def)
qed

lemma split_at_char:
  "a @ c # x = b @ c # y \<Longrightarrow> c \<notin> set a \<Longrightarrow> c \<notin> set b \<Longrightarrow> a = b \<and> x = y"
proof (induction a arbitrary: b)
  case Nil
  then show ?case by (cases b) auto
next
  case (Cons h a)
  then show ?case by (cases b) auto
qed

lemma byte_at: "byte (CHR ''@'') = 64"
  by simp

lemma PathEscape_not_at: "PathEscape zone \<noteq> ''%40''"
proof
  assume "PathEscape zone = ''%40''"
  then obtain c rest where e: "escape_char c @ PathEscape rest = ''%40''"
    by (cases zone) (auto simp: PathEscape_def)
  have "\<not> path_safe (CHR ''%'')" and at: "path_safe (CHR ''@'')" by code_simp+
  then have safe: "\<not> path_safe c" using e by (auto simp: escape_char_def)
  then have h: "hex_upper (byte c div 16) = hex_upper 4" "hex_upper (byte c mod 16) = hex_upper 0"
    using e by (simp_all add: escape_char_def) (simp_all add: hex_upper_def)
  have "byte c div 16 = 4" "byte c mod 16 = 0"
    using hex_upper_inj [OF _ _ h(1)] hex_upper_inj [OF _ _ h(2)] by (simp_all add: byte_div_16)
  then have "byte c = 64" using div_mult_mod_eq [of "byte c" 16] by simp
  then have "c = CHR ''@''" by (metis of_char_eq_iff byte_at)
  then show False using safe at by simp
qed

text \<open>
  A PATCH addresses one zone: two different pairs of domain and zone names never share an
  endpoint path, whatever bytes the names contain, although the name \<open>@\<close> is escaped by hand.
\<close>

theorem zoneEndpoint_injective:
  "zoneEndpoint parent zone = zoneEndpoint parent' zone' \<longleftrightarrow> parent = parent' \<and> zone = zone'"
proof
  assume eq: "zoneEndpoint parent zone = zoneEndpoint parent' zone'"
  define esc where "esc z = (if z = ''@'' then ''%40'' else PathEscape z)" for z
  have path: "zoneEndpoint p z = ''/api/config/domains/'' @ PathEscape p @ CHR ''/'' # ''zones/'' @ esc z" for p z
    by (simp add: zoneEndpoint_def esc_def Let_def)
  have "PathEscape parent @ CHR ''/'' # ''zones/'' @ esc zone = PathEscape parent' @ CHR ''/'' # ''zones/'' @ esc zone'"
    using eq unfolding path by (rule same_append_eq [THEN iffD1])
  from split_at_char [OF this PathEscape_no_slash PathEscape_no_slash]
  have p: "PathEscape parent = PathEscape parent'" and z: "esc zone = esc zone'"
    by simp_all
  have "zone = zone'"
    using z PathEscape_not_at [of zone] PathEscape_not_at [of zone'] PathEscape_inj [of zone zone']
    by (auto simp: esc_def split: if_splits)
  then show "parent = parent' \<and> zone = zone'" using p PathEscape_inj by blast
qed simp

end
