(* ===== verification/Http.thy ===== *)
theory Http
  imports Prelude
begin

text \<open>
  The boundary to other systems.  A request is answered from a world of any type, through a
  function of that world that the model takes as a parameter; a run carries the world and the log
  of the events it caused.
\<close>

text \<open>What an HTTP request may give: a transport error, or a status and a body, decoded when it is one JSON value.\<close>

datatype 'r http_body = OneValue 'r | NotJSON | MoreValues

datatype 'r http_answer = HttpFailed | HttpAnswer int "'r http_body"

record ('w, 'e) run =
  run_world :: 'w
  run_log :: "'e list"

definition ask :: "('w \<Rightarrow> 'a \<times> 'w) \<Rightarrow> ('a \<Rightarrow> 'e list) \<Rightarrow> (('w, 'e) run, 'a) state" where
  "ask port ev = State (\<lambda>s. case port (run_world s) of (a, w) \<Rightarrow>
     (a, s\<lparr>run_world := w, run_log := run_log s @ ev a\<rparr>))"

lemma logs_ask [log_rules]: "(\<And>a. P a (ev a)) \<Longrightarrow> logs run_log (ask port ev) P"
  by (auto simp: logs_def ask_def split: prod.splits)

lemma logs_bind_ask:
  "(\<And>a. logs run_log (f a) (\<lambda>r es. P r (ev a @ es))) \<Longrightarrow> logs run_log (State_Monad.bind (ask port ev) f) P"
  by (intro logs_bind logs_ask)

end
