(* ===== verification/Dns_Client.thy ===== *)
theory Dns_Client
  imports Dns_Zone Http
begin

text \<open>
  The client of \<^verbatim>\<open>internal/dnsbalancer/client.go\<close> and \<^verbatim>\<open>disabled.go\<close>.  The HTTP transport and the
  service behind it are parameters: \<open>dns_ports\<close> answers each request from a world of any type.
  A run carries that world and the log of what it did: locks taken and released, requests sent
  with their answers.  The zone locker is a parameter too; the one the program uses is in
  \<^verbatim>\<open>Zone_Lock\<close>.
\<close>

section \<open>Requests\<close>

text \<open>
  \<^verbatim>\<open>patchZoneRequest\<close> and its \<^verbatim>\<open>MarshalJSON\<close>: the body has the one field \<^verbatim>\<open>nodes\<close> when the slice of
  nodes is not \<^verbatim>\<open>nil\<close>, and the one field \<^verbatim>\<open>ips\<close> otherwise, which is \<^verbatim>\<open>null\<close> for a \<^verbatim>\<open>nil\<close> slice.
\<close>

record patchZoneRequest =
  pz_IPs :: "string list option"
  pz_Nodes :: "ZoneNode list option"

datatype patch_body = BodyNodes "ZoneNode list" | BodyIPs "string list" | BodyIPsNull

definition MarshalJSON :: "patchZoneRequest \<Rightarrow> patch_body" where
  "MarshalJSON r =
     (case pz_Nodes r of
        Some nodes \<Rightarrow> BodyNodes nodes
      | None \<Rightarrow> (case pz_IPs r of Some ips \<Rightarrow> BodyIPs ips | None \<Rightarrow> BodyIPsNull))"

definition HTTPError :: "int \<Rightarrow> dns_error" where
  "HTTPError status =
     (if status = 401 then DnsUnauthorized
      else if status = 404 then DnsNotFound
      else if status = 409 then DnsConflict
      else if status = 422 then DnsUnprocessable
      else DnsHTTP status)"

definition doJSON :: "int \<Rightarrow> 'r http_answer \<Rightarrow> go_error + 'r" where
  "doJSON expectedStatus answer =
     (case answer of
        HttpFailed \<Rightarrow> Inl (DnsErr DnsTransport)
      | HttpAnswer status body \<Rightarrow>
          if status \<noteq> expectedStatus then Inl (DnsErr (HTTPError status))
          else (case body of
                  OneValue r \<Rightarrow> Inr r
                | NotJSON \<Rightarrow> Inl (DnsErr DnsInvalidResponse)
                | MoreValues \<Rightarrow> Inl (DnsErr DnsInvalidResponse)))"

datatype dns_event =
    EvLock string
  | EvUnlock string
  | EvGetDomains "domainWire list option http_answer"
  | EvPatch string patch_body "string option http_answer"

record 'w dns_ports =
  port_Lock :: "string \<Rightarrow> 'w \<Rightarrow> go_error option \<times> 'w"
  port_unlock :: "string \<Rightarrow> 'w \<Rightarrow> 'w"
  port_get_domains :: "'w \<Rightarrow> domainWire list option http_answer \<times> 'w"
  port_patch :: "string \<Rightarrow> patch_body \<Rightarrow> 'w \<Rightarrow> string option http_answer \<times> 'w"

type_synonym 'w dns_run = "('w, dns_event) run"

section \<open>Operations\<close>

definition lock_zone :: "'w dns_ports \<Rightarrow> string \<Rightarrow> ('w dns_run, go_error + unit) state" where
  "lock_zone p key = do {
     r \<leftarrow> ask (port_Lock p key) (\<lambda>r. if r = None then [EvLock key] else []);
     case r of None \<Rightarrow> okE () | Some e \<Rightarrow> failE e
   }"

definition unlock_zone :: "'w dns_ports \<Rightarrow> string \<Rightarrow> ('w dns_run, unit) state" where
  "unlock_zone p key = ask (\<lambda>w. ((), port_unlock p key w)) (\<lambda>_. [EvUnlock key])"

text \<open>\<^verbatim>\<open>unlock, err := c.locker.Lock(ctx, key); ...; defer unlock()\<close> around the rest of a function.\<close>

definition with_zone ::
  "'w dns_ports \<Rightarrow> string \<Rightarrow> ('w dns_run, go_error + 'a) state \<Rightarrow> ('w dns_run, go_error + 'a) state" where
  "with_zone p key body = bindE (lock_zone p key) (\<lambda>_. do {
     r \<leftarrow> body;
     unlock_zone p key;
     State_Monad.return r
   })"

definition decode_domains :: "domainWire list option http_answer \<Rightarrow> go_error + Domain list" where
  "decode_domains answer =
     (case doJSON 200 answer of
        Inl e \<Rightarrow> Inl e
      | Inr None \<Rightarrow> Inl (DnsErr DnsInvalidResponse)
      | Inr (Some items) \<Rightarrow>
          (case domain_models items of
             None \<Rightarrow> Inl (DnsErr DnsInvalidResponse)
           | Some domains \<Rightarrow> Inr domains))"

definition GetDomains :: "'w dns_ports \<Rightarrow> ('w dns_run, go_error + Domain list) state" where
  "GetDomains p = do {
     answer \<leftarrow> ask (port_get_domains p) (\<lambda>a. [EvGetDomains a]);
     liftE (decode_domains answer)
   }"

definition dnsE :: "dns_error + 'a \<Rightarrow> go_error + 'a" where
  "dnsE r = (case r of Inl e \<Rightarrow> Inl (DnsErr e) | Inr a \<Rightarrow> Inr a)"

definition FindZone :: "'w dns_ports \<Rightarrow> string \<Rightarrow> ('w dns_run, go_error + ZoneMatch) state" where
  "FindZone p fqdn = bindE (GetDomains p) (\<lambda>domains. liftE (dnsE (LocateZone domains fqdn)))"

definition FindZonesByIP :: "'w dns_ports \<Rightarrow> addr \<Rightarrow> ('w dns_run, go_error + ZoneMatch list) state" where
  "FindZonesByIP p ip =
     (if \<not> IsValid ip then failE (DnsErr DnsInvalidInput)
      else bindE (GetDomains p) (\<lambda>domains. okE (zones_by_ip domains (Unmap ip))))"

definition patch_status :: "string option http_answer \<Rightarrow> go_error + unit" where
  "patch_status answer =
     (case doJSON 200 answer of
        Inl e \<Rightarrow> Inl e
      | Inr status \<Rightarrow> if status = Some ''ok'' then Inr () else Inl (DnsErr DnsInvalidResponse))"

definition patchZone :: "'w dns_ports \<Rightarrow> ZoneMatch \<Rightarrow> patchZoneRequest \<Rightarrow> ('w dns_run, go_error + unit) state" where
  "patchZone p m request =
     (let path = zoneEndpoint (zm_Domain m) (zm_ZoneName m); body = MarshalJSON request
      in do {
        answer \<leftarrow> ask (port_patch p path body) (\<lambda>a. [EvPatch path body a]);
        liftE (patch_status answer)
      })"

text \<open>The loop that looks for an address in a list and stops at one that does not parse.\<close>

fun scan_ips :: "addr \<Rightarrow> string list \<Rightarrow> dns_error + bool" where
  "scan_ips ip [] = Inr False"
| "scan_ips ip (value # entries) =
     (case ParseAddr (TrimSpace value) of
        None \<Rightarrow> Inl DnsInvalidResponse
      | Some parsed \<Rightarrow> if Unmap parsed = ip then Inr True else scan_ips ip entries)"

record AddIPResult =
  ar_FQDN :: string
  ar_Added :: bool
  ar_IPs :: "string list option"

text \<open>\<^verbatim>\<open>AddIP\<close> once the zone is located: \<open>add_to_zone\<close>.\<close>

definition add_to_zone :: "'w dns_ports \<Rightarrow> addr \<Rightarrow> ZoneMatch \<Rightarrow> ('w dns_run, go_error + AddIPResult) state" where
  "add_to_zone p ip m =
     (let complete = copy_slice (z_IPs (zm_Zone m)) in
      bindE (liftE (dnsE (scan_ips ip (elems complete)))) (\<lambda>present.
      if present then okE \<lparr>ar_FQDN = zm_FQDN m, ar_Added = False, ar_IPs = complete\<rparr>
      else bindE (liftE (dnsE (scan_ips ip (map zn_IP (elems (z_Nodes (zm_Zone m))))))) (\<lambda>present.
      if present then okE \<lparr>ar_FQDN = zm_FQDN m, ar_Added = False, ar_IPs = complete\<rparr>
      else
        let complete = append_slice complete (addr_String ip) in
        bindE (patchZone p m \<lparr>pz_IPs = complete, pz_Nodes = None\<rparr>) (\<lambda>_.
        okE \<lparr>ar_FQDN = zm_FQDN m, ar_Added = True, ar_IPs = complete\<rparr>))))"

text \<open>Read the configuration and go on with the zone of a name.\<close>

definition on_zone ::
  "'w dns_ports \<Rightarrow> string \<Rightarrow> (ZoneMatch \<Rightarrow> ('w dns_run, go_error + 'a) state) \<Rightarrow> ('w dns_run, go_error + 'a) state" where
  "on_zone p key f =
     bindE (GetDomains p) (\<lambda>domains. bindE (liftE (dnsE (LocateZone domains key))) f)"

definition AddIP :: "'w dns_ports \<Rightarrow> string \<Rightarrow> addr \<Rightarrow> ('w dns_run, go_error + AddIPResult) state" where
  "AddIP p fqdn ip =
     (let key = normalizeFQDN fqdn in
      if key = [] \<or> \<not> IsValid ip then failE (DnsErr DnsInvalidInput)
      else with_zone p key (on_zone p key (add_to_zone p (Unmap ip))))"

text \<open>\<^verbatim>\<open>ReplaceIP\<close>.  The two formats are separate; the simple one is rewritten in canonical form.\<close>

record ReplaceIPResult =
  rr_FQDN :: string
  rr_Changed :: bool
  rr_IPs :: "string list option"
  rr_Nodes :: "ZoneNode list option"

fun parse_ips :: "string list \<Rightarrow> addr list option" where
  "parse_ips [] = Some []"
| "parse_ips (value # entries) =
     (case ParseAddr (TrimSpace value) of
        None \<Rightarrow> None
      | Some parsed \<Rightarrow>
          (case parse_ips entries of None \<Rightarrow> None | Some rest \<Rightarrow> Some (Unmap parsed # rest)))"

fun replaced_nodes :: "addr \<Rightarrow> addr \<Rightarrow> bool \<Rightarrow> ZoneNode list \<Rightarrow> ZoneNode list" where
  "replaced_nodes oldIP newIP foundNew [] = []"
| "replaced_nodes oldIP newIP foundNew (item # items) =
     (if names_ip oldIP (zn_IP item)
      then (if foundNew then replaced_nodes oldIP newIP foundNew items
            else item\<lparr>zn_IP := addr_String newIP\<rparr> # replaced_nodes oldIP newIP foundNew items)
      else item # replaced_nodes oldIP newIP foundNew items)"

definition replace_nodes ::
  "'w dns_ports \<Rightarrow> ZoneMatch \<Rightarrow> addr \<Rightarrow> addr \<Rightarrow> ('w dns_run, go_error + ReplaceIPResult) state" where
  "replace_nodes p m oldIP newIP =
     (let nodes = elems (z_Nodes (zm_Zone m)) in
      case parse_ips (map zn_IP nodes) of
        None \<Rightarrow> failE (DnsErr DnsInvalidResponse)
      | Some parsed \<Rightarrow>
          let foundOld = (oldIP \<in> set parsed); foundNew = (newIP \<in> set parsed) in
          if \<not> foundOld then
            (if foundNew
             then okE \<lparr>rr_FQDN = zm_FQDN m, rr_Changed = False, rr_IPs = None,
                       rr_Nodes = copy_slice (z_Nodes (zm_Zone m))\<rparr>
             else failE (DnsErr DnsNotFound))
          else
            let complete = replaced_nodes oldIP newIP foundNew nodes in
            bindE (patchZone p m \<lparr>pz_IPs = None, pz_Nodes = Some complete\<rparr>) (\<lambda>_.
            okE \<lparr>rr_FQDN = zm_FQDN m, rr_Changed = True, rr_IPs = None, rr_Nodes = Some complete\<rparr>))"

definition replace_ips ::
  "'w dns_ports \<Rightarrow> ZoneMatch \<Rightarrow> addr \<Rightarrow> addr \<Rightarrow> ('w dns_run, go_error + ReplaceIPResult) state" where
  "replace_ips p m oldIP newIP =
     (case parse_ips (elems (z_IPs (zm_Zone m))) of
        None \<Rightarrow> failE (DnsErr DnsInvalidResponse)
      | Some parsed \<Rightarrow>
          let foundOld = (oldIP \<in> set parsed); foundNew = (newIP \<in> set parsed);
              complete = map addr_String (filter (\<lambda>a. a \<noteq> oldIP) parsed) in
          if \<not> foundOld then
            (if foundNew
             then okE \<lparr>rr_FQDN = zm_FQDN m, rr_Changed = False, rr_IPs = Some complete, rr_Nodes = None\<rparr>
             else failE (DnsErr DnsNotFound))
          else
            let complete = (if foundNew then complete else complete @ [addr_String newIP]) in
            bindE (patchZone p m \<lparr>pz_IPs = Some complete, pz_Nodes = None\<rparr>) (\<lambda>_.
            okE \<lparr>rr_FQDN = zm_FQDN m, rr_Changed = True, rr_IPs = Some complete, rr_Nodes = None\<rparr>))"

definition ReplaceIP ::
  "'w dns_ports \<Rightarrow> string \<Rightarrow> addr \<Rightarrow> addr \<Rightarrow> ('w dns_run, go_error + ReplaceIPResult) state" where
  "ReplaceIP p fqdn oldIP newIP =
     (let key = normalizeFQDN fqdn in
      if key = [] \<or> \<not> IsValid oldIP \<or> \<not> IsValid newIP \<or> Unmap oldIP = Unmap newIP
      then failE (DnsErr DnsInvalidInput)
      else with_zone p key (on_zone p key (\<lambda>m.
        if elems (z_Nodes (zm_Zone m)) \<noteq> [] then replace_nodes p m (Unmap oldIP) (Unmap newIP)
        else replace_ips p m (Unmap oldIP) (Unmap newIP))))"

text \<open>\<^verbatim>\<open>zoneWithoutIP\<close>, \<^verbatim>\<open>zoneWithIP\<close> and \<^verbatim>\<open>zoneSnapshotRequest\<close>.\<close>

fun last_opt :: "'a list \<Rightarrow> 'a option" where
  "last_opt [] = None"
| "last_opt (x # xs) = (case last_opt xs of None \<Rightarrow> Some x | Some y \<Rightarrow> Some y)"

definition zoneWithoutIP :: "Zone \<Rightarrow> addr \<Rightarrow> dns_error + patchZoneRequest \<times> bool \<times> ZoneNode option" where
  "zoneWithoutIP zone ip =
     (case z_Nodes zone of
        Some nodes \<Rightarrow>
          (case parse_ips (map zn_IP nodes) of
             None \<Rightarrow> Inl DnsInvalidResponse
           | Some _ \<Rightarrow>
               let moved = last_opt (filter (\<lambda>n. names_ip ip (zn_IP n)) nodes);
                   rest = filter (\<lambda>n. \<not> names_ip ip (zn_IP n)) nodes
               in Inr (\<lparr>pz_IPs = None, pz_Nodes = Some rest\<rparr>, moved \<noteq> None, moved))
      | None \<Rightarrow>
          (case parse_ips (elems (z_IPs zone)) of
             None \<Rightarrow> Inl DnsInvalidResponse
           | Some parsed \<Rightarrow>
               Inr (\<lparr>pz_IPs = Some (map addr_String (filter (\<lambda>a. a \<noteq> ip) parsed)), pz_Nodes = None\<rparr>,
                    ip \<in> set parsed, None)))"

definition zoneWithIP :: "Zone \<Rightarrow> addr \<Rightarrow> ZoneNode option \<Rightarrow> dns_error + patchZoneRequest \<times> bool" where
  "zoneWithIP zone ip sourceNode =
     (if z_Nodes zone \<noteq> None then
        let nodes = copy_slice (z_Nodes zone) in
        (case scan_ips ip (map zn_IP (elems nodes)) of
           Inl e \<Rightarrow> Inl e
         | Inr True \<Rightarrow> Inr (\<lparr>pz_IPs = None, pz_Nodes = nodes\<rparr>, True)
         | Inr False \<Rightarrow>
             (case sourceNode of
                None \<Rightarrow> Inl DnsInvalidInput
              | Some n \<Rightarrow> Inr (\<lparr>pz_IPs = None, pz_Nodes = append_slice nodes n\<rparr>, False)))
      else
        let ips = copy_slice (z_IPs zone) in
        (case scan_ips ip (elems ips) of
           Inl e \<Rightarrow> Inl e
         | Inr True \<Rightarrow> Inr (\<lparr>pz_IPs = ips, pz_Nodes = None\<rparr>, True)
         | Inr False \<Rightarrow> Inr (\<lparr>pz_IPs = append_slice ips (addr_String ip), pz_Nodes = None\<rparr>, False)))"

definition zoneSnapshotRequest :: "Zone \<Rightarrow> patchZoneRequest" where
  "zoneSnapshotRequest zone =
     (if z_Nodes zone \<noteq> None then \<lparr>pz_IPs = None, pz_Nodes = copy_slice (z_Nodes zone)\<rparr>
      else \<lparr>pz_IPs = copy_slice (z_IPs zone), pz_Nodes = None\<rparr>)"

record MoveIPResult =
  mr_SourceFQDN :: string
  mr_TargetFQDN :: string
  mr_Changed :: bool

definition move_commit ::
  "'w dns_ports \<Rightarrow> ZoneMatch \<Rightarrow> ZoneMatch \<Rightarrow> patchZoneRequest \<Rightarrow> patchZoneRequest \<Rightarrow> bool
     \<Rightarrow> ('w dns_run, go_error + MoveIPResult) state" where
  "move_commit p source target sourceRequest targetRequest targetFound =
     bindE (if \<not> targetFound then patchZone p target targetRequest else okE ()) (\<lambda>_. do {
       r \<leftarrow> patchZone p source sourceRequest;
       case r of
         Inl e \<Rightarrow> do {
           _ \<leftarrow> (if \<not> targetFound then patchZone p target (zoneSnapshotRequest (zm_Zone target)) else okE ());
           failE e
         }
       | Inr _ \<Rightarrow> okE \<lparr>mr_SourceFQDN = zm_FQDN source, mr_TargetFQDN = zm_FQDN target, mr_Changed = True\<rparr>
     })"

definition move_between ::
  "'w dns_ports \<Rightarrow> ZoneMatch \<Rightarrow> ZoneMatch \<Rightarrow> addr \<Rightarrow> ('w dns_run, go_error + MoveIPResult) state" where
  "move_between p source target ip =
     (if (z_Nodes (zm_Zone source) \<noteq> None) \<noteq> (z_Nodes (zm_Zone target) \<noteq> None)
      then failE (DnsErr DnsInvalidInput)
      else
        (case zoneWithoutIP (zm_Zone source) ip of
           Inl e \<Rightarrow> failE (DnsErr e)
         | Inr (sourceRequest, sourceFound, sourceNode) \<Rightarrow>
             (case zoneWithIP (zm_Zone target) ip sourceNode of
                Inl e \<Rightarrow> failE (DnsErr e)
              | Inr (targetRequest, targetFound) \<Rightarrow>
                  if \<not> sourceFound then
                    (if targetFound
                     then okE \<lparr>mr_SourceFQDN = zm_FQDN source, mr_TargetFQDN = zm_FQDN target, mr_Changed = False\<rparr>
                     else failE (DnsErr DnsNotFound))
                  else move_commit p source target sourceRequest targetRequest targetFound)))"

definition move_ip ::
  "'w dns_ports \<Rightarrow> string \<Rightarrow> string \<Rightarrow> addr \<Rightarrow> ('w dns_run, go_error + MoveIPResult) state" where
  "move_ip p sourceKey targetKey ip =
     bindE (GetDomains p) (\<lambda>domains.
     bindE (liftE (dnsE (LocateZone domains sourceKey))) (\<lambda>source.
     bindE (liftE (dnsE (LocateZone domains targetKey))) (\<lambda>target.
     move_between p source target ip)))"

definition MoveIP ::
  "'w dns_ports \<Rightarrow> string \<Rightarrow> string \<Rightarrow> addr \<Rightarrow> ('w dns_run, go_error + MoveIPResult) state" where
  "MoveIP p sourceFQDN targetFQDN ip =
     (let sourceKey = normalizeFQDN sourceFQDN; targetKey = normalizeFQDN targetFQDN in
      if sourceKey = [] \<or> targetKey = [] \<or> sourceKey = targetKey \<or> \<not> IsValid ip
      then failE (DnsErr DnsInvalidInput)
      else
        let (first, second) = (if string_less targetKey sourceKey then (targetKey, sourceKey)
                               else (sourceKey, targetKey))
        in with_zone p first (with_zone p second (move_ip p sourceKey targetKey (Unmap ip))))"

end
