(* ===== verification/Dns_Spec.thy ===== *)
theory Dns_Spec
  imports Dns_Client
begin

text \<open>
  What the operations of the DNS-balancer client send.  Each property is about the events of one
  run, for every transport, service and locker: which zone is patched, with which body, and what
  the result then says.
\<close>

section \<open>Traces of the primitive operations\<close>

fun patches :: "dns_event list \<Rightarrow> (string \<times> patch_body) list" where
  "patches [] = []"
| "patches (EvPatch path body answer # es) = (path, body) # patches es"
| "patches (EvLock key # es) = patches es"
| "patches (EvUnlock key # es) = patches es"
| "patches (EvGetDomains answer # es) = patches es"

lemma patches_append [simp]: "patches (es @ es') = patches es @ patches es'"
  by (induction es rule: patches.induct) auto

text \<open>A configuration was read in which \<open>key\<close> names the zone \<open>m\<close>.\<close>

definition reads_zone :: "string \<Rightarrow> ZoneMatch \<Rightarrow> domainWire list option http_answer \<Rightarrow> bool" where
  "reads_zone key m answer \<longleftrightarrow>
     (\<exists>domains. decode_domains answer = Inr domains \<and> LocateZone domains key = Inr m)"

definition located :: "string \<Rightarrow> ZoneMatch \<Rightarrow> dns_event list \<Rightarrow> bool" where
  "located key m es \<longleftrightarrow> (\<exists>answer. EvGetDomains answer \<in> set es \<and> reads_zone key m answer)"

lemma located_simps [simp]:
  "located key m [] = False"
  "located key m (EvLock k # es) = located key m es"
  "located key m (EvUnlock k # es) = located key m es"
  "located key m (EvPatch path body a # es) = located key m es"
  "located key m (EvGetDomains answer # es) = (reads_zone key m answer \<or> located key m es)"
  "located key m (as @ bs) = (located key m as \<or> located key m bs)"
  by (auto simp: located_def)

lemma logs_lock_zone:
  assumes "\<And>e. P (Inl e) []" and "P (Inr ()) [EvLock key]"
  shows "logs run_log (lock_zone p key) P"
  unfolding lock_zone_def
  by (intro logs_bind logs_ask) (use assms in \<open>auto intro!: log_rules split: option.splits\<close>)

lemma logs_with_zone:
  assumes "\<And>e. P (Inl e) []"
    and "logs run_log body (\<lambda>r es. P r (EvLock key # es @ [EvUnlock key]))"
  shows "logs run_log (with_zone p key body) P"
  unfolding with_zone_def
proof (intro logs_bindE logs_lock_zone)
  show "case Inr () of Inl e \<Rightarrow> P (Inl e) [EvLock key]
     | Inr _ \<Rightarrow> logs run_log (body \<bind> (\<lambda>r. unlock_zone p key \<bind> (\<lambda>_. State_Monad.return r)))
         (\<lambda>r es'. P r ([EvLock key] @ es'))"
    unfolding unlock_zone_def sum.case
    by (intro logs_bind logs_mono [OF assms(2)] logs_ask logs_return) simp
qed (simp add: assms(1))

lemma logs_on_zone:
  assumes fail: "\<And>e answer. P (Inl e) [EvGetDomains answer]"
    and step: "\<And>m answer. reads_zone key m answer \<Longrightarrow>
      logs run_log (f m) (\<lambda>r es. P r (EvGetDomains answer # es))"
  shows "logs run_log (on_zone p key f) P"
proof -
  have go: "logs run_log (bindE (liftE (decode_domains answer)) (\<lambda>domains.
      bindE (liftE (dnsE (LocateZone domains key))) f)) (\<lambda>r es. P r (EvGetDomains answer # es))" for answer
  proof (cases "decode_domains answer")
    case (Inl e)
    then show ?thesis by (simp add: fail logs_bindE logs_liftE)
  next
    case dom: (Inr domains)
    show ?thesis
    proof (cases "LocateZone domains key")
      case (Inl e)
      then show ?thesis using dom by (auto intro!: logs_bindE logs_liftE fail simp: dnsE_def)
    next
      case (Inr m)
      then have "reads_zone key m answer" using dom by (auto simp: reads_zone_def)
      from step [OF this] show ?thesis using dom Inr by (auto intro!: logs_bindE logs_liftE simp: dnsE_def)
    qed
  qed
  have "logs run_log (ask (port_get_domains p) (\<lambda>a. [EvGetDomains a]) \<bind> (\<lambda>answer.
      bindE (liftE (decode_domains answer)) (\<lambda>domains.
      bindE (liftE (dnsE (LocateZone domains key))) f))) P"
    by (intro logs_bind logs_ask) (simp add: go)
  then show ?thesis
    by (simp add: on_zone_def GetDomains_def bindE_def)
qed

lemma logs_patchZone:
  assumes "\<And>r answer. P r [EvPatch (zoneEndpoint (zm_Domain m) (zm_ZoneName m)) (MarshalJSON request) answer]"
  shows "logs run_log (patchZone p m request) P"
  unfolding patchZone_def Let_def by (intro logs_bind logs_ask logs_liftE) (simp add: assms)

lemma logs_dnsE:
  assumes "\<And>e. r = Inl e \<Longrightarrow> P (Inl (DnsErr e)) []" and "\<And>a. r = Inr a \<Longrightarrow> logs run_log (f a) P"
  shows "logs run_log (bindE (liftE (dnsE r)) f) P"
  by (cases r) (auto intro!: logs_bindE logs_liftE simp: dnsE_def assms)

section \<open>Adding an address\<close>

lemma scan_ips_found: "scan_ips ip entries = Inr True \<Longrightarrow> list_ex (names_ip ip) entries"
  by (induction entries) (auto simp: names_ip_def split: option.splits if_splits)

lemma scan_ips_missing: "scan_ips ip entries = Inr False \<Longrightarrow> \<not> list_ex (names_ip ip) entries"
  by (induction entries) (auto simp: names_ip_def split: option.splits if_splits)

lemma elems_copy [simp]: "elems (copy_slice xs) = elems xs"
  by (auto simp: copy_slice_def elems_def)

lemma list_ex_map_IP: "list_ex P (map zn_IP nodes) = list_ex (\<lambda>n. P (zn_IP n)) nodes"
  by (induction nodes) auto

lemma scan_zone:
  "scan_ips ip (elems (z_IPs zone)) = Inr True \<Longrightarrow> zone_has_ip ip zone"
  "scan_ips ip (map zn_IP (elems (z_Nodes zone))) = Inr True \<Longrightarrow> zone_has_ip ip zone"
  "scan_ips ip (elems (z_IPs zone)) = Inr False \<Longrightarrow>
     scan_ips ip (map zn_IP (elems (z_Nodes zone))) = Inr False \<Longrightarrow> \<not> zone_has_ip ip zone"
  by (auto dest!: scan_ips_found scan_ips_missing simp: zone_has_ip_def list_ex_map_IP)

text \<open>What one run of \<open>AddIP\<close> may have sent, and what its result means.\<close>

definition add_outcome :: "string \<Rightarrow> addr \<Rightarrow> go_error + AddIPResult \<Rightarrow> dns_event list \<Rightarrow> bool" where
  "add_outcome key ip r es \<longleftrightarrow>
     (patches es = [] \<or>
      (\<exists>m. located key m es \<and> \<not> zone_has_ip ip (zm_Zone m) \<and>
         patches es = [(zoneEndpoint (zm_Domain m) (zm_ZoneName m),
                        BodyIPs (elems (z_IPs (zm_Zone m)) @ [addr_String ip]))])) \<and>
     (\<forall>result. r = Inr result \<longrightarrow>
        (if ar_Added result then patches es \<noteq> []
         else patches es = [] \<and> (\<exists>m. located key m es \<and> zone_has_ip ip (zm_Zone m))))"

lemma logs_add_to_zone:
  assumes "reads_zone key m answer"
  shows "logs run_log (add_to_zone p ip m)
    (\<lambda>r es. add_outcome key ip r (EvLock k # (EvGetDomains answer # es) @ [EvUnlock k]))"
proof -
  show ?thesis
    unfolding add_to_zone_def Let_def elems_copy
  proof (intro logs_dnsE logs_if logs_okE logs_bindE logs_patchZone)
    fix present
    assume "scan_ips ip (elems (z_IPs (zm_Zone m))) = Inr present" "present"
    then show "add_outcome key ip (Inr \<lparr>ar_FQDN = zm_FQDN m, ar_Added = False,
        ar_IPs = copy_slice (z_IPs (zm_Zone m))\<rparr>) (EvLock k # (EvGetDomains answer # []) @ [EvUnlock k])"
      using assms by (auto simp: add_outcome_def dest: scan_zone)
  next
    fix present
    assume "scan_ips ip (map zn_IP (elems (z_Nodes (zm_Zone m)))) = Inr present" "present"
    then show "add_outcome key ip (Inr \<lparr>ar_FQDN = zm_FQDN m, ar_Added = False,
        ar_IPs = copy_slice (z_IPs (zm_Zone m))\<rparr>) (EvLock k # (EvGetDomains answer # []) @ [EvUnlock k])"
      using assms by (auto simp: add_outcome_def dest: scan_zone)
  next
    fix present present' r a
    assume *: "scan_ips ip (elems (z_IPs (zm_Zone m))) = Inr present" "\<not> present"
      "scan_ips ip (map zn_IP (elems (z_Nodes (zm_Zone m)))) = Inr present'" "\<not> present'"
    let ?req = "\<lparr>pz_IPs = append_slice (copy_slice (z_IPs (zm_Zone m))) (addr_String ip), pz_Nodes = None\<rparr>"
    let ?ev = "EvPatch (zoneEndpoint (zm_Domain m) (zm_ZoneName m)) (MarshalJSON ?req) a"
    have body: "MarshalJSON ?req = BodyIPs (elems (z_IPs (zm_Zone m)) @ [addr_String ip])"
      by (simp add: MarshalJSON_def append_slice_def)
    have absent: "\<not> zone_has_ip ip (zm_Zone m)"
      using * scan_zone(3) by simp
    have outcome: "add_outcome key ip r' (EvLock k # (EvGetDomains answer # [?ev]) @ [EvUnlock k])"
      if "\<And>result. r' = Inr result \<Longrightarrow> ar_Added result" for r'
      using that absent assms by (auto simp: add_outcome_def body intro!: exI [of _ m])
    show "case r of Inl e \<Rightarrow> add_outcome key ip (Inl e) (EvLock k # (EvGetDomains answer # [?ev]) @ [EvUnlock k])
      | Inr x \<Rightarrow> logs run_log (okE \<lparr>ar_FQDN = zm_FQDN m, ar_Added = True,
            ar_IPs = append_slice (copy_slice (z_IPs (zm_Zone m))) (addr_String ip)\<rparr>)
          (\<lambda>r es'. add_outcome key ip r (EvLock k # (EvGetDomains answer # [?ev] @ es') @ [EvUnlock k]))"
      by (cases r) (auto intro!: logs_okE outcome [simplified])
  qed (auto simp: add_outcome_def)
qed

text \<open>
  C29. \<open>AddIP\<close> sends at most one PATCH.  It goes to the one zone that has the name asked for and
  did not hold the address; its body is every simple entry of the zone, unchanged and in order,
  followed by the new address.  The result says an address was added exactly when that PATCH was
  sent, and otherwise the zone holds the address already.
\<close>

theorem AddIP_keeps_entries:
  "\<exists>es. run_log (exec_state (AddIP p fqdn ip) s) = run_log s @ es \<and>
     add_outcome (normalizeFQDN fqdn) (Unmap ip) (result_of (AddIP p fqdn ip) s) es"
proof -
  have "logs run_log (AddIP p fqdn ip) (add_outcome (normalizeFQDN fqdn) (Unmap ip))"
    unfolding AddIP_def Let_def
    by (intro logs_if logs_failE logs_with_zone logs_on_zone logs_add_to_zone)
      (simp_all add: add_outcome_def)
  then show ?thesis unfolding logs_def by blast
qed

section \<open>Replacing an address\<close>

lemma parse_ips_names:
  "parse_ips (map f items) = Some parsed \<Longrightarrow> ip \<in> set parsed \<longleftrightarrow> (\<exists>x \<in> set items. names_ip ip (f x))"
  by (induction items arbitrary: parsed) (auto simp: names_ip_def split: option.splits)

lemma replaced_nodes_eq:
  "replaced_nodes oldIP newIP foundNew nodes =
     (if foundNew then filter (\<lambda>n. \<not> names_ip oldIP (zn_IP n)) nodes
      else map (\<lambda>n. if names_ip oldIP (zn_IP n) then n\<lparr>zn_IP := addr_String newIP\<rparr> else n) nodes)"
  by (induction nodes) auto

text \<open>
  The entries a zone should have after the replacement: in the advanced format every entry with
  another address is kept as it is, and the old address is rewritten, or dropped when the new one is
  there already; in the simple format every other address is kept, in canonical form.
\<close>

definition format_has_ip :: "addr \<Rightarrow> Zone \<Rightarrow> bool" where
  "format_has_ip ip zone \<longleftrightarrow>
     (if elems (z_Nodes zone) \<noteq> [] then list_ex (\<lambda>n. names_ip ip (zn_IP n)) (elems (z_Nodes zone))
      else list_ex (names_ip ip) (elems (z_IPs zone)))"

definition replaced_body :: "addr \<Rightarrow> addr \<Rightarrow> Zone \<Rightarrow> patch_body \<Rightarrow> bool" where
  "replaced_body oldIP newIP zone body \<longleftrightarrow>
     (if elems (z_Nodes zone) \<noteq> [] then
        (let nodes = elems (z_Nodes zone); has = (\<lambda>ip n. names_ip ip (zn_IP n))
         in list_ex (has oldIP) nodes \<and>
            body = BodyNodes (if list_ex (has newIP) nodes then filter (\<lambda>n. \<not> has oldIP n) nodes
              else map (\<lambda>n. if has oldIP n then n\<lparr>zn_IP := addr_String newIP\<rparr> else n) nodes))
      else
        (\<exists>parsed. parse_ips (elems (z_IPs zone)) = Some parsed \<and> oldIP \<in> set parsed \<and>
           body = BodyIPs (map addr_String (filter (\<lambda>a. a \<noteq> oldIP) parsed @
                             (if newIP \<in> set parsed then [] else [newIP])))))"

definition replace_outcome ::
  "string \<Rightarrow> addr \<Rightarrow> addr \<Rightarrow> go_error + ReplaceIPResult \<Rightarrow> dns_event list \<Rightarrow> bool" where
  "replace_outcome key oldIP newIP r es \<longleftrightarrow>
     (patches es = [] \<and> (\<forall>result. r = Inr result \<longrightarrow> \<not> rr_Changed result \<and>
        (\<exists>m. located key m es \<and> \<not> format_has_ip oldIP (zm_Zone m)))) \<or>
     (\<exists>m body. located key m es \<and> replaced_body oldIP newIP (zm_Zone m) body \<and>
        patches es = [(zoneEndpoint (zm_Domain m) (zm_ZoneName m), body)] \<and>
        (\<forall>result. r = Inr result \<longrightarrow> rr_Changed result))"

lemma logs_finish_replace:
  assumes "reads_zone key m answer" and "replaced_body oldIP newIP (zm_Zone m) (MarshalJSON request)"
    and "rr_Changed result"
  shows "logs run_log (bindE (patchZone p m request) (\<lambda>_. okE result))
    (\<lambda>r es. replace_outcome key oldIP newIP r (EvLock k # (EvGetDomains answer # es) @ [EvUnlock k]))"
proof (intro logs_bindE logs_patchZone)
  fix r a
  let ?ev = "EvPatch (zoneEndpoint (zm_Domain m) (zm_ZoneName m)) (MarshalJSON request) a"
  have "replace_outcome key oldIP newIP r' (EvLock k # (EvGetDomains answer # [?ev]) @ [EvUnlock k])"
    if "\<And>x. r' = Inr x \<Longrightarrow> rr_Changed x" for r'
    using that assms unfolding replace_outcome_def by (intro disjI2 exI [of _ m]) auto
  note outcome = this [simplified]
  show "case r of Inl e \<Rightarrow> replace_outcome key oldIP newIP (Inl e) (EvLock k # (EvGetDomains answer # [?ev]) @ [EvUnlock k])
    | Inr x \<Rightarrow> logs run_log (okE result)
        (\<lambda>r es'. replace_outcome key oldIP newIP r (EvLock k # (EvGetDomains answer # [?ev] @ es') @ [EvUnlock k]))"
    using assms(3) by (cases r) (auto intro!: logs_okE outcome)
qed

lemma replace_unchanged:
  assumes "reads_zone key m answer" and "\<not> format_has_ip oldIP (zm_Zone m)" and "\<not> rr_Changed result"
  shows "replace_outcome key oldIP newIP (Inr result) (EvLock k # (EvGetDomains answer # []) @ [EvUnlock k])"
  using assms by (auto simp: replace_outcome_def)

lemma replace_failed: "patches es = [] \<Longrightarrow> replace_outcome key oldIP newIP (Inl e) es"
  by (simp add: replace_outcome_def)

lemma logs_replace_nodes:
  assumes "reads_zone key m answer" and "elems (z_Nodes (zm_Zone m)) \<noteq> []"
  shows "logs run_log (replace_nodes p m oldIP newIP)
    (\<lambda>r es. replace_outcome key oldIP newIP r (EvLock k # (EvGetDomains answer # es) @ [EvUnlock k]))"
  unfolding replace_nodes_def Let_def
proof (intro logs_case_option logs_if logs_failE logs_okE)
  fix parsed
  assume parsed: "parse_ips (map zn_IP (elems (z_Nodes (zm_Zone m)))) = Some parsed"
  note names = parse_ips_names [OF parsed]
  show "replace_outcome key oldIP newIP (Inr \<lparr>rr_FQDN = zm_FQDN m, rr_Changed = False, rr_IPs = None,
      rr_Nodes = copy_slice (z_Nodes (zm_Zone m))\<rparr>) (EvLock k # (EvGetDomains answer # []) @ [EvUnlock k])"
    if "oldIP \<notin> set parsed"
    using that assms names [of oldIP]
    by (intro replace_unchanged) (auto simp: format_has_ip_def list_ex_iff)
  show "logs run_log (bindE (patchZone p m \<lparr>pz_IPs = None, pz_Nodes = Some (replaced_nodes oldIP newIP
        (newIP \<in> set parsed) (elems (z_Nodes (zm_Zone m))))\<rparr>) (\<lambda>_. okE \<lparr>rr_FQDN = zm_FQDN m,
        rr_Changed = True, rr_IPs = None, rr_Nodes = Some (replaced_nodes oldIP newIP
        (newIP \<in> set parsed) (elems (z_Nodes (zm_Zone m))))\<rparr>))
      (\<lambda>r es. replace_outcome key oldIP newIP r (EvLock k # (EvGetDomains answer # es) @ [EvUnlock k]))"
    if "\<not> oldIP \<notin> set parsed"
    using that assms names [of oldIP] names [of newIP]
    by (intro logs_finish_replace)
      (auto simp: replaced_body_def Let_def MarshalJSON_def replaced_nodes_eq list_ex_iff)
qed (simp_all add: replace_failed)

lemma logs_replace_ips:
  assumes "reads_zone key m answer" and "elems (z_Nodes (zm_Zone m)) = []"
  shows "logs run_log (replace_ips p m oldIP newIP)
    (\<lambda>r es. replace_outcome key oldIP newIP r (EvLock k # (EvGetDomains answer # es) @ [EvUnlock k]))"
  unfolding replace_ips_def Let_def
proof (intro logs_case_option)
  fix parsed
  assume parsed: "parse_ips (elems (z_IPs (zm_Zone m))) = Some parsed"
  have names: "ip \<in> set parsed \<longleftrightarrow> list_ex (names_ip ip) (elems (z_IPs (zm_Zone m)))" for ip
    using parse_ips_names [of "\<lambda>x. x" "elems (z_IPs (zm_Zone m))" parsed] parsed by (simp add: list_ex_iff)
  let ?rest = "map addr_String (filter (\<lambda>a. a \<noteq> oldIP) parsed)"
  let ?complete = "if newIP \<in> set parsed then ?rest else ?rest @ [addr_String newIP]"
  have unchanged: "replace_outcome key oldIP newIP (Inr \<lparr>rr_FQDN = zm_FQDN m, rr_Changed = False,
      rr_IPs = Some ?rest, rr_Nodes = None\<rparr>) (EvLock k # (EvGetDomains answer # []) @ [EvUnlock k])"
    if "oldIP \<notin> set parsed"
    using that assms names [of oldIP] by (intro replace_unchanged) (auto simp: format_has_ip_def)
  have changed: "logs run_log (bindE (patchZone p m \<lparr>pz_IPs = Some ?complete, pz_Nodes = None\<rparr>)
      (\<lambda>_. okE \<lparr>rr_FQDN = zm_FQDN m, rr_Changed = True, rr_IPs = Some ?complete, rr_Nodes = None\<rparr>))
      (\<lambda>r es. replace_outcome key oldIP newIP r (EvLock k # (EvGetDomains answer # es) @ [EvUnlock k]))"
    if "oldIP \<in> set parsed"
    using that assms parsed by (intro logs_finish_replace) (auto simp: replaced_body_def MarshalJSON_def)
  show "logs run_log (if oldIP \<notin> set parsed then
         (if newIP \<in> set parsed
          then okE \<lparr>rr_FQDN = zm_FQDN m, rr_Changed = False, rr_IPs = Some ?rest, rr_Nodes = None\<rparr>
          else failE (DnsErr DnsNotFound))
       else bindE (patchZone p m \<lparr>pz_IPs = Some ?complete, pz_Nodes = None\<rparr>)
         (\<lambda>_. okE \<lparr>rr_FQDN = zm_FQDN m, rr_Changed = True, rr_IPs = Some ?complete, rr_Nodes = None\<rparr>))
      (\<lambda>r es. replace_outcome key oldIP newIP r (EvLock k # (EvGetDomains answer # es) @ [EvUnlock k]))"
    by (intro logs_if logs_okE logs_failE unchanged changed) (simp_all add: replace_failed)
qed (simp add: logs_failE replace_failed)

text \<open>
  \<open>ReplaceIP\<close> sends at most one PATCH, to the zone that has the name asked for and holds the
  old address.  The body keeps every entry with another address, in order and in the zone's own
  format, and has the new address in place of the old one, or only drops the old one when the new
  one is there already.  A result \<open>Changed = false\<close> means the old address was not in the zone.
\<close>

theorem ReplaceIP_keeps_others:
  "\<exists>es. run_log (exec_state (ReplaceIP p fqdn oldIP newIP) s) = run_log s @ es \<and>
     replace_outcome (normalizeFQDN fqdn) (Unmap oldIP) (Unmap newIP)
       (result_of (ReplaceIP p fqdn oldIP newIP) s) es"
proof -
  have "logs run_log (ReplaceIP p fqdn oldIP newIP)
      (replace_outcome (normalizeFQDN fqdn) (Unmap oldIP) (Unmap newIP))"
    unfolding ReplaceIP_def Let_def
    by (intro logs_if logs_failE logs_with_zone logs_on_zone logs_replace_nodes logs_replace_ips)
      (simp_all add: replace_failed)
  then show ?thesis unfolding logs_def by blast
qed

section \<open>Moving an address\<close>

text \<open>The PATCH requests of a run, each with whether the service answered that it was applied.\<close>

definition applied :: "string option http_answer \<Rightarrow> bool" where
  "applied answer \<longleftrightarrow> answer = HttpAnswer 200 (OneValue (Some ''ok''))"

fun sent :: "dns_event list \<Rightarrow> (string \<times> patch_body \<times> bool) list" where
  "sent [] = []"
| "sent (EvPatch path body answer # es) = (path, body, applied answer) # sent es"
| "sent (EvLock key # es) = sent es"
| "sent (EvUnlock key # es) = sent es"
| "sent (EvGetDomains answer # es) = sent es"

lemma sent_append [simp]: "sent (es @ es') = sent es @ sent es'"
  by (induction es rule: sent.induct) auto















text \<open>
  The snapshot of a zone with entries sends those entries back in the zone's own format.  The
  snapshot of a zone without entries does not: copying an empty slice gives \<^verbatim>\<open>nil\<close>, so the body is
  \<open>{"ips":null}\<close>, for a zone of the advanced format too, where it should be an empty list of
  nodes.
\<close>

theorem zoneSnapshotRequest_body:
  "MarshalJSON (zoneSnapshotRequest zone) =
     (case z_Nodes zone of
        Some nodes \<Rightarrow> if nodes = [] then BodyIPsNull else BodyNodes nodes
      | None \<Rightarrow> if elems (z_IPs zone) = [] then BodyIPsNull else BodyIPs (elems (z_IPs zone)))"
  by (auto simp: MarshalJSON_def zoneSnapshotRequest_def copy_slice_def elems_def split: option.splits)

end
