(* ===== verification/Zone_Lock.thy ===== *)
theory Zone_Lock
  imports Dns_Client
begin

text \<open>
  \<^verbatim>\<open>MemoryZoneLocker\<close> (\<^verbatim>\<open>internal/dnsbalancer/lock.go\<close>) as a step relation.  A goroutine is a
  number; its program counter says where it is inside \<^verbatim>\<open>Lock\<close> or the unlock function.  One step is
  one critical section of \<^verbatim>\<open>l.mu\<close> or one channel operation; any number of goroutines interleave.
\<close>

text \<open>
  \<open>Waiting k e\<close> is the \<^verbatim>\<open>select\<close> on the token of entry \<open>e\<close>; \<open>Holding k e\<close> is the caller between
  \<^verbatim>\<open>Lock\<close> and its unlock function; \<open>Leaving k e\<close> is just before \<^verbatim>\<open>l.release(key, entry)\<close>.
  An entry is an allocation: \<open>l_next\<close> is the next address.
\<close>

datatype pc = Idle | Waiting string nat | Holding string nat | Leaving string nat

record locker =
  l_pc :: "nat \<Rightarrow> pc"
  l_entries :: "string \<Rightarrow> nat option"
  l_token :: "nat \<Rightarrow> bool"
  l_refs :: "nat \<Rightarrow> int"
  l_next :: nat

definition NewMemoryZoneLocker :: locker where
  "NewMemoryZoneLocker = \<lparr>l_pc = (\<lambda>_. Idle), l_entries = (\<lambda>_. None), l_token = (\<lambda>_. False),
     l_refs = (\<lambda>_. 0), l_next = 0\<rparr>"

definition lock_entry :: "nat \<Rightarrow> string \<Rightarrow> locker \<Rightarrow> locker" where
  "lock_entry t key s =
     (case l_entries s key of
        None \<Rightarrow>
          s\<lparr>l_pc := (l_pc s)(t := Waiting key (l_next s)),
            l_entries := (l_entries s)(key := Some (l_next s)),
            l_token := (l_token s)(l_next s := True),
            l_refs := (l_refs s)(l_next s := 1),
            l_next := Suc (l_next s)\<rparr>
      | Some e \<Rightarrow>
          s\<lparr>l_pc := (l_pc s)(t := Waiting key e), l_refs := (l_refs s)(e := l_refs s e + 1)\<rparr>)"

definition release_entry :: "nat \<Rightarrow> string \<Rightarrow> nat \<Rightarrow> locker \<Rightarrow> locker" where
  "release_entry t key e s =
     s\<lparr>l_pc := (l_pc s)(t := Idle),
       l_refs := (l_refs s)(e := l_refs s e - 1),
       l_entries := (if l_refs s e - 1 = 0 \<and> l_entries s key = Some e
                     then (l_entries s)(key := None) else l_entries s)\<rparr>"

inductive lock_step :: "locker \<Rightarrow> locker \<Rightarrow> bool" where
  Lock: "l_pc s t = Idle \<Longrightarrow> lock_step s (lock_entry t key s)"
| Take: "l_pc s t = Waiting key e \<Longrightarrow> l_token s e \<Longrightarrow>
    lock_step s (s\<lparr>l_pc := (l_pc s)(t := Holding key e), l_token := (l_token s)(e := False)\<rparr>)"
| Cancelled: "l_pc s t = Waiting key e \<Longrightarrow> lock_step s (s\<lparr>l_pc := (l_pc s)(t := Leaving key e)\<rparr>)"
| Unlock: "l_pc s t = Holding key e \<Longrightarrow> \<not> l_token s e \<Longrightarrow>
    lock_step s (s\<lparr>l_pc := (l_pc s)(t := Leaving key e), l_token := (l_token s)(e := True)\<rparr>)"
| Release: "l_pc s t = Leaving key e \<Longrightarrow> lock_step s (release_entry t key e s)"

inductive_cases lock_stepE: "lock_step s s'"

inductive lock_reachable :: "locker \<Rightarrow> bool" where
  Start: "lock_reachable NewMemoryZoneLocker"
| Step: "lock_reachable s \<Longrightarrow> lock_step s s' \<Longrightarrow> lock_reachable s'"

section \<open>The invariant\<close>

fun on :: "nat \<Rightarrow> pc \<Rightarrow> bool" where
  "on e Idle = False"
| "on e (Waiting k d) = (d = e)"
| "on e (Holding k d) = (d = e)"
| "on e (Leaving k d) = (d = e)"

fun key_of :: "pc \<Rightarrow> string option" where
  "key_of Idle = None"
| "key_of (Waiting k d) = Some k"
| "key_of (Holding k d) = Some k"
| "key_of (Leaving k d) = Some k"

fun holds :: "nat \<Rightarrow> pc \<Rightarrow> bool" where
  "holds e (Holding k d) = (d = e)"
| "holds e _ = False"

definition users :: "locker \<Rightarrow> nat \<Rightarrow> nat set" where
  "users s e = {t. on e (l_pc s t)}"

definition holders :: "locker \<Rightarrow> nat \<Rightarrow> nat set" where
  "holders s e = {t. holds e (l_pc s t)}"

definition lock_inv :: "locker \<Rightarrow> bool" where
  "lock_inv s \<longleftrightarrow>
     (\<forall>t e k. on e (l_pc s t) \<longrightarrow> key_of (l_pc s t) = Some k \<longrightarrow> l_entries s k = Some e) \<and>
     (\<forall>k e. l_entries s k = Some e \<longrightarrow> e < l_next s \<and> 0 < l_refs s e) \<and>
     (\<forall>k k' e. l_entries s k = Some e \<longrightarrow> l_entries s k' = Some e \<longrightarrow> k = k') \<and>
     (\<forall>e. finite (users s e) \<and> (e < l_next s \<longrightarrow> l_refs s e = int (card (users s e)))) \<and>
     (\<forall>e. e < l_next s \<longrightarrow> holders s e = {} \<longleftrightarrow> l_token s e) \<and>
     (\<forall>e t t'. t \<in> holders s e \<longrightarrow> t' \<in> holders s e \<longrightarrow> t = t')"

lemma holds_on: "holds e p \<Longrightarrow> on e p"
  by (cases p) auto

lemma on_key: "on e p \<Longrightarrow> \<exists>k. key_of p = Some k"
  by (cases p) auto

lemma on_holds: "holds e p \<Longrightarrow> on e p"
  by (cases p) auto

lemma lock_invI:
  assumes "\<And>t e k. on e (l_pc s t) \<Longrightarrow> key_of (l_pc s t) = Some k \<Longrightarrow> l_entries s k = Some e"
    and "\<And>k e. l_entries s k = Some e \<Longrightarrow> e < l_next s"
    and "\<And>k e. l_entries s k = Some e \<Longrightarrow> 0 < l_refs s e"
    and "\<And>k k' e. l_entries s k = Some e \<Longrightarrow> l_entries s k' = Some e \<Longrightarrow> k = k'"
    and "\<And>e. finite (users s e)"
    and "\<And>e. e < l_next s \<Longrightarrow> l_refs s e = int (card (users s e))"
    and "\<And>e. e < l_next s \<Longrightarrow> holders s e = {} \<longleftrightarrow> l_token s e"
    and "\<And>e t t'. t \<in> holders s e \<Longrightarrow> t' \<in> holders s e \<Longrightarrow> t = t'"
  shows "lock_inv s"
  unfolding lock_inv_def using assms by blast

lemma lock_invD:
  assumes "lock_inv s"
  shows "on e (l_pc s t) \<Longrightarrow> key_of (l_pc s t) = Some k \<Longrightarrow> l_entries s k = Some e"
    and "l_entries s k = Some e \<Longrightarrow> e < l_next s"
    and "l_entries s k = Some e \<Longrightarrow> 0 < l_refs s e"
    and "l_entries s k = Some e \<Longrightarrow> l_entries s k' = Some e \<Longrightarrow> k = k'"
    and "finite (users s e)"
    and "e < l_next s \<Longrightarrow> l_refs s e = int (card (users s e))"
    and "e < l_next s \<Longrightarrow> holders s e = {} \<longleftrightarrow> l_token s e"
    and "t \<in> holders s e \<Longrightarrow> t' \<in> holders s e \<Longrightarrow> t = t'"
  using assms unfolding lock_inv_def by blast+

lemma lock_inv_init: "lock_inv NewMemoryZoneLocker"
  by (simp add: lock_inv_def NewMemoryZoneLocker_def users_def holders_def)

text \<open>How a change of one program counter changes the users and the holders of an entry.\<close>

lemma users_upd:
  "l_pc s' = (l_pc s)(t := p) \<Longrightarrow> users s' e = (if on e p then insert t (users s e) else users s e - {t})"
  by (auto simp: users_def)

lemma holders_upd:
  "l_pc s' = (l_pc s)(t := p) \<Longrightarrow>
     holders s' e = (if holds e p then insert t (holders s e) else holders s e - {t})"
  by (auto simp: holders_def)

lemma on_pc [simp]: "on e p \<Longrightarrow> p \<noteq> Idle"
  by auto

text \<open>A step inside one entry: the key and the entry of the goroutine stay the same.\<close>

lemma lock_inv_inside:
  assumes inv: "lock_inv s" and pc: "l_pc s t = p" "on d p" "on d p'" "key_of p' = key_of p"
    and s': "s' = s\<lparr>l_pc := (l_pc s)(t := p'), l_token := (l_token s)(d := free)\<rparr>"
    and free: "holders s' d = {} \<longleftrightarrow> free"
    and single: "\<And>a b. a \<in> holders s' d \<Longrightarrow> b \<in> holders s' d \<Longrightarrow> a = b"
  shows "lock_inv s'"
proof -
  have only: "e = d" if "on e p \<or> on e p'" for e
    using that pc by (cases p; cases p') auto
  have users: "users s' e = users s e" for e
    using only pc by (auto simp: s' users_def)
  have holders: "holders s' e = holders s e" if "e \<noteq> d" for e
    using only [of e] that on_holds pc(1) by (auto simp: s' holders_def)
  have same: "l_entries s' = l_entries s" "l_next s' = l_next s" "l_refs s' = l_refs s"
    by (simp_all add: s')
  show ?thesis
  proof (rule lock_invI)
    show "l_entries s' k = Some e" if "on e (l_pc s' u)" "key_of (l_pc s' u) = Some k" for u e k
      using that only pc lock_invD(1) [OF inv, of e u k] by (cases "u = t") (auto simp: s')
    show "e < l_next s'" if "l_entries s' k = Some e" for k e
      using that lock_invD(2) [OF inv, of k e] by (simp add: same)
    show "0 < l_refs s' e" if "l_entries s' k = Some e" for k e
      using that lock_invD(3) [OF inv, of k e] by (simp add: same)
    show "k = k'" if "l_entries s' k = Some e" "l_entries s' k' = Some e" for k k' e
      using that lock_invD(4) [OF inv, of k e k'] by (simp add: same)
    show "finite (users s' e)" for e using lock_invD(5) [OF inv] by (auto simp: users)
    show "l_refs s' e = int (card (users s' e))" if "e < l_next s'" for e
      using that lock_invD(6) [OF inv, of e] by (simp add: users same)
    show "(holders s' e = {}) = l_token s' e" if "e < l_next s'" for e
      using that free lock_invD(7) [OF inv, of e] by (cases "e = d") (simp_all add: holders, simp_all add: s')
    show "a = b" if "a \<in> holders s' e" "b \<in> holders s' e" for a b e
      using that single lock_invD(8) [OF inv, of a e b] by (cases "e = d") (simp_all add: holders)
  qed
qed

lemma lock_inv_entry:
  assumes "lock_inv s" and "on e (l_pc s t)"
  shows "e < l_next s" and "0 < l_refs s e"
proof -
  obtain k where "key_of (l_pc s t) = Some k" using on_key [OF assms(2)] by blast
  then have "l_entries s k = Some e" by (rule lock_invD(1) [OF assms])
  then show "e < l_next s" and "0 < l_refs s e" by (rule lock_invD [OF assms(1)])+
qed

lemma lock_inv_lock:
  assumes inv: "lock_inv s" and pc: "l_pc s t = Idle"
  shows "lock_inv (lock_entry t key s)"
proof (cases "l_entries s key")
  case None
  let ?n = "l_next s" and ?s = "lock_entry t key s"
  have s': "?s = s\<lparr>l_pc := (l_pc s)(t := Waiting key ?n), l_entries := (l_entries s)(key := Some ?n),
      l_token := (l_token s)(?n := True), l_refs := (l_refs s)(?n := 1), l_next := Suc ?n\<rparr>"
    by (simp add: lock_entry_def None)
  have fresh: "\<not> on ?n (l_pc s u)" for u
    using lock_inv_entry(1) [OF inv, of ?n u] by blast
  have unused: "l_entries s k \<noteq> Some ?n" for k
    using lock_invD(2) [OF inv, of k ?n] by auto
  have users: "users ?s e = (if e = ?n then {t} else users s e)" for e
    using fresh pc by (auto simp: s' users_def)
  have holders: "holders ?s e = holders s e" for e
    using pc by (auto simp: s' holders_def)
  have none: "holders s ?n = {}" using fresh on_holds by (auto simp: holders_def)
  have old: "k = key \<and> e = ?n \<or> l_entries s k = Some e \<and> k \<noteq> key" if "l_entries ?s k = Some e" for k e
    using that by (simp add: s' split: if_splits)
  show ?thesis
  proof (rule lock_invI)
    show "l_entries ?s k = Some e" if "on e (l_pc ?s u)" "key_of (l_pc ?s u) = Some k" for u e k
    proof (cases "u = t")
      case True
      then have "e = ?n" "k = key" using that by (simp_all add: s')
      then show ?thesis by (simp add: s')
    next
      case False
      then have "l_entries s k = Some e" using that lock_invD(1) [OF inv, of e u k] by (simp add: s')
      then show ?thesis using None by (auto simp: s')
    qed
    show "e < l_next ?s" if "l_entries ?s k = Some e" for k e
      using old [OF that] lock_invD(2) [OF inv, of k e] by (auto simp: s')
    show "0 < l_refs ?s e" if "l_entries ?s k = Some e" for k e
      using old [OF that] lock_invD(3) [OF inv, of k e] by (auto simp: s')
    show "k = k'" if "l_entries ?s k = Some e" "l_entries ?s k' = Some e" for k k' e
      using old [OF that(1)] old [OF that(2)] unused lock_invD(4) [OF inv, of k e k'] by auto
    show "finite (users ?s e)" for e using lock_invD(5) [OF inv] by (auto simp: users)
    show "l_refs ?s e = int (card (users ?s e))" if "e < l_next ?s" for e
      unfolding users using that lock_invD(6) [OF inv, of e] by (auto simp: s' less_Suc_eq)
    show "(holders ?s e = {}) = l_token ?s e" if "e < l_next ?s" for e
      unfolding holders using that lock_invD(7) [OF inv, of e] none by (auto simp: s' less_Suc_eq)
    show "a = b" if "a \<in> holders ?s e" "b \<in> holders ?s e" for a b e
      using that lock_invD(8) [OF inv] by (simp add: holders)
  qed
next
  case (Some d)
  let ?s = "lock_entry t key s"
  have s': "?s = s\<lparr>l_pc := (l_pc s)(t := Waiting key d), l_refs := (l_refs s)(d := l_refs s d + 1)\<rparr>"
    by (simp add: lock_entry_def Some)
  have users: "users ?s e = (if e = d then insert t (users s e) else users s e)" for e
    using pc by (auto simp: s' users_def)
  have holders: "holders ?s e = holders s e" for e
    using pc by (auto simp: s' holders_def)
  have out: "t \<notin> users s d" using pc by (simp add: users_def)
  have same: "l_entries ?s = l_entries s" "l_next ?s = l_next s" "l_token ?s = l_token s"
    by (simp_all add: s')
  show ?thesis
  proof (rule lock_invI)
    show "l_entries ?s k = Some e" if "on e (l_pc ?s u)" "key_of (l_pc ?s u) = Some k" for u e k
    proof (cases "u = t")
      case True
      then have "e = d" "k = key" using that by (simp_all add: s')
      then show ?thesis by (simp add: s' Some)
    next
      case False
      then show ?thesis using that lock_invD(1) [OF inv, of e u k] by (simp add: s')
    qed
    show "e < l_next ?s" if "l_entries ?s k = Some e" for k e
      using that lock_invD(2) [OF inv, of k e] by (simp add: same)
    show "0 < l_refs ?s e" if "l_entries ?s k = Some e" for k e
      using that lock_invD(3) [OF inv, of k e] by (auto simp: s')
    show "k = k'" if "l_entries ?s k = Some e" "l_entries ?s k' = Some e" for k k' e
      using that lock_invD(4) [OF inv, of k e k'] by (simp add: same)
    show "finite (users ?s e)" for e using lock_invD(5) [OF inv] by (auto simp: users)
    show "l_refs ?s e = int (card (users ?s e))" if "e < l_next ?s" for e
      unfolding users using that lock_invD(6) [OF inv, of e] lock_invD(5) [OF inv, of e] out by (auto simp: s')
    show "(holders ?s e = {}) = l_token ?s e" if "e < l_next ?s" for e
      unfolding holders using that lock_invD(7) [OF inv, of e] by (simp add: same)
    show "a = b" if "a \<in> holders ?s e" "b \<in> holders ?s e" for a b e
      using that lock_invD(8) [OF inv] by (simp add: holders)
  qed
qed

lemma lock_inv_release:
  assumes inv: "lock_inv s" and pc: "l_pc s t = Leaving key d"
  shows "lock_inv (release_entry t key d s)"
proof -
  let ?s = "release_entry t key d s"
  have here: "l_entries s key = Some d" using lock_invD(1) [OF inv, of d t key] pc by simp
  have users: "users ?s e = (if e = d then users s e - {t} else users s e)" for e
    using pc by (auto simp: release_entry_def users_def)
  have holders: "holders ?s e = holders s e" for e
    using pc by (auto simp: release_entry_def holders_def)
  have member: "t \<in> users s d" using pc by (simp add: users_def)
  have refs: "l_refs s d = int (card (users s d))"
    using lock_invD(6) [OF inv lock_invD(2) [OF inv here]] .
  have count: "int (card (users s d - {t})) = l_refs s d - 1"
    using member lock_invD(5) [OF inv, of d] card_gt_0_iff [of "users s d"] by (auto simp: refs)
  have last: "u = t" if "l_refs s d - 1 = 0" "on d (l_pc s u)" for u
  proof -
    have "card (users s d - {t}) = 0" using that(1) count by simp
    then have "users s d - {t} = {}" using lock_invD(5) [OF inv, of d] by simp
    then show ?thesis using that(2) by (auto simp: users_def)
  qed
  have old: "l_entries s k = Some e \<and> \<not> (l_refs s d - 1 = 0 \<and> k = key)" if "l_entries ?s k = Some e" for k e
    using that here by (simp add: release_entry_def split: if_splits)
  show ?thesis
  proof (rule lock_invI)
    fix u e k
    assume u: "on e (l_pc ?s u)" "key_of (l_pc ?s u) = Some k"
    then have "u \<noteq> t" by (auto simp: release_entry_def)
    then have on: "on e (l_pc s u)" using u by (simp add: release_entry_def)
    then have e: "l_entries s k = Some e"
      using u \<open>u \<noteq> t\<close> lock_invD(1) [OF inv, of e u k] by (simp add: release_entry_def)
    have "e \<noteq> d" if "l_refs s d - 1 = 0" using last [OF that, of u] on \<open>u \<noteq> t\<close> by blast
    then show "l_entries ?s k = Some e" using e here by (auto simp: release_entry_def)
  next
    show "e < l_next ?s" if "l_entries ?s k = Some e" for k e
      using old [OF that] lock_invD(2) [OF inv, of k e] by (simp add: release_entry_def)
    show "0 < l_refs ?s e" if "l_entries ?s k = Some e" for k e
    proof (cases "e = d")
      case True
      then have "k = key" using old [OF that] here lock_invD(4) [OF inv, of k d key] by simp
      then show ?thesis using True old [OF that] lock_invD(3) [OF inv, of k e] by (simp add: release_entry_def)
    next
      case False
      then show ?thesis using old [OF that] lock_invD(3) [OF inv, of k e] by (simp add: release_entry_def)
    qed
    show "k = k'" if "l_entries ?s k = Some e" "l_entries ?s k' = Some e" for k k' e
      using old [OF that(1)] old [OF that(2)] lock_invD(4) [OF inv, of k e k'] by simp
    show "finite (users ?s e)" for e using lock_invD(5) [OF inv, of e] by (auto simp: users)
    show "l_refs ?s e = int (card (users ?s e))" if "e < l_next ?s" for e
      unfolding users using that count lock_invD(6) [OF inv, of e] by (simp add: release_entry_def)
    show "(holders ?s e = {}) = l_token ?s e" if "e < l_next ?s" for e
      unfolding holders using that lock_invD(7) [OF inv, of e] by (simp add: release_entry_def)
    show "a = b" if "a \<in> holders ?s e" "b \<in> holders ?s e" for a b e
      using that lock_invD(8) [OF inv] by (simp add: holders)
  qed
qed

lemma lock_inv_take:
  assumes inv: "lock_inv s" and pc: "l_pc s t = Waiting key e" and tok: "l_token s e"
  shows "lock_inv (s\<lparr>l_pc := (l_pc s)(t := Holding key e), l_token := (l_token s)(e := False)\<rparr>)" (is "lock_inv ?s")
proof -
  have "e < l_next s" using lock_inv_entry(1) [OF inv, of e t] pc by simp
  then have "holders s e = {}" using lock_invD(7) [OF inv] tok by blast
  then have "holders ?s e = {t}" using holders_upd [of ?s s t "Holding key e" e] by simp
  then show ?thesis by (intro lock_inv_inside [OF inv pc _ _ _ refl]) simp_all
qed

lemma lock_inv_cancel:
  assumes inv: "lock_inv s" and pc: "l_pc s t = Waiting key e"
  shows "lock_inv (s\<lparr>l_pc := (l_pc s)(t := Leaving key e)\<rparr>)" (is "lock_inv ?s")
proof -
  have s': "?s = s\<lparr>l_pc := (l_pc s)(t := Leaving key e), l_token := (l_token s)(e := l_token s e)\<rparr>"
    by simp
  have h: "holders ?s e = holders s e" using pc by (auto simp: holders_def)
  have "e < l_next s" using lock_inv_entry(1) [OF inv, of e t] pc by simp
  then have "(holders ?s e = {}) = l_token s e" using lock_invD(7) [OF inv] h by simp
  then show ?thesis
    using lock_invD(8) [OF inv, of _ e] by (intro lock_inv_inside [OF inv pc _ _ _ s']) (simp_all add: h)
qed

lemma lock_inv_unlock:
  assumes inv: "lock_inv s" and pc: "l_pc s t = Holding key e"
  shows "lock_inv (s\<lparr>l_pc := (l_pc s)(t := Leaving key e), l_token := (l_token s)(e := True)\<rparr>)" (is "lock_inv ?s")
proof -
  have "t \<in> holders s e" using pc by (simp add: holders_def)
  then have "holders s e - {t} = {}" using lock_invD(8) [OF inv] by blast
  then have "holders ?s e = {}" using holders_upd [of ?s s t "Leaving key e" e] by simp
  then show ?thesis by (intro lock_inv_inside [OF inv pc _ _ _ refl]) simp_all
qed

lemma lock_inv_step: "lock_inv s \<Longrightarrow> lock_step s s' \<Longrightarrow> lock_inv s'"
  by (elim lock_stepE)
    (simp_all add: lock_inv_lock lock_inv_take lock_inv_cancel lock_inv_unlock lock_inv_release)

lemma lock_inv_reachable: "lock_reachable s \<Longrightarrow> lock_inv s"
  by (induction rule: lock_reachable.induct) (auto intro: lock_inv_init lock_inv_step)

section \<open>Properties\<close>

text \<open>
  C30. Two goroutines never hold the lock of one zone at the same time, whatever the interleaving
  of calls, cancellations and releases; and the table of entries does not leak: it has an entry
  for a key exactly while some goroutine is inside \<^verbatim>\<open>Lock\<close> or holds that key.
\<close>

theorem zone_lock_mutual_exclusion:
  assumes "lock_reachable s"
  shows "(\<forall>t t' key e e'. l_pc s t = Holding key e \<longrightarrow> l_pc s t' = Holding key e' \<longrightarrow> t = t') \<and>
    (\<forall>key. l_entries s key \<noteq> None \<longleftrightarrow> (\<exists>t. key_of (l_pc s t) = Some key))"
proof (intro conjI allI impI)
  note inv = lock_inv_reachable [OF assms]
  fix t t' key e e'
  assume h: "l_pc s t = Holding key e" "l_pc s t' = Holding key e'"
  then have "l_entries s key = Some e" "l_entries s key = Some e'"
    using lock_invD(1) [OF inv, of e t key] lock_invD(1) [OF inv, of e' t' key] by simp_all
  then have "t \<in> holders s e" "t' \<in> holders s e" using h by (simp_all add: holders_def)
  then show "t = t'" by (rule lock_invD(8) [OF inv])
next
  note inv = lock_inv_reachable [OF assms]
  fix key
  show "l_entries s key \<noteq> None \<longleftrightarrow> (\<exists>t. key_of (l_pc s t) = Some key)"
  proof
    assume "l_entries s key \<noteq> None"
    then obtain e where e: "l_entries s key = Some e" by blast
    have "0 < int (card (users s e))"
      using lock_invD(3) [OF inv e] lock_invD(6) [OF inv lock_invD(2) [OF inv e]] by simp
    then obtain t where t: "on e (l_pc s t)" by (fastforce simp: users_def card_gt_0_iff)
    then obtain k where k: "key_of (l_pc s t) = Some k" using on_key by blast
    have "k = key" using lock_invD(4) [OF inv lock_invD(1) [OF inv t k] e] .
    then show "\<exists>t. key_of (l_pc s t) = Some key" using k by blast
  next
    assume "\<exists>t. key_of (l_pc s t) = Some key"
    then obtain t where k: "key_of (l_pc s t) = Some key" by blast
    then obtain e where "on e (l_pc s t)" by (cases "l_pc s t") auto
    then show "l_entries s key \<noteq> None" using lock_invD(1) [OF inv _ k] by simp
  qed
qed

text \<open>A run in which one goroutine holds a zone while another waits for it.\<close>

definition contended :: locker where
  "contended =
     (let s = lock_entry 0 ''a.example'' NewMemoryZoneLocker;
          s = s\<lparr>l_pc := (l_pc s)(0 := Holding ''a.example'' 0), l_token := (l_token s)(0 := False)\<rparr>
      in lock_entry 1 ''a.example'' s)"

lemma contended_reachable: "lock_reachable contended"
proof -
  let ?a = "lock_entry 0 ''a.example'' NewMemoryZoneLocker"
  let ?b = "?a\<lparr>l_pc := (l_pc ?a)(0 := Holding ''a.example'' 0), l_token := (l_token ?a)(0 := False)\<rparr>"
  have "lock_reachable ?a" by (rule Step [OF Start], rule Lock) (simp add: NewMemoryZoneLocker_def)
  moreover have "lock_step ?a ?b"
    by (rule Take) (simp_all add: lock_entry_def NewMemoryZoneLocker_def)
  moreover have "lock_step ?b (lock_entry 1 ''a.example'' ?b)"
    by (rule Lock) (simp add: lock_entry_def NewMemoryZoneLocker_def)
  ultimately show ?thesis unfolding contended_def Let_def by (blast intro: Step)
qed

theorem zone_lock_mutual_exclusion_witness:
  "l_pc contended 1 = Waiting ''a.example'' 0 \<and> {t. l_pc contended t = Holding ''a.example'' 0} = {0}"
proof -
  have h: "l_pc contended 0 = Holding ''a.example'' 0" "l_pc contended 1 = Waiting ''a.example'' 0"
    by (simp_all add: contended_def lock_entry_def NewMemoryZoneLocker_def)
  show ?thesis using zone_lock_mutual_exclusion [OF contended_reachable] h by blast
qed

text \<open>
  C34. A waiting goroutine is never stuck behind nobody: when the zone is not held, the token is
  there and the goroutine can take it, so a cancelled waiter or an unlock loses no wake-up.
\<close>

theorem zone_lock_no_lost_wakeup:
  assumes "lock_reachable s" and "l_pc s t = Waiting key e" and "\<forall>u d. l_pc s u \<noteq> Holding key d"
  shows "\<exists>s'. lock_step s s' \<and> l_pc s' t = Holding key e"
proof -
  note inv = lock_inv_reachable [OF assms(1)]
  have here: "l_entries s key = Some e" using lock_invD(1) [OF inv, of e t key] assms(2) by simp
  have "holders s e = {}"
  proof (rule ccontr)
    assume "holders s e \<noteq> {}"
    then obtain u where u: "holds e (l_pc s u)" by (auto simp: holders_def)
    then obtain k where k: "l_pc s u = Holding k e" by (cases "l_pc s u") auto
    then have "l_entries s k = Some e" using lock_invD(1) [OF inv, of e u k] by simp
    then have "k = key" using lock_invD(4) [OF inv _ here] by blast
    then show False using assms(3) k by blast
  qed
  then have "l_token s e" using lock_invD(7) [OF inv lock_invD(2) [OF inv here]] by blast
  from Take [OF assms(2) this] show ?thesis by auto
qed

definition waiting_alone :: locker where
  "waiting_alone = lock_entry 1 ''a.example'' NewMemoryZoneLocker"

theorem zone_lock_no_lost_wakeup_witness:
  "l_pc waiting_alone 1 = Waiting ''a.example'' 0 \<and>
   (\<exists>s'. lock_step waiting_alone s' \<and> l_pc s' 1 = Holding ''a.example'' 0)"
proof -
  have r: "lock_reachable waiting_alone"
    unfolding waiting_alone_def by (rule Step [OF Start], rule Lock) (simp add: NewMemoryZoneLocker_def)
  have w: "l_pc waiting_alone 1 = Waiting ''a.example'' 0"
    and n: "\<forall>u d. l_pc waiting_alone u \<noteq> Holding ''a.example'' d"
    by (simp_all add: waiting_alone_def lock_entry_def NewMemoryZoneLocker_def)
  show ?thesis using zone_lock_no_lost_wakeup [OF r w n] w by blast
qed

end
