(* ===== verification/Remnawave.thy ===== *)
theory Remnawave
  imports Deployment Go_Errors
begin

text \<open>
  The data of the Remnawave client (\<^verbatim>\<open>internal/remnawave/models.go\<close> and \<^verbatim>\<open>wire.go\<close>) and its
  validation rules (\<^verbatim>\<open>validation.go\<close>): which responses are accepted, how a Host gives a deployment
  profile, and when a Node is a duplicate.
\<close>

section \<open>Models\<close>

record HostInbound =
  hi_ConfigProfileUUID :: "string option"
  hi_ConfigProfileInboundUUID :: "string option"

record Host =
  host_UUID :: string
  host_Remark :: string
  host_Address :: string
  host_SNI :: "string option"
  host_IsDisabled :: bool
  host_Inbound :: HostInbound

record DeploymentProfile =
  dp_SNIDomain :: string
  dp_ActiveConfigProfileUUID :: string
  dp_ActiveInbounds :: "string list"

record NodeConfigProfile =
  ncp_ActiveConfigProfileUUID :: string
  ncp_ActiveInbounds :: "string list"

record Node =
  node_UUID :: string
  node_Name :: string
  node_Address :: string
  node_Port :: "int option"
  node_IsConnected :: bool
  node_IsConnecting :: bool
  node_IsDisabled :: bool
  node_LastStatusMessage :: "string option"
  node_LastStatusChange :: "time option"
  node_ActiveConfigProfileUUID :: "string option"
  node_ActiveInboundUUIDs :: "string list"

record NodeMetric =
  nm_NodeUUID :: string
  nm_NodeName :: string
  nm_UsersOnline :: int

record CreateNodeInput =
  cn_Name :: string
  cn_Address :: addr
  cn_Host :: Host

record UpdateNodeAddressInput =
  ua_UUID :: string
  ua_Address :: addr

record UpdateNodeProfileInput =
  up_UUID :: string
  up_Host :: Host

section \<open>Validation\<close>

definition validNodeName :: "string \<Rightarrow> bool" where
  "validNodeName name \<longleftrightarrow> 3 \<le> RuneCount name \<and> RuneCount name \<le> 30"

text \<open>\<open>ValidateNodeName\<close> returns no error.\<close>

definition ValidateNodeName :: "string \<Rightarrow> bool" where
  "ValidateNodeName name \<longleftrightarrow> validNodeName (TrimSpace name)"

definition DeploymentProfileFromHost :: "Host \<Rightarrow> rw_error + DeploymentProfile" where
  "DeploymentProfileFromHost host =
     (let address = TrimSpace (host_Address host) in
      if address = [] then Inl RwInvalidHostProfile
      else case hi_ConfigProfileUUID (host_Inbound host) of
        None \<Rightarrow> Inl RwInvalidHostProfile
      | Some profile \<Rightarrow>
          if TrimSpace profile = [] then Inl RwInvalidHostProfile
          else case hi_ConfigProfileInboundUUID (host_Inbound host) of
            None \<Rightarrow> Inl RwInvalidHostProfile
          | Some inbound \<Rightarrow>
              if TrimSpace inbound = [] then Inl RwInvalidHostProfile
              else
                let profileUUID = TrimSpace profile; inboundUUID = TrimSpace inbound in
                if \<not> validUUID profileUUID \<or> \<not> validUUID inboundUUID then Inl RwInvalidHostProfile
                else Inr \<lparr>dp_SNIDomain = address, dp_ActiveConfigProfileUUID = profileUUID,
                          dp_ActiveInbounds = [inboundUUID]\<rparr>)"

text \<open>The two flags that the loop of \<^verbatim>\<open>CheckNodeDuplicates\<close> collects over all nodes.\<close>

fun duplicate_flags :: "string \<Rightarrow> addr \<Rightarrow> Node list \<Rightarrow> bool \<times> bool \<Rightarrow> bool \<times> bool" where
  "duplicate_flags name address [] flags = flags"
| "duplicate_flags name address (node # nodes) (dup_name, dup_address) =
     duplicate_flags name address nodes
       (dup_name \<or> TrimSpace (node_Name node) = name,
        dup_address \<or> ParseAddr (TrimSpace (node_Address node)) = Some address)"

definition CheckNodeDuplicates :: "Node list \<Rightarrow> string \<Rightarrow> addr \<Rightarrow> rw_error option" where
  "CheckNodeDuplicates nodes name address =
     (let trimmedName = TrimSpace name in
      if \<not> ValidateNodeName trimmedName \<or> \<not> IsValid address then Some RwInvalidInput
      else
        let (n, a) = duplicate_flags trimmedName address nodes (False, False) in
        if n \<or> a then Some (RwDuplicateNode n a) else None)"

section \<open>Responses\<close>

record hostInboundWire =
  wi_ConfigProfileUUID :: "string option"
  wi_ConfigProfileInboundUUID :: "string option"

record hostWire =
  wh_UUID :: "string option"
  wh_Remark :: "string option"
  wh_Address :: "string option"
  wh_SNI :: "string option"
  wh_IsDisabled :: "bool option"
  wh_Inbound :: "hostInboundWire option"

definition host_model :: "hostWire \<Rightarrow> Host option" where
  "host_model h =
     (case (wh_UUID h, wh_Remark h, wh_Address h, wh_IsDisabled h, wh_Inbound h) of
        (Some uuid, Some remark, Some address, Some disabled, Some inbound) \<Rightarrow>
          if \<not> validUUID uuid \<or> address = [] then None
          else Some \<lparr>host_UUID = uuid, host_Remark = remark, host_Address = address, host_SNI = wh_SNI h,
                host_IsDisabled = disabled,
                host_Inbound = \<lparr>hi_ConfigProfileUUID = wi_ConfigProfileUUID inbound,
                                hi_ConfigProfileInboundUUID = wi_ConfigProfileInboundUUID inbound\<rparr>\<rparr>
      | _ \<Rightarrow> None)"

record nodeMetricWire =
  wm_NodeUUID :: "string option"
  wm_NodeName :: "string option"
  wm_UsersOnline :: "int option"

definition metric_model :: "nodeMetricWire \<Rightarrow> NodeMetric option" where
  "metric_model m =
     (case (wm_NodeUUID m, wm_NodeName m, wm_UsersOnline m) of
        (Some uuid, Some name, Some online) \<Rightarrow>
          if \<not> validUUID uuid \<or> name = [] \<or> online < 0 then None
          else Some \<lparr>nm_NodeUUID = uuid, nm_NodeName = name, nm_UsersOnline = online\<rparr>
      | _ \<Rightarrow> None)"

record nodeConfigProfileWire =
  wc_ActiveConfigProfileUUID :: "string option"
  wc_ActiveInbounds :: "string list"

record nodeWire =
  wn_UUID :: "string option"
  wn_Name :: "string option"
  wn_NodeAddress :: "string option"
  wn_Port :: "int option"
  wn_IsConnected :: "bool option"
  wn_IsDisabled :: "bool option"
  wn_IsConnecting :: "bool option"
  wn_LastStatusChange :: "time option"
  wn_LastStatusMessage :: "string option"
  wn_ConfigProfile :: nodeConfigProfileWire

definition node_model :: "nodeWire \<Rightarrow> Node option" where
  "node_model n =
     (case (wn_UUID n, wn_Name n, wn_NodeAddress n, wn_IsConnected n, wn_IsDisabled n, wn_IsConnecting n) of
        (Some uuid, Some name, Some address, Some connected, Some disabled, Some connecting) \<Rightarrow>
          if \<not> validUUID uuid \<or> name = [] \<or> address = [] then None
          else Some \<lparr>node_UUID = uuid, node_Name = name, node_Address = address, node_Port = wn_Port n,
                node_IsConnected = connected, node_IsConnecting = connecting, node_IsDisabled = disabled,
                node_LastStatusMessage = wn_LastStatusMessage n, node_LastStatusChange = wn_LastStatusChange n,
                node_ActiveConfigProfileUUID = wc_ActiveConfigProfileUUID (wn_ConfigProfile n),
                node_ActiveInboundUUIDs = wc_ActiveInbounds (wn_ConfigProfile n)\<rparr>
      | _ \<Rightarrow> None)"

text \<open>The loops that decode every element of a response array and stop at an incomplete one.\<close>

fun models :: "('a \<Rightarrow> 'b option) \<Rightarrow> 'a list \<Rightarrow> 'b list option" where
  "models f [] = Some []"
| "models f (x # xs) =
     (case f x of None \<Rightarrow> None
      | Some y \<Rightarrow> (case models f xs of None \<Rightarrow> None | Some ys \<Rightarrow> Some (y # ys)))"

section \<open>Lemmas\<close>

lemma DeploymentProfileFromHost_Inr:
  assumes "DeploymentProfileFromHost host = Inr profile"
  obtains config inbound where "hi_ConfigProfileUUID (host_Inbound host) = Some config"
    and "hi_ConfigProfileInboundUUID (host_Inbound host) = Some inbound"
    and "profile = \<lparr>dp_SNIDomain = TrimSpace (host_Address host),
      dp_ActiveConfigProfileUUID = TrimSpace config, dp_ActiveInbounds = [TrimSpace inbound]\<rparr>"
    and "TrimSpace (host_Address host) \<noteq> []" and "validUUID (TrimSpace config)" and "validUUID (TrimSpace inbound)"
  using assms
  by (auto simp: DeploymentProfileFromHost_def Let_def split: if_splits option.splits)

lemma duplicate_flags_iff:
  "duplicate_flags name address nodes (n, a) =
     (n \<or> (\<exists>x \<in> set nodes. TrimSpace (node_Name x) = name),
      a \<or> (\<exists>x \<in> set nodes. ParseAddr (TrimSpace (node_Address x)) = Some address))"
  by (induction nodes arbitrary: n a) auto

lemma CheckNodeDuplicates_None:
  "CheckNodeDuplicates nodes name address = None \<longleftrightarrow>
     validNodeName (TrimSpace name) \<and> IsValid address \<and>
     (\<forall>x \<in> set nodes. TrimSpace (node_Name x) \<noteq> TrimSpace name \<and>
        ParseAddr (TrimSpace (node_Address x)) \<noteq> Some address)"
  by (auto simp: CheckNodeDuplicates_def ValidateNodeName_def Let_def duplicate_flags_iff TrimSpace_idem)

lemma models_Some:
  "models f xs = Some ys \<Longrightarrow> length ys = length xs \<and> (\<forall>y \<in> set ys. \<exists>x \<in> set xs. f x = Some y)"
  by (induction xs arbitrary: ys) (fastforce split: option.splits)+

lemma DeploymentProfileFromHost_SNI: "DeploymentProfileFromHost (host\<lparr>host_SNI := sni\<rparr>) = DeploymentProfileFromHost host"
  by (simp add: DeploymentProfileFromHost_def Let_def cong: if_cong option.case_cong)

lemma DeploymentProfileFromHost_Inl: "DeploymentProfileFromHost host = Inl e \<Longrightarrow> e = RwInvalidHostProfile"
  by (auto simp: DeploymentProfileFromHost_def Let_def split: if_splits option.splits)

text \<open>
  C27. A deployment profile never depends on the Host's own SNI field: the SNI of the deployment is
  the trimmed address of the Host, the profile and the one inbound are valid UUIDs, and a Host
  without them gives no profile.
\<close>

theorem DeploymentProfileFromHost_address:
  "(case DeploymentProfileFromHost host of
      Inr profile \<Rightarrow> dp_SNIDomain profile = TrimSpace (host_Address host) \<and> dp_SNIDomain profile \<noteq> [] \<and>
        validUUID (dp_ActiveConfigProfileUUID profile) \<and>
        (\<exists>inbound. dp_ActiveInbounds profile = [inbound] \<and> validUUID inbound)
    | Inl e \<Rightarrow> e = RwInvalidHostProfile) \<and>
   DeploymentProfileFromHost (host\<lparr>host_SNI := sni\<rparr>) = DeploymentProfileFromHost host"
proof (cases "DeploymentProfileFromHost host")
  case (Inl e)
  then show ?thesis using DeploymentProfileFromHost_Inl [OF Inl] DeploymentProfileFromHost_SNI by simp
next
  case (Inr profile)
  from DeploymentProfileFromHost_Inr [OF Inr] obtain config inbound where
    "profile = \<lparr>dp_SNIDomain = TrimSpace (host_Address host),
      dp_ActiveConfigProfileUUID = TrimSpace config, dp_ActiveInbounds = [TrimSpace inbound]\<rparr>"
    and "TrimSpace (host_Address host) \<noteq> []" "validUUID (TrimSpace config)" "validUUID (TrimSpace inbound)"
    by metis
  then show ?thesis using Inr DeploymentProfileFromHost_SNI by simp
qed

end
