(* ===== verification/Remnawave_Client.thy ===== *)
theory Remnawave_Client
  imports Remnawave Http
begin

text \<open>
  The operations of \<^verbatim>\<open>internal/remnawave/client.go\<close>.  The panel behind the HTTP transport is a
  parameter (\<open>panel_ports\<close>, one answer type per endpoint); a run logs each request with its answer.
\<close>

record createNodeRequest =
  cr_Name :: string
  cr_Address :: string
  cr_Port :: int
  cr_ConfigProfile :: NodeConfigProfile

datatype panel_request =
    ReqHosts | ReqKeygen | ReqNodes | ReqMetrics
  | ReqNode string
  | ReqCreateNode createNodeRequest
  | ReqUpdateAddress string string
  | ReqUpdateProfile string NodeConfigProfile
  | ReqDeleteNode string

datatype panel_event =
    EvRequest panel_request
  | EvNodes "nodeWire list option http_answer"

text \<open>
  The pointer fields of an envelope are options.  A metrics envelope has two of them, and so do
  the keygen and the delete envelopes.
\<close>

record 'w panel_ports =
  panel_hosts :: "'w \<Rightarrow> hostWire list option http_answer \<times> 'w"
  panel_keygen :: "'w \<Rightarrow> string option option http_answer \<times> 'w"
  panel_nodes :: "'w \<Rightarrow> nodeWire list option http_answer \<times> 'w"
  panel_metrics :: "'w \<Rightarrow> nodeMetricWire list option option http_answer \<times> 'w"
  panel_node :: "panel_request \<Rightarrow> 'w \<Rightarrow> nodeWire option http_answer \<times> 'w"
  panel_delete :: "string \<Rightarrow> 'w \<Rightarrow> bool option option http_answer \<times> 'w"

type_synonym 'w panel_run = "('w, panel_event) run"

definition nodePort :: int where
  "nodePort = 2222"

text \<open>\<^verbatim>\<open>doJSON\<close>: 401 and 403 are one error, any other unexpected status another.\<close>

definition panel_doJSON :: "int \<Rightarrow> 'r http_answer \<Rightarrow> rw_error + 'r" where
  "panel_doJSON expectedStatus answer =
     (case answer of
        HttpFailed \<Rightarrow> Inl RwTransport
      | HttpAnswer status body \<Rightarrow>
          if status = 401 \<or> status = 403 then Inl RwUnauthorized
          else if status \<noteq> expectedStatus then Inl (RwHTTP status)
          else (case body of
                  OneValue r \<Rightarrow> Inr r
                | NotJSON \<Rightarrow> Inl RwInvalidResponse
                | MoreValues \<Rightarrow> Inl RwInvalidResponse))"

text \<open>Decode an envelope: an absent field or an element that is not complete is an invalid response.\<close>

definition response_field :: "rw_error + 'r option \<Rightarrow> ('r \<Rightarrow> 'a option) \<Rightarrow> rw_error + 'a" where
  "response_field r decode =
     (case r of
        Inl e \<Rightarrow> Inl e
      | Inr None \<Rightarrow> Inl RwInvalidResponse
      | Inr (Some x) \<Rightarrow> (case decode x of None \<Rightarrow> Inl RwInvalidResponse | Some a \<Rightarrow> Inr a))"

definition GetHosts :: "'w panel_ports \<Rightarrow> ('w panel_run, rw_error + Host list) state" where
  "GetHosts p = do {
     answer \<leftarrow> ask (panel_hosts p) (\<lambda>_. [EvRequest ReqHosts]);
     liftE (response_field (panel_doJSON 200 answer) (models host_model))
   }"

definition GenerateSecretKey :: "'w panel_ports \<Rightarrow> ('w panel_run, rw_error + string) state" where
  "GenerateSecretKey p = do {
     answer \<leftarrow> ask (panel_keygen p) (\<lambda>_. [EvRequest ReqKeygen]);
     liftE (response_field (panel_doJSON 200 answer)
       (\<lambda>pubKey. case pubKey of None \<Rightarrow> None | Some k \<Rightarrow> if k = [] then None else Some k))
   }"

definition decode_nodes :: "nodeWire list option http_answer \<Rightarrow> rw_error + Node list" where
  "decode_nodes answer = response_field (panel_doJSON 200 answer) (models node_model)"

definition GetNodes :: "'w panel_ports \<Rightarrow> ('w panel_run, rw_error + Node list) state" where
  "GetNodes p = do {
     answer \<leftarrow> ask (panel_nodes p) (\<lambda>a. [EvNodes a]);
     liftE (decode_nodes answer)
   }"

definition GetNodesMetrics :: "'w panel_ports \<Rightarrow> ('w panel_run, rw_error + NodeMetric list) state" where
  "GetNodesMetrics p = do {
     answer \<leftarrow> ask (panel_metrics p) (\<lambda>_. [EvRequest ReqMetrics]);
     liftE (response_field (panel_doJSON 200 answer)
       (\<lambda>nodes. case nodes of None \<Rightarrow> None | Some items \<Rightarrow> models metric_model items))
   }"

text \<open>A request that answers with one Node, with the status the endpoint promises.\<close>

definition node_request ::
  "'w panel_ports \<Rightarrow> int \<Rightarrow> panel_request \<Rightarrow> ('w panel_run, rw_error + Node) state" where
  "node_request p expectedStatus req = do {
     answer \<leftarrow> ask (panel_node p req) (\<lambda>_. [EvRequest req]);
     liftE (response_field (panel_doJSON expectedStatus answer) node_model)
   }"

definition GetNode :: "'w panel_ports \<Rightarrow> string \<Rightarrow> ('w panel_run, rw_error + Node) state" where
  "GetNode p uuid =
     (let uuid = TrimSpace uuid in
      if \<not> validUUID uuid then failE RwInvalidInput
      else node_request p 200 (ReqNode uuid))"

definition CreateNode :: "'w panel_ports \<Rightarrow> CreateNodeInput \<Rightarrow> ('w panel_run, rw_error + Node) state" where
  "CreateNode p input =
     (let name = TrimSpace (cn_Name input) in
      if \<not> validNodeName name \<or> \<not> IsValid (cn_Address input) then failE RwInvalidInput
      else bindE (liftE (DeploymentProfileFromHost (cn_Host input))) (\<lambda>profile.
      bindE (GetNodes p) (\<lambda>existing.
      case CheckNodeDuplicates existing name (cn_Address input) of
        Some e \<Rightarrow> failE e
      | None \<Rightarrow>
          node_request p 201 (ReqCreateNode
            \<lparr>cr_Name = name, cr_Address = addr_String (cn_Address input), cr_Port = nodePort,
             cr_ConfigProfile = \<lparr>ncp_ActiveConfigProfileUUID = dp_ActiveConfigProfileUUID profile,
                                 ncp_ActiveInbounds = dp_ActiveInbounds profile\<rparr>\<rparr>))))"

definition UpdateNodeAddress ::
  "'w panel_ports \<Rightarrow> UpdateNodeAddressInput \<Rightarrow> ('w panel_run, rw_error + Node) state" where
  "UpdateNodeAddress p input =
     (let uuid = TrimSpace (ua_UUID input) in
      if \<not> validUUID uuid \<or> \<not> IsValid (ua_Address input) then failE RwInvalidInput
      else node_request p 200 (ReqUpdateAddress uuid (addr_String (Unmap (ua_Address input)))))"

definition UpdateNodeProfile ::
  "'w panel_ports \<Rightarrow> UpdateNodeProfileInput \<Rightarrow> ('w panel_run, rw_error + Node) state" where
  "UpdateNodeProfile p input =
     (let uuid = TrimSpace (up_UUID input) in
      case DeploymentProfileFromHost (up_Host input) of
        Inl _ \<Rightarrow> failE RwInvalidInput
      | Inr profile \<Rightarrow>
          if \<not> validUUID uuid \<or> host_IsDisabled (up_Host input) then failE RwInvalidInput
          else node_request p 200 (ReqUpdateProfile uuid
                 \<lparr>ncp_ActiveConfigProfileUUID = dp_ActiveConfigProfileUUID profile,
                  ncp_ActiveInbounds = dp_ActiveInbounds profile\<rparr>))"

definition DeleteNode :: "'w panel_ports \<Rightarrow> string \<Rightarrow> ('w panel_run, rw_error + bool) state" where
  "DeleteNode p uuid =
     (let uuid = TrimSpace uuid in
      if \<not> validUUID uuid then failE RwInvalidInput
      else do {
        answer \<leftarrow> ask (panel_delete p uuid) (\<lambda>_. [EvRequest (ReqDeleteNode uuid)]);
        liftE (response_field (panel_doJSON 200 answer) (\<lambda>deleted. deleted))
      })"

section \<open>Creating a Node\<close>

lemma logs_node_request:
  assumes "\<And>r. P r [EvRequest req]"
  shows "logs run_log (node_request p expectedStatus req) P"
  unfolding node_request_def by (intro log_rules) (simp add: assms)

text \<open>The POST that one run of \<open>CreateNode\<close> may send.\<close>

definition create_sent :: "CreateNodeInput \<Rightarrow> panel_event list \<Rightarrow> bool" where
  "create_sent input es \<longleftrightarrow>
     (\<exists>answer existing profile.
        decode_nodes answer = Inr existing \<and>
        (\<forall>x \<in> set existing. TrimSpace (node_Name x) \<noteq> TrimSpace (cn_Name input) \<and>
           ParseAddr (TrimSpace (node_Address x)) \<noteq> Some (cn_Address input)) \<and>
        validNodeName (TrimSpace (cn_Name input)) \<and>
        DeploymentProfileFromHost (cn_Host input) = Inr profile \<and>
        es = [EvNodes answer, EvRequest (ReqCreateNode
          \<lparr>cr_Name = TrimSpace (cn_Name input), cr_Address = addr_String (cn_Address input), cr_Port = 2222,
           cr_ConfigProfile = \<lparr>ncp_ActiveConfigProfileUUID = dp_ActiveConfigProfileUUID profile,
                               ncp_ActiveInbounds = dp_ActiveInbounds profile\<rparr>\<rparr>)])"

text \<open>
  C26. \<open>CreateNode\<close> posts a Node only after it has read the list of Nodes in the same run and found
  none with the same name or address; the request has the trimmed name, port 2222 and the profile
  of the Host, and nothing else is sent after it.  Without that request there is no result.
\<close>

theorem CreateNode_checks_duplicates:
  "\<exists>es. run_log (exec_state (CreateNode p input) s) = run_log s @ es \<and>
     (create_sent input es \<or>
      (\<forall>req. EvRequest req \<notin> set es) \<and> (\<exists>e. result_of (CreateNode p input) s = Inl e))"
proof -
  let ?P = "\<lambda>r es. create_sent input es \<or> (\<forall>req. EvRequest req \<notin> set es) \<and> (\<exists>e. r = Inl e)"
  have post: "logs run_log (case CheckNodeDuplicates existing (TrimSpace (cn_Name input)) (cn_Address input) of
        Some e \<Rightarrow> failE e
      | None \<Rightarrow> node_request p 201 (ReqCreateNode
            \<lparr>cr_Name = TrimSpace (cn_Name input), cr_Address = addr_String (cn_Address input), cr_Port = nodePort,
             cr_ConfigProfile = \<lparr>ncp_ActiveConfigProfileUUID = dp_ActiveConfigProfileUUID profile,
                                 ncp_ActiveInbounds = dp_ActiveInbounds profile\<rparr>\<rparr>))
      (\<lambda>r es. ?P r ([EvNodes answer] @ es))"
    if "DeploymentProfileFromHost (cn_Host input) = Inr profile" "decode_nodes answer = Inr existing"
      "validNodeName (TrimSpace (cn_Name input))" for profile answer existing
  proof (intro logs_case_option logs_failE logs_node_request)
    assume "CheckNodeDuplicates existing (TrimSpace (cn_Name input)) (cn_Address input) = None"
    then show "?P r ([EvNodes answer] @ [EvRequest (ReqCreateNode
            \<lparr>cr_Name = TrimSpace (cn_Name input), cr_Address = addr_String (cn_Address input), cr_Port = nodePort,
             cr_ConfigProfile = \<lparr>ncp_ActiveConfigProfileUUID = dp_ActiveConfigProfileUUID profile,
                                 ncp_ActiveInbounds = dp_ActiveInbounds profile\<rparr>\<rparr>)])" for r
      using that
      by (intro disjI1) (auto simp: create_sent_def CheckNodeDuplicates_None TrimSpace_idem nodePort_def)
  qed simp
  have "logs run_log (CreateNode p input) ?P"
    unfolding CreateNode_def Let_def GetNodes_def bindE_bind
    by (intro logs_if logs_failE logs_bindE_liftE logs_bind_ask post) auto
  then show ?thesis unfolding logs_def by blast
qed

end
