(* ===== verification/Certificates.thy ===== *)
theory Certificates
  imports Netip Go_Errors
begin

text \<open>
  The data of the certificate manager (\<^verbatim>\<open>internal/certmanager/types.go\<close>), its names and its texts:
  the canonical form of an SNI domain and the version names of \<^verbatim>\<open>filestore.go\<close>, the operator
  messages of \<^verbatim>\<open>types.go\<close> and \<^verbatim>\<open>manager.go\<close>, and the lock keys of \<^verbatim>\<open>scoped_locker.go\<close>.  The
  properties: a canonical domain is its own canonical form and one safe path component, and the
  lock keys of two panels are never the same.
\<close>

section \<open>Data\<close>

record Material =
  mat_FullchainPEM :: string
  mat_PrivateKeyPEM :: string

datatype Readiness = ReadinessUnknown | ReadinessReady | ReadinessNotReady

record Info =
  info_Fingerprint :: string
  info_Serial :: string
  info_IssuedAt :: int
  info_ExpiresAt :: int

datatype CertStatus = StatusIssuing | StatusActive | StatusRenewalDue | StatusDistributionFailed | StatusInvalid

datatype VersionStatus =
  VersionPending | VersionActive | VersionSuperseded | VersionDistribution | VersionInvalid

datatype DistributionStatus = DistributionSucceeded | DistributionFailed

datatype TargetReviewState = TargetManualReview | TargetLegacyAcknowledged

record Record =
  rec_SNI :: string
  rec_Fingerprint :: string
  rec_Serial :: string
  rec_IssuedAt :: int
  rec_ExpiresAt :: int
  rec_LastRenewedAt :: "int option"
  rec_Status :: CertStatus
  rec_ActiveVersion :: string
  rec_UpdatedAt :: int

record Version =
  ver_SNI :: string
  ver_Version :: string
  ver_Fingerprint :: string
  ver_Serial :: string
  ver_IssuedAt :: int
  ver_ExpiresAt :: int
  ver_Status :: VersionStatus
  ver_CreatedAt :: int

record DistributionRecord =
  dr_SNI :: string
  dr_Version :: string
  dr_DeploymentID :: string
  dr_NodeIP :: addr
  dr_Status :: DistributionStatus
  dr_SafeErrorMessage :: string
  dr_AttemptedAt :: int

record TargetReview =
  tr_SNI :: string
  tr_IP :: addr
  tr_State :: TargetReviewState
  tr_Reason :: string
  tr_AcknowledgedBy :: "int option"
  tr_CreatedAt :: int
  tr_UpdatedAt :: int
  tr_AcknowledgedAt :: "int option"

record Target =
  tg_DeploymentID :: string
  tg_IP :: addr

record TargetResolution =
  tgs_Managed :: "Target list"
  tgs_Unmanaged :: "addr list"
  tgs_LegacyAcknowledged :: "addr list"

record DistributionResult =
  dres_Target :: Target
  dres_Status :: DistributionStatus
  dres_SafeMessage :: string

record BootstrapResult =
  br_SNI :: string
  br_Version :: string
  br_ManagedTargets :: nat
  br_AcknowledgedLegacyIPs :: nat

section \<open>Names\<close>

fun Split :: "char \<Rightarrow> string \<Rightarrow> string list" where
  "Split sep [] = [[]]"
| "Split sep (c # s) =
     (if c = sep then [] # Split sep s
      else case Split sep s of [] \<Rightarrow> [[c]] | label # labels \<Rightarrow> (c # label) # labels)"

definition label_char :: "char \<Rightarrow> bool" where
  "label_char c \<longleftrightarrow> is_lower c \<or> is_digit c \<or> c = CHR ''-''"

definition valid_label :: "string \<Rightarrow> bool" where
  "valid_label label \<longleftrightarrow>
     label \<noteq> [] \<and> length label \<le> 63 \<and> hd label \<noteq> CHR ''-'' \<and> last label \<noteq> CHR ''-'' \<and> list_all label_char label"

definition canonicalSNI :: "string \<Rightarrow> go_error + string" where
  "canonicalSNI value =
     (let value = ToLower (TrimSuffix (TrimSpace value) ''.'') in
      if length value < 3 \<or> 253 < length value \<or> CHR ''.'' \<notin> set value
         \<or> list_ex (\<lambda>c. c = CHR ''/'' \<or> byte c = 92 \<or> byte c = 0 \<or> byte c = 13 \<or> byte c = 10) value
      then Inl (CertErr CertInvalidInput [])
      else if list_all valid_label (Split (CHR ''.'') value) then Inr value
      else Inl (CertErr CertInvalidInput []))"

text \<open>\<^verbatim>\<open>versionPattern\<close>: \<^verbatim>\<open>^v-[0-9]{8}T[0-9]{6}Z-[0-9a-f]{8}$\<close>.\<close>

definition hex_lower :: "char \<Rightarrow> bool" where
  "hex_lower c \<longleftrightarrow> is_digit c \<or> 97 \<le> byte c \<and> byte c \<le> 102"

definition versionPattern :: "string \<Rightarrow> bool" where
  "versionPattern version \<longleftrightarrow>
     length version = 27 \<and> take 2 version = ''v-'' \<and> list_all is_digit (take 8 (drop 2 version)) \<and>
     version ! 10 = CHR ''T'' \<and> list_all is_digit (take 6 (drop 11 version)) \<and>
     take 2 (drop 17 version) = ''Z-'' \<and> list_all hex_lower (drop 19 version)"

text \<open>\<^verbatim>\<open>NewScopedLocker\<close> trims the panel and refuses an empty one; \<open>nxt\<close>: there is a locker to wrap.\<close>

definition NewScopedLocker :: "string \<Rightarrow> bool \<Rightarrow> go_error + string" where
  "NewScopedLocker panelID nxt =
     (let panelID = TrimSpace panelID in
      if panelID = [] \<or> \<not> nxt then Inl (CertErr CertInvalidInput []) else Inr panelID)"

definition scopedKey :: "string \<Rightarrow> string \<Rightarrow> string" where
  "scopedKey panelID key = Itoa (int (length panelID)) @ '':'' @ panelID @ '':'' @ key"

section \<open>Messages\<close>

text \<open>\<^verbatim>\<open>errors.As\<close> for the package's error with a message, and \<^verbatim>\<open>SafeMessage\<close>.\<close>

fun safe_message :: "go_error \<Rightarrow> string option" where
  "safe_message (CertErr kind message) = (if message = [] then None else Some message)"
| "safe_message (SafeError code message kind) = safe_message kind"
| "safe_message (ErrJoin a b) = (case safe_message a of None \<Rightarrow> safe_message b | Some message \<Rightarrow> Some message)"
| "safe_message _ = None"

definition SafeMessage :: "go_error \<Rightarrow> string \<Rightarrow> string" where
  "SafeMessage err fallback = (case safe_message err of None \<Rightarrow> fallback | Some message \<Rightarrow> message)"

definition cert_safeMessage :: "string \<Rightarrow> string" where
  "cert_safeMessage value =
     (let value = TrimSpace (map (\<lambda>c. if byte c = 13 \<or> byte c = 10 \<or> byte c = 9 then CHR '' '' else c) value) in
      if value = [] then ''Certificate distribution failed''
      else if 200 < length value then take 200 value else value)"

section \<open>Order of addresses\<close>

text \<open>\<^verbatim>\<open>Addr.Compare(b) < 0\<close>: by length, by value, by zone.\<close>

fun addr_less :: "addr \<Rightarrow> addr \<Rightarrow> bool" where
  "addr_less AddrZero b = (b \<noteq> AddrZero)"
| "addr_less (Addr4 v) (Addr4 w) = (v < w)"
| "addr_less (Addr4 _) (Addr6 _ _) = True"
| "addr_less (Addr6 v z) (Addr6 w z') = (v < w \<or> v = w \<and> string_less z z')"
| "addr_less _ _ = False"

lemma addr_less_total: "a = b \<or> addr_less a b \<or> addr_less b a"
  using string_less_total by (cases a; cases b) (auto simp: not_less_iff_gr_or_eq)

lemma addr_less_asym: "addr_less a b \<Longrightarrow> \<not> addr_less b a"
  using string_less_asym by (cases a; cases b) auto

lemma addr_less_trans: "addr_less a b \<Longrightarrow> addr_less b c \<Longrightarrow> addr_less a c"
  by (cases a; cases b; cases c) (simp_all, blast intro: less_trans string_less_trans)

interpretation addr_order: strict_weak_order addr_less
proof
  show "\<not> addr_less y x" if "addr_less x y" for x y using addr_less_asym that .
  show "\<not> addr_less z x" if "\<not> addr_less y x" "\<not> addr_less z y" for x y z
    using that addr_less_total [of x y] addr_less_total [of y z] addr_less_trans [of z x y] by blast
qed

section \<open>Properties\<close>

lemma Split_chars: "c \<in> set s \<Longrightarrow> c = sep \<or> (\<exists>label \<in> set (Split sep s). c \<in> set label)"
  by (induction s) (auto split: list.splits)

lemma Split_not_Nil: "Split sep s \<noteq> []"
  by (induction s) (auto split: list.splits)

lemma Split_hd: "hd (Split sep s) \<noteq> [] \<Longrightarrow> s \<noteq> [] \<and> hd s = hd (hd (Split sep s))"
  by (cases s) (auto split: list.splits)

lemma Split_empty: "Split sep s = [[]] \<longleftrightarrow> s = []"
  using Split_not_Nil by (cases s) (auto split: list.splits)

lemma Split_last: "last (Split sep s) \<noteq> [] \<Longrightarrow> s \<noteq> [] \<and> last s = last (last (Split sep s))"
proof (induction s)
  case (Cons c s)
  then show ?case
    using Split_not_Nil [of sep s] Split_empty [of sep s] by (cases "Split sep s") (auto split: if_splits)
qed simp

lemma label_char_facts:
  "label_char c \<Longrightarrow> printable c \<and> lower_char c = c \<and> c \<noteq> CHR ''.'' \<and> c \<noteq> CHR ''/'' \<and>
     byte c \<noteq> 92 \<and> byte c \<noteq> 0 \<and> byte c \<noteq> 13 \<and> byte c \<noteq> 10"
  by (auto simp: label_char_def is_lower_def is_digit_def printable_def lower_char_def is_upper_def)

lemma ToLower_same: "(\<And>c. c \<in> set s \<Longrightarrow> lower_char c = c) \<Longrightarrow> ToLower s = s"
  by (induction s) (simp_all add: ToLower_def)

lemma TrimSuffix_same: "last s \<noteq> c \<Longrightarrow> TrimSuffix s [c] = s"
  by (cases s rule: rev_cases) (simp_all add: TrimSuffix_def)

lemma lower_dot: "lower_char (CHR ''.'') = CHR ''.''"
  by code_simp

text \<open>
  A canonical domain is at most 253 bytes of lower-case letters, digits, hyphens and dots, with
  no empty component: as a file name below the store it is neither a path nor a parent directory.
  Its canonical form is itself, so the manager, the store and the resolver name the same domain.
\<close>

theorem canonicalSNI_canonical:
  assumes "canonicalSNI value = Inr domain"
  shows "canonicalSNI domain = Inr domain \<and> length domain \<le> 253 \<and>
    list_all (\<lambda>c. label_char c \<or> c = CHR ''.'') domain \<and>
    list_all valid_label (Split (CHR ''.'') domain) \<and> domain \<notin> {''.'', ''..''}"
proof -
  let ?labels = "Split (CHR ''.'') domain"
  from assms have ok: "3 \<le> length domain" "length domain \<le> 253" "CHR ''.'' \<in> set domain" "list_all valid_label ?labels"
    and guard: "\<not> (length domain < 3 \<or> 253 < length domain \<or> CHR ''.'' \<notin> set domain
         \<or> list_ex (\<lambda>c. c = CHR ''/'' \<or> byte c = 92 \<or> byte c = 0 \<or> byte c = 13 \<or> byte c = 10) domain)"
    by (auto simp: canonicalSNI_def Let_def split: if_splits)
  have labels: "valid_label label" if "label \<in> set ?labels" for label
    using ok(4) that by (simp add: list_all_iff)
  have chars: "label_char c \<or> c = CHR ''.''" if "c \<in> set domain" for c
    using Split_chars [OF that, of "CHR ''.''"] labels by (auto simp: valid_label_def list_all_iff)
  have "valid_label (hd ?labels)" "valid_label (last ?labels)"
    using labels Split_not_Nil by (simp_all add: hd_in_set last_in_set)
  then have ends: "domain \<noteq> []" "label_char (hd domain)" "label_char (last domain)"
    using Split_hd [of "CHR ''.''" domain] Split_last [of "CHR ''.''" domain]
    by (auto simp: valid_label_def list_all_iff hd_in_set last_in_set)
  have "TrimSpace domain = domain"
    using ends label_char_facts by (intro TrimSpace_printable) auto
  moreover have "TrimSuffix domain ''.'' = domain"
    using ends label_char_facts by (intro TrimSuffix_same) auto
  moreover have "lower_char c = c" if "c \<in> set domain" for c
    using chars [OF that] label_char_facts [of c] lower_dot by auto
  then have "ToLower domain = domain" by (rule ToLower_same)
  ultimately have "canonicalSNI domain = Inr domain"
    using ok(4) guard by (simp add: canonicalSNI_def)
  then show ?thesis using ok chars by (auto simp: list_all_iff)
qed

theorem canonicalSNI_canonical_witness:
  "canonicalSNI ''Sni.io.'' = Inr ''sni.io'' \<and>
   canonicalSNI ''sni.io'' = Inr ''sni.io''"
proof -
  have c: "canonicalSNI ''Sni.io.'' = Inr ''sni.io''" by code_simp
  show ?thesis using canonicalSNI_canonical [OF c] c by blast
qed

fun number :: "int list \<Rightarrow> int" where
  "number [] = 0"
| "number (d # ds) = d * 10 ^ length ds + number ds"

lemma number_snoc: "number (ds @ [d]) = 10 * number ds + d"
  by (induction ds) simp_all

lemma digits10: "0 \<le> n \<Longrightarrow> number (digits 10 n) = n \<and> list_all (\<lambda>d. 0 \<le> d \<and> d < 10) (digits 10 n)"
proof (induction "10 :: int" n rule: digits.induct)
  case (1 n)
  then show ?case
    by (cases "n < 10") (simp_all add: digits_lt digits_ge number_snoc)
qed

definition digit_value :: "char \<Rightarrow> int" where
  "digit_value c = int (byte c) - 48"

lemma digit_value_hex_char:
  assumes "0 \<le> d" "d < 10"
  shows "digit_value (hex_char (nat d)) = d" and "hex_char (nat d) \<noteq> CHR '':''"
proof -
  have "d = 0 \<or> d = 1 \<or> d = 2 \<or> d = 3 \<or> d = 4 \<or> d = 5 \<or> d = 6 \<or> d = 7 \<or> d = 8 \<or> d = 9"
    using assms by arith
  then show v: "digit_value (hex_char (nat d)) = d" by (auto simp: digit_value_def hex_char_def)
  have "digit_value (CHR '':'') = 10" by code_simp
  with v assms show "hex_char (nat d) \<noteq> CHR '':''" by auto
qed

lemma Itoa_number:
  assumes "0 \<le> n"
  shows "number (map digit_value (Itoa n)) = n" and "CHR '':'' \<notin> set (Itoa n)"
proof -
  have ds: "\<forall>d \<in> set (digits 10 n). 0 \<le> d \<and> d < 10" and n: "number (digits 10 n) = n"
    using digits10 [OF assms] by (simp_all add: list_all_iff)
  have "map digit_value (Itoa n) = digits 10 n"
    using ds assms by (auto simp: Itoa_def comp_def digit_value_hex_char intro: map_idI)
  then show "number (map digit_value (Itoa n)) = n" by (simp add: n)
  show "CHR '':'' \<notin> set (Itoa n)"
    using ds assms digit_value_hex_char by (fastforce simp: Itoa_def)
qed

lemma split_at_first:
  assumes "c \<notin> set a" "c \<notin> set b" "a @ c # x = b @ c # y"
  shows "a = b \<and> x = y"
  using assms by (induction a arbitrary: b) (auto simp: Cons_eq_append_conv append_eq_Cons_conv)

text \<open>
  The advisory-lock keys of different pairs of panel and name are different, whatever bytes the
  two hold, so that jobs of two panels never wait for each other and never share a lock by accident.
\<close>

theorem scopedKey_injective:
  "scopedKey panelID key = scopedKey panelID' key' \<longleftrightarrow> panelID = panelID' \<and> key = key'"
proof
  assume eq: "scopedKey panelID key = scopedKey panelID' key'"
  have "Itoa (int (length panelID)) = Itoa (int (length panelID')) \<and>
      panelID @ '':'' @ key = panelID' @ '':'' @ key'"
    using eq Itoa_number(2) [of "int (length panelID)"] Itoa_number(2) [of "int (length panelID')"]
    by (intro split_at_first [where c = "CHR '':''"]) (simp_all add: scopedKey_def)
  moreover from this have "int (length panelID) = int (length panelID')"
    by (metis Itoa_number(1) of_nat_0_le_iff)
  ultimately show "panelID = panelID' \<and> key = key'" by simp
qed simp

end
