(* ===== verification/Preflight.thy ===== *)
theory Preflight
  imports Certificates
begin

text \<open>
  The inspection of a VPS before provisioning (\<^verbatim>\<open>internal/provisioner/preflight.go\<close>): four
  remote commands, named here by the constants that hold their scripts, whose answers come from a
  world of any type, and the parsing and judging of their output.  Go's \<^verbatim>\<open>int\<close> and \<^verbatim>\<open>int64\<close> are 64
  bits wide.
\<close>

section \<open>Data\<close>

record Requirements =
  MinimumCPUCount :: int
  MinimumAvailableRAMBytes :: int
  MinimumFreeDiskBytes :: int
  AllowedDistributions :: "string list"
  AllowedArchitectures :: "string list"

record SystemInfo =
  sy_EffectiveUID :: int
  sy_EffectiveUser :: string
  sy_Distribution :: string
  sy_Version :: string
  sy_Architecture :: string
  sy_CPUCount :: int
  sy_AvailableRAMBytes :: int
  sy_FreeDiskBytes :: int

record ComponentState =
  DockerInstalled :: bool
  RemnanodeDirectory :: bool
  XraySNIDirectory :: bool
  RemnanodeContainers :: "string list"
  XraySNIContainers :: "string list"

record PortState =
  ps_Port :: nat
  ps_Occupied :: bool

record Issue =
  issue_Code :: string
  issue_Message :: string

record PreflightResult =
  pf_SSHConnected :: bool
  pf_System :: SystemInfo
  pf_Components :: ComponentState
  pf_Ports :: "PortState list"
  pf_Warnings :: "Issue list"
  pf_FatalFailures :: "Issue list"

definition no_system :: SystemInfo where
  "no_system = \<lparr>sy_EffectiveUID = 0, sy_EffectiveUser = [], sy_Distribution = [], sy_Version = [],
     sy_Architecture = [], sy_CPUCount = 0, sy_AvailableRAMBytes = 0, sy_FreeDiskBytes = 0\<rparr>"

definition no_components :: ComponentState where
  "no_components = \<lparr>DockerInstalled = False, RemnanodeDirectory = False, XraySNIDirectory = False,
     RemnanodeContainers = [], XraySNIContainers = []\<rparr>"

definition no_preflight :: PreflightResult where
  "no_preflight = \<lparr>pf_SSHConnected = False, pf_System = no_system, pf_Components = no_components, pf_Ports = [],
     pf_Warnings = [], pf_FatalFailures = []\<rparr>"

definition Passed :: "PreflightResult \<Rightarrow> bool" where
  "Passed r \<longleftrightarrow> pf_SSHConnected r \<and> length (pf_FatalFailures r) = 0"

definition NewPreflight :: "bool \<Rightarrow> Requirements \<Rightarrow> Requirements option" where
  "NewPreflight runner requirements =
     (if \<not> runner \<or> MinimumCPUCount requirements < 0 \<or> MinimumAvailableRAMBytes requirements < 0
         \<or> MinimumFreeDiskBytes requirements < 0 then None
      else
        let requirements = (if AllowedDistributions requirements = []
              then requirements\<lparr>AllowedDistributions := [''ubuntu'', ''debian'']\<rparr> else requirements);
            requirements = (if AllowedArchitectures requirements = []
              then requirements\<lparr>AllowedArchitectures := [''amd64'', ''arm64'']\<rparr> else requirements)
        in Some requirements)"

section \<open>Parsing\<close>

fun Cut :: "char \<Rightarrow> string \<Rightarrow> (string \<times> string) option" where
  "Cut sep [] = None"
| "Cut sep (c # s) =
     (if c = sep then Some ([], s) else map_option (\<lambda>(before, after). (c # before, after)) (Cut sep s))"

definition newline_char :: char where
  "newline_char = CHR 0x0A"

fun parse_lines :: "string list \<Rightarrow> (string \<Rightarrow> string option) \<Rightarrow> (string \<Rightarrow> string option) option" where
  "parse_lines [] values = Some values"
| "parse_lines (line # lines) values =
     (case Cut (CHR ''='') (TrimSpace line) of
        None \<Rightarrow> None
      | Some (key, v) \<Rightarrow>
          if key = [] \<or> values key \<noteq> None then None else parse_lines lines (values(key \<mapsto> TrimSpace v)))"

definition parseKeyValues :: "string \<Rightarrow> (string \<Rightarrow> string option) option" where
  "parseKeyValues output = parse_lines (Split newline_char (TrimSpace output)) Map.empty"

text \<open>\<^verbatim>\<open>values[key]\<close>, with Go's zero value for a missing key.\<close>

definition key_value :: "(string \<Rightarrow> string option) \<Rightarrow> string \<Rightarrow> string" where
  "key_value values key = (case values key of None \<Rightarrow> [] | Some v \<Rightarrow> v)"

text \<open>\<^verbatim>\<open>strconv.Atoi\<close> and \<^verbatim>\<open>strconv.ParseInt(s, 10, 64)\<close>, \<^verbatim>\<open>strconv.ParseBool\<close>.\<close>

fun parse_digits :: "int \<Rightarrow> string \<Rightarrow> int option" where
  "parse_digits n [] = Some n"
| "parse_digits n (c # s) = (if is_digit c then parse_digits (10 * n + (int (byte c) - 48)) s else None)"

definition parse_nonempty :: "string \<Rightarrow> int option" where
  "parse_nonempty s = (if s = [] then None else parse_digits 0 s)"

definition ParseInt :: "string \<Rightarrow> int option" where
  "ParseInt s =
     (let value = (case s of
            [] \<Rightarrow> None
          | c # rest \<Rightarrow> if c = CHR ''-'' then map_option uminus (parse_nonempty rest)
                        else if c = CHR ''+'' then parse_nonempty rest else parse_nonempty s)
      in case value of None \<Rightarrow> None | Some n \<Rightarrow> if - (2 ^ 63) \<le> n \<and> n < 2 ^ 63 then Some n else None)"

definition ParseBool :: "string \<Rightarrow> bool option" where
  "ParseBool s =
     (if s \<in> set [''1'', ''t'', ''T'', ''true'', ''TRUE'', ''True''] then Some True
      else if s \<in> set [''0'', ''f'', ''F'', ''false'', ''FALSE'', ''False''] then Some False else None)"

text \<open>A product in \<^verbatim>\<open>int64\<close>.\<close>

definition times64 :: "int \<Rightarrow> int \<Rightarrow> int" where
  "times64 a b = sint (word_of_int (a * b) :: 64 word)"

definition normalizeArchitecture :: "string \<Rightarrow> string" where
  "normalizeArchitecture s =
     (let lower = ToLower (TrimSpace s) in
      if lower = ''x86_64'' \<or> lower = ''amd64'' then ''amd64''
      else if lower = ''aarch64'' \<or> lower = ''arm64'' then ''arm64''
      else lower)"

definition containsFold :: "string list \<Rightarrow> string \<Rightarrow> bool" where
  "containsFold values target = list_ex (\<lambda>v. EqualFold v target) values"

definition parseSystemInfo :: "string \<Rightarrow> SystemInfo option" where
  "parseSystemInfo output =
     (case parseKeyValues output of
        None \<Rightarrow> None
      | Some values \<Rightarrow>
          if list_ex (\<lambda>key. TrimSpace (key_value values key) = []) [''effective_uid'', ''effective_user'', ''os_id'', ''os_version'',
               ''architecture'', ''cpu_count'', ''available_ram_kib'', ''free_disk_kib'']
          then None
          else case (ParseInt (key_value values ''effective_uid''), ParseInt (key_value values ''cpu_count''),
                ParseInt (key_value values ''available_ram_kib''), ParseInt (key_value values ''free_disk_kib'')) of
            (Some uid, Some cpus, Some ramKiB, Some diskKiB) \<Rightarrow>
              Some \<lparr>sy_EffectiveUID = uid, sy_EffectiveUser = key_value values ''effective_user'',
                sy_Distribution = ToLower (key_value values ''os_id''), sy_Version = key_value values ''os_version'',
                sy_Architecture = normalizeArchitecture (key_value values ''architecture''), sy_CPUCount = cpus,
                sy_AvailableRAMBytes = times64 ramKiB 1024, sy_FreeDiskBytes = times64 diskKiB 1024\<rparr>
          | _ \<Rightarrow> None)"

definition parseComponentState :: "string \<Rightarrow> ComponentState option" where
  "parseComponentState output =
     (case parseKeyValues output of
        None \<Rightarrow> None
      | Some values \<Rightarrow>
          case (ParseBool (key_value values ''docker''), ParseBool (key_value values ''remnanode_directory''),
                ParseBool (key_value values ''xray_sni_directory'')) of
            (Some docker, Some remnanode, Some xraySNI) \<Rightarrow>
              Some \<lparr>DockerInstalled = docker, RemnanodeDirectory = remnanode, XraySNIDirectory = xraySNI,
                RemnanodeContainers = [], XraySNIContainers = []\<rparr>
          | _ \<Rightarrow> None)"

fun occurs_in :: "string \<Rightarrow> string \<Rightarrow> bool" where
  "occurs_in p [] = (p = [])"
| "occurs_in p (c # s) = (HasPrefix (c # s) p \<or> occurs_in p s)"

definition parseContainers :: "string \<Rightarrow> string list \<times> string list" where
  "parseContainers output =
     (let names = filter (\<lambda>name. name \<noteq> []) (map TrimSpace (Split newline_char output)) in
      (filter (\<lambda>name. occurs_in ''remnanode'' (ToLower name)) names,
       filter (\<lambda>name. occurs_in ''xray-sni'' (ToLower name) \<or> occurs_in ''xray_sni'' (ToLower name)) names))"

definition relevantPorts :: "nat list" where
  "relevantPorts = [22, 443, 2222, 9100, 9200, 9443]"

fun port_states :: "(string \<Rightarrow> string option) \<Rightarrow> nat list \<Rightarrow> PortState list option" where
  "port_states values [] = Some []"
| "port_states values (port # ports) =
     (case ParseBool (key_value values (''port_'' @ Itoa (int port))) of
        None \<Rightarrow> None
      | Some occupied \<Rightarrow> map_option ((#) \<lparr>ps_Port = port, ps_Occupied = occupied\<rparr>) (port_states values ports))"

definition parsePortStates :: "string \<Rightarrow> PortState list option" where
  "parsePortStates output =
     (case parseKeyValues output of None \<Rightarrow> None | Some values \<Rightarrow> port_states values relevantPorts)"

section \<open>Judging\<close>

definition issue_if :: "bool \<Rightarrow> string \<Rightarrow> string \<Rightarrow> Issue list" where
  "issue_if b code message = (if b then [\<lparr>issue_Code = code, issue_Message = message\<rparr>] else [])"

definition system_failures :: "Requirements \<Rightarrow> SystemInfo \<Rightarrow> Issue list" where
  "system_failures req sys =
     issue_if (sy_EffectiveUID sys \<noteq> 0) ''NOT_ROOT'' ''Effective SSH user is not root'' @
     issue_if (\<not> containsFold (AllowedDistributions req) (sy_Distribution sys)) ''UNSUPPORTED_OS''
       ''VPS operating system distribution is unsupported'' @
     issue_if (TrimSpace (sy_Version sys) = []) ''OS_VERSION_MISSING'' ''VPS operating system version is missing'' @
     issue_if (\<not> containsFold (AllowedArchitectures req) (normalizeArchitecture (sy_Architecture sys)))
       ''UNSUPPORTED_ARCHITECTURE'' ''VPS architecture is unsupported'' @
     issue_if (sy_CPUCount sys < max 1 (MinimumCPUCount req)) ''INSUFFICIENT_CPU''
       ''VPS CPU count is below the required minimum'' @
     issue_if (sy_AvailableRAMBytes sys \<le> 0 \<or> sy_AvailableRAMBytes sys < MinimumAvailableRAMBytes req) ''INSUFFICIENT_RAM''
       ''VPS available RAM is below the required minimum'' @
     issue_if (sy_FreeDiskBytes sys \<le> 0 \<or> sy_FreeDiskBytes sys < MinimumFreeDiskBytes req) ''INSUFFICIENT_DISK''
       ''VPS free disk space is below the required minimum''"

definition component_warnings :: "ComponentState \<Rightarrow> Issue list" where
  "component_warnings c =
     issue_if (\<not> DockerInstalled c) ''DOCKER_NOT_INSTALLED'' ''Docker is not installed and will be required by provisioning'' @
     issue_if (RemnanodeDirectory c \<or> RemnanodeContainers c \<noteq> []) ''REMNANODE_EXISTS''
       ''Existing Remnanode files or containers were detected'' @
     issue_if (XraySNIDirectory c \<or> XraySNIContainers c \<noteq> []) ''XRAY_SNI_EXISTS''
       ''Existing xray-sni files or containers were detected''"

definition port_warnings :: "PortState list \<Rightarrow> Issue list" where
  "port_warnings ports = concat (map (\<lambda>port.
     issue_if (ps_Port port = 22 \<and> \<not> ps_Occupied port) ''SSH_PORT_NOT_DETECTED''
       ''Port 22 was not detected as listening despite the SSH connection'') ports)"

definition port_failures :: "PortState list \<Rightarrow> Issue list" where
  "port_failures ports = concat (map (\<lambda>port.
     issue_if (ps_Port port \<noteq> 22 \<and> ps_Occupied port) (''PORT_'' @ Itoa (int (ps_Port port)) @ ''_OCCUPIED'')
       (''Required TCP port '' @ Itoa (int (ps_Port port)) @ '' is already occupied'')) ports)"

definition validate_preflight :: "Requirements \<Rightarrow> PreflightResult \<Rightarrow> PreflightResult" where
  "validate_preflight req r = r\<lparr>
     pf_FatalFailures := pf_FatalFailures r @ system_failures req (pf_System r) @ port_failures (pf_Ports r),
     pf_Warnings := pf_Warnings r @ component_warnings (pf_Components r) @ port_warnings (pf_Ports r)\<rparr>"

section \<open>The inspection\<close>

datatype preflight_command = systemInfoCommand | componentStateCommand | containerListCommand | portStateCommand

record 'w preflight_ports =
  pc_Run :: "preflight_command \<Rightarrow> 'w \<Rightarrow> string option \<times> 'w"
  pc_ctx_err :: "'w \<Rightarrow> go_error option \<times> 'w"

definition add_fatal :: "string \<Rightarrow> string \<Rightarrow> PreflightResult \<Rightarrow> PreflightResult" where
  "add_fatal code message r = r\<lparr>pf_FatalFailures := pf_FatalFailures r @ [\<lparr>issue_Code = code, issue_Message = message\<rparr>]\<rparr>"

definition add_warning :: "string \<Rightarrow> string \<Rightarrow> PreflightResult \<Rightarrow> PreflightResult" where
  "add_warning code message r = r\<lparr>pf_Warnings := pf_Warnings r @ [\<lparr>issue_Code = code, issue_Message = message\<rparr>]\<rparr>"

text \<open>
  One command: an error with an ended context ends the inspection with the result so far, any other
  error is noted by \<open>failed\<close>, and the output is taken in by \<open>parsed\<close>.
\<close>

definition inspect_command ::
  "'w preflight_ports \<Rightarrow> preflight_command \<Rightarrow> (PreflightResult \<Rightarrow> PreflightResult) \<Rightarrow>
     (string \<Rightarrow> PreflightResult \<Rightarrow> PreflightResult) \<Rightarrow> PreflightResult \<Rightarrow>
     (PreflightResult \<Rightarrow> ('w, PreflightResult \<times> go_error option) state) \<Rightarrow> ('w, PreflightResult \<times> go_error option) state" where
  "inspect_command p command failed parsed result continue = do {
     output \<leftarrow> State (pc_Run p command);
     case output of
       None \<Rightarrow> do {
         e \<leftarrow> State (pc_ctx_err p);
         case e of Some err \<Rightarrow> State_Monad.return (result, Some err) | None \<Rightarrow> continue (failed result)
       }
     | Some stdout \<Rightarrow> continue (parsed stdout result)
   }"

definition inspect_containers ::
  "'w preflight_ports \<Rightarrow> PreflightResult \<Rightarrow>
     (PreflightResult \<Rightarrow> ('w, PreflightResult \<times> go_error option) state) \<Rightarrow> ('w, PreflightResult \<times> go_error option) state" where
  "inspect_containers p result continue =
     (if DockerInstalled (pf_Components result)
      then inspect_command p containerListCommand
        (add_warning ''CONTAINER_INSPECTION_FAILED'' ''Existing Docker containers could not be inspected'')
        (\<lambda>stdout r. case parseContainers stdout of (remnanode, xraySNI) \<Rightarrow>
           r\<lparr>pf_Components := (pf_Components r)\<lparr>RemnanodeContainers := remnanode, XraySNIContainers := xraySNI\<rparr>\<rparr>)
        result continue
      else continue result)"

definition inspect_components ::
  "'w preflight_ports \<Rightarrow> PreflightResult \<Rightarrow>
     (PreflightResult \<Rightarrow> ('w, PreflightResult \<times> go_error option) state) \<Rightarrow> ('w, PreflightResult \<times> go_error option) state" where
  "inspect_components p result continue =
     inspect_command p componentStateCommand
       (add_warning ''COMPONENT_INSPECTION_FAILED'' ''Existing component state could not be inspected'')
       (\<lambda>stdout r. case parseComponentState stdout of
          None \<Rightarrow> add_warning ''COMPONENT_INFO_INVALID'' ''Existing component state could not be parsed'' (r\<lparr>pf_Components := no_components\<rparr>)
        | Some components \<Rightarrow> r\<lparr>pf_Components := components\<rparr>)
       result continue"

definition inspect_ports ::
  "'w preflight_ports \<Rightarrow> PreflightResult \<Rightarrow>
     (PreflightResult \<Rightarrow> ('w, PreflightResult \<times> go_error option) state) \<Rightarrow> ('w, PreflightResult \<times> go_error option) state" where
  "inspect_ports p result continue =
     inspect_command p portStateCommand
       (add_fatal ''PORT_INSPECTION_FAILED'' ''Relevant TCP ports could not be inspected'')
       (\<lambda>stdout r. case parsePortStates stdout of
          None \<Rightarrow> add_fatal ''PORT_INFO_INVALID'' ''Relevant TCP port state could not be parsed'' (r\<lparr>pf_Ports := []\<rparr>)
        | Some ports \<Rightarrow> r\<lparr>pf_Ports := ports\<rparr>)
       result continue"

definition inspect_rest :: "'w preflight_ports \<Rightarrow> Requirements \<Rightarrow> PreflightResult \<Rightarrow> ('w, PreflightResult \<times> go_error option) state" where
  "inspect_rest p req result =
     inspect_components p result (\<lambda>result.
     inspect_containers p result (\<lambda>result.
     inspect_ports p result (\<lambda>result.
       State_Monad.return (validate_preflight req result, None))))"

definition Preflight_Run :: "'w preflight_ports \<Rightarrow> Requirements \<Rightarrow> ('w, PreflightResult \<times> go_error option) state" where
  "Preflight_Run p req = do {
     output \<leftarrow> State (pc_Run p systemInfoCommand);
     case output of
       None \<Rightarrow> do {
         e \<leftarrow> State (pc_ctx_err p);
         State_Monad.return (case e of
           Some err \<Rightarrow> (no_preflight, Some err)
         | None \<Rightarrow> (add_fatal ''SSH_CONNECTIVITY_FAILED'' ''SSH preflight command could not be completed'' no_preflight, None))
       }
     | Some stdout \<Rightarrow>
         let result = no_preflight\<lparr>pf_SSHConnected := True\<rparr> in
         case parseSystemInfo stdout of
           None \<Rightarrow> State_Monad.return
             (add_fatal ''SYSTEM_INFO_INVALID'' ''VPS system information could not be parsed'' result, None)
         | Some sys \<Rightarrow> inspect_rest p req (result\<lparr>pf_System := sys\<rparr>)
   }"

section \<open>What a passed preflight means\<close>

text \<open>The same runner with a record of the commands it ran and of their output.\<close>

type_synonym preflight_log = "(preflight_command \<times> string option) list"

definition recorded :: "'w preflight_ports \<Rightarrow> ('w \<times> preflight_log) preflight_ports" where
  "recorded p = \<lparr>
     pc_Run = (\<lambda>command (w, log). case pc_Run p command w of (out, w') \<Rightarrow> (out, (w', log @ [(command, out)]))),
     pc_ctx_err = (\<lambda>(w, log). case pc_ctx_err p w of (e, w') \<Rightarrow> (e, (w', log)))\<rparr>"

text \<open>Recording changes nothing in a run.\<close>

definition shadows :: "('w, 'a) state \<Rightarrow> ('w \<times> preflight_log, 'a) state \<Rightarrow> bool" where
  "shadows m m' \<longleftrightarrow> (\<forall>t. result_of m' t = result_of m (fst t) \<and>
     fst (exec_state m' t) = exec_state m (fst t))"

lemma shadows_return: "shadows (State_Monad.return a) (State_Monad.return a)"
  by (simp add: shadows_def)

lemma shadows_bind: "shadows m m' \<Longrightarrow> (\<And>a. shadows (f a) (f' a)) \<Longrightarrow> shadows (m \<bind> f) (m' \<bind> f')"
  by (simp add: shadows_def split_beta del: split_paired_All)

lemma shadows_ports:
  "shadows (State (pc_Run p command)) (State (pc_Run (recorded p) command))"
  "shadows (State (pc_ctx_err p)) (State (pc_ctx_err (recorded p)))"
  by (simp_all add: shadows_def recorded_def split_beta)

lemma shadows_case_option:
  "shadows m m' \<Longrightarrow> (\<And>a. shadows (f a) (f' a)) \<Longrightarrow>
     shadows (case x of None \<Rightarrow> m | Some a \<Rightarrow> f a) (case x of None \<Rightarrow> m' | Some a \<Rightarrow> f' a)"
  by (simp split: option.split)

lemma shadows_inspect_command:
  "(\<And>r. shadows (continue r) (continue' r)) \<Longrightarrow>
     shadows (inspect_command p command failed parsed result continue)
       (inspect_command (recorded p) command failed parsed result continue')"
  unfolding inspect_command_def
  by (intro shadows_bind shadows_case_option shadows_ports shadows_return)

lemma shadows_Preflight_Run: "shadows (Preflight_Run p req) (Preflight_Run (recorded p) req)"
proof -
  have rest: "shadows (inspect_rest p req r) (inspect_rest (recorded p) req r)" for r
    unfolding inspect_rest_def inspect_components_def inspect_containers_def inspect_ports_def
    by (auto intro!: shadows_inspect_command shadows_return)
  show ?thesis
    unfolding Preflight_Run_def Let_def
    by (intro shadows_bind shadows_case_option shadows_ports shadows_return rest)
qed

definition preflight_calls :: "'w preflight_ports \<Rightarrow> Requirements \<Rightarrow> 'w \<Rightarrow> preflight_log" where
  "preflight_calls p req w = snd (exec_state (Preflight_Run (recorded p) req) (w, []))"

text \<open>How the output of the first command is read, field by field, and what it has to be.\<close>

definition reads_system :: "string \<Rightarrow> SystemInfo \<Rightarrow> bool" where
  "reads_system output sys \<longleftrightarrow>
     (\<exists>values ramKiB diskKiB. parseKeyValues output = Some values \<and>
        ParseInt (key_value values ''effective_uid'') = Some (sy_EffectiveUID sys) \<and>
        ParseInt (key_value values ''cpu_count'') = Some (sy_CPUCount sys) \<and>
        ParseInt (key_value values ''available_ram_kib'') = Some ramKiB \<and>
        ParseInt (key_value values ''free_disk_kib'') = Some diskKiB \<and>
        sy_AvailableRAMBytes sys = times64 ramKiB 1024 \<and> sy_FreeDiskBytes sys = times64 diskKiB 1024 \<and>
        TrimSpace (key_value values ''effective_user'') \<noteq> [] \<and>
        sy_EffectiveUser sys = key_value values ''effective_user'' \<and>
        sy_Distribution sys = ToLower (key_value values ''os_id'') \<and>
        sy_Version sys = key_value values ''os_version'' \<and>
        sy_Architecture sys = normalizeArchitecture (key_value values ''architecture''))"

definition meets :: "Requirements \<Rightarrow> SystemInfo \<Rightarrow> bool" where
  "meets req sys \<longleftrightarrow>
     sy_EffectiveUID sys = 0 \<and>
     containsFold (AllowedDistributions req) (sy_Distribution sys) \<and>
     TrimSpace (sy_Version sys) \<noteq> [] \<and>
     containsFold (AllowedArchitectures req) (normalizeArchitecture (sy_Architecture sys)) \<and>
     1 \<le> sy_CPUCount sys \<and> MinimumCPUCount req \<le> sy_CPUCount sys \<and>
     0 < sy_AvailableRAMBytes sys \<and> MinimumAvailableRAMBytes req \<le> sy_AvailableRAMBytes sys \<and>
     0 < sy_FreeDiskBytes sys \<and> MinimumFreeDiskBytes req \<le> sy_FreeDiskBytes sys"

text \<open>
  The output of the last command: every relevant port has a value that reads as a truth value, the
  recorded ports are those values, and only the SSH port is in use.
\<close>

definition reads_free_ports :: "string \<Rightarrow> PortState list \<Rightarrow> bool" where
  "reads_free_ports output ports \<longleftrightarrow>
     (\<exists>values. parseKeyValues output = Some values \<and>
        list_all (\<lambda>port. ParseBool (key_value values (''port_'' @ Itoa (int port))) = Some False \<or>
            port = 22 \<and> ParseBool (key_value values (''port_'' @ Itoa (int port))) = Some True) relevantPorts \<and>
        ports = map (\<lambda>port. \<lparr>ps_Port = port,
            ps_Occupied = (ParseBool (key_value values (''port_'' @ Itoa (int port))) = Some True)\<rparr>) relevantPorts)"

definition preflight_judged :: "Requirements \<Rightarrow> PreflightResult \<times> go_error option \<Rightarrow> preflight_log \<Rightarrow> bool" where
  "preflight_judged req x calls \<longleftrightarrow> (case x of (r, err) \<Rightarrow> err = None \<longrightarrow> Passed r \<longrightarrow>
     (\<exists>sysOut between portOut.
        calls = (systemInfoCommand, Some sysOut) # between @ [(portStateCommand, Some portOut)] \<and>
        reads_system sysOut (pf_System r) \<and> meets req (pf_System r) \<and>
        reads_free_ports portOut (pf_Ports r)))"

lemma issue_if_Nil [simp]: "issue_if b code message = [] \<longleftrightarrow> \<not> b"
  by (simp add: issue_if_def)

lemma concat_Nil: "concat (map f xs) = [] \<longleftrightarrow> list_all (\<lambda>x. f x = []) xs"
  by (simp add: list_all_iff)

lemma validate_no_failures:
  "pf_FatalFailures (validate_preflight req r) = [] \<longleftrightarrow>
     pf_FatalFailures r = [] \<and> system_failures req (pf_System r) = [] \<and>
     list_all (\<lambda>port. ps_Occupied port \<longrightarrow> ps_Port port = 22) (pf_Ports r)"
  by (auto simp: validate_preflight_def port_failures_def concat_Nil list_all_iff)

lemma system_no_failures: "system_failures req sys = [] \<longleftrightarrow> meets req sys"
  by (auto simp: system_failures_def meets_def not_less not_le)

lemma parseSystemInfo_reads: "parseSystemInfo output = Some sys \<Longrightarrow> reads_system output sys"
  unfolding parseSystemInfo_def reads_system_def
  by (auto split: option.splits if_splits)

lemma port_states_read:
  "port_states values ports = Some states \<Longrightarrow>
     list_all (\<lambda>port. ParseBool (key_value values (''port_'' @ Itoa (int port))) \<noteq> None) ports \<and>
     states = map (\<lambda>port. \<lparr>ps_Port = port,
       ps_Occupied = (ParseBool (key_value values (''port_'' @ Itoa (int port))) = Some True)\<rparr>) ports"
  by (induction ports arbitrary: states) (auto split: option.splits)

lemma parsePortStates_free:
  assumes "parsePortStates output = Some ports"
    and "list_all (\<lambda>port. ps_Occupied port \<longrightarrow> ps_Port port = 22) ports"
  shows "reads_free_ports output ports"
proof -
  obtain kv where v: "parseKeyValues output = Some kv" "port_states kv relevantPorts = Some ports"
    using assms(1) by (auto simp: parsePortStates_def split: option.splits)
  show ?thesis
    unfolding reads_free_ports_def
    by (intro exI [of _ kv]) (use v port_states_read [OF v(2)] assms(2) in \<open>auto simp: list_all_iff\<close>)
qed

text \<open>One command of a recorded run.\<close>

lemma wp_inspect_recorded:
  assumes "\<And>err w log. Q (result, Some err) (w, log)"
    and "\<And>w. wp (continue (failed result)) Q (w, log @ [(command, None)])"
    and "\<And>stdout w. wp (continue (parsed stdout result)) Q (w, log @ [(command, Some stdout)])"
  shows "wp (inspect_command (recorded p) command failed parsed result continue) Q (w, log)"
  unfolding inspect_command_def
  using assms by (auto simp: wp_simps recorded_def split: prod.split option.split)

lemma preflight_error_judged: "preflight_judged req (r, Some err) calls"
  by (simp add: preflight_judged_def)

lemma judged_fatal: "preflight_judged req (add_fatal code message r, None) calls"
  by (simp add: preflight_judged_def Passed_def add_fatal_def)

lemma validate_fatal: "pf_FatalFailures r \<noteq> [] \<Longrightarrow> preflight_judged req (validate_preflight req r, None) calls"
  by (simp add: preflight_judged_def Passed_def validate_no_failures)

lemma fatal_fields [simp]:
  "pf_System (add_fatal code message r) = pf_System r" "pf_System (add_warning code message r) = pf_System r"
  "pf_FatalFailures (add_fatal code message r) \<noteq> []"
  by (simp_all add: add_fatal_def add_warning_def)

lemma validate_fields [simp]:
  "pf_System (validate_preflight req r) = pf_System r"
  "pf_Ports (validate_preflight req r) = pf_Ports r"
  by (simp_all add: validate_preflight_def)

lemma inspect_ports_judged:
  assumes "reads_system sysOut (pf_System r)"
  shows "wp (inspect_ports (recorded p) r (\<lambda>result. State_Monad.return (validate_preflight req result, None)))
    (\<lambda>x t. preflight_judged req x (snd t)) (w, (systemInfoCommand, Some sysOut) # between)"
proof -
  have "preflight_judged req (validate_preflight req (r\<lparr>pf_Ports := ports\<rparr>), None)
      ((systemInfoCommand, Some sysOut) # between @ [(portStateCommand, Some stdout)])"
    if "parsePortStates stdout = Some ports" for stdout ports
    using assms that
    by (auto simp: preflight_judged_def Passed_def validate_no_failures system_no_failures
        intro!: exI [of _ sysOut] parsePortStates_free)
  then show ?thesis
    unfolding inspect_ports_def
    by (intro wp_inspect_recorded)
      (auto simp: wp_simps preflight_error_judged validate_fatal split: option.split)
qed

lemma inspect_rest_judged:
  assumes "reads_system sysOut (pf_System r)"
  shows "wp (inspect_rest (recorded p) req r) (\<lambda>x t. preflight_judged req x (snd t))
    (w, [(systemInfoCommand, Some sysOut)])"
proof -
  have containers: "wp (inspect_containers (recorded p) r' (\<lambda>r. inspect_ports (recorded p) r
      (\<lambda>result. State_Monad.return (validate_preflight req result, None))))
      (\<lambda>x t. preflight_judged req x (snd t)) (w, (systemInfoCommand, Some sysOut) # between)"
    if "pf_System r' = pf_System r" for r' w between
    unfolding inspect_containers_def
    using that assms by (auto simp: preflight_error_judged
        intro!: wp_inspect_recorded inspect_ports_judged split: prod.split)
  show ?thesis
    unfolding inspect_rest_def inspect_components_def
    by (rule wp_inspect_recorded) (auto simp: preflight_error_judged intro!: containers split: option.split)
qed

text \<open>
  C18. Whatever the VPS answers: a preflight without an error is passed only when its first
  command, the system report, and its last, the port report, gave output that could be read.
  What the first says meets every requirement: root, an allowed distribution with a version, an
  allowed architecture, enough CPUs, memory and disk.  In what the last says every relevant port has
  a readable value, and only the SSH port is in use; the ports of the result are those values.
\<close>

theorem Preflight_Run_judged:
  "preflight_judged req (result_of (Preflight_Run p req) w) (preflight_calls p req w)"
proof -
  have "wp (Preflight_Run (recorded p) req) (\<lambda>x t. preflight_judged req x (snd t)) (w, [])"
    unfolding Preflight_Run_def Let_def
    by (auto simp: wp_simps recorded_def [of p, THEN arg_cong [of _ _ pc_Run]]
        recorded_def [of p, THEN arg_cong [of _ _ pc_ctx_err]]
        intro!: inspect_rest_judged parseSystemInfo_reads preflight_error_judged judged_fatal
        split: prod.split option.split)
  then show ?thesis
    using shadows_Preflight_Run [of p req] by (simp add: wp_run shadows_def preflight_calls_def)
qed

text \<open>The product with 1024 is exact for every amount below 2^53 KiB, and wraps beyond.\<close>

lemma times64_exact: "- (2 ^ 63) \<le> a * b \<Longrightarrow> a * b < 2 ^ 63 \<Longrightarrow> times64 a b = a * b"
  unfolding times64_def sint_sbintrunc' by (rule signed_take_bit_int_eq_self) simp_all

lemma times64_wraps: "times64 (2 ^ 54 + 1) 1024 = 1024"
  by code_simp

end
