(* ===== verification/Deploy_State.thy ===== *)
theory Deploy_State
  imports Repository Remnawave Dns_Client Safe_Text Preflight
begin

text \<open>
  The state, the interfaces and the events of the deployment service
  (\<^verbatim>\<open>internal/orchestrator/types.go\<close>).  The panel, the DNS balancer, the certificate manager, the
  VPS operator, the clock and the contexts are parameters: \<open>ports\<close> answers each call from a world
  of any type, so every theorem holds for every behaviour of them.  The database is the one of
  \<^verbatim>\<open>Repository\<close>; before each access other goroutines and processes may have changed it
  (\<open>p_others\<close>), and each statement has an outcome of its own.
\<close>

section \<open>Data\<close>

datatype CertificateReadiness = CertificateUnknown | CertificateReady | CertificateNotReady

record Report =
  rep_Name :: string
  rep_Status :: StepStatus
  rep_Changed :: bool
  rep_Summary :: string

record PrepareInput =
  pi_PanelID :: string
  pi_OperatorUserID :: int
  pi_HostID :: string
  pi_NodeName :: string
  pi_VPSIP :: addr
  pi_Password :: string

record OperatorNotice =
  on_Code :: string
  on_Message :: string

record PreparedDeployment =
  pd_Deployment :: Deployment
  pd_DNSZone :: string
  pd_CertificateReadiness :: CertificateReadiness
  pd_ConfigProfileReadiness :: bool
  pd_Warnings :: "OperatorNotice list"

record StartInput =
  si_DeploymentID :: string
  si_OperatorUserID :: int
  si_HostID :: string
  si_NodeName :: string
  si_VPSIP :: addr

record Progress =
  pr_Step :: string
  pr_Completed :: int
  pr_Total :: int
  pr_SafeMessage :: string
  pr_Status :: StepStatus
  pr_Code :: string

record SafeLogEntry =
  sl_Step :: string
  sl_Status :: string
  sl_Summary :: string
  sl_Code :: string
  sl_StartedAt :: "time option"
  sl_CompletedAt :: "time option"

record ProvisionVPSInput =
  pv_DeploymentID :: string
  pv_Address :: addr
  pv_SNIDomain :: string
  pv_SecretKey :: string
  pv_Certificate :: Material

record NodeSNISwitchInput =
  sw_Address :: addr
  sw_PreviousSNI :: string
  sw_TargetSNI :: string
  sw_Password :: string
  sw_PreviousCertificate :: Material
  sw_Certificate :: Material

text \<open>\<open>cfg_Observer\<close> and \<open>cfg_NodeSNISwitcher\<close> say whether the optional interfaces are there.\<close>

record Config =
  cfg_PanelID :: string
  cfg_DNSDisabled :: bool
  cfg_MaxConcurrentDeployments :: int
  cfg_NodeConnectTimeout :: int
  cfg_InitialPollBackoff :: int
  cfg_MaxPollBackoff :: int
  cfg_Observer :: bool
  cfg_NodeSNISwitcher :: bool

section \<open>Events\<close>

datatype observation =
  DeploymentCreated | DeploymentFailed | ActiveDeployment int | DeploymentDuration | ProvisioningStepDuration string

datatype event =
    EvGetHosts
  | EvKeygen
  | EvGetNodes "go_error + Node list"
  | EvGetNode string "go_error + Node"
  | EvCreateNode CreateNodeInput "go_error + Node"
  | EvUpdateAddress UpdateNodeAddressInput "go_error + Node"
  | EvUpdateProfile UpdateNodeProfileInput "go_error + Node"
  | EvFindZone string "go_error + ZoneMatch"
  | EvFindZonesByIP addr
  | EvAddIP string addr "go_error + AddIPResult"
  | EvReplaceIP string addr addr "go_error + ReplaceIPResult"
  | EvMoveIP string string addr "go_error + MoveIPResult"
  | EvReadiness string
  | EvPrepareCertificate string
  | EvPreflight string addr "go_error + PreflightResult"
  | EvProvision ProvisionVPSInput "go_error option"
  | EvSwitchSNI NodeSNISwitchInput "go_error option"
  | EvDbCreate "go_error + Deployment"
  | EvDbGet string "go_error + Deployment"
  | EvDbState string UpdateDeploymentStateParams "go_error + Deployment"
  | EvDbStep RecordStepParams "go_error + Step"
  | EvDbNodeUUID string string "go_error + Deployment"
  | EvDbTargetIP string addr "go_error + Deployment"
  | EvDbBinding string SetNodeHostBindingParams "go_error + Deployment"
  | EvDbFindNode string "go_error + Deployment"
  | EvDbSteps string
  | EvDbUnfinished string int
  | EvProgress Progress
  | EvObserve observation
  | EvBegin string
  | EvRelease string
  | EvAcquire
  | EvReleaseSlot
  | EvPollWait int

section \<open>Ports and state\<close>

text \<open>
  \<open>p_ctx_err\<close> is \<^verbatim>\<open>ctx.Err()\<close>.  \<open>p_acquire\<close> is the \<^verbatim>\<open>select\<close> on the semaphore: \<open>Some e\<close> when the
  context was done first.  \<open>p_poll_node\<close> is \<^verbatim>\<open>GetNode\<close> during polling, with the time the call took;
  \<open>p_poll_wait\<close> says whether the context was done before the timer fired.  The provisioner's
  progress reports come back with its result.
\<close>

record 'w ports =
  p_ctx_err :: "'w \<Rightarrow> go_error option \<times> 'w"
  p_acquire :: "'w \<Rightarrow> go_error option \<times> 'w"
  p_db :: "'w \<Rightarrow> (db_outcome \<times> time) \<times> 'w"
  p_others :: "'w \<Rightarrow> database \<Rightarrow> database"
  p_rand :: "'w \<Rightarrow> 8 word list option \<times> 'w"
  p_GetHosts :: "'w \<Rightarrow> (go_error + Host list) \<times> 'w"
  p_GenerateSecretKey :: "'w \<Rightarrow> (go_error + string) \<times> 'w"
  p_GetNodes :: "'w \<Rightarrow> (go_error + Node list) \<times> 'w"
  p_GetNode :: "string \<Rightarrow> 'w \<Rightarrow> (go_error + Node) \<times> 'w"
  p_CreateNode :: "CreateNodeInput \<Rightarrow> 'w \<Rightarrow> (go_error + Node) \<times> 'w"
  p_UpdateNodeAddress :: "UpdateNodeAddressInput \<Rightarrow> 'w \<Rightarrow> (go_error + Node) \<times> 'w"
  p_UpdateNodeProfile :: "UpdateNodeProfileInput \<Rightarrow> 'w \<Rightarrow> (go_error + Node) \<times> 'w"
  p_FindZone :: "string \<Rightarrow> 'w \<Rightarrow> (go_error + ZoneMatch) \<times> 'w"
  p_FindZonesByIP :: "addr \<Rightarrow> 'w \<Rightarrow> (go_error + ZoneMatch list) \<times> 'w"
  p_AddIP :: "string \<Rightarrow> addr \<Rightarrow> 'w \<Rightarrow> (go_error + AddIPResult) \<times> 'w"
  p_ReplaceIP :: "string \<Rightarrow> addr \<Rightarrow> addr \<Rightarrow> 'w \<Rightarrow> (go_error + ReplaceIPResult) \<times> 'w"
  p_MoveIP :: "string \<Rightarrow> string \<Rightarrow> addr \<Rightarrow> 'w \<Rightarrow> (go_error + MoveIPResult) \<times> 'w"
  p_Readiness :: "string \<Rightarrow> 'w \<Rightarrow> (go_error + CertificateReadiness) \<times> 'w"
  p_PrepareCertificate :: "string \<Rightarrow> 'w \<Rightarrow> (go_error + Material) \<times> 'w"
  p_Preflight :: "string \<Rightarrow> addr \<Rightarrow> string \<Rightarrow> 'w \<Rightarrow> (go_error + PreflightResult) \<times> 'w"
  p_Provision :: "ProvisionVPSInput \<Rightarrow> 'w \<Rightarrow> (Report list \<times> go_error option) \<times> 'w"
  p_SwitchSNI :: "NodeSNISwitchInput \<Rightarrow> 'w \<Rightarrow> go_error option \<times> 'w"
  p_poll_node :: "string \<Rightarrow> 'w \<Rightarrow> ((go_error + Node) \<times> nat) \<times> 'w"
  p_poll_wait :: "int \<Rightarrow> 'w \<Rightarrow> bool \<times> 'w"

record 'w sys =
  sys_world :: 'w
  sys_db :: database
  sys_running :: "string set"
  sys_slots :: int
  sys_log :: "event list"

type_synonym ('w, 'a) op = "('w sys, go_error + 'a) state"

text \<open>A call to a port, and the event it leaves.\<close>

definition call :: "('w \<Rightarrow> 'a \<times> 'w) \<Rightarrow> ('a \<Rightarrow> event list) \<Rightarrow> ('w sys, 'a) state" where
  "call port ev = State (\<lambda>s. case port (sys_world s) of (a, w) \<Rightarrow>
     (a, s\<lparr>sys_world := w, sys_log := sys_log s @ ev a\<rparr>))"

definition note_event :: "event \<Rightarrow> ('w sys, unit) state" where
  "note_event e = State_Monad.update (\<lambda>s. s\<lparr>sys_log := sys_log s @ [e]\<rparr>)"

text \<open>A statement of the database, after whatever the others did.\<close>

definition db_call ::
  "'w ports \<Rightarrow> (db_outcome \<Rightarrow> time \<Rightarrow> database \<Rightarrow> 'r \<times> database) \<Rightarrow> ('r \<Rightarrow> event) \<Rightarrow> ('w sys, 'r) state" where
  "db_call p f ev = State (\<lambda>s.
     case p_db p (sys_world s) of ((oc, now), w) \<Rightarrow>
     case f oc now (p_others p (sys_world s) (sys_db s)) of (r, db) \<Rightarrow>
       (r, s\<lparr>sys_world := w, sys_db := db, sys_log := sys_log s @ [ev r]\<rparr>))"

definition ctx_err :: "'w ports \<Rightarrow> ('w sys, go_error option) state" where
  "ctx_err p = call (p_ctx_err p) (\<lambda>_. [])"

text \<open>\<^verbatim>\<open>if ctx.Err() != nil { return ctx.Err() }\<close>\<close>

definition ctx_check :: "'w ports \<Rightarrow> ('w, unit) op" where
  "ctx_check p = do {
     e \<leftarrow> ctx_err p;
     case e of Some err \<Rightarrow> failE err | None \<Rightarrow> okE ()
   }"

text \<open>\<^verbatim>\<open>if err != nil { if ctx.Err() != nil { return ctx.Err() }; return other }\<close>\<close>

definition or_fail :: "'w ports \<Rightarrow> go_error \<Rightarrow> go_error + 'a \<Rightarrow> ('w, 'a) op" where
  "or_fail p other r =
     (case r of
        Inr a \<Rightarrow> okE a
      | Inl _ \<Rightarrow> bindE (ctx_check p) (\<lambda>_. failE other))"

section \<open>Calls\<close>

definition GetDeployment_op :: "'w ports \<Rightarrow> string \<Rightarrow> ('w, Deployment) op" where
  "GetDeployment_op p uuid = db_call p (\<lambda>oc now db. (GetDeployment oc uuid db, db)) (EvDbGet uuid)"

definition UpdateState_op :: "'w ports \<Rightarrow> string \<Rightarrow> UpdateDeploymentStateParams \<Rightarrow> ('w, Deployment) op" where
  "UpdateState_op p uuid params =
     db_call p (\<lambda>oc now. UpdateDeploymentState oc now uuid params) (EvDbState uuid params)"

definition RecordStep_op :: "'w ports \<Rightarrow> RecordStepParams \<Rightarrow> ('w, Step) op" where
  "RecordStep_op p params = db_call p (\<lambda>oc now. RecordDeploymentStep oc now params) (EvDbStep params)"

definition SetNodeUUID_op :: "'w ports \<Rightarrow> string \<Rightarrow> string \<Rightarrow> ('w, Deployment) op" where
  "SetNodeUUID_op p uuid nodeUUID =
     db_call p (\<lambda>oc now. SetRemnawaveNodeUUID oc now uuid nodeUUID) (EvDbNodeUUID uuid nodeUUID)"

definition SetTargetVPSIP_op :: "'w ports \<Rightarrow> string \<Rightarrow> addr \<Rightarrow> ('w, Deployment) op" where
  "SetTargetVPSIP_op p uuid address =
     db_call p (\<lambda>oc now. SetTargetVPSIP oc now uuid address) (EvDbTargetIP uuid address)"

definition SetNodeHostBinding_op :: "'w ports \<Rightarrow> string \<Rightarrow> SetNodeHostBindingParams \<Rightarrow> ('w, Deployment) op" where
  "SetNodeHostBinding_op p uuid params =
     db_call p (\<lambda>oc now. SetNodeHostBinding oc now uuid params) (EvDbBinding uuid params)"

definition FindNode_op :: "'w ports \<Rightarrow> string \<Rightarrow> string \<Rightarrow> ('w, Deployment) op" where
  "FindNode_op p panelID nodeUUID =
     db_call p (\<lambda>oc now db. (FindDeploymentByPanelNodeUUID oc panelID nodeUUID db, db)) (EvDbFindNode nodeUUID)"

definition ListSteps_op :: "'w ports \<Rightarrow> string \<Rightarrow> ('w, Step list) op" where
  "ListSteps_op p uuid = db_call p (\<lambda>oc now db. (ListDeploymentSteps oc uuid db, db)) (\<lambda>_. EvDbSteps uuid)"

definition CreateDeployment_op :: "'w ports \<Rightarrow> CreateDeploymentParams \<Rightarrow> ('w, Deployment) op" where
  "CreateDeployment_op p params = do {
     random \<leftarrow> call (p_rand p) (\<lambda>_. []);
     db_call p (\<lambda>oc now. CreateDeployment oc now random params) EvDbCreate
   }"

definition GetHosts_op :: "'w ports \<Rightarrow> ('w, Host list) op" where
  "GetHosts_op p = call (p_GetHosts p) (\<lambda>_. [EvGetHosts])"

definition GetNodes_op :: "'w ports \<Rightarrow> ('w, Node list) op" where
  "GetNodes_op p = call (p_GetNodes p) (\<lambda>r. [EvGetNodes r])"

definition GetNode_op :: "'w ports \<Rightarrow> string \<Rightarrow> ('w, Node) op" where
  "GetNode_op p uuid = call (p_GetNode p uuid) (\<lambda>r. [EvGetNode uuid r])"

definition FindZone_op :: "'w ports \<Rightarrow> string \<Rightarrow> ('w, ZoneMatch) op" where
  "FindZone_op p fqdn = call (p_FindZone p fqdn) (\<lambda>r. [EvFindZone fqdn r])"

definition FindZonesByIP_op :: "'w ports \<Rightarrow> addr \<Rightarrow> ('w, ZoneMatch list) op" where
  "FindZonesByIP_op p ip = call (p_FindZonesByIP p ip) (\<lambda>_. [EvFindZonesByIP ip])"

definition AddIP_op :: "'w ports \<Rightarrow> string \<Rightarrow> addr \<Rightarrow> ('w, AddIPResult) op" where
  "AddIP_op p fqdn ip = call (p_AddIP p fqdn ip) (\<lambda>r. [EvAddIP fqdn ip r])"

definition ReplaceIP_op :: "'w ports \<Rightarrow> string \<Rightarrow> addr \<Rightarrow> addr \<Rightarrow> ('w, ReplaceIPResult) op" where
  "ReplaceIP_op p fqdn oldIP newIP = call (p_ReplaceIP p fqdn oldIP newIP) (\<lambda>r. [EvReplaceIP fqdn oldIP newIP r])"

definition MoveIP_op :: "'w ports \<Rightarrow> string \<Rightarrow> string \<Rightarrow> addr \<Rightarrow> ('w, MoveIPResult) op" where
  "MoveIP_op p source target ip = call (p_MoveIP p source target ip) (\<lambda>r. [EvMoveIP source target ip r])"

definition UpdateNodeAddress_op :: "'w ports \<Rightarrow> string \<Rightarrow> addr \<Rightarrow> ('w, Node) op" where
  "UpdateNodeAddress_op p uuid ip =
     (let input = \<lparr>ua_UUID = uuid, ua_Address = ip\<rparr>
      in call (p_UpdateNodeAddress p input) (\<lambda>r. [EvUpdateAddress input r]))"

definition UpdateNodeProfile_op :: "'w ports \<Rightarrow> string \<Rightarrow> Host \<Rightarrow> ('w, Node) op" where
  "UpdateNodeProfile_op p uuid host =
     (let input = \<lparr>up_UUID = uuid, up_Host = host\<rparr>
      in call (p_UpdateNodeProfile p input) (\<lambda>r. [EvUpdateProfile input r]))"

definition SwitchSNI_op :: "'w ports \<Rightarrow> NodeSNISwitchInput \<Rightarrow> ('w sys, go_error option) state" where
  "SwitchSNI_op p input = call (p_SwitchSNI p input) (\<lambda>r. [EvSwitchSNI input r])"

definition PrepareCertificate_op :: "'w ports \<Rightarrow> string \<Rightarrow> ('w, Material) op" where
  "PrepareCertificate_op p sni = call (p_PrepareCertificate p sni) (\<lambda>_. [EvPrepareCertificate sni])"

text \<open>\<^verbatim>\<open>emit\<close> and the calls of the optional observer.\<close>

definition emit :: "bool \<Rightarrow> Progress \<Rightarrow> ('w sys, unit) state" where
  "emit sink progress = (if sink then note_event (EvProgress progress) else State_Monad.return ())"

definition observe :: "Config \<Rightarrow> observation \<Rightarrow> ('w sys, unit) state" where
  "observe cfg ob = (if cfg_Observer cfg then note_event (EvObserve ob) else State_Monad.return ())"

section \<open>Traces and frames of the primitives\<close>

lemma logs_call [log_rules]: "(\<And>a. P a (ev a)) \<Longrightarrow> logs sys_log (call port ev) P"
  by (auto simp: logs_def call_def split: prod.splits)

lemma logs_db_call [log_rules]: "(\<And>r. P r [ev r]) \<Longrightarrow> logs sys_log (db_call p f ev) P"
  by (auto simp: logs_def db_call_def split: prod.splits)

lemma logs_note_event [log_rules]: "P () [e] \<Longrightarrow> logs sys_log (note_event e) P"
  by (simp add: logs_def note_event_def)

lemma logs_ctx_check [log_rules]:
  "(\<And>e. P (Inl e) []) \<Longrightarrow> P (Inr ()) [] \<Longrightarrow> logs sys_log (ctx_check p) P"
  unfolding ctx_check_def ctx_err_def
  by (intro logs_bind logs_call) (auto intro!: log_rules split: option.splits)

lemma logs_or_fail [log_rules]:
  "(\<And>e. P (Inl e) []) \<Longrightarrow> (\<And>a. r = Inr a \<Longrightarrow> P (Inr a) []) \<Longrightarrow> logs sys_log (or_fail p other r) P"
  unfolding or_fail_def by (cases r) (auto intro!: log_rules)

lemma logs_emit [log_rules]:
  "P () [EvProgress progress] \<Longrightarrow> P () [] \<Longrightarrow> logs sys_log (emit sink progress) P"
  unfolding emit_def by (intro log_rules)

lemma logs_observe [log_rules]: "P () [EvObserve ob] \<Longrightarrow> P () [] \<Longrightarrow> logs sys_log (observe cfg ob) P"
  unfolding observe_def by (intro log_rules)

end
