(* ===== verification/Deploy_Service.thy ===== *)
theory Deploy_Service
  imports Deploy_State
begin

text \<open>
  The deployment workflow of \<^verbatim>\<open>internal/orchestrator/service.go\<close>: every method of
  \<^verbatim>\<open>DeploymentService\<close> as a program over the ports, with its guards, context checks and early
  returns in the order of the code.
\<close>

section \<open>Text\<close>

text \<open>The bytes of a literal that is not ASCII.\<close>

definition text_bytes :: "nat list \<Rightarrow> string" where
  "text_bytes ns = map char_of ns"

definition msg_dns_disabled :: string where
  "msg_dns_disabled = text_bytes
   [68, 78, 83, 45, 208, 177, 208, 176, 208, 187, 208, 176, 208, 189, 209, 129, 208, 184, 209, 128,
     208, 190, 208, 178, 208, 186, 208, 176, 32, 208, 190, 209, 130, 208, 186, 208, 187, 209, 142,
     209, 135, 208, 181, 208, 189, 208, 176, 32, 208, 180, 208, 187, 209, 143, 32, 209, 141, 209,
     130, 208, 190, 208, 185, 32, 208, 191, 208, 176, 208, 189, 208, 181, 208, 187, 208, 184]"

definition msg_docker :: string where
  "msg_docker = text_bytes
   [68, 111, 99, 107, 101, 114, 32, 208, 189, 208, 181, 32, 209, 131, 209, 129, 209, 130, 208, 176,
     208, 189, 208, 190, 208, 178, 208, 187, 208, 181, 208, 189, 32, 226, 128, 148, 32, 208, 177,
     208, 190, 209, 130, 32, 209, 131, 209, 129, 209, 130, 208, 176, 208, 189, 208, 190, 208, 178,
     208, 184, 209, 130, 32, 208, 181, 208, 179, 208, 190, 32, 208, 176, 208, 178, 209, 130, 208,
     190, 208, 188, 208, 176, 209, 130, 208, 184, 209, 135, 208, 181, 209, 129, 208, 186, 208, 184]"

definition msg_remnanode :: string where
  "msg_remnanode = text_bytes
   [208, 158, 208, 177, 208, 189, 208, 176, 209, 128, 209, 131, 208, 182, 208, 181, 208, 189, 209,
     139, 32, 209, 129, 209, 131, 209, 137, 208, 181, 209, 129, 209, 130, 208, 178, 209, 131, 209,
     142, 209, 137, 208, 184, 208, 181, 32, 209, 132, 208, 176, 208, 185, 208, 187, 209, 139, 32,
     208, 184, 208, 187, 208, 184, 32, 208, 186, 208, 190, 208, 189, 209, 130, 208, 181, 208, 185,
     208, 189, 208, 181, 209, 128, 209, 139, 32, 82, 101, 109, 110, 97, 110, 111, 100, 101, 32, 226,
     128, 148, 32, 208, 186, 208, 190, 208, 189, 209, 132, 208, 184, 208, 179, 209, 131, 209, 128,
     208, 176, 209, 134, 208, 184, 209, 143, 32, 208, 177, 209, 131, 208, 180, 208, 181, 209, 130,
     32, 208, 191, 209, 128, 208, 190, 208, 178, 208, 181, 209, 128, 208, 181, 208, 189, 208, 176,
     32, 208, 184, 32, 208, 190, 208, 177, 208, 189, 208, 190, 208, 178, 208, 187, 208, 181, 208,
     189, 208, 176]"

definition msg_xray :: string where
  "msg_xray = text_bytes
   [208, 158, 208, 177, 208, 189, 208, 176, 209, 128, 209, 131, 208, 182, 208, 181, 208, 189, 208,
     176, 32, 209, 129, 209, 131, 209, 137, 208, 181, 209, 129, 209, 130, 208, 178, 209, 131, 209,
     142, 209, 137, 208, 176, 209, 143, 32, 209, 131, 209, 129, 209, 130, 208, 176, 208, 189, 208,
     190, 208, 178, 208, 186, 208, 176, 32, 88, 114, 97, 121, 32, 83, 78, 73, 32, 226, 128, 148, 32,
     208, 186, 208, 190, 208, 189, 209, 132, 208, 184, 208, 179, 209, 131, 209, 128, 208, 176, 209,
     134, 208, 184, 209, 143, 32, 208, 177, 209, 131, 208, 180, 208, 181, 209, 130, 32, 208, 191,
     209, 128, 208, 190, 208, 178, 208, 181, 209, 128, 208, 181, 208, 189, 208, 176, 32, 208, 184,
     32, 208, 190, 208, 177, 208, 189, 208, 190, 208, 178, 208, 187, 208, 181, 208, 189, 208, 176]"

definition msg_port :: string where
  "msg_port = text_bytes
   [208, 159, 208, 190, 209, 128, 209, 130, 32, 50, 50, 32, 208, 189, 208, 181, 32, 208, 189, 208,
     176, 208, 185, 208, 180, 208, 181, 208, 189, 32, 208, 178, 32, 209, 129, 208, 191, 208, 184,
     209, 129, 208, 186, 208, 181, 32, 209, 129, 208, 187, 209, 131, 209, 136, 208, 176, 209, 142,
     209, 137, 208, 184, 209, 133, 32, 208, 191, 208, 190, 209, 128, 209, 130, 208, 190, 208, 178,
     44, 32, 209, 133, 208, 190, 209, 130, 209, 143, 32, 83, 83, 72, 45, 209, 129, 208, 190, 208,
     181, 208, 180, 208, 184, 208, 189, 208, 181, 208, 189, 208, 184, 208, 181, 32, 209, 128, 208,
     176, 208, 177, 208, 190, 209, 130, 208, 176, 208, 181, 209, 130]"

definition msg_component :: string where
  "msg_component = text_bytes
   [208, 157, 208, 181, 32, 209, 131, 208, 180, 208, 176, 208, 187, 208, 190, 209, 129, 209, 140,
     32, 208, 191, 208, 190, 208, 187, 208, 189, 208, 190, 209, 129, 209, 130, 209, 140, 209, 142,
     32, 208, 190, 208, 191, 209, 128, 208, 181, 208, 180, 208, 181, 208, 187, 208, 184, 209, 130,
     209, 140, 32, 209, 129, 208, 190, 209, 129, 209, 130, 208, 190, 209, 143, 208, 189, 208, 184,
     208, 181, 32, 209, 131, 209, 129, 209, 130, 208, 176, 208, 189, 208, 190, 208, 178, 208, 187,
     208, 181, 208, 189, 208, 189, 208, 190, 208, 179, 208, 190, 32, 208, 186, 208, 190, 208, 188,
     208, 191, 208, 190, 208, 189, 208, 181, 208, 189, 209, 130, 208, 176, 32, 226, 128, 148, 32,
     209, 141, 209, 130, 208, 176, 208, 191, 32, 208, 178, 209, 139, 208, 191, 208, 190, 208, 187,
     208, 189, 208, 184, 209, 130, 32, 208, 180, 208, 190, 208, 191, 208, 190, 208, 187, 208, 189,
     208, 184, 209, 130, 208, 181, 208, 187, 209, 140, 208, 189, 209, 131, 209, 142, 32, 208, 191,
     209, 128, 208, 190, 208, 178, 208, 181, 209, 128, 208, 186, 209, 131]"

definition msg_container :: string where
  "msg_container = text_bytes
   [208, 157, 208, 181, 32, 209, 131, 208, 180, 208, 176, 208, 187, 208, 190, 209, 129, 209, 140,
     32, 208, 191, 208, 190, 208, 187, 208, 189, 208, 190, 209, 129, 209, 130, 209, 140, 209, 142,
     32, 208, 191, 209, 128, 208, 190, 208, 178, 208, 181, 209, 128, 208, 184, 209, 130, 209, 140,
     32, 209, 129, 209, 131, 209, 137, 208, 181, 209, 129, 209, 130, 208, 178, 209, 131, 209, 142,
     209, 137, 208, 184, 208, 181, 32, 68, 111, 99, 107, 101, 114, 45, 208, 186, 208, 190, 208, 189,
     209, 130, 208, 181, 208, 185, 208, 189, 208, 181, 209, 128, 209, 139]"

definition warningMessage :: "string \<Rightarrow> string \<Rightarrow> string" where
  "warningMessage code fallback =
     (let code = ToUpper (TrimSpace code) in
      if code = ''DOCKER_NOT_INSTALLED'' then msg_docker
      else if code = ''REMNANODE_EXISTS'' then msg_remnanode
      else if code = ''XRAY_SNI_EXISTS'' then msg_xray
      else if code = ''SSH_PORT_NOT_DETECTED'' then msg_port
      else if code = ''COMPONENT_INSPECTION_FAILED'' \<or> code = ''COMPONENT_INFO_INVALID'' then msg_component
      else if code = ''CONTAINER_INSPECTION_FAILED'' then msg_container
      else fallback)"

definition stepPreflight :: string where "stepPreflight = ''preflight''"
definition stepPrepareCertificate :: string where "stepPrepareCertificate = ''prepare_certificate''"
definition stepProvisioning :: string where "stepProvisioning = ''provisioning''"
definition stepCreateNode :: string where "stepCreateNode = ''create_remnawave_node''"
definition stepWaitNode :: string where "stepWaitNode = ''wait_remnawave''"
definition stepAddDNS :: string where "stepAddDNS = ''add_dns''"

lemmas step_names = stepPreflight_def stepPrepareCertificate_def stepProvisioning_def
  stepCreateNode_def stepWaitNode_def stepAddDNS_def

definition StageNames :: "string list" where
  "StageNames = [''system'', ''docker'', ''sysctl'', ''limits'', ''firewall'', ''fail2ban'', ''remnanode'',
     ''node_exporter'', ''speedtest_exporter'', ''logrotate'', ''xray_sni'', ''healthcheck'']"

definition isProvisioningStep :: "string \<Rightarrow> bool" where
  "isProvisioningStep name = list_ex (\<lambda>candidate. name = candidate) StageNames"

definition normalizeDomain :: "string \<Rightarrow> string" where
  "normalizeDomain value = ToLower (TrimSuffix (TrimSpace value) ''.'')"

definition safeError :: "string \<Rightarrow> string \<Rightarrow> orch_error \<Rightarrow> go_error" where
  "safeError code message kind = SafeError code (safeText message ''Deployment operation failed'') (OrchErr kind)"

text \<open>\<open>safeError\<close> around an error that is not a single sentinel (a join of two).\<close>

definition safeErrorOf :: "string \<Rightarrow> string \<Rightarrow> go_error \<Rightarrow> go_error" where
  "safeErrorOf code message kind = SafeError code (safeText message ''Deployment operation failed'') kind"

definition safeProvisioningMessage :: "go_error \<Rightarrow> string" where
  "safeProvisioningMessage err =
     (case err of
        VpsErr message \<Rightarrow> if TrimSpace message \<noteq> [] then message else ''VPS provisioning failed''
      | _ \<Rightarrow> ''VPS provisioning failed'')"

section \<open>Stages\<close>

definition setState ::
  "'w ports \<Rightarrow> string \<Rightarrow> Status \<Rightarrow> string \<Rightarrow> string \<Rightarrow> string \<Rightarrow> ('w, unit) op" where
  "setState p uuid status step code message =
     bindE (ctx_check p) (\<lambda>_.
       let params = \<lparr>up_Status = status, up_CurrentStep = stepOrFallback step,
             up_SafeErrorCode = (if code \<noteq> [] then Some code else None),
             up_SafeErrorMessage = (if message \<noteq> [] then Some (safeText message ''Deployment operation failed'') else None)\<rparr>
       in do {
         r \<leftarrow> UpdateState_op p uuid params;
         bindE (or_fail p (safeError ''STATE_PERSIST_FAILED'' ''Could not persist deployment state'' ErrPersistenceFailed) r)
           (\<lambda>_. okE ())
       })"

definition record_step :: "'w ports \<Rightarrow> RecordStepParams \<Rightarrow> ('w, unit) op" where
  "record_step p params = do {
     r \<leftarrow> RecordStep_op p params;
     bindE (or_fail p (safeError ''STEP_PERSIST_FAILED'' ''Could not persist deployment step'' ErrPersistenceFailed) r)
       (\<lambda>_. okE ())
   }"

definition beginStage :: "'w ports \<Rightarrow> string \<Rightarrow> Status \<Rightarrow> string \<Rightarrow> ('w, unit) op" where
  "beginStage p uuid status step =
     bindE (ctx_check p) (\<lambda>_.
     bindE (setState p uuid status step [] []) (\<lambda>_.
     record_step p \<lparr>rp_DeploymentID = uuid, rp_Name = step, rp_Status = StepStatusRunning,
       rp_SafeSummary = Some ''started'', rp_ErrorMessage = None\<rparr>))"

definition completeStage :: "'w ports \<Rightarrow> string \<Rightarrow> string \<Rightarrow> string \<Rightarrow> ('w, unit) op" where
  "completeStage p uuid step summary =
     bindE (ctx_check p) (\<lambda>_.
     record_step p \<lparr>rp_DeploymentID = uuid, rp_Name = step, rp_Status = StepStatusCompleted,
       rp_SafeSummary = Some (safeText summary ''completed''), rp_ErrorMessage = None\<rparr>)"

text \<open>\<open>failStage\<close> always ends with an error.\<close>

definition failStage ::
  "'w ports \<Rightarrow> Config \<Rightarrow> string \<Rightarrow> string \<Rightarrow> Status \<Rightarrow> string \<Rightarrow> string \<Rightarrow> go_error \<Rightarrow> ('w, 'a) op" where
  "failStage p cfg uuid step status code message kind =
     bindE (ctx_check p) (\<lambda>_.
       let message = safeText message ''Deployment step failed'' in do {
         observe cfg DeploymentFailed;
         stepErr \<leftarrow> (if TrimSpace step \<noteq> [] then
             do {
               r \<leftarrow> RecordStep_op p \<lparr>rp_DeploymentID = uuid, rp_Name = step, rp_Status = StepStatusFailed,
                     rp_SafeSummary = Some ''failed'', rp_ErrorMessage = Some message\<rparr>;
               State_Monad.return (case r of Inl e \<Rightarrow> True | Inr _ \<Rightarrow> False)
             }
           else State_Monad.return False);
         r \<leftarrow> UpdateState_op p uuid \<lparr>up_Status = status, up_CurrentStep = stepOrFallback step,
               up_SafeErrorCode = Some code, up_SafeErrorMessage = Some message\<rparr>;
         bindE (ctx_check p) (\<lambda>_.
           if stepErr \<or> (case r of Inl e \<Rightarrow> True | Inr _ \<Rightarrow> False)
           then failE (safeError ''FAILURE_PERSIST_FAILED''
                  ''Deployment failed and its state could not be persisted'' ErrPersistenceFailed)
           else failE (safeErrorOf code message kind))
       })"

definition deploymentForPanel :: "'w ports \<Rightarrow> Config \<Rightarrow> string \<Rightarrow> ('w, Deployment) op" where
  "deploymentForPanel p cfg uuid =
     bindE (GetDeployment_op p uuid) (\<lambda>item.
     if dep_PanelID item \<noteq> [] \<and> dep_PanelID item \<noteq> cfg_PanelID cfg then failE RepoNotFound else okE item)"

definition load_deployment :: "'w ports \<Rightarrow> Config \<Rightarrow> string \<Rightarrow> ('w, Deployment) op" where
  "load_deployment p cfg uuid = do {
     r \<leftarrow> deploymentForPanel p cfg uuid;
     or_fail p (safeError ''PERSISTENCE_READ_FAILED'' ''Could not load deployment'' ErrPersistenceFailed) r
   }"

definition reload :: "'w ports \<Rightarrow> string \<Rightarrow> string \<Rightarrow> ('w, Deployment) op" where
  "reload p uuid message = do {
     r \<leftarrow> GetDeployment_op p uuid;
     or_fail p (safeError ''PERSISTENCE_READ_FAILED'' message ErrPersistenceFailed) r
   }"

section \<open>Execution slots\<close>

definition beginExecution :: "string \<Rightarrow> ('w, unit) op" where
  "beginExecution uuid =
     (if TrimSpace uuid = [] then failE (OrchErr ErrInvalidInput)
      else do {
        s \<leftarrow> State_Monad.get;
        if uuid \<in> sys_running s then failE (OrchErr ErrDeploymentAlreadyRunning)
        else do {
          State_Monad.update (\<lambda>s. s\<lparr>sys_running := insert uuid (sys_running s)\<rparr>);
          note_event (EvBegin uuid);
          okE ()
        }
      })"

definition release :: "string \<Rightarrow> ('w sys, unit) state" where
  "release uuid = do {
     State_Monad.update (\<lambda>s. s\<lparr>sys_running := sys_running s - {uuid}\<rparr>);
     note_event (EvRelease uuid)
   }"

definition acquire :: "'w ports \<Rightarrow> Config \<Rightarrow> ('w, unit) op" where
  "acquire p cfg = do {
     e \<leftarrow> call (p_acquire p) (\<lambda>_. []);
     case e of
       Some err \<Rightarrow> failE err
     | None \<Rightarrow> do {
         State_Monad.update (\<lambda>s. s\<lparr>sys_slots := sys_slots s + 1\<rparr>);
         note_event EvAcquire;
         observe cfg (ActiveDeployment 1);
         okE ()
       }
   }"

definition releaseSlot :: "Config \<Rightarrow> ('w sys, unit) state" where
  "releaseSlot cfg = do {
     State_Monad.update (\<lambda>s. s\<lparr>sys_slots := sys_slots s - 1\<rparr>);
     note_event EvReleaseSlot;
     observe cfg (ActiveDeployment (-1))
   }"

text \<open>The two deferred releases run in reverse order, whatever the body returns.\<close>

definition with_execution :: "'w ports \<Rightarrow> Config \<Rightarrow> string \<Rightarrow> ('w, 'a) op \<Rightarrow> ('w, 'a) op" where
  "with_execution p cfg uuid body =
     bindE (beginExecution uuid) (\<lambda>_. do {
       r \<leftarrow> bindE (acquire p cfg) (\<lambda>_. do {
              r \<leftarrow> body;
              releaseSlot cfg;
              State_Monad.return r
            });
       release uuid;
       State_Monad.return r
     })"

section \<open>Hosts and uniqueness\<close>

fun find_host :: "string \<Rightarrow> Host list \<Rightarrow> (Host \<times> DeploymentProfile) option" where
  "find_host hostID [] = None"
| "find_host hostID (host # hosts) =
     (if host_UUID host \<noteq> hostID then find_host hostID hosts
      else if host_IsDisabled host then None
      else case DeploymentProfileFromHost host of
        Inl _ \<Rightarrow> None
      | Inr profile \<Rightarrow> Some (host, profile))"

definition selectedHost :: "'w ports \<Rightarrow> string \<Rightarrow> ('w, Host \<times> DeploymentProfile) op" where
  "selectedHost p hostID = do {
     r \<leftarrow> GetHosts_op p;
     bindE (or_fail p (safeError ''HOSTS_UNAVAILABLE'' ''Remnawave Hosts are unavailable'' ErrHostUnavailable) r)
       (\<lambda>hosts. case find_host hostID hosts of
          None \<Rightarrow> failE (OrchErr ErrHostUnavailable)
        | Some found \<Rightarrow> okE found)
   }"

definition same_name :: "string \<Rightarrow> Node \<Rightarrow> bool" where
  "same_name name node \<longleftrightarrow> TrimSpace (node_Name node) = TrimSpace name"

definition same_address :: "addr \<Rightarrow> Node \<Rightarrow> bool" where
  "same_address address node \<longleftrightarrow>
     (case ParseAddr (TrimSpace (node_Address node)) of
        None \<Rightarrow> False
      | Some ip \<Rightarrow> Unmap ip = Unmap address)"

definition duplicate_both :: go_error where
  "duplicate_both = ErrJoin (OrchErr ErrDuplicateNodeName) (OrchErr ErrDuplicateNodeAddress)"

fun first_conflict :: "string \<Rightarrow> addr \<Rightarrow> string \<Rightarrow> bool \<Rightarrow> Node list \<Rightarrow> go_error option" where
  "first_conflict name address ownUUID allowRecovery [] = None"
| "first_conflict name address ownUUID allowRecovery (node # nodes) =
     (if ownUUID \<noteq> [] \<and> node_UUID node = ownUUID then first_conflict name address ownUUID allowRecovery nodes
      else if allowRecovery \<and> ownUUID = [] \<and> same_name name node \<and> same_address address node
        then first_conflict name address ownUUID allowRecovery nodes
      else if same_name name node \<and> same_address address node then Some duplicate_both
      else if same_name name node then Some (OrchErr ErrDuplicateNodeName)
      else if same_address address node then Some (OrchErr ErrDuplicateNodeAddress)
      else first_conflict name address ownUUID allowRecovery nodes)"

definition checkUnique :: "'w ports \<Rightarrow> string \<Rightarrow> addr \<Rightarrow> string \<Rightarrow> bool \<Rightarrow> ('w, unit) op" where
  "checkUnique p name address ownUUID allowRecovery = do {
     r \<leftarrow> GetNodes_op p;
     bindE (or_fail p (safeError ''NODE_LIST_UNAVAILABLE'' ''Could not verify Node uniqueness'' ErrRemnawaveCreationFailed) r)
       (\<lambda>nodes. case first_conflict name address ownUUID allowRecovery nodes of
          Some e \<Rightarrow> failE e
        | None \<Rightarrow> okE ())
   }"

fun recover_from :: "string \<Rightarrow> addr \<Rightarrow> Node option \<Rightarrow> Node list \<Rightarrow> go_error + Node option" where
  "recover_from name address found [] = Inr found"
| "recover_from name address found (node # nodes) =
     (if same_name name node \<and> same_address address node then
        (if found \<noteq> None then Inl duplicate_both else recover_from name address (Some node) nodes)
      else if same_name name node then Inl (OrchErr ErrDuplicateNodeName)
      else if same_address address node then Inl (OrchErr ErrDuplicateNodeAddress)
      else recover_from name address found nodes)"

definition recoverableNode :: "Node list \<Rightarrow> string \<Rightarrow> addr \<Rightarrow> go_error + Node option" where
  "recoverableNode nodes name address = recover_from name address None nodes"

definition nodeUUID :: "Deployment \<Rightarrow> string" where
  "nodeUUID value = (case dep_RemnawaveNodeUUID value of None \<Rightarrow> [] | Some u \<Rightarrow> u)"

definition matchesStartInput :: "Deployment \<Rightarrow> StartInput \<Rightarrow> bool" where
  "matchesStartInput current input \<longleftrightarrow>
     dep_ID current = si_DeploymentID input \<and>
     dep_TelegramOperatorUserID current = si_OperatorUserID input \<and>
     dep_SelectedRemnawaveHostUUID current = si_HostID input \<and>
     dep_NodeName current = TrimSpace (si_NodeName input) \<and>
     dep_TargetVPSIP current = Unmap (si_VPSIP input)"

end
