(* ===== verification/Deploy_Workflow.thy ===== *)
theory Deploy_Workflow
  imports Deploy_Service
begin

text \<open>
  The workflow itself, from \<^verbatim>\<open>internal/orchestrator/service.go\<close>: \<open>Prepare\<close>, \<open>Deploy\<close> with its four
  stages, \<open>RetryDNS\<close>, \<open>RetryFailedStep\<close>, \<open>SafeLogs\<close> and \<open>Cancel\<close>.
\<close>

definition progress_of :: "string \<Rightarrow> int \<Rightarrow> string \<Rightarrow> StepStatus \<Rightarrow> string \<Rightarrow> Progress" where
  "progress_of step completed message status code =
     \<lparr>pr_Step = step, pr_Completed = completed, pr_Total = 6, pr_SafeMessage = message,
      pr_Status = status, pr_Code = code\<rparr>"

section \<open>Configuration\<close>

text \<open>\<open>NewDeploymentService\<close>: the defaults and the check of the configuration.\<close>

definition NewDeploymentService :: "Config \<Rightarrow> Config option" where
  "NewDeploymentService cfg =
     (let cfg = (if TrimSpace (cfg_PanelID cfg) = [] then cfg\<lparr>cfg_PanelID := ''default''\<rparr> else cfg);
          cfg = (if cfg_MaxConcurrentDeployments cfg \<le> 0 then cfg\<lparr>cfg_MaxConcurrentDeployments := 2\<rparr> else cfg);
          cfg = (if cfg_NodeConnectTimeout cfg \<le> 0 then cfg\<lparr>cfg_NodeConnectTimeout := 300000000000\<rparr> else cfg);
          cfg = (if cfg_InitialPollBackoff cfg \<le> 0 then cfg\<lparr>cfg_InitialPollBackoff := 1000000000\<rparr> else cfg);
          cfg = (if cfg_MaxPollBackoff cfg \<le> 0 then cfg\<lparr>cfg_MaxPollBackoff := 10000000000\<rparr> else cfg)
      in if cfg_MaxPollBackoff cfg < cfg_InitialPollBackoff cfg \<or> 100 < cfg_MaxConcurrentDeployments cfg
         then None else Some cfg)"

section \<open>Preparing and provisioning\<close>

definition certificate_code :: "go_error \<Rightarrow> string" where
  "certificate_code err =
     (case err of
        CertErr CertIssuanceFailed _ \<Rightarrow> ''CERTIFICATE_ISSUANCE_FAILED''
      | CertErr CertDistributionFailed _ \<Rightarrow> ''CERTIFICATE_DISTRIBUTION_FAILED''
      | CertErr CertStorageFailed _ \<Rightarrow> ''CERTIFICATE_STORAGE_FAILED''
      | CertErr CertPersistenceFailed _ \<Rightarrow> ''CERTIFICATE_PERSISTENCE_FAILED''
      | _ \<Rightarrow> ''CERTIFICATE_UNAVAILABLE'')"

text \<open>The callback given to the provisioner, for each of its reports.\<close>

fun emit_reports :: "Config \<Rightarrow> bool \<Rightarrow> Report list \<Rightarrow> ('w sys, unit) state" where
  "emit_reports cfg sink [] = State_Monad.return ()"
| "emit_reports cfg sink (report # reports) = do {
     observe cfg (ProvisioningStepDuration (rep_Name report));
     emit sink (progress_of (''provisioning/'' @ safeText (rep_Name report) ''stage'') 2
       (safeText (rep_Summary report) ''Provisioning stage updated'') (rep_Status report)
       (if rep_Status report = StepStatusFailed
        then ''E-PROVISIONING-'' @ ToUpper (ReplaceByte (safeText (rep_Name report) ''STAGE'') (CHR ''_'') (CHR ''-''))
        else []));
     emit_reports cfg sink reports
   }"

definition provision_vps ::
  "'w ports \<Rightarrow> Config \<Rightarrow> bool \<Rightarrow> ProvisionVPSInput \<Rightarrow> ('w sys, go_error option) state" where
  "provision_vps p cfg sink input = do {
     (reports, err) \<leftarrow> call (p_Provision p input) (\<lambda>(reports, err). [EvProvision input err]);
     emit_reports cfg sink reports;
     State_Monad.return err
   }"

text \<open>The second half of \<open>prepareAndProvision\<close>, once the certificate is there.\<close>

definition provision_stage ::
  "'w ports \<Rightarrow> Config \<Rightarrow> Deployment \<Rightarrow> bool \<Rightarrow> Material \<Rightarrow> ('w, unit) op" where
  "provision_stage p cfg current sink material =
     bindE (beginStage p (dep_ID current) StatusProvisioning stepProvisioning) (\<lambda>_. do {
       secret \<leftarrow> call (p_GenerateSecretKey p) (\<lambda>_. [EvKeygen]);
       bindE (ctx_check p) (\<lambda>_.
       if (case secret of Inl _ \<Rightarrow> True | Inr key \<Rightarrow> TrimSpace key = [])
       then failStage p cfg (dep_ID current) stepProvisioning StatusFailed ''KEYGEN_FAILED''
              ''Could not generate Remnanode key'' (OrchErr ErrProvisioningFailed)
       else do {
         err \<leftarrow> provision_vps p cfg sink
           \<lparr>pv_DeploymentID = dep_ID current, pv_Address = dep_TargetVPSIP current,
            pv_SNIDomain = dep_SNIDomain current,
            pv_SecretKey = (case secret of Inr key \<Rightarrow> key | Inl _ \<Rightarrow> []), pv_Certificate = material\<rparr>;
         bindE (ctx_check p) (\<lambda>_.
         case err of
           Some e \<Rightarrow> failStage p cfg (dep_ID current) stepProvisioning StatusFailed ''PROVISIONING_FAILED''
                       (safeProvisioningMessage e) (OrchErr ErrProvisioningFailed)
         | None \<Rightarrow>
             bindE (completeStage p (dep_ID current) stepProvisioning ''VPS provisioning completed'') (\<lambda>_. do {
               emit sink (progress_of stepProvisioning 3 ''VPS provisioning completed'' StepStatusCompleted []);
               beginStage p (dep_ID current) StatusCreatingRemnawave stepCreateNode
             }))
       })
     })"

definition prepareAndProvision :: "'w ports \<Rightarrow> Config \<Rightarrow> Deployment \<Rightarrow> bool \<Rightarrow> ('w, unit) op" where
  "prepareAndProvision p cfg current sink = do {
     emit sink (progress_of stepPrepareCertificate 1 ''Preparing certificate'' StepStatusRunning []);
     bindE (if dep_Status current \<noteq> StatusProvisioning
            then beginStage p (dep_ID current) StatusPreparingCertificate stepPrepareCertificate else okE ()) (\<lambda>_. do {
     material \<leftarrow> PrepareCertificate_op p (dep_SNIDomain current);
     bindE (ctx_check p) (\<lambda>_.
     case material of
       Inl err \<Rightarrow> failStage p cfg (dep_ID current) stepPrepareCertificate StatusFailed (certificate_code err)
                    (SafeMessage err ''Certificate is not ready'') (OrchErr ErrCertificateUnavailable)
     | Inr material \<Rightarrow>
         bindE (if dep_Status current \<noteq> StatusProvisioning
                then completeStage p (dep_ID current) stepPrepareCertificate ''Certificate prepared'' else okE ()) (\<lambda>_. do {
         emit sink (progress_of stepPrepareCertificate 2 ''Certificate prepared'' StepStatusCompleted []);
         emit sink (progress_of stepProvisioning 2 ''Provisioning VPS'' StepStatusRunning []);
         provision_stage p cfg current sink material
         }))
     })
   }"

section \<open>Creating the Node\<close>

text \<open>The Node of this deployment: the recovered one, or a new one.\<close>

definition new_node :: "'w ports \<Rightarrow> Config \<Rightarrow> Deployment \<Rightarrow> Host \<Rightarrow> ('w, Node) op" where
  "new_node p cfg current host =
     (let input = \<lparr>cn_Name = dep_NodeName current, cn_Address = dep_TargetVPSIP current, cn_Host = host\<rparr> in do {
        r \<leftarrow> call (p_CreateNode p input) (\<lambda>r. [EvCreateNode input r]);
        bindE (ctx_check p) (\<lambda>_.
        case r of
          Inl _ \<Rightarrow> failStage p cfg (dep_ID current) stepCreateNode StatusFailed ''NODE_CREATE_FAILED''
                     ''Remnawave Node could not be created'' (OrchErr ErrRemnawaveCreationFailed)
        | Inr node \<Rightarrow> okE node)
      })"

definition obtain_node :: "'w ports \<Rightarrow> Config \<Rightarrow> Deployment \<Rightarrow> Host \<Rightarrow> ('w, Node) op" where
  "obtain_node p cfg current host = do {
     nodes \<leftarrow> GetNodes_op p;
     bindE (ctx_check p) (\<lambda>_.
     case nodes of
       Inl _ \<Rightarrow> failStage p cfg (dep_ID current) stepCreateNode StatusFailed ''NODE_DUPLICATE_CHECK_FAILED''
                  ''Could not verify Node uniqueness'' (OrchErr ErrRemnawaveCreationFailed)
     | Inr nodes \<Rightarrow>
         (case recoverableNode nodes (dep_NodeName current) (dep_TargetVPSIP current) of
            Inl duplicateErr \<Rightarrow> failStage p cfg (dep_ID current) stepCreateNode StatusFailed ''DUPLICATE_NODE''
                                  ''Node name or address is already in use'' duplicateErr
          | Inr (Some node) \<Rightarrow> okE node
          | Inr None \<Rightarrow> new_node p cfg current host))
   }"

text \<open>\<open>createNode\<close> stores the identifier of the Node it obtained.\<close>

definition assign_node :: "'w ports \<Rightarrow> Config \<Rightarrow> Deployment \<Rightarrow> Host \<Rightarrow> ('w, unit) op" where
  "assign_node p cfg current host =
     bindE (obtain_node p cfg current host) (\<lambda>node. do {
       r \<leftarrow> SetNodeUUID_op p (dep_ID current) (node_UUID node);
       bindE (or_fail p (safeError ''NODE_UUID_PERSIST_FAILED''
         ''Node was created but its identifier could not be persisted'' ErrPersistenceFailed) r) (\<lambda>_. okE ())
     })"

definition createNode :: "'w ports \<Rightarrow> Config \<Rightarrow> Deployment \<Rightarrow> Host \<Rightarrow> bool \<Rightarrow> ('w, unit) op" where
  "createNode p cfg current host sink = do {
     emit sink (progress_of stepCreateNode 3 ''Creating Remnawave Node'' StepStatusRunning []);
     bindE (if dep_Status current \<noteq> StatusCreatingRemnawave
            then beginStage p (dep_ID current) StatusCreatingRemnawave stepCreateNode else okE ()) (\<lambda>_.
     bindE (if dep_RemnawaveNodeUUID current = None then
              assign_node p cfg current host
            else okE ()) (\<lambda>_.
     bindE (completeStage p (dep_ID current) stepCreateNode ''Remnawave Node created'') (\<lambda>_. do {
       emit sink (progress_of stepCreateNode 4 ''Remnawave Node created'' StepStatusCompleted []);
       beginStage p (dep_ID current) StatusWaitingRemnawave stepWaitNode
     })))
   }"

section \<open>Waiting for the Node\<close>

text \<open>
  \<open>pollNode\<close>.  \<open>elapsed\<close> is the time since the timeout context was made; a call takes the time the
  port says, and a timer of \<open>backoff\<close> takes that long, at least one nanosecond.  The context is
  done when the timeout has passed; \<open>p_poll_wait\<close> decides a tie, and covers a parent context that
  ends during the wait.
\<close>

datatype poll_error = ConnectionRejected string | ConnectionTimeout | PollContext go_error

definition next_backoff :: "Config \<Rightarrow> int \<Rightarrow> int" where
  "next_backoff cfg backoff = (if cfg_MaxPollBackoff cfg < backoff * 2 then cfg_MaxPollBackoff cfg else backoff * 2)"

definition poll_answer :: "bool \<Rightarrow> go_error + Node \<Rightarrow> ('w sys, (poll_error + Node) option) state" where
  "poll_answer sink r =
     (case r of
        Inl _ \<Rightarrow> State_Monad.return None
      | Inr node \<Rightarrow>
          if node_IsConnected node then State_Monad.return (Some (Inr node))
          else if \<not> node_IsConnecting node then
            State_Monad.return (Some (Inl (ConnectionRejected
              (case node_LastStatusMessage node of
                 None \<Rightarrow> ''Remnawave Node stopped connecting''
               | Some m \<Rightarrow> safeText m ''Remnawave Node stopped connecting''))))
          else do {
            emit sink (progress_of stepWaitNode 4 ''Waiting for Remnawave Node connection'' StepStatusRunning []);
            State_Monad.return None
          })"

definition poll_done :: "'w ports \<Rightarrow> ('w sys, poll_error + Node) state" where
  "poll_done p = do {
     e \<leftarrow> ctx_err p;
     case e of Some err \<Rightarrow> failE (PollContext err) | None \<Rightarrow> failE ConnectionTimeout
   }"

function poll ::
  "'w ports \<Rightarrow> Config \<Rightarrow> string \<Rightarrow> bool \<Rightarrow> int \<Rightarrow> int \<Rightarrow> ('w sys, poll_error + Node) state" where
  "poll p cfg uuid sink elapsed backoff = do {
     (r, took) \<leftarrow> call (p_poll_node p uuid) (\<lambda>(r, took). [EvGetNode uuid r]);
     answer \<leftarrow> poll_answer sink r;
     case answer of
       Some result \<Rightarrow> State_Monad.return result
     | None \<Rightarrow>
         let fires = elapsed + int took + max 1 backoff in
         if cfg_NodeConnectTimeout cfg < fires then poll_done p
         else do {
           ended \<leftarrow> call (p_poll_wait p backoff) (\<lambda>_. [EvPollWait backoff]);
           if ended then poll_done p
           else poll p cfg uuid sink fires (next_backoff cfg backoff)
         }
   }"
  by pat_completeness auto
termination
  by (relation "measure (\<lambda>(p, cfg, uuid, sink, elapsed, backoff). nat (cfg_NodeConnectTimeout cfg + 1 - elapsed))") auto

declare poll.simps [simp del]

definition pollNode :: "'w ports \<Rightarrow> Config \<Rightarrow> string \<Rightarrow> bool \<Rightarrow> ('w sys, poll_error + Node) state" where
  "pollNode p cfg uuid sink = poll p cfg uuid sink 0 (cfg_InitialPollBackoff cfg)"

definition waitForHealthyNode :: "'w ports \<Rightarrow> Config \<Rightarrow> Deployment \<Rightarrow> bool \<Rightarrow> ('w, unit) op" where
  "waitForHealthyNode p cfg current sink = do {
     emit sink (progress_of stepWaitNode 4 ''Waiting for Remnawave Node connection'' StepStatusRunning []);
     case dep_RemnawaveNodeUUID current of
       None \<Rightarrow> failStage p cfg (dep_ID current) stepWaitNode StatusFailed ''NODE_UUID_MISSING''
                 ''Remnawave Node identifier is missing'' (OrchErr ErrNodeConnectionFailed)
     | Some uuid \<Rightarrow>
         bindE (if dep_Status current \<noteq> StatusWaitingRemnawave
                then beginStage p (dep_ID current) StatusWaitingRemnawave stepWaitNode else okE ()) (\<lambda>_. do {
         r \<leftarrow> pollNode p cfg uuid sink;
         bindE (ctx_check p) (\<lambda>_.
         case r of
           Inl (ConnectionRejected message) \<Rightarrow>
             failStage p cfg (dep_ID current) stepWaitNode StatusFailed ''NODE_CONNECTION_REJECTED'' message
               (OrchErr ErrNodeConnectionFailed)
         | Inl ConnectionTimeout \<Rightarrow>
             failStage p cfg (dep_ID current) stepWaitNode StatusFailed ''NODE_CONNECTION_TIMEOUT''
               ''Remnawave Node did not connect before timeout'' (OrchErr ErrNodeConnectionTimeout)
         | Inl (PollContext _) \<Rightarrow>
             failStage p cfg (dep_ID current) stepWaitNode StatusFailed ''NODE_WAIT_FAILED''
               ''Could not read Remnawave Node status'' (OrchErr ErrNodeConnectionFailed)
         | Inr node \<Rightarrow>
             if \<not> node_IsConnected node then
               failStage p cfg (dep_ID current) stepWaitNode StatusFailed ''NODE_NOT_CONNECTED''
                 ''Remnawave Node is not connected'' (OrchErr ErrNodeConnectionFailed)
             else
               bindE (completeStage p (dep_ID current) stepWaitNode ''Remnawave Node connected'') (\<lambda>_. do {
                 emit sink (progress_of stepWaitNode 5 ''Remnawave Node connected'' StepStatusCompleted []);
                 beginStage p (dep_ID current) StatusAddingToDNS stepAddDNS
               }))
         })
   }"

section \<open>DNS\<close>

definition skip_dns :: "'w ports \<Rightarrow> Deployment \<Rightarrow> bool \<Rightarrow> ('w, unit) op" where
  "skip_dns p current sink = do {
     r \<leftarrow> RecordStep_op p \<lparr>rp_DeploymentID = dep_ID current, rp_Name = stepAddDNS, rp_Status = StepStatusSkipped,
            rp_SafeSummary = Some ''DNS balancing is disabled for this panel'', rp_ErrorMessage = None\<rparr>;
     case r of
       Inl _ \<Rightarrow> failE (safeError ''DNS_SKIP_PERSIST_FAILED'' ''Could not persist skipped DNS step'' ErrPersistenceFailed)
     | Inr _ \<Rightarrow>
         bindE (setState p (dep_ID current) StatusCompleted ''completed'' [] []) (\<lambda>_. do {
           emit sink (progress_of stepAddDNS 6 msg_dns_disabled StepStatusSkipped ''W-DNS-DISABLED'');
           okE ()
         })
   }"

definition publish_result ::
  "'w ports \<Rightarrow> Config \<Rightarrow> Deployment \<Rightarrow> bool \<Rightarrow> go_error + AddIPResult \<Rightarrow> ('w, unit) op" where
  "publish_result p cfg current sink added =
     (case added of
        Inl _ \<Rightarrow>
          bindE (ctx_check p) (\<lambda>_.
          failStage p cfg (dep_ID current) stepAddDNS StatusDNSFailed ''DNS_UPDATE_FAILED''
            ''Node is healthy but DNS update failed'' (OrchErr ErrDNSUpdateFailed))
      | Inr _ \<Rightarrow>
          bindE (completeStage p (dep_ID current) stepAddDNS ''DNS updated'') (\<lambda>_.
          bindE (setState p (dep_ID current) StatusCompleted ''completed'' [] []) (\<lambda>_. do {
            emit sink (progress_of stepAddDNS 6 ''DNS updated'' StepStatusCompleted []);
            okE ()
          })))"

definition publish_dns :: "'w ports \<Rightarrow> Config \<Rightarrow> Deployment \<Rightarrow> string \<Rightarrow> bool \<Rightarrow> ('w, unit) op" where
  "publish_dns p cfg current uuid sink = do {
     r \<leftarrow> GetNode_op p uuid;
     bindE (ctx_check p) (\<lambda>_.
     if (case r of Inl _ \<Rightarrow> True | Inr node \<Rightarrow> \<not> node_IsConnected node)
     then failStage p cfg (dep_ID current) stepAddDNS StatusFailed ''NODE_NOT_HEALTHY''
            ''DNS was not changed because the Node is not connected'' (OrchErr ErrNodeConnectionFailed)
     else do {
       added \<leftarrow> AddIP_op p (dep_SNIDomain current) (dep_TargetVPSIP current);
       publish_result p cfg current sink added
     })
   }"

definition addDNS :: "'w ports \<Rightarrow> Config \<Rightarrow> Deployment \<Rightarrow> bool \<Rightarrow> ('w, unit) op" where
  "addDNS p cfg current sink = do {
     emit sink (progress_of stepAddDNS 5 ''Updating DNS balancing'' StepStatusRunning []);
     case dep_RemnawaveNodeUUID current of
       None \<Rightarrow> failE (OrchErr ErrDeploymentNotRunnable)
     | Some uuid \<Rightarrow>
         bindE (if dep_Status current \<noteq> StatusAddingToDNS
                then beginStage p (dep_ID current) StatusAddingToDNS stepAddDNS else okE ()) (\<lambda>_.
         if cfg_DNSDisabled cfg then skip_dns p current sink
         else publish_dns p cfg current uuid sink)
   }"

section \<open>Deploy\<close>

definition deploy_preparing :: "Status \<Rightarrow> bool" where
  "deploy_preparing st \<longleftrightarrow> st \<in> {StatusPreflight, StatusPreparingCertificate, StatusProvisioning}"

definition deploy_final :: "'w ports \<Rightarrow> Config \<Rightarrow> bool \<Rightarrow> Deployment \<Rightarrow> ('w, unit) op" where
  "deploy_final p cfg sink current =
     (if dep_Status current = StatusAddingToDNS \<or> dep_Status current = StatusWaitingRemnawave
      then addDNS p cfg current sink
      else failE (OrchErr ErrDeploymentNotRunnable))"

definition deploy_wait :: "'w ports \<Rightarrow> Config \<Rightarrow> bool \<Rightarrow> Deployment \<Rightarrow> ('w, unit) op" where
  "deploy_wait p cfg sink current =
     (if dep_Status current = StatusWaitingRemnawave \<or> dep_Status current = StatusCreatingRemnawave then
        bindE (waitForHealthyNode p cfg current sink) (\<lambda>_.
        bindE (reload p (dep_ID current) ''Could not reload healthy Node'') (\<lambda>current.
        deploy_final p cfg sink current))
      else deploy_final p cfg sink current)"

definition deploy_create :: "'w ports \<Rightarrow> Config \<Rightarrow> bool \<Rightarrow> Host \<Rightarrow> Deployment \<Rightarrow> ('w, unit) op" where
  "deploy_create p cfg sink host current =
     (if dep_Status current = StatusCreatingRemnawave \<or> dep_RemnawaveNodeUUID current = None then
        bindE (createNode p cfg current host sink) (\<lambda>_.
        bindE (reload p (dep_ID current) ''Could not reload created Node'') (\<lambda>current.
        deploy_wait p cfg sink current))
      else deploy_wait p cfg sink current)"

definition deploy_stages :: "'w ports \<Rightarrow> Config \<Rightarrow> bool \<Rightarrow> Host \<Rightarrow> Deployment \<Rightarrow> ('w, unit) op" where
  "deploy_stages p cfg sink host current =
     (if deploy_preparing (dep_Status current) then
        bindE (prepareAndProvision p cfg current sink) (\<lambda>_.
        bindE (reload p (dep_ID current) ''Could not reload deployment'') (\<lambda>current.
        deploy_create p cfg sink host current))
      else deploy_create p cfg sink host current)"

definition deploy_checked :: "'w ports \<Rightarrow> Config \<Rightarrow> bool \<Rightarrow> Deployment \<Rightarrow> ('w, unit) op" where
  "deploy_checked p cfg sink current = do {
     selected \<leftarrow> selectedHost p (dep_SelectedRemnawaveHostUUID current);
     bindE (ctx_check p) (\<lambda>_.
     case selected of
       Inl _ \<Rightarrow> failStage p cfg (dep_ID current) (dep_CurrentStep current) StatusFailed ''HOST_INVALID''
                  ''Selected Host is no longer deployable'' (OrchErr ErrHostUnavailable)
     | Inr (host, profile) \<Rightarrow>
         if normalizeDomain (dp_SNIDomain profile) \<noteq> normalizeDomain (dep_SNIDomain current)
         then failStage p cfg (dep_ID current) (dep_CurrentStep current) StatusFailed ''HOST_INVALID''
                ''Selected Host is no longer deployable'' (OrchErr ErrHostUnavailable)
         else do {
           unique \<leftarrow> checkUnique p (dep_NodeName current) (dep_TargetVPSIP current) (nodeUUID current)
             (dep_Status current \<in> {StatusCreatingRemnawave, StatusWaitingRemnawave, StatusAddingToDNS});
           case unique of
             Inl err \<Rightarrow>
               bindE (ctx_check p) (\<lambda>_.
               failStage p cfg (dep_ID current) (dep_CurrentStep current) StatusFailed ''DUPLICATE_NODE''
                 ''Node name or address is no longer unique'' err)
           | Inr _ \<Rightarrow> deploy_stages p cfg sink host current
         })
   }"

definition deploy_loaded :: "'w ports \<Rightarrow> Config \<Rightarrow> StartInput \<Rightarrow> bool \<Rightarrow> Deployment \<Rightarrow> ('w, unit) op" where
  "deploy_loaded p cfg input sink current =
     (if \<not> matchesStartInput current input then failE (OrchErr ErrInvalidInput)
      else if dep_Status current = StatusCompleted then okE ()
      else if dep_Status current = StatusDNSFailed then failE (OrchErr ErrDNSRetryRequired)
      else if dep_Status current \<in> {StatusFailed, StatusCancelled, StatusCreated}
        then failE (OrchErr ErrDeploymentNotRunnable)
      else deploy_checked p cfg sink current)"

definition Deploy :: "'w ports \<Rightarrow> Config \<Rightarrow> StartInput \<Rightarrow> bool \<Rightarrow> ('w, unit) op" where
  "Deploy p cfg input sink = do {
     r \<leftarrow> (if TrimSpace (si_DeploymentID input) = [] then failE (OrchErr ErrInvalidInput)
           else with_execution p cfg (si_DeploymentID input)
             (bindE (load_deployment p cfg (si_DeploymentID input)) (deploy_loaded p cfg input sink)));
     observe cfg DeploymentDuration;
     State_Monad.return r
   }"

section \<open>Retries\<close>

definition RetryDNS :: "'w ports \<Rightarrow> Config \<Rightarrow> string \<Rightarrow> bool \<Rightarrow> ('w, unit) op" where
  "RetryDNS p cfg uuid sink =
     with_execution p cfg uuid (
       bindE (load_deployment p cfg uuid) (\<lambda>current.
       if dep_Status current = StatusCompleted then okE ()
       else if dep_Status current \<noteq> StatusDNSFailed \<and> dep_Status current \<noteq> StatusAddingToDNS
         then failE (OrchErr ErrDeploymentNotRunnable)
       else
         bindE (beginStage p (dep_ID current) StatusAddingToDNS stepAddDNS) (\<lambda>_.
         addDNS p cfg (current\<lparr>dep_Status := StatusAddingToDNS\<rparr>) sink)))"

text \<open>Reading the deployment without a check of the context.\<close>

definition load_plain :: "'w ports \<Rightarrow> Config \<Rightarrow> string \<Rightarrow> ('w, Deployment) op" where
  "load_plain p cfg uuid = do {
     r \<leftarrow> deploymentForPanel p cfg uuid;
     case r of
       Inl _ \<Rightarrow> failE (safeError ''PERSISTENCE_READ_FAILED'' ''Could not load deployment'' ErrPersistenceFailed)
     | Inr item \<Rightarrow> okE item
   }"

definition resume_status :: "string \<Rightarrow> Status option" where
  "resume_status step =
     (if step = stepPrepareCertificate then Some StatusPreflight
      else if step = stepProvisioning then Some StatusProvisioning
      else if step = stepCreateNode then Some StatusCreatingRemnawave
      else if step = stepWaitNode then Some StatusWaitingRemnawave
      else None)"

definition RetryFailedStep :: "'w ports \<Rightarrow> Config \<Rightarrow> string \<Rightarrow> bool \<Rightarrow> ('w, unit) op" where
  "RetryFailedStep p cfg uuid sink =
     bindE (load_plain p cfg uuid) (\<lambda>current.
     if dep_Status current \<noteq> StatusFailed then failE (OrchErr ErrDeploymentNotRunnable)
     else if dep_CurrentStep current = stepAddDNS then
       bindE (setState p (dep_ID current) StatusDNSFailed stepAddDNS ''DNS_RETRY_REQUIRED''
                ''DNS retry requires a healthy Node'') (\<lambda>_.
       RetryDNS p cfg (dep_ID current) sink)
     else
       (case resume_status (dep_CurrentStep current) of
          None \<Rightarrow> failE (OrchErr ErrDeploymentNotRunnable)
        | Some resume \<Rightarrow>
            bindE (setState p (dep_ID current) resume (dep_CurrentStep current) [] []) (\<lambda>_.
            Deploy p cfg \<lparr>si_DeploymentID = dep_ID current,
              si_OperatorUserID = dep_TelegramOperatorUserID current,
              si_HostID = dep_SelectedRemnawaveHostUUID current, si_NodeName = dep_NodeName current,
              si_VPSIP = dep_TargetVPSIP current\<rparr> sink)))"

section \<open>Logs and cancellation\<close>

definition opt_text :: "string option \<Rightarrow> string \<Rightarrow> string" where
  "opt_text value fallback = (case value of None \<Rightarrow> fallback | Some v \<Rightarrow> safeText v fallback)"

definition step_entry :: "Deployment \<Rightarrow> Step \<Rightarrow> SafeLogEntry" where
  "step_entry current step =
     (let summary = opt_text (step_SafeSummary step) [];
          summary = opt_text (step_ErrorMessage step) summary;
          code = (if step_Name step = dep_CurrentStep current then opt_text (dep_SafeErrorCode current) [] else []);
          code = (if step_Status step = StepStatusFailed \<and> code = [] \<and> isProvisioningStep (step_Name step)
                  then ''E-PROVISIONING-'' @ ToUpper (ReplaceByte (step_Name step) (CHR ''_'') (CHR ''-'')) else code);
          code = (if step_Status step = StepStatusSkipped \<and> step_Name step = stepAddDNS
                  then ''W-DNS-DISABLED'' else code)
      in \<lparr>sl_Step = safeText (step_Name step) ''step'', sl_Status = StepStatus_text (step_Status step),
          sl_Summary = summary, sl_Code = code, sl_StartedAt = step_StartedAt step,
          sl_CompletedAt = step_CompletedAt step\<rparr>)"

definition workflow_entry :: "Deployment \<Rightarrow> Step list \<Rightarrow> SafeLogEntry list" where
  "workflow_entry current steps =
     (case dep_SafeErrorMessage current of
        None \<Rightarrow> []
      | Some message \<Rightarrow>
          if list_ex (\<lambda>step. step_Name step = dep_CurrentStep current) steps then []
          else [\<lparr>sl_Step = safeText (dep_CurrentStep current) ''workflow'',
                 sl_Status = Status_text (dep_Status current), sl_Summary = safeText message [],
                 sl_Code = opt_text (dep_SafeErrorCode current) [],
                 sl_StartedAt = dep_StartedAt current, sl_CompletedAt = dep_CompletedAt current\<rparr>])"

definition SafeLogs :: "'w ports \<Rightarrow> Config \<Rightarrow> string \<Rightarrow> ('w, SafeLogEntry list) op" where
  "SafeLogs p cfg uuid =
     bindE (load_plain p cfg uuid) (\<lambda>current. do {
       r \<leftarrow> ListSteps_op p uuid;
       case r of
         Inl _ \<Rightarrow> failE (safeError ''PERSISTENCE_READ_FAILED'' ''Could not load safe deployment logs'' ErrPersistenceFailed)
       | Inr steps \<Rightarrow> okE (map (step_entry current) steps @ workflow_entry current steps)
     })"

text \<open>
  \<open>Cancel\<close>: the context of an active run is cancelled (an effect on the world of that run, which
  \<open>p_ctx_err\<close> describes), then the state is set.
\<close>

definition Cancel :: "'w ports \<Rightarrow> Config \<Rightarrow> string \<Rightarrow> ('w, unit) op" where
  "Cancel p cfg uuid =
     bindE (ctx_check p) (\<lambda>_.
     bindE (load_deployment p cfg uuid) (\<lambda>current.
     if dep_Status current = StatusCompleted \<or> dep_Status current = StatusCancelled then okE ()
     else setState p uuid StatusCancelled ''cancelled'' ''CANCELLED'' ''Deployment cancelled by operator''))"

section \<open>Prepare\<close>

definition valid_prepare :: "Config \<Rightarrow> PrepareInput \<Rightarrow> bool" where
  "valid_prepare cfg input \<longleftrightarrow>
     \<not> ((TrimSpace (pi_PanelID input) \<noteq> [] \<and> pi_PanelID input \<noteq> cfg_PanelID cfg) \<or>
        pi_OperatorUserID input \<le> 0 \<or> TrimSpace (pi_HostID input) = [] \<or>
        \<not> ValidateNodeName (pi_NodeName input) \<or> \<not> publicIP (pi_VPSIP input) \<or> length (pi_Password input) = 0)"

fun warning_notices :: "Issue list \<Rightarrow> OperatorNotice list" where
  "warning_notices [] = []"
| "warning_notices (w # ws) =
     (let text = safeText (issue_Message w) [] in
      (if text \<noteq> [] then [\<lparr>on_Code = warningCode (issue_Code w), on_Message = warningMessage (issue_Code w) text\<rparr>]
       else []) @ warning_notices ws)"

text \<open>What \<open>Prepare\<close> reports once preflight has passed.\<close>

definition prepared_report ::
  "'w ports \<Rightarrow> Config \<Rightarrow> DeploymentProfile \<Rightarrow> PreflightResult \<Rightarrow> Deployment \<Rightarrow> ('w, PreparedDeployment) op" where
  "prepared_report p cfg profile result created = do {
     (zone, notices) \<leftarrow> (if cfg_DNSDisabled cfg
         then State_Monad.return ([], [\<lparr>on_Code = ''W-DNS-DISABLED'', on_Message = msg_dns_disabled\<rparr>])
         else do {
           r \<leftarrow> FindZone_op p (dp_SNIDomain profile);
           State_Monad.return (case r of Inl _ \<Rightarrow> [] | Inr m \<Rightarrow> zm_FQDN m, [])
         });
     bindE (ctx_check p) (\<lambda>_. do {
       readiness \<leftarrow> call (p_Readiness p (dp_SNIDomain profile)) (\<lambda>_. [EvReadiness (dp_SNIDomain profile)]);
       bindE (ctx_check p) (\<lambda>_.
       okE \<lparr>pd_Deployment = created, pd_DNSZone = zone,
            pd_CertificateReadiness = (case readiness of Inl _ \<Rightarrow> CertificateUnknown | Inr v \<Rightarrow> v),
            pd_ConfigProfileReadiness = True, pd_Warnings = notices @ warning_notices (pf_Warnings result)\<rparr>)
     })
   }"

definition prepare_preflight ::
  "'w ports \<Rightarrow> Config \<Rightarrow> PrepareInput \<Rightarrow> DeploymentProfile \<Rightarrow> Deployment \<Rightarrow> ('w, PreparedDeployment) op" where
  "prepare_preflight p cfg input profile created =
     bindE (beginStage p (dep_ID created) StatusPreflight stepPreflight) (\<lambda>_. do {
       r \<leftarrow> call (p_Preflight p (dep_ID created) (Unmap (pi_VPSIP input)) (pi_Password input))
              (\<lambda>r. [EvPreflight (dep_ID created) (Unmap (pi_VPSIP input)) r]);
       bindE (ctx_check p) (\<lambda>_.
       case r of
         Inl _ \<Rightarrow> failStage p cfg (dep_ID created) stepPreflight StatusFailed ''PREFLIGHT_FAILED''
                    ''VPS preflight could not be completed'' (OrchErr ErrPreflightFailed)
       | Inr result \<Rightarrow>
           if \<not> Passed result then
             failStage p cfg (dep_ID created) stepPreflight StatusFailed ''PREFLIGHT_REJECTED''
               (case pf_FatalFailures result of
                  [] \<Rightarrow> ''VPS did not pass preflight''
                | f # _ \<Rightarrow> safeText (issue_Message f) ''VPS did not pass preflight'')
               (OrchErr ErrPreflightFailed)
           else
             bindE (completeStage p (dep_ID created) stepPreflight ''VPS preflight passed'') (\<lambda>_.
             bindE (reload p (dep_ID created) ''Could not load prepared deployment'') (\<lambda>created.
             prepared_report p cfg profile result created)))
     })"

definition Prepare :: "'w ports \<Rightarrow> Config \<Rightarrow> PrepareInput \<Rightarrow> ('w, PreparedDeployment) op" where
  "Prepare p cfg input =
     (if \<not> valid_prepare cfg input then failE (OrchErr ErrInvalidInput)
      else do {
        selected \<leftarrow> selectedHost p (pi_HostID input);
        bindE (ctx_check p) (\<lambda>_.
        bindE (liftE selected) (\<lambda>(host, profile). do {
          unique \<leftarrow> checkUnique p (TrimSpace (pi_NodeName input)) (pi_VPSIP input) [] False;
          case unique of
            Inl e \<Rightarrow> bindE (ctx_check p) (\<lambda>_. failE e)
          | Inr _ \<Rightarrow> do {
              r \<leftarrow> CreateDeployment_op p
                \<lparr>cp_ID = [], cp_PanelID = cfg_PanelID cfg, cp_TelegramOperatorUserID = pi_OperatorUserID input,
                 cp_SelectedRemnawaveHostUUID = host_UUID host, cp_SelectedHostRemark = host_Remark host,
                 cp_SNIDomain = dp_SNIDomain profile, cp_NodeName = TrimSpace (pi_NodeName input),
                 cp_TargetVPSIP = Unmap (pi_VPSIP input)\<rparr>;
              bindE (or_fail p (safeError ''PERSISTENCE_CREATE_FAILED'' ''Could not create deployment state''
                ErrPersistenceFailed) r) (\<lambda>created. do {
              observe cfg DeploymentCreated;
              with_execution p cfg (dep_ID created) (prepare_preflight p cfg input profile created)
              })
            }
        }))
      })"

end
