(* ===== verification/Deploy_Frame.thy ===== *)
theory Deploy_Frame
  imports Deploy_Workflow
begin

text \<open>
  The interface between the workflow and the properties of its traces.  A client fixes a set of
  traces that is closed under concatenation and has every bookkeeping event (locale
  \<open>workflow_trace\<close>); the locale then shows, once, that every operation stays in the set as soon as
  its side effects do.  The operations that change something outside are \<open>provision_vps\<close>,
  \<open>obtain_node\<close>, \<open>publish_dns\<close> and \<open>skip_dns\<close>.
\<close>

text \<open>Events that change neither a VPS, the panel, DNS nor the outcome of the deployment; the lookup of a zone is kept apart, some clients look at it.\<close>

fun bookkeeping :: "event \<Rightarrow> bool" where
  "bookkeeping (EvCreateNode _ _) = False"
| "bookkeeping (EvUpdateAddress _ _) = False"
| "bookkeeping (EvUpdateProfile _ _) = False"
| "bookkeeping (EvFindZone _ _) = False"
| "bookkeeping (EvAddIP _ _ _) = False"
| "bookkeeping (EvReplaceIP _ _ _ _) = False"
| "bookkeeping (EvMoveIP _ _ _ _) = False"
| "bookkeeping (EvPreflight _ _ _) = False"
| "bookkeeping (EvProvision _ _) = False"
| "bookkeeping (EvSwitchSNI _ _) = False"
| "bookkeeping (EvDbNodeUUID _ _ _) = False"
| "bookkeeping (EvDbTargetIP _ _ _) = False"
| "bookkeeping (EvDbBinding _ _ _) = False"
| "bookkeeping (EvDbState _ params _) = (up_Status params \<noteq> StatusCompleted)"
| "bookkeeping (EvDbStep params _) = (rp_Name params = stepAddDNS \<longrightarrow> rp_Status params \<notin> {StepStatusCompleted, StepStatusSkipped})"
| "bookkeeping _ = True"

text \<open>
  The interface: a preorder \<open>R\<close> on the states of the service, the events \<open>ok\<close> a step may add, and a
  relation \<open>K\<close> that every statement of the repository and everything the other processes do keep
  between the databases before and after.
\<close>

locale workflow_frame = state_preorder R
  for R :: "'w sys \<Rightarrow> 'w sys \<Rightarrow> bool" +
  fixes ok :: "event \<Rightarrow> bool" and K :: "database \<Rightarrow> database \<Rightarrow> bool" and p :: "'w ports"
  assumes ok_bookkeeping: "bookkeeping e \<Longrightarrow> ok e"
    and R_call: "list_all ok es \<Longrightarrow> R s (s\<lparr>sys_world := w, sys_log := sys_log s @ es\<rparr>)"
    and R_note: "ok e \<Longrightarrow> R s (s\<lparr>sys_log := sys_log s @ [e]\<rparr>)"
    and R_db: "ok e \<Longrightarrow> K (sys_db s) db \<Longrightarrow> R s (s\<lparr>sys_world := w, sys_db := db, sys_log := sys_log s @ [e]\<rparr>)"
    and R_bracket: "uuid \<notin> sys_running s \<Longrightarrow> list_all ok es \<Longrightarrow> list_all ok es' \<Longrightarrow>
      R (s\<lparr>sys_running := insert uuid (sys_running s), sys_world := w, sys_slots := sys_slots s + 1,
            sys_log := sys_log s @ es\<rparr>) t \<Longrightarrow>
      R s (t\<lparr>sys_running := sys_running t - {uuid}, sys_slots := sys_slots t - 1, sys_log := sys_log t @ es'\<rparr>)"
    and K_others: "K db (p_others p w db)"
    and K_trans: "K db db' \<Longrightarrow> K db' db'' \<Longrightarrow> K db db''"
    and K_create: "K db (snd (CreateDeployment oc now random cparams db))"
    and K_state: "K db (snd (UpdateDeploymentState oc now uuid uparams db))"
    and K_step: "K db (snd (RecordDeploymentStep oc now rparams db))"
    and K_node: "K db (snd (SetRemnawaveNodeUUID oc now uuid node db))"
    and K_target: "K db (snd (SetTargetVPSIP oc now uuid address db))"
    and K_binding: "K db (snd (SetNodeHostBinding oc now uuid bparams db))"

context workflow_frame
begin

lemma io_call: "(\<And>a. ok (ev a)) \<Longrightarrow> state_io_rel R (call port (\<lambda>a. [ev a]))"
  unfolding call_def by (rule io_State) (auto split: prod.splits intro: R_call)

lemma io_call_silent: "state_io_rel R (call port (\<lambda>_. []))"
  unfolding call_def by (rule io_State) (use R_call [of "[]"] in \<open>auto split: prod.splits\<close>)

lemma io_db_call:
  assumes "\<And>r. ok (ev r)" and f: "\<And>oc now db. K db (snd (f oc now db))"
  shows "state_io_rel R (db_call p f ev)"
proof -
  have "K db (snd (f oc now (p_others p w db)))" for oc now w db
    using K_trans [OF K_others f] .
  then show ?thesis
    unfolding db_call_def by (intro io_State) (auto split: prod.splits intro!: R_db assms(1), metis snd_conv)
qed

lemma io_db_read: "(\<And>r. ok (ev r)) \<Longrightarrow> state_io_rel R (db_call p (\<lambda>oc now db. (f oc now db, db)) ev)"
  unfolding db_call_def by (rule io_State) (auto split: prod.splits intro!: R_db K_others)

lemma io_note_event: "ok e \<Longrightarrow> state_io_rel R (note_event e)"
  unfolding note_event_def by (rule io_update) (rule R_note)

lemma io_emit: "state_io_rel R (emit sink progress)"
  unfolding emit_def by (intro io_rules io_note_event) (simp add: ok_bookkeeping)

lemma io_observe: "state_io_rel R (observe cfg ob)"
  unfolding observe_def by (intro io_rules io_note_event) (simp add: ok_bookkeeping)

lemma io_ctx_err: "state_io_rel R (ctx_err q)"
  unfolding ctx_err_def by (rule io_call_silent)

lemma io_ctx_check: "state_io_rel R (ctx_check q)"
  unfolding ctx_check_def by (intro io_rules io_ctx_err)

lemma io_or_fail: "state_io_rel R (or_fail q other r)"
  unfolding or_fail_def by (intro io_rules io_ctx_check)

lemmas io_basic = io_rules io_emit io_observe io_ctx_check io_or_fail

lemma io_setState: "status \<noteq> StatusCompleted \<Longrightarrow> state_io_rel R (setState p uuid status step code message)"
  unfolding setState_def UpdateState_op_def by (intro io_basic io_db_call K_state ok_bookkeeping) simp

lemma io_record_step:
  "(rp_Name params = stepAddDNS \<Longrightarrow> rp_Status params \<notin> {StepStatusCompleted, StepStatusSkipped}) \<Longrightarrow>
     state_io_rel R (record_step p params)"
  unfolding record_step_def RecordStep_op_def by (intro io_basic io_db_call K_step ok_bookkeeping) simp

lemma io_beginStage: "status \<noteq> StatusCompleted \<Longrightarrow> state_io_rel R (beginStage p uuid status step)"
  unfolding beginStage_def by (intro io_basic io_setState io_record_step) simp_all

lemma io_completeStage: "step \<noteq> stepAddDNS \<Longrightarrow> state_io_rel R (completeStage p uuid step summary)"
  unfolding completeStage_def by (intro io_basic io_record_step) simp

lemma io_failStage: "status \<noteq> StatusCompleted \<Longrightarrow> state_io_rel R (failStage p cfg uuid step status code message kind)"
  unfolding failStage_def RecordStep_op_def UpdateState_op_def
  by (intro io_basic io_db_call K_state K_step ok_bookkeeping) simp_all

lemma io_GetDeployment: "state_io_rel R (GetDeployment_op p uuid)"
  unfolding GetDeployment_op_def by (intro io_db_read ok_bookkeeping) simp

lemma io_deploymentForPanel: "state_io_rel R (deploymentForPanel p cfg uuid)"
  unfolding deploymentForPanel_def by (intro io_basic io_GetDeployment)

lemma io_load: "state_io_rel R (load_deployment p cfg uuid)" "state_io_rel R (load_plain p cfg uuid)"
  "state_io_rel R (reload p uuid message)"
  unfolding load_deployment_def load_plain_def reload_def
  by (intro io_basic io_deploymentForPanel io_GetDeployment)+

lemma io_with_execution:
  assumes body: "state_io_rel R body"
  shows "state_io_rel R (with_execution p cfg uuid body)"
proof (rule state_io_relI)
  fix s a u
  assume run: "run_state (with_execution p cfg uuid body) s = (a, u)"
  obtain e w where acquired: "p_acquire p (sys_world s) = (e, w)" by fastforce
  note steps = with_execution_def beginExecution_def acquire_def releaseSlot_def release_def observe_def
    bindE_def call_def okE_def failE_def note_event_def
  show "R s u"
  proof (cases "TrimSpace uuid = [] \<or> uuid \<in> sys_running s")
    case True
    with run have "u = s" by (auto simp: steps split: if_splits)
    then show ?thesis by (simp add: R_refl)
  next
    case fresh: False
    define up where "up = (if cfg_Observer cfg then [EvObserve (ActiveDeployment 1)] else [])"
    define down where "down = (if cfg_Observer cfg then [EvObserve (ActiveDeployment (-1))] else [])"
    have ok: "list_all ok ([EvBegin uuid, EvAcquire] @ up)" "list_all ok ([EvReleaseSlot] @ down @ [EvRelease uuid])"
      "list_all ok [EvBegin uuid, EvRelease uuid]"
      by (simp_all add: up_def down_def ok_bookkeeping)
    show ?thesis
    proof (cases e)
      case (Some err)
      with run fresh acquired have "u = s\<lparr>sys_world := w, sys_log := sys_log s @ [EvBegin uuid, EvRelease uuid]\<rparr>"
        by (auto simp: steps)
      then show ?thesis using R_call [OF ok(3)] by simp
    next
      case None
      let ?s = "s\<lparr>sys_running := insert uuid (sys_running s), sys_world := w, sys_slots := sys_slots s + 1,
            sys_log := sys_log s @ [EvBegin uuid, EvAcquire] @ up\<rparr>"
      obtain r t where ran: "run_state body ?s = (r, t)" by fastforce
      with run fresh acquired None have "u = t\<lparr>sys_running := sys_running t - {uuid}, sys_slots := sys_slots t - 1,
          sys_log := sys_log t @ [EvReleaseSlot] @ down @ [EvRelease uuid]\<rparr>"
        by (auto simp: steps up_def down_def split: if_splits)
      moreover have "R ?s t" using body ran by (metis state_io_rel_def snd_conv)
      ultimately show ?thesis using R_bracket [OF _ ok(1,2)] fresh by simp
    qed
  qed
qed

lemma io_selectedHost: "state_io_rel R (selectedHost p hostID)"
  unfolding selectedHost_def GetHosts_op_def by (intro io_basic io_call ok_bookkeeping) simp

lemma io_checkUnique: "state_io_rel R (checkUnique p name address ownUUID allowRecovery)"
  unfolding checkUnique_def GetNodes_op_def by (intro io_basic io_call ok_bookkeeping) simp

lemma io_emit_reports: "state_io_rel R (emit_reports cfg sink reports)"
  by (induction reports) (simp_all add: io_basic)

lemma io_provision_stage:
  assumes "\<And>input. state_io_rel R (provision_vps p cfg sink input)"
  shows "state_io_rel R (provision_stage p cfg current sink material)"
  unfolding provision_stage_def
  by (intro io_basic io_beginStage io_call io_failStage io_completeStage ok_bookkeeping assms)
    (simp_all add: step_names)

lemma io_prepareAndProvision:
  assumes "\<And>input. state_io_rel R (provision_vps p cfg sink input)"
  shows "state_io_rel R (prepareAndProvision p cfg current sink)"
  unfolding prepareAndProvision_def PrepareCertificate_op_def
  by (intro io_basic io_beginStage io_call io_failStage io_completeStage ok_bookkeeping
      io_provision_stage assms) (simp_all add: step_names)

lemma io_createNode:
  assumes "state_io_rel R (assign_node p cfg current host)"
  shows "state_io_rel R (createNode p cfg current host sink)"
  unfolding createNode_def
  by (intro io_emit io_beginStage io_completeStage assms io_rules) (simp_all add: step_names)

lemma io_poll_node: "state_io_rel R (call port (\<lambda>(r, took). [EvGetNode uuid r]))"
  unfolding call_def by (rule io_State) (auto split: prod.splits intro!: R_call simp: ok_bookkeeping)

lemma io_poll: "state_io_rel R (poll q cfg uuid sink elapsed backoff)"
proof (induction q cfg uuid sink elapsed backoff rule: poll.induct)
  case (1 q cfg uuid sink elapsed backoff)
  show ?case
    by (subst poll.simps, unfold poll_answer_def poll_done_def Let_def)
      (intro io_basic io_call io_poll_node io_ctx_err 1; auto simp: ok_bookkeeping split: prod.splits)
qed

lemma io_waitForHealthyNode: "state_io_rel R (waitForHealthyNode p cfg current sink)"
  unfolding waitForHealthyNode_def pollNode_def
  by (intro io_basic io_beginStage io_completeStage io_failStage io_poll)
    (auto split: poll_error.splits sum.splits simp: step_names
      intro!: io_basic io_beginStage io_completeStage io_failStage)

lemma io_addDNS:
  assumes "\<And>uuid. state_io_rel R (publish_dns p cfg current uuid sink)"
    and "cfg_DNSDisabled cfg \<Longrightarrow> state_io_rel R (skip_dns p current sink)"
  shows "state_io_rel R (addDNS p cfg current sink)"
  unfolding addDNS_def by (intro io_basic io_beginStage assms) simp_all

lemma io_RetryDNS:
  assumes "\<And>current uuid. state_io_rel R (publish_dns p cfg current uuid sink)"
    and "\<And>current. cfg_DNSDisabled cfg \<Longrightarrow> state_io_rel R (skip_dns p current sink)"
  shows "state_io_rel R (RetryDNS p cfg uuid sink)"
  unfolding RetryDNS_def by (intro io_with_execution io_basic io_load io_beginStage io_addDNS assms) simp_all

lemma io_Cancel: "state_io_rel R (Cancel p cfg uuid)"
  unfolding Cancel_def by (intro io_basic io_load io_setState) simp

lemma io_SafeLogs: "state_io_rel R (SafeLogs p cfg uuid)"
  unfolding SafeLogs_def ListSteps_op_def by (intro io_basic io_load io_db_read ok_bookkeeping) simp

end

text \<open>What a client shows of the side effects to have its relation for the whole workflow.\<close>

locale workflow_effects = workflow_frame R ok K p
  for R :: "'w sys \<Rightarrow> 'w sys \<Rightarrow> bool" and ok K p +
  fixes cfg :: Config
  assumes E_preflight: "ok (EvPreflight uuid address result)"
    and E_provision: "ok (EvProvision input err)"
    and E_find: "ok (EvFindZone fqdn match)"
    and E_assign: "state_io_rel R (assign_node p cfg current host)"
    and E_publish: "state_io_rel R (publish_dns p cfg current uuid sink)"
    and E_skip: "cfg_DNSDisabled cfg \<Longrightarrow> state_io_rel R (skip_dns p current sink)"

context workflow_effects
begin

lemma io_provision: "state_io_rel R (call (p_Provision p input) (\<lambda>(reports, err). [EvProvision input err]))"
  unfolding call_def by (rule io_State) (auto split: prod.splits intro!: R_call simp: E_provision)

lemma io_provision_vps: "state_io_rel R (provision_vps p cfg sink input)"
  unfolding provision_vps_def
  by (intro io_basic io_provision io_emit_reports)

lemma io_deploy_stages: "state_io_rel R (deploy_stages p cfg sink host current)"
proof -
  have final: "state_io_rel R (deploy_final p cfg sink current)" for current
    unfolding deploy_final_def by (intro io_basic io_addDNS E_publish E_skip)
  have wait: "state_io_rel R (deploy_wait p cfg sink current)" for current
    unfolding deploy_wait_def by (intro io_basic io_waitForHealthyNode io_load final)
  have create: "state_io_rel R (deploy_create p cfg sink host current)" for current
    unfolding deploy_create_def by (intro io_basic io_createNode io_load wait E_assign)
  show ?thesis
    unfolding deploy_stages_def by (intro io_basic io_prepareAndProvision io_provision_vps io_load create)
qed

lemma io_Deploy: "state_io_rel R (Deploy p cfg input sink)"
proof -
  have checked: "state_io_rel R (deploy_checked p cfg sink current)" for current
    unfolding deploy_checked_def
    by (intro io_basic io_selectedHost io_checkUnique io_failStage io_deploy_stages) simp_all
  have loaded: "state_io_rel R (deploy_loaded p cfg input sink current)" for current
    unfolding deploy_loaded_def by (intro io_basic checked)
  show ?thesis unfolding Deploy_def by (intro io_basic io_with_execution io_load loaded)
qed

lemma io_RetryFailedStep: "state_io_rel R (RetryFailedStep p cfg uuid sink)"
proof -
  have resume: "resume_status step = Some st \<Longrightarrow> st \<noteq> StatusCompleted" for step st
    by (auto simp: resume_status_def split: if_splits)
  show ?thesis
    unfolding RetryFailedStep_def
    by (intro io_basic io_load io_setState io_Deploy io_RetryDNS E_publish E_skip) (simp_all add: resume)
qed

lemma io_Prepare: "state_io_rel R (Prepare p cfg input)"
proof -
  have report: "state_io_rel R (prepared_report p cfg profile result created)" for profile result created
    unfolding prepared_report_def FindZone_op_def
    by (intro io_basic io_call E_find ok_bookkeeping) simp_all
  have preflight: "state_io_rel R (prepare_preflight p cfg input profile created)" for profile created
    unfolding prepare_preflight_def
    by (intro io_basic io_beginStage io_call io_failStage io_completeStage io_load report E_preflight)
      (simp_all add: step_names)
  show ?thesis
    unfolding Prepare_def CreateDeployment_op_def
    by (intro io_basic io_selectedHost io_checkUnique io_call_silent io_db_call K_create io_with_execution preflight
        ok_bookkeeping) simp
qed

lemmas io_service = io_Prepare io_Deploy io_RetryDNS [OF E_publish E_skip] io_RetryFailedStep io_Cancel io_SafeLogs

end


text \<open>A relation that allows every event needs nothing more.\<close>

locale workflow_all = workflow_frame R ok K p
  for R :: "'w sys \<Rightarrow> 'w sys \<Rightarrow> bool" and ok K p +
  assumes every: "ok e"

context workflow_all
begin

lemma all_state: "state_io_rel R (setState p uuid status step code message)"
  unfolding setState_def UpdateState_op_def by (intro io_basic io_db_call K_state every)

lemma all_record_step: "state_io_rel R (record_step p params)"
  unfolding record_step_def RecordStep_op_def by (intro io_basic io_db_call K_step every)

lemma all_assign: "state_io_rel R (assign_node p cfg current host)"
  unfolding assign_node_def obtain_node_def new_node_def GetNodes_op_def SetNodeUUID_op_def
  by (intro io_basic io_call io_db_call K_node io_failStage every) simp_all

lemma all_publish: "state_io_rel R (publish_dns p cfg current uuid sink)"
  unfolding publish_dns_def publish_result_def completeStage_def GetNode_op_def AddIP_op_def
  by (intro io_basic io_call io_failStage all_state all_record_step every) simp_all

lemma all_skip: "state_io_rel R (skip_dns p current sink)"
  unfolding skip_dns_def RecordStep_op_def by (intro io_basic io_db_call K_step all_state every)

end

sublocale workflow_all \<subseteq> workflow_effects
  by unfold_locales (simp_all add: every all_assign all_publish all_skip)

section \<open>Traces\<close>

text \<open>A set of traces, closed under concatenation, that has every bookkeeping event, gives such a relation.\<close>

definition grows :: "(event list \<Rightarrow> bool) \<Rightarrow> 'w sys \<Rightarrow> 'w sys \<Rightarrow> bool" where
  "grows C s t \<longleftrightarrow> (\<exists>es. sys_log t = sys_log s @ es \<and> C es)"

locale traces =
  fixes C :: "event list \<Rightarrow> bool"
  assumes C_Nil: "C []"
    and C_append: "C es \<Longrightarrow> C es' \<Longrightarrow> C (es @ es')"

sublocale traces \<subseteq> state_preorder "grows C"
proof
  show "grows C s s" for s using C_Nil by (auto simp: grows_def)
  show "grows C s u" if "grows C s t" "grows C t u" for s t u
    using that C_append unfolding grows_def by (metis append.assoc)
qed

context traces
begin

lemma C_list_all: "list_all (\<lambda>e. C [e]) es \<Longrightarrow> C es"
proof (induction es)
  case (Cons e es)
  then show ?case using C_append [of "[e]" es] by simp
qed (rule C_Nil)

lemma trace_call: "(\<And>a. C (ev a)) \<Longrightarrow> state_io_rel (grows C) (call port ev)"
  unfolding call_def by (rule io_State) (auto simp: grows_def split: prod.splits)

lemma trace_db_call: "(\<And>r. C [ev r]) \<Longrightarrow> state_io_rel (grows C) (db_call p f ev)"
  unfolding db_call_def by (rule io_State) (auto simp: grows_def split: prod.splits)

lemma trace_note_event: "C [e] \<Longrightarrow> state_io_rel (grows C) (note_event e)"
  unfolding note_event_def by (rule io_update) (simp add: grows_def)

lemma trace_silent: "(\<And>s. sys_log (f s) = sys_log s) \<Longrightarrow> state_io_rel (grows C) (State_Monad.update f)"
  by (rule io_update) (use C_Nil in \<open>simp add: grows_def\<close>)

end

locale workflow_trace = traces +
  assumes C_bookkeeping: "bookkeeping e \<Longrightarrow> C [e]"

sublocale workflow_trace \<subseteq> workflow_frame "grows C" "\<lambda>e. C [e]" "\<lambda>db db'. True" p for p
proof unfold_locales
  show "grows C s (t\<lparr>sys_running := sys_running t - {uuid}, sys_slots := sys_slots t - 1, sys_log := sys_log t @ es'\<rparr>)"
    if "list_all (\<lambda>e. C [e]) es" "list_all (\<lambda>e. C [e]) es'" and
      "grows C (s\<lparr>sys_running := insert uuid (sys_running s), sys_world := w, sys_slots := sys_slots s + 1,
            sys_log := sys_log s @ es\<rparr>) t" for uuid and s t :: "'a sys" and es es' w
    using that C_list_all [OF that(1)] C_list_all [OF that(2)]
    by (auto simp: grows_def intro!: C_append)
qed (auto simp: grows_def C_bookkeeping intro: C_list_all C_bookkeeping)

end
