(* ===== verification/Deploy_Stages.thy ===== *)
theory Deploy_Stages
  imports Deploy_Frame
begin

text \<open>
  The abstract stage machine of a deployment and its refinement: one run of \<open>Deploy\<close> goes through
  the stages in order, whatever the database returns when it is read again between two of them.
\<close>

text \<open>The abstract machine: the statuses in the order a deployment goes through them.\<close>

fun stage_rank :: "Status \<Rightarrow> nat" where
  "stage_rank StatusPreflight = 1"
| "stage_rank StatusPreparingCertificate = 2"
| "stage_rank StatusProvisioning = 3"
| "stage_rank StatusCreatingRemnawave = 4"
| "stage_rank StatusWaitingRemnawave = 5"
| "stage_rank StatusAddingToDNS = 6"
| "stage_rank StatusCompleted = 7"
| "stage_rank StatusFailed = 8"
| "stage_rank StatusDNSFailed = 8"
| "stage_rank _ = 0"

text \<open>The statuses a trace writes to the database.\<close>

fun written :: "event list \<Rightarrow> nat list" where
  "written [] = []"
| "written (EvDbState uuid params r # es) = stage_rank (up_Status params) # written es"
| "written (_ # es) = written es"

lemma written_append: "written (es @ es') = written es @ written es'"
  by (induction es rule: written.induct) simp_all

interpretation still: traces "\<lambda>es. written es = []"
  by unfold_locales (simp_all add: written_append)

definition span :: "nat \<Rightarrow> nat \<Rightarrow> event list \<Rightarrow> bool" where
  "span lo hi es \<longleftrightarrow> sorted (written es) \<and> (\<forall>n \<in> set (written es). lo \<le> n \<and> n \<le> hi)"

lemma span_quiet: "written es = [] \<Longrightarrow> span lo hi es"
  by (simp add: span_def)

lemma span_append: "span lo mid es \<Longrightarrow> span mid hi es' \<Longrightarrow> lo \<le> mid \<Longrightarrow> mid \<le> hi \<Longrightarrow> span lo hi (es @ es')"
  by (fastforce simp: span_def written_append sorted_append)

lemma span_mono: "span lo hi es \<Longrightarrow> lo' \<le> lo \<Longrightarrow> hi \<le> hi' \<Longrightarrow> span lo' hi' es"
  by (fastforce simp: span_def)

text \<open>
  \<open>stage lo hi m\<close>: a run of \<open>m\<close> writes statuses in order, from rank \<open>lo\<close> on; up to \<open>hi\<close> when it
  succeeds, and up to a failure when it does not.
\<close>

definition stage :: "nat \<Rightarrow> nat \<Rightarrow> ('w, 'a) op \<Rightarrow> bool" where
  "stage lo hi m \<longleftrightarrow> logs sys_log m (\<lambda>r es. case r of Inl _ \<Rightarrow> span lo 8 es | Inr _ \<Rightarrow> span lo hi es)"

abbreviation quiet :: "('w sys, 'a) state \<Rightarrow> bool" where
  "quiet m \<equiv> state_io_rel (grows (\<lambda>es. written es = [])) m"

lemma quiet_logs: "quiet m \<Longrightarrow> logs sys_log m (\<lambda>_ es. written es = [])"
  by (simp add: logs_def state_io_rel_def grows_def)


named_theorems stage_rules \<open>rules for \<open>stage\<close>\<close>

lemma stage_okE [stage_rules]: "stage lo hi (okE a)"
  unfolding stage_def by (intro log_rules) (simp add: span_def)

lemma stage_failE [stage_rules]: "stage lo hi (failE e)"
  unfolding stage_def by (intro log_rules) (simp add: span_def)

lemma stage_quiet: "quiet m \<Longrightarrow> stage lo hi m"
  unfolding stage_def by (rule logs_mono [OF quiet_logs]) (auto simp: span_def split: sum.splits)

lemma stage_bindE:
  fixes m :: "('w, 'a) op" and f :: "'a \<Rightarrow> ('w, 'b) op"
  assumes m: "stage lo mid m" and f: "\<And>a. stage mid hi (f a)" and le: "lo \<le> mid" "mid \<le> hi" "hi \<le> 8"
  shows "stage lo hi (bindE m f)"
proof -
  have rest: "logs sys_log (f a) (\<lambda>r es'. case r of Inl _ \<Rightarrow> span lo 8 (es @ es') | Inr _ \<Rightarrow> span lo hi (es @ es'))"
    if "span lo mid es" for a es
    by (rule logs_mono [OF f [unfolded stage_def]])
      (use that le in \<open>auto intro: span_append split: sum.splits\<close>)
  show ?thesis
    unfolding stage_def
    by (rule logs_bindE, rule logs_mono [OF m [unfolded stage_def]])
      (simp split: sum.splits add: rest [unfolded sum.case_eq_if] sum.case_eq_if)
qed

lemma stage_bind:
  assumes "quiet m" and "\<And>a. stage lo hi (f a)"
  shows "stage lo hi (State_Monad.bind m f)"
  unfolding stage_def
  by (intro logs_bind logs_mono [OF quiet_logs [OF assms(1)]] logs_mono [OF assms(2) [unfolded stage_def]])
    (auto simp: span_def written_append split: sum.splits)

lemma stage_then:
  fixes m :: "('w, 'a) op" and f :: "go_error + 'a \<Rightarrow> ('w, 'a) op"
  assumes m: "stage lo hi m" and f: "\<And>r. quiet (f r)" and same: "\<And>r s. result_of (f r) s = r"
  shows "stage lo hi (State_Monad.bind m f)"
proof -
  have k: "logs sys_log (f r) (\<lambda>r' es. r' = r \<and> written es = [])" for r
    using f [of r] same [of r] by (auto simp: state_io_rel_def grows_def logs_def)
  show ?thesis
    unfolding stage_def
    by (rule logs_bind, rule logs_mono [OF m [unfolded stage_def]], rule logs_mono [OF k])
      (auto simp: span_def written_append split: sum.splits)
qed

lemma stage_if [stage_rules]:
  "(b \<Longrightarrow> stage lo hi m) \<Longrightarrow> (\<not> b \<Longrightarrow> stage lo hi n) \<Longrightarrow> stage lo hi (if b then m else n)"
  by simp

lemma stage_case_option [stage_rules]:
  "(x = None \<Longrightarrow> stage lo hi m) \<Longrightarrow> (\<And>y. x = Some y \<Longrightarrow> stage lo hi (n y)) \<Longrightarrow>
     stage lo hi (case x of None \<Rightarrow> m | Some y \<Rightarrow> n y)"
  by (cases x) simp_all

lemma stage_case_sum [stage_rules]:
  "(\<And>e. x = Inl e \<Longrightarrow> stage lo hi (m e)) \<Longrightarrow> (\<And>y. x = Inr y \<Longrightarrow> stage lo hi (n y)) \<Longrightarrow>
     stage lo hi (case x of Inl e \<Rightarrow> m e | Inr y \<Rightarrow> n y)"
  by (cases x) simp_all

lemma stage_case_prod [stage_rules]:
  "(\<And>a b. x = (a, b) \<Longrightarrow> stage lo hi (m a b)) \<Longrightarrow> stage lo hi (case x of (a, b) \<Rightarrow> m a b)"
  by (cases x) simp_all

lemma stage_let [stage_rules]: "stage lo hi (m a) \<Longrightarrow> stage lo hi (let x = a in m x)"
  by simp

lemma stage_mono: "stage lo hi m \<Longrightarrow> lo' \<le> lo \<Longrightarrow> hi \<le> hi' \<Longrightarrow> stage lo' hi' m"
  unfolding stage_def by (erule logs_mono) (auto intro: span_mono split: sum.splits)

lemma stage_bindE_quiet:
  "quiet m \<Longrightarrow> (\<And>a. stage lo hi (f a)) \<Longrightarrow> lo \<le> hi \<Longrightarrow> hi \<le> 8 \<Longrightarrow> stage lo hi (bindE m f)"
  by (rule stage_bindE [where mid = lo]) (auto intro: stage_quiet)

section \<open>What writes no status\<close>

lemmas quiet_call = still.trace_call and quiet_db_call = still.trace_db_call
  and quiet_note_event = still.trace_note_event and quiet_silent = still.trace_silent

lemma quiet_emit: "quiet (emit sink progress)"
  unfolding emit_def by (intro still.io_rules quiet_note_event) simp

lemma quiet_observe: "quiet (observe cfg ob)"
  unfolding observe_def by (intro still.io_rules quiet_note_event) simp

lemma quiet_ctx_err: "quiet (ctx_err p)"
  unfolding ctx_err_def by (intro quiet_call) simp

lemma quiet_ctx_check: "quiet (ctx_check p)"
  unfolding ctx_check_def by (intro still.io_rules quiet_ctx_err)

lemma quiet_or_fail: "quiet (or_fail p other r)"
  unfolding or_fail_def by (intro still.io_rules quiet_ctx_check)

lemmas quiet_basic = still.io_rules quiet_emit quiet_observe quiet_ctx_check quiet_or_fail

lemma quiet_record_step: "quiet (record_step p params)"
  unfolding record_step_def RecordStep_op_def by (intro quiet_basic quiet_db_call) simp

lemma quiet_completeStage: "quiet (completeStage p uuid step summary)"
  unfolding completeStage_def by (intro quiet_basic quiet_record_step)

lemma quiet_reload: "quiet (reload p uuid message)"
  unfolding reload_def GetDeployment_op_def by (intro quiet_basic quiet_db_call) simp

lemma quiet_load_deployment: "quiet (load_deployment p cfg uuid)"
  unfolding load_deployment_def deploymentForPanel_def GetDeployment_op_def
  by (intro quiet_basic quiet_db_call) simp

lemma quiet_selectedHost: "quiet (selectedHost p hostID)"
  unfolding selectedHost_def GetHosts_op_def by (intro quiet_basic quiet_call) simp

lemma quiet_checkUnique: "quiet (checkUnique p name address ownUUID allowRecovery)"
  unfolding checkUnique_def GetNodes_op_def by (intro quiet_basic quiet_call) simp

lemma quiet_emit_reports: "quiet (emit_reports cfg sink reports)"
  by (induction reports) (simp_all add: quiet_basic)

lemma quiet_provision_vps: "quiet (provision_vps p cfg sink input)"
  unfolding provision_vps_def by (intro quiet_basic quiet_emit_reports quiet_call) (auto split: prod.splits)

lemma quiet_poll: "quiet (poll p cfg uuid sink elapsed backoff)"
proof (induction p cfg uuid sink elapsed backoff rule: poll.induct)
  case (1 p cfg uuid sink elapsed backoff)
  show ?case
    by (subst poll.simps, unfold poll_answer_def poll_done_def Let_def)
      (intro quiet_basic quiet_call quiet_ctx_err 1; auto split: prod.splits)
qed

section \<open>What writes statuses\<close>

lemma stage_UpdateState:
  assumes "stage_rank (up_Status params) = n" and "n \<le> 8"
  shows "stage n n (UpdateState_op p uuid params)"
  unfolding stage_def UpdateState_op_def
  by (intro log_rules) (use assms in \<open>auto simp: span_def split: sum.splits\<close>)

lemma stage_setState: "stage_rank status = n \<Longrightarrow> n \<le> 8 \<Longrightarrow> stage n n (setState p uuid status step code message)"
  unfolding setState_def Let_def stage_def UpdateState_op_def
  by (intro log_rules; auto simp: span_def split: sum.splits intro!: log_rules)

lemma stage_beginStage: "stage_rank status = n \<Longrightarrow> n \<le> 8 \<Longrightarrow> stage n n (beginStage p uuid status step)"
  unfolding beginStage_def
  by (rule stage_bindE_quiet [OF quiet_ctx_check], rule stage_bindE [where mid = n])
    (simp_all add: stage_setState stage_quiet quiet_record_step)

text \<open>The first stage of a sequence, with the rank it writes as the new lower bound.\<close>

lemma stage_begin:
  "lo \<le> stage_rank status \<Longrightarrow> stage_rank status \<le> hi \<Longrightarrow> hi \<le> 8 \<Longrightarrow> stage lo hi (beginStage p uuid status step)"
  by (rule stage_mono [OF stage_beginStage [OF refl]]) auto

lemma stage_begin_bindE:
  assumes "lo \<le> stage_rank status" "stage_rank status \<le> hi" "hi \<le> 8" "\<And>a. stage (stage_rank status) hi (f a)"
  shows "stage lo hi (bindE (beginStage p uuid status step) f)"
    and "stage lo hi (bindE (if b then beginStage p uuid status step else okE ()) f)"
  by (rule stage_bindE [where mid = "stage_rank status"]; use assms in \<open>auto intro: stage_begin stage_okE\<close>)+

lemma stage_set:
  "lo \<le> stage_rank status \<Longrightarrow> stage_rank status \<le> hi \<Longrightarrow> hi \<le> 8 \<Longrightarrow> stage lo hi (setState p uuid status step code message)"
  by (rule stage_mono [OF stage_setState [OF refl]]) auto

lemma stage_set_bindE:
  assumes "lo \<le> stage_rank status" "stage_rank status \<le> hi" "hi \<le> 8" "\<And>a. stage (stage_rank status) hi (f a)"
  shows "stage lo hi (bindE (setState p uuid status step code message) f)"
  by (rule stage_bindE [where mid = "stage_rank status"]) (use assms in \<open>auto intro: stage_set\<close>)

lemma stage_failStage:
  fixes m :: "('w, 'a) op"
  assumes "stage_rank status = 8" and "lo \<le> 8"
  shows "stage lo hi (failStage p cfg uuid step status code message kind :: ('w, 'a) op)"
  unfolding stage_def failStage_def Let_def UpdateState_op_def RecordStep_op_def
  by (intro log_rules; use assms in \<open>auto simp: span_def intro!: log_rules split: sum.splits\<close>)

lemmas stage_steps = stage_begin_bindE stage_set_bindE stage_begin stage_failStage
  stage_rules stage_bindE_quiet stage_bind
  quiet_call quiet_db_call quiet_record_step quiet_completeStage quiet_reload quiet_load_deployment
  quiet_selectedHost quiet_checkUnique quiet_provision_vps quiet_poll quiet_basic

lemma stage_prepareAndProvision: "stage 2 4 (prepareAndProvision p cfg current sink)"
proof -
  have rest: "stage lo 4 (provision_stage p cfg current sink material)" if "lo \<le> 3" for material lo
    unfolding provision_stage_def by (intro stage_steps) (use that in \<open>auto split: prod.splits\<close>)
  show ?thesis
    unfolding prepareAndProvision_def PrepareCertificate_op_def
    by (intro stage_steps rest) auto
qed

lemma stage_assign_node: "stage 4 4 (assign_node p cfg current host)"
proof -
  have new: "stage 4 4 (new_node p cfg current host)"
    unfolding new_node_def by (intro stage_steps) auto
  have obtain_: "stage 4 4 (obtain_node p cfg current host)"
    unfolding obtain_node_def GetNodes_op_def by (intro stage_steps new) auto
  show ?thesis
    unfolding assign_node_def SetNodeUUID_op_def
    by (rule stage_bindE [OF obtain_]) (auto intro!: stage_steps)
qed

lemma stage_createNode: "stage 4 5 (createNode p cfg current host sink)"
proof -
  have rest: "stage (stage_rank StatusCreatingRemnawave) 5 (bindE (if b then assign_node p cfg current host else okE ()) (\<lambda>_.
      bindE (completeStage p (dep_ID current) stepCreateNode ''Remnawave Node created'') (\<lambda>_. do {
        emit sink (progress_of stepCreateNode 4 ''Remnawave Node created'' StepStatusCompleted []);
        beginStage p (dep_ID current) StatusWaitingRemnawave stepWaitNode
      })))" for b
    by (rule stage_bindE [where mid = 4], cases b)
      (auto intro!: stage_assign_node stage_begin stage_okE stage_bind stage_bindE_quiet quiet_emit quiet_completeStage)
  show ?thesis
    unfolding createNode_def by (intro rest stage_steps) auto
qed

lemma stage_waitForHealthyNode: "stage 5 6 (waitForHealthyNode p cfg current sink)"
  unfolding waitForHealthyNode_def pollNode_def
  by (intro stage_steps) (auto split: poll_error.splits sum.splits intro!: stage_steps)

lemma stage_addDNS: "stage lo 7 (addDNS p cfg current sink)" if "lo \<le> 6" "dep_Status current = StatusAddingToDNS \<Longrightarrow> lo \<le> 6"
proof -
  have skip: "stage 6 7 (skip_dns p current sink)"
    unfolding skip_dns_def RecordStep_op_def by (intro stage_steps) auto
  have publish: "stage 6 7 (publish_dns p cfg current uuid sink)" for uuid
    unfolding publish_dns_def publish_result_def GetNode_op_def AddIP_op_def by (intro stage_steps) auto
  show ?thesis
    unfolding addDNS_def
    by (intro stage_steps stage_mono [OF skip] stage_mono [OF publish]) (use that in auto)
qed

lemma stage_Deploy: "stage 2 7 (Deploy p cfg input sink)"
proof -
  have final: "stage lo 7 (deploy_final p cfg sink current)" if "lo \<le> 6" for lo current
    unfolding deploy_final_def by (intro stage_steps stage_addDNS) (use that in auto)
  have wait: "stage lo 7 (deploy_wait p cfg sink current)" if "lo \<le> 5" for lo current
    unfolding deploy_wait_def
    by (intro stage_if stage_bindE [OF stage_mono [OF stage_waitForHealthyNode _ order_refl]] stage_bindE_quiet quiet_reload)
      (use that in \<open>auto intro: final\<close>)
  have create: "stage lo 7 (deploy_create p cfg sink host current)" if "lo \<le> 4" for lo current host
    unfolding deploy_create_def
    by (intro stage_if stage_bindE [OF stage_mono [OF stage_createNode _ order_refl]] stage_bindE_quiet quiet_reload)
      (use that in \<open>auto intro: wait\<close>)
  have stages: "stage 2 7 (deploy_stages p cfg sink host current)" for current host
    unfolding deploy_stages_def
    by (intro stage_if stage_bindE [OF stage_prepareAndProvision] stage_bindE_quiet quiet_reload) (auto intro: create)
  have checked: "stage 2 7 (deploy_checked p cfg sink current)" for current
    unfolding deploy_checked_def by (intro stages stage_steps) auto
  have loaded: "stage 2 7 (deploy_loaded p cfg input sink current)" for current
    unfolding deploy_loaded_def by (intro stage_rules checked)
  have body: "stage 2 7 (with_execution p cfg uuid
      (bindE (load_deployment p cfg uuid) (deploy_loaded p cfg input sink)))" for uuid
    unfolding with_execution_def beginExecution_def acquire_def releaseSlot_def release_def
    by (intro stage_bindE_quiet loaded stage_then quiet_basic quiet_silent quiet_note_event quiet_call quiet_load_deployment)
      (auto split: prod.splits)
  show ?thesis
    unfolding Deploy_def by (intro stage_then stage_rules body quiet_basic) (auto split: prod.splits)
qed

text \<open>
  C4. One run of \<open>Deploy\<close> refines the stage machine: the statuses it writes to the database only go
  forward (preparing the certificate, provisioning, creating the Node, waiting for it, adding it to
  DNS, completed), a failure status ends the run with an error, and a run without an error writes no
  failure.  The database may return anything when the deployment is read again.
\<close>

theorem Deploy_stages_forward:
  "case run_state (Deploy p cfg input sink) s of
     (r, t) \<Rightarrow> \<exists>es. sys_log t = sys_log s @ es \<and> sorted (written es) \<and>
       set (written es) \<subseteq> (case r of Inl _ \<Rightarrow> {2..8} | Inr _ \<Rightarrow> {2..7})"
proof -
  obtain r t where run: "run_state (Deploy p cfg input sink) s = (r, t)" by fastforce
  obtain es where "sys_log t = sys_log s @ es" and "case r of Inl _ \<Rightarrow> span 2 8 es | Inr _ \<Rightarrow> span 2 7 es"
    using logsD [OF stage_Deploy [unfolded stage_def] run] by blast
  then show ?thesis by (cases r) (auto simp: run span_def)
qed

end
