(* ===== verification/Deploy_Demo.thy ===== *)
theory Deploy_Demo
  imports Deploy_Workflow
begin

text \<open>
  Concrete ports, a configuration and a stored deployment on which the workflow can be evaluated;
  the witnesses of the workflow's properties run on them.
\<close>

definition demo_host :: Host where
  "demo_host = \<lparr>host_UUID = ''22222222-2222-2222-2222-222222222222'', host_Remark = ''h'',
     host_Address = ''a.b'', host_SNI = None, host_IsDisabled = False,
     host_Inbound = \<lparr>hi_ConfigProfileUUID = Some ''33333333-3333-3333-3333-333333333333'',
       hi_ConfigProfileInboundUUID = Some ''44444444-4444-4444-4444-444444444444''\<rparr>\<rparr>"

definition demo_node :: Node where
  "demo_node = \<lparr>node_UUID = ''55555555-5555-5555-5555-555555555555'', node_Name = ''n-1'',
     node_Address = ''1.0.0.9'', node_Port = None, node_IsConnected = True, node_IsConnecting = False,
     node_IsDisabled = False, node_LastStatusMessage = None, node_LastStatusChange = None,
     node_ActiveConfigProfileUUID = None, node_ActiveInboundUUIDs = []\<rparr>"

definition demo_row :: Deployment where
  "demo_row = \<lparr>dep_ID = ''11111111-1111-1111-1111-111111111111'', dep_PanelID = ''p'',
     dep_TelegramOperatorUserID = 7, dep_SelectedRemnawaveHostUUID = host_UUID demo_host,
     dep_SelectedHostRemark = ''h'', dep_SNIDomain = ''a.b'', dep_NodeName = ''n-1'',
     dep_TargetVPSIP = Addr4 0x01000009, dep_RemnawaveNodeUUID = None, dep_SSHHostKeyFingerprint = None,
     dep_Status = StatusCreatingRemnawave, dep_CurrentStep = ''x'', dep_SafeErrorCode = None,
     dep_SafeErrorMessage = None, dep_CreatedAt = 1, dep_UpdatedAt = 1, dep_StartedAt = Some 1,
     dep_CompletedAt = None\<rparr>"

definition demo_cfg :: Config where
  "demo_cfg = \<lparr>cfg_PanelID = ''p'', cfg_DNSDisabled = False, cfg_MaxConcurrentDeployments = 2,
     cfg_NodeConnectTimeout = 3, cfg_InitialPollBackoff = 1, cfg_MaxPollBackoff = 2, cfg_Observer = False,
     cfg_NodeSNISwitcher = False\<rparr>"

definition demo_ports :: "unit ports" where
  "demo_ports = \<lparr>
     p_ctx_err = (\<lambda>w. (None, w)), p_acquire = (\<lambda>w. (None, w)), p_db = (\<lambda>w. ((DbOk, 5), w)),
     p_others = (\<lambda>w db. db), p_rand = (\<lambda>w. (Some (replicate 16 7), w)),
     p_GetHosts = (\<lambda>w. (Inr [demo_host], w)), p_GenerateSecretKey = (\<lambda>w. (Inr ''k'', w)),
     p_GetNodes = (\<lambda>w. (Inr [], w)), p_GetNode = (\<lambda>u w. (Inr demo_node, w)),
     p_CreateNode = (\<lambda>i w. (Inr demo_node, w)), p_UpdateNodeAddress = (\<lambda>i w. (Inr demo_node, w)),
     p_UpdateNodeProfile = (\<lambda>i w. (Inr demo_node, w)), p_FindZone = (\<lambda>f w. (Inl RepoNotFound, w)),
     p_FindZonesByIP = (\<lambda>i w. (Inr [], w)),
     p_AddIP = (\<lambda>f i w. (Inr \<lparr>ar_FQDN = f, ar_Added = True, ar_IPs = None\<rparr>, w)),
     p_ReplaceIP = (\<lambda>f i j w. (Inl RepoNotFound, w)), p_MoveIP = (\<lambda>f g i w. (Inl RepoNotFound, w)),
     p_Readiness = (\<lambda>f w. (Inr CertificateReady, w)),
     p_PrepareCertificate = (\<lambda>f w. (Inr \<lparr>mat_FullchainPEM = ''c'', mat_PrivateKeyPEM = ''k''\<rparr>, w)),
     p_Preflight = (\<lambda>u i pw w. (Inr (no_preflight\<lparr>pf_SSHConnected := True\<rparr>), w)),
     p_Provision = (\<lambda>i w. (([], None), w)), p_SwitchSNI = (\<lambda>i w. (None, w)),
     p_poll_node = (\<lambda>u w. ((Inr demo_node, 1), w)), p_poll_wait = (\<lambda>i w. (False, w))\<rparr>"

definition demo_start :: "unit sys" where
  "demo_start = \<lparr>sys_world = (), sys_db = \<lparr>deployments = [demo_row], deployment_steps = []\<rparr>,
     sys_running = {}, sys_slots = 0, sys_log = []\<rparr>"

definition demo_input :: StartInput where
  "demo_input = \<lparr>si_DeploymentID = dep_ID demo_row, si_OperatorUserID = 7, si_HostID = host_UUID demo_host,
     si_NodeName = ''n-1'', si_VPSIP = Addr4 0x01000009\<rparr>"

end
