(* ===== verification/Deploy_Errors.thy ===== *)
theory Deploy_Errors
  imports Deploy_Frame Deploy_Demo
begin

text \<open>
  The errors of \<open>Deploy\<close>: an operator who is told of a failed deployment finds the same error code in
  its row, unless the error says that the row could not be read or written.
\<close>

definition refusals :: "go_error set" where
  "refusals = {CtxCanceled, CtxDeadlineExceeded, OrchErr ErrInvalidInput, OrchErr ErrDeploymentAlreadyRunning,
     OrchErr ErrDeploymentNotRunnable, OrchErr ErrDNSRetryRequired}"

definition unsaved_codes :: "string list" where
  "unsaved_codes = [''PERSISTENCE_READ_FAILED'', ''STATE_PERSIST_FAILED'', ''STEP_PERSIST_FAILED'',
     ''FAILURE_PERSIST_FAILED'', ''NODE_UUID_PERSIST_FAILED'', ''DNS_SKIP_PERSIST_FAILED'']"

fun stores :: "string \<Rightarrow> event \<Rightarrow> bool" where
  "stores code (EvDbState uuid params (Inr row)) =
     (up_SafeErrorCode params = Some code \<and> up_Status params \<in> {StatusFailed, StatusDNSFailed})"
| "stores code _ = False"

fun told :: "go_error + 'a \<Rightarrow> event list \<Rightarrow> bool" where
  "told (Inr a) es = True"
| "told (Inl (SafeError code message kind)) es = (code \<in> set unsaved_codes \<or> list_ex (stores code) es)"
| "told (Inl e) es = (e \<in> refusals)"

lemma told_later: "told r es' \<Longrightarrow> told r (es @ es')"
  by (cases "(r, es')" rule: told.cases) auto

lemma told_Inl: "told (Inl e :: go_error + 'a) es = told (Inl e :: go_error + 'b) es"
  by (cases e) simp_all

definition tells :: "('w, 'a) op \<Rightarrow> bool" where
  "tells m \<longleftrightarrow> logs sys_log m told"

interpretation any: workflow_all "grows (\<lambda>es. True)" "\<lambda>e. True" "\<lambda>db db'. True" p
  by unfold_locales (auto simp: grows_def)

interpretation anything: traces "\<lambda>es. True"
  by unfold_locales simp_all

lemma logs_any: "state_io_rel (grows (\<lambda>es. True)) m \<Longrightarrow> logs sys_log m (\<lambda>_ _. True)"
  by (simp add: logs_def state_io_rel_def grows_def)

lemma tells_okE: "tells (okE a)"
  unfolding tells_def by (intro log_rules) simp

lemma tells_failE: "e \<in> refusals \<Longrightarrow> tells (failE e)"
  unfolding tells_def by (intro log_rules) (auto simp: refusals_def)

lemma tells_bindE:
  fixes m :: "('w, 'a) op" and f :: "'a \<Rightarrow> ('w, 'b) op"
  assumes "tells m" and "\<And>a. tells (f a)"
  shows "tells (bindE m f)"
proof -
  have rest: "case x of Inl e \<Rightarrow> told (Inl e :: go_error + 'b) es
      | Inr a \<Rightarrow> logs sys_log (f a) (\<lambda>r es'. told r (es @ es'))" if "told x es" for x es
  proof (cases x)
    case (Inl e)
    then show ?thesis using that told_Inl [of e es] by (simp only: sum.case) blast
  next
    case (Inr a)
    have "logs sys_log (f a) (\<lambda>r es'. told r (es @ es'))"
      by (rule logs_mono [OF assms(2) [unfolded tells_def]]) (rule told_later)
    then show ?thesis by (simp add: Inr)
  qed
  show ?thesis
    unfolding tells_def by (rule logs_bindE, rule logs_mono [OF assms(1) [unfolded tells_def]], rule rest)
qed

lemma tells_bind:
  assumes "state_io_rel (grows (\<lambda>es. True)) m" and "\<And>a. tells (f a)"
  shows "tells (State_Monad.bind m f)"
  unfolding tells_def
  by (intro logs_bind logs_mono [OF logs_any [OF assms(1)]] logs_mono [OF assms(2) [unfolded tells_def]] told_later)

lemma tells_then:
  fixes m :: "('w, 'a) op" and f :: "go_error + 'a \<Rightarrow> ('w, 'a) op"
  assumes m: "tells m" and f: "\<And>r. state_io_rel (grows (\<lambda>es. True)) (f r)" and same: "\<And>r s. result_of (f r) s = r"
  shows "tells (State_Monad.bind m f)"
proof -
  have k: "logs sys_log (f r) (\<lambda>r' es. r' = r)" for r
    using f [of r] same [of r] by (auto simp: state_io_rel_def grows_def logs_def)
  have stays: "told r (es @ es')" if "told r es" for r :: "go_error + 'a" and es es'
    using that by (cases "(r, es)" rule: told.cases) auto
  show ?thesis
    unfolding tells_def
    by (rule logs_bind, rule logs_mono [OF m [unfolded tells_def]], rule logs_mono [OF k]) (simp add: stays)
qed

lemma tells_if: "(b \<Longrightarrow> tells m) \<Longrightarrow> (\<not> b \<Longrightarrow> tells n) \<Longrightarrow> tells (if b then m else n)"
  by simp

lemma tells_case_option:
  "(x = None \<Longrightarrow> tells m) \<Longrightarrow> (\<And>y. x = Some y \<Longrightarrow> tells (n y)) \<Longrightarrow> tells (case x of None \<Rightarrow> m | Some y \<Rightarrow> n y)"
  by (cases x) simp_all

lemma tells_case_sum:
  "(\<And>e. x = Inl e \<Longrightarrow> tells (m e)) \<Longrightarrow> (\<And>y. x = Inr y \<Longrightarrow> tells (n y)) \<Longrightarrow>
     tells (case x of Inl e \<Rightarrow> m e | Inr y \<Rightarrow> n y)"
  by (cases x) simp_all

lemma tells_case_prod: "(\<And>a b. x = (a, b) \<Longrightarrow> tells (m a b)) \<Longrightarrow> tells (case x of (a, b) \<Rightarrow> m a b)"
  by (cases x) simp_all

section \<open>Contexts\<close>

text \<open>The errors of Go's contexts, which the ports of a context return.\<close>

definition go_contexts :: "'w ports \<Rightarrow> bool" where
  "go_contexts p \<longleftrightarrow>
     (\<forall>w. fst (p_ctx_err p w) \<in> {None, Some CtxCanceled, Some CtxDeadlineExceeded}) \<and>
     (\<forall>w. fst (p_acquire p w) \<in> {None, Some CtxCanceled, Some CtxDeadlineExceeded})"

lemma go_contextsD:
  assumes "go_contexts p"
  shows "p_ctx_err p w = (Some e, w') \<Longrightarrow> e \<in> refusals" "p_acquire p w = (Some e, w') \<Longrightarrow> e \<in> refusals"
  using assms unfolding go_contexts_def refusals_def by (metis fst_conv insert_iff option.distinct(1) option.inject singletonD)+

lemma told_refusal: "e \<in> refusals \<Longrightarrow> told (Inl e) es"
  by (auto simp: refusals_def)

lemma tells_ctx_check: "go_contexts p \<Longrightarrow> tells (ctx_check p)"
  unfolding tells_def ctx_check_def ctx_err_def logs_def
  by (auto simp: call_def failE_def okE_def intro: told_refusal dest: go_contextsD split: prod.splits option.splits)

text \<open>The steps of the workflow, under contexts of Go.\<close>

lemma tells_unsaved: "code \<in> set unsaved_codes \<Longrightarrow> tells (failE (safeError code message kind))"
  unfolding tells_def safeError_def by (intro log_rules) simp

lemma tells_or_fail:
  "go_contexts p \<Longrightarrow> code \<in> set unsaved_codes \<Longrightarrow> tells (or_fail p (safeError code message kind) r)"
  unfolding or_fail_def by (intro tells_case_sum tells_okE tells_bindE tells_ctx_check tells_unsaved)

lemma unsaved_known:
  "''PERSISTENCE_READ_FAILED'' \<in> set unsaved_codes" "''STATE_PERSIST_FAILED'' \<in> set unsaved_codes"
  "''STEP_PERSIST_FAILED'' \<in> set unsaved_codes" "''FAILURE_PERSIST_FAILED'' \<in> set unsaved_codes"
  "''NODE_UUID_PERSIST_FAILED'' \<in> set unsaved_codes" "''DNS_SKIP_PERSIST_FAILED'' \<in> set unsaved_codes"
  by (simp_all add: unsaved_codes_def)

lemma refusals_known:
  "OrchErr ErrInvalidInput \<in> refusals" "OrchErr ErrDeploymentAlreadyRunning \<in> refusals"
  "OrchErr ErrDeploymentNotRunnable \<in> refusals" "OrchErr ErrDNSRetryRequired \<in> refusals"
  by (simp_all add: refusals_def)

lemma logs_ctx_go:
  "go_contexts p \<Longrightarrow> (\<And>e. e \<in> refusals \<Longrightarrow> P (Inl e) []) \<Longrightarrow> P (Inr ()) [] \<Longrightarrow> logs sys_log (ctx_check p) P"
  unfolding ctx_check_def ctx_err_def logs_def
  by (auto simp: call_def failE_def okE_def dest: go_contextsD split: prod.splits option.splits)

lemma tells_store:
  assumes "go_contexts p" and "up_Status params \<in> {StatusFailed, StatusDNSFailed}" and "up_SafeErrorCode params = Some code"
  shows "tells (do {
      r \<leftarrow> UpdateState_op p uuid params;
      bindE (ctx_check p) (\<lambda>_.
        if lost \<or> (case r of Inl e \<Rightarrow> True | Inr _ \<Rightarrow> False) then failE (SafeError ''FAILURE_PERSIST_FAILED'' m k)
        else failE (SafeError code message kind))
    })"
  unfolding tells_def UpdateState_op_def
  by (intro logs_ctx_go [OF assms(1)] log_rules)
    (use assms(2) in \<open>auto simp: unsaved_known assms(3) intro: told_refusal intro!: log_rules split: sum.splits\<close>)

lemma tells_failStage:
  assumes "go_contexts p" and "status \<in> {StatusFailed, StatusDNSFailed}"
  shows "tells (failStage p cfg uuid step status code message kind)"
  unfolding failStage_def Let_def safeError_def safeErrorOf_def RecordStep_op_def
  by (intro tells_store tells_bindE tells_ctx_check tells_bind any.io_observe any.io_if any.io_bind any.io_db_call
      any.io_return assms TrueI) (use assms in auto)

lemma tells_setState: "go_contexts p \<Longrightarrow> tells (setState p uuid status step code message)"
  unfolding setState_def Let_def UpdateState_op_def
  by (intro tells_bindE tells_ctx_check tells_bind any.io_db_call tells_or_fail tells_okE unsaved_known TrueI)

lemma tells_record_step: "go_contexts p \<Longrightarrow> tells (record_step p params)"
  unfolding record_step_def RecordStep_op_def
  by (intro tells_bindE tells_bind any.io_db_call tells_or_fail tells_okE unsaved_known TrueI)

lemma tells_beginStage: "go_contexts p \<Longrightarrow> tells (beginStage p uuid status step)"
  unfolding beginStage_def by (intro tells_bindE tells_ctx_check tells_setState tells_record_step)

lemma tells_completeStage: "go_contexts p \<Longrightarrow> tells (completeStage p uuid step summary)"
  unfolding completeStage_def by (intro tells_bindE tells_ctx_check tells_record_step)

lemma tells_reload: "go_contexts p \<Longrightarrow> tells (reload p uuid message)"
  unfolding reload_def by (intro tells_bind any.io_GetDeployment tells_or_fail unsaved_known)

lemma tells_load: "go_contexts p \<Longrightarrow> tells (load_deployment p cfg uuid)"
  unfolding load_deployment_def by (intro tells_bind any.io_deploymentForPanel tells_or_fail unsaved_known)

lemmas tells_steps = tells_okE tells_failE tells_bindE tells_ctx_check tells_or_fail tells_failStage
  tells_beginStage tells_completeStage tells_setState tells_reload tells_load tells_if tells_case_option tells_case_sum
  tells_case_prod tells_bind unsaved_known refusals_known
  any.io_emit any.io_call any.io_call_silent any.io_db_call any.io_provision_vps any.io_poll
  any.io_selectedHost any.io_checkUnique TrueI

lemma tells_prepareAndProvision: "go_contexts p \<Longrightarrow> tells (prepareAndProvision p cfg current sink)"
  unfolding prepareAndProvision_def provision_stage_def PrepareCertificate_op_def
  by (intro tells_steps) simp_all

lemma tells_createNode: "go_contexts p \<Longrightarrow> tells (createNode p cfg current host sink)"
  unfolding createNode_def assign_node_def obtain_node_def new_node_def Let_def GetNodes_op_def SetNodeUUID_op_def
  by (intro tells_steps) simp_all

lemma tells_waitForHealthyNode: "go_contexts p \<Longrightarrow> tells (waitForHealthyNode p cfg current sink)"
  unfolding waitForHealthyNode_def pollNode_def
  by (intro tells_steps) (auto split: poll_error.splits sum.splits intro!: tells_steps)

lemma tells_addDNS: "go_contexts p \<Longrightarrow> tells (addDNS p cfg current sink)"
  unfolding addDNS_def skip_dns_def publish_dns_def publish_result_def RecordStep_op_def GetNode_op_def AddIP_op_def
  by (intro tells_steps tells_unsaved) simp_all

lemma tells_with_execution:
  assumes "go_contexts p" and "tells body"
  shows "tells (with_execution p cfg uuid body)"
proof -
  have begin_: "tells (beginExecution uuid)"
    unfolding beginExecution_def
    by (intro tells_steps any.io_get anything.trace_silent anything.trace_note_event) simp_all
  have acquire_: "tells (acquire p cfg)"
    unfolding acquire_def tells_def logs_def
    using go_contextsD(2) [OF assms(1)]
    by (auto simp: call_def observe_def note_event_def okE_def failE_def intro: told_refusal split: prod.splits option.splits)
  show ?thesis
    unfolding with_execution_def
    by (intro tells_bindE begin_ acquire_ tells_then assms(2); unfold releaseSlot_def release_def)
      (intro any.io_bind any.io_return any.io_observe anything.trace_silent anything.trace_note_event |
        simp split: prod.splits)+
qed

lemma tells_Deploy:
  assumes go: "go_contexts p"
  shows "tells (Deploy p cfg input sink)"
proof -
  have final: "tells (deploy_final p cfg sink current)" for current
    unfolding deploy_final_def by (intro tells_steps tells_addDNS go)
  have wait: "tells (deploy_wait p cfg sink current)" for current
    unfolding deploy_wait_def by (intro final tells_waitForHealthyNode tells_steps go)
  have create: "tells (deploy_create p cfg sink host current)" for current host
    unfolding deploy_create_def by (intro wait tells_createNode tells_steps go)
  have stages: "tells (deploy_stages p cfg sink host current)" for current host
    unfolding deploy_stages_def by (intro create tells_prepareAndProvision tells_steps go)
  have checked: "tells (deploy_checked p cfg sink current)" for current
    unfolding deploy_checked_def by (intro stages tells_steps go) simp_all
  have loaded: "tells (deploy_loaded p cfg input sink current)" for current
    unfolding deploy_loaded_def by (intro checked tells_steps)
  show ?thesis
    unfolding Deploy_def
    by (intro tells_then tells_if tells_failE tells_with_execution tells_bindE tells_load loaded refusals_known go
        any.io_bind any.io_return any.io_observe) (simp split: prod.splits)
qed

text \<open>
  C5. Under contexts of Go, an error of \<open>Deploy\<close> is one of: the error of a context that ended, a
  request that was refused before any stage ran, an error with one of the six codes that say the row
  could not be read or written, or an error whose code this run stored in the row of the
  deployment, together with a failure status.
\<close>

theorem Deploy_errors_stored:
  assumes "go_contexts p" and "run_state (Deploy p cfg input sink) s = (Inl e, t)"
  shows "e \<in> refusals \<or>
    (\<exists>code message kind es. e = SafeError code message kind \<and> sys_log t = sys_log s @ es \<and>
       (code \<in> set unsaved_codes \<or> list_ex (stores code) es))"
proof -
  from logsD [OF tells_Deploy [OF assms(1), unfolded tells_def] assms(2)]
  obtain es where es: "sys_log t = sys_log s @ es" and "told (Inl e :: go_error + unit) es" by blast
  then show ?thesis by (cases "(Inl e :: go_error + unit, es)" rule: told.cases) auto
qed

definition hostless_ports :: "unit ports" where
  "hostless_ports = demo_ports\<lparr>p_GetHosts := \<lambda>w. (Inl RepoNotFound, w)\<rparr>"

theorem Deploy_errors_stored_witness:
  "go_contexts hostless_ports \<and>
   (\<exists>e t. run_state (Deploy hostless_ports demo_cfg demo_input False) demo_start = (Inl e, t) \<and>
     (e \<in> refusals \<or>
      (\<exists>code message kind es. e = SafeError code message kind \<and> sys_log t = sys_log demo_start @ es \<and>
         (code \<in> set unsaved_codes \<or> list_ex (stores code) es))))"
proof -
  have go: "go_contexts hostless_ports"
    by (simp add: go_contexts_def hostless_ports_def demo_ports_def)
  have "isl (result_of (Deploy hostless_ports demo_cfg demo_input False) demo_start)"
    by code_simp
  then obtain e t where run: "run_state (Deploy hostless_ports demo_cfg demo_input False) demo_start = (Inl e, t)"
    by (cases "run_state (Deploy hostless_ports demo_cfg demo_input False) demo_start")
      (auto simp: isl_def)
  show ?thesis using Deploy_errors_stored [OF go run] go run by blast
qed

end
