(* ===== verification/Deploy_Order.thy ===== *)
theory Deploy_Order
  imports Deploy_Frame
begin

text \<open>
  In which order the workflow acts.  \<open>supported\<close> says what must be the event right before an event
  with consequences; \<open>ordered\<close> says it of every event of a trace.  Any sequence of requests to the
  service, for any behaviour of the environment, keeps its log ordered.
\<close>

fun supported :: "Config \<Rightarrow> event option \<Rightarrow> event \<Rightarrow> bool" where
  "supported cfg prev (EvAddIP fqdn ip r) =
     (case prev of Some (EvGetNode uuid (Inr node)) \<Rightarrow> node_IsConnected node | _ \<Rightarrow> False)"
| "supported cfg prev (EvDbStep params r) =
     (if rp_Name params = stepAddDNS \<and> rp_Status params = StepStatusCompleted
      then (case prev of Some (EvAddIP _ _ (Inr _)) \<Rightarrow> True | _ \<Rightarrow> False)
      else if rp_Name params = stepAddDNS \<and> rp_Status params = StepStatusSkipped then cfg_DNSDisabled cfg
      else True)"
| "supported cfg prev (EvDbState uuid params r) =
     (if up_Status params = StatusCompleted
      then (case prev of
              Some (EvDbStep q (Inr _)) \<Rightarrow> rp_DeploymentID q = uuid \<and> rp_Name q = stepAddDNS \<and>
                rp_Status q \<in> {StepStatusCompleted, StepStatusSkipped}
            | _ \<Rightarrow> False)
      else True)"
| "supported cfg prev (EvCreateNode input r) =
     (case prev of
        Some (EvGetNodes (Inr nodes)) \<Rightarrow>
          list_all (\<lambda>n. \<not> same_name (cn_Name input) n \<and> \<not> same_address (cn_Address input) n) nodes
      | _ \<Rightarrow> False)"
| "supported cfg prev (EvDbNodeUUID uuid nuuid r) =
     (case prev of
        Some (EvCreateNode _ (Inr node)) \<Rightarrow> node_UUID node = nuuid
      | Some (EvGetNodes (Inr nodes)) \<Rightarrow> list_ex (\<lambda>n. node_UUID n = nuuid) nodes
      | _ \<Rightarrow> False)"
| "supported cfg prev (EvUpdateAddress _ _) = False"
| "supported cfg prev (EvUpdateProfile _ _) = False"
| "supported cfg prev (EvReplaceIP _ _ _ _) = False"
| "supported cfg prev (EvMoveIP _ _ _ _) = False"
| "supported cfg prev (EvSwitchSNI _ _) = False"
| "supported cfg prev (EvDbTargetIP _ _ _) = False"
| "supported cfg prev (EvDbBinding _ _ _) = False"
| "supported cfg prev _ = True"

fun ordered :: "Config \<Rightarrow> event option \<Rightarrow> event list \<Rightarrow> bool" where
  "ordered cfg prev [] = True"
| "ordered cfg prev (e # es) = (supported cfg prev e \<and> ordered cfg (Some e) es)"

lemma supported_any: "supported cfg None e \<Longrightarrow> supported cfg prev e"
  by (cases e) (auto split: if_splits)

lemma ordered_any: "ordered cfg None es \<Longrightarrow> ordered cfg prev es"
  by (cases es) (auto intro: supported_any)

lemma ordered_append: "ordered cfg prev es \<Longrightarrow> ordered cfg None es' \<Longrightarrow> ordered cfg prev (es @ es')"
  by (induction es arbitrary: prev) (auto intro: ordered_any)

lemma supported_bookkeeping: "bookkeeping e \<Longrightarrow> supported cfg None e"
  by (cases e) (auto split: if_splits)

lemma ordered_at: "ordered cfg prev (as @ e # bs) \<Longrightarrow> supported cfg (if as = [] then prev else Some (last as)) e"
  by (induction as arbitrary: prev) auto

lemma bookkeeping_ordered: "list_all bookkeeping es \<Longrightarrow> ordered cfg prev es"
  by (induction es arbitrary: prev) (auto intro: supported_any supported_bookkeeping)

lemma logs_grows: "logs sys_log m (\<lambda>_. C) \<longleftrightarrow> state_io_rel (grows C) m"
  by (simp add: logs_def state_io_rel_def grows_def)

section \<open>The side effects\<close>

interpretation book: workflow_trace "list_all bookkeeping"
  by unfold_locales auto

text \<open>Rules for programs that end in bookkeeping after events that have been checked.\<close>

lemma logs_book:
  assumes "state_io_rel (grows (list_all bookkeeping)) m" and "ordered cfg None as"
  shows "logs sys_log m (\<lambda>_ es. ordered cfg None (as @ es))"
  using assms(1) unfolding logs_grows [symmetric]
  by (rule logs_mono) (auto intro: ordered_append bookkeeping_ordered assms(2))

lemma publish_result_ordered:
  assumes "node_IsConnected node"
  shows "logs sys_log (publish_result p cfg current sink added)
    (\<lambda>_ es. ordered cfg None ([EvGetNode uuid (Inr node), EvAddIP fqdn ip added] @ es))"
proof (cases added)
  case (Inl e)
  then show ?thesis
    unfolding publish_result_def
    by (simp only: sum.case) (intro logs_book book.io_basic book.io_failStage; simp add: assms)
next
  case (Inr result)
  then show ?thesis
    unfolding publish_result_def completeStage_def record_step_def setState_def RecordStep_op_def
      UpdateState_op_def Let_def bindE_bindE
    by (simp only: sum.case) (intro log_rules; auto simp: assms split: sum.splits intro!: log_rules)
qed

lemma publish_ordered: "state_io_rel (grows (ordered cfg None)) (publish_dns p cfg current uuid sink)"
proof -
  have branch: "logs sys_log
      (if case r of Inl _ \<Rightarrow> True | Inr node \<Rightarrow> \<not> node_IsConnected node then m r
       else State_Monad.bind (AddIP_op p fqdn ip) (publish_result p cfg current sink))
      (\<lambda>_. ordered cfg (Some (EvGetNode uuid r)))"
    if m: "\<And>r. state_io_rel (grows (list_all bookkeeping)) (m r)" for r m fqdn ip
  proof (cases "case r of Inl _ \<Rightarrow> True | Inr node \<Rightarrow> \<not> node_IsConnected node")
    case True
    with logs_book [OF m [of r], of cfg "[EvGetNode uuid r]"] show ?thesis by simp
  next
    case False
    then obtain node where r: "r = Inr node" and up: "node_IsConnected node" by (auto split: sum.splits)
    show ?thesis
      unfolding AddIP_op_def r using up
      by (auto intro!: logs_bind logs_call logs_mono [OF publish_result_ordered [OF up]])
  qed
  show ?thesis
    unfolding logs_grows [symmetric] publish_dns_def GetNode_op_def
    by (intro logs_bind logs_call logs_bindE logs_ctx_check)
      (simp_all split del: if_split, intro branch book.io_failStage, simp)
qed

lemma ordered_snoc:
  "ordered cfg None as \<Longrightarrow> as \<noteq> [] \<Longrightarrow> supported cfg (Some (last as)) e \<Longrightarrow> ordered cfg None (as @ [e])"
proof -
  have "ordered cfg prev as \<Longrightarrow> as \<noteq> [] \<Longrightarrow> supported cfg (Some (last as)) e \<Longrightarrow> ordered cfg prev (as @ [e])" for prev
    by (induction as arbitrary: prev) (auto split: if_splits)
  then show "ordered cfg None as \<Longrightarrow> as \<noteq> [] \<Longrightarrow> supported cfg (Some (last as)) e \<Longrightarrow> ordered cfg None (as @ [e])" .
qed

lemma skip_ordered:
  assumes "cfg_DNSDisabled cfg"
  shows "state_io_rel (grows (ordered cfg None)) (skip_dns p current sink)"
  unfolding logs_grows [symmetric] skip_dns_def RecordStep_op_def setState_def UpdateState_op_def Let_def bindE_bindE
  by (intro log_rules; auto simp: assms split: sum.splits intro!: log_rules)

lemma recover_from_in: "recover_from name address found nodes = Inr (Some node) \<Longrightarrow> found = Some node \<or> node \<in> set nodes"
  by (induction name address found nodes rule: recover_from.induct) (auto split: if_splits)

lemma recover_from_none:
  "recover_from name address found nodes = Inr None \<Longrightarrow>
     found = None \<and> list_all (\<lambda>n. \<not> same_name name n \<and> \<not> same_address address n) nodes"
  by (induction name address found nodes rule: recover_from.induct) (auto split: if_splits)

text \<open>Storing the identifier of a Node, right after the event that shows where it came from.\<close>

lemma store_ordered:
  assumes "ordered cfg None as" and "\<And>r. supported cfg (Some (last as)) (EvDbNodeUUID uuid (node_UUID node) r)"
    and "as \<noteq> []"
  shows "logs sys_log (State_Monad.bind (SetNodeUUID_op p uuid (node_UUID node)) (\<lambda>r. bindE (or_fail p k r) (\<lambda>_. okE ())))
    (\<lambda>_ es. ordered cfg None (as @ es))"
proof -
  have "ordered cfg None (as @ [EvDbNodeUUID uuid (node_UUID node) r])" for r
    using assms ordered_snoc by blast
  then show ?thesis
    unfolding SetNodeUUID_op_def
    by (intro log_rules) (auto split: sum.splits intro!: log_rules)
qed

lemma failStage_fails: "bindE (failStage p cfg uuid step status code message kind) f = failStage p cfg uuid step status code message kind"
  unfolding failStage_def Let_def bindE_bind bindE_bindE
  by (simp add: bindE_failE if_distrib [of "\<lambda>m. bindE m f"] cong: if_cong)

lemma new_node_ordered:
  assumes "list_all (\<lambda>n. \<not> same_name (dep_NodeName current) n \<and> \<not> same_address (dep_TargetVPSIP current) n) nodes"
  shows "logs sys_log (bindE (new_node p cfg current host) (\<lambda>node.
      State_Monad.bind (SetNodeUUID_op p (dep_ID current) (node_UUID node)) (\<lambda>r. bindE (or_fail p k r) (\<lambda>_. okE ()))))
    (\<lambda>_. ordered cfg (Some (EvGetNodes (Inr nodes))))"
proof -
  define input where "input = \<lparr>cn_Name = dep_NodeName current, cn_Address = dep_TargetVPSIP current, cn_Host = host\<rparr>"
  have prefix: "ordered cfg None [EvGetNodes (Inr nodes), EvCreateNode input r]" for r
    using assms by (simp add: input_def)
  have rest: "logs sys_log
      (bindE (case r of Inl _ \<Rightarrow> failStage p cfg uuid step StatusFailed code message kind | Inr node \<Rightarrow> okE node)
        (\<lambda>node. State_Monad.bind (SetNodeUUID_op p (dep_ID current) (node_UUID node)) (\<lambda>r. bindE (or_fail p k r) (\<lambda>_. okE ()))))
      (\<lambda>_. ordered cfg (Some (EvCreateNode input r)))" for r uuid step code message kind
  proof (cases r)
    case (Inl e)
    show ?thesis
      unfolding Inl sum.case failStage_fails
      by (rule logs_mono [OF logs_book [OF book.io_failStage prefix [of "Inl e"]]]) simp_all
  next
    case (Inr node)
    show ?thesis
      unfolding Inr sum.case bindE_okE
      by (rule logs_mono [OF store_ordered [OF prefix [of "Inr node"]]]) simp_all
  qed
  show ?thesis
    unfolding new_node_def Let_def input_def [symmetric] bindE_bind bindE_bindE
    by (intro logs_bind logs_call logs_bindE logs_ctx_check) (use prefix in \<open>simp_all add: rest\<close>)
qed

lemma assign_ordered: "state_io_rel (grows (ordered cfg None)) (assign_node p cfg current host)"
proof -
  let ?store = "\<lambda>k node. State_Monad.bind (SetNodeUUID_op p (dep_ID current) (node_UUID node)) (\<lambda>r. bindE (or_fail p k r) (\<lambda>_. okE ()))"
  have failed: "logs sys_log (failStage p cfg uuid step StatusFailed code message kind) (\<lambda>_. ordered cfg (Some (EvGetNodes r)))"
    for uuid step code message kind r
    by (rule logs_mono [OF logs_book [OF book.io_failStage, where as = "[EvGetNodes r]"]]) simp_all
  have listed: "logs sys_log (?store k node) (\<lambda>_. ordered cfg (Some (EvGetNodes (Inr nodes))))"
    if "node \<in> set nodes" for k node nodes
    by (rule logs_mono [OF store_ordered [where as = "[EvGetNodes (Inr nodes)]"]]) (use that in \<open>auto simp: list_ex_iff\<close>)
  have rest: "logs sys_log (bindE (case r of
        Inl _ \<Rightarrow> failStage p cfg uuid step StatusFailed code message kind
      | Inr nodes \<Rightarrow>
          (case recoverableNode nodes (dep_NodeName current) (dep_TargetVPSIP current) of
             Inl duplicateErr \<Rightarrow> failStage p cfg uuid step StatusFailed code' message' duplicateErr
           | Inr (Some node) \<Rightarrow> okE node
           | Inr None \<Rightarrow> new_node p cfg current host)) (?store k))
      (\<lambda>_. ordered cfg (Some (EvGetNodes r)))" for r uuid step code message kind code' message' k
  proof (cases r)
    case (Inr nodes)
    show ?thesis
    proof (cases "recoverableNode nodes (dep_NodeName current) (dep_TargetVPSIP current)")
      case (Inr found)
      with \<open>r = Inr nodes\<close> show ?thesis
        by (cases found) (auto simp: recoverableNode_def bindE_okE
            dest!: recover_from_none recover_from_in intro!: new_node_ordered listed)
    qed (simp add: \<open>r = Inr nodes\<close> failStage_fails failed)
  qed (simp add: failStage_fails failed)
  show ?thesis
    unfolding logs_grows [symmetric] assign_node_def obtain_node_def GetNodes_op_def bindE_bind bindE_bindE
    by (intro logs_bind logs_call logs_bindE logs_ctx_check) (simp_all add: rest)
qed

interpretation order: workflow_trace "ordered cfg None"
  by unfold_locales (simp_all add: ordered_append supported_bookkeeping)

interpretation flow: workflow_effects "grows (ordered cfg None)" "\<lambda>e. ordered cfg None [e]" "\<lambda>db db'. True" p cfg
  by unfold_locales (simp_all add: assign_ordered publish_ordered skip_ordered)


section \<open>The service\<close>

text \<open>
  The requests of the deployment workflow, and the service that handles them one after the other.  The
  other methods of the service join them in \<^verbatim>\<open>Service\<close>.
\<close>

datatype request =
    PrepareRequest PrepareInput
  | DeployRequest StartInput bool
  | RetryDNSRequest string bool
  | RetryFailedStepRequest string bool
  | CancelRequest string
  | SafeLogsRequest string

definition ignore :: "('w, 'a) op \<Rightarrow> ('w sys, unit) state" where
  "ignore m = State_Monad.bind m (\<lambda>_. State_Monad.return ())"

fun serve :: "'w ports \<Rightarrow> Config \<Rightarrow> request \<Rightarrow> ('w sys, unit) state" where
  "serve p cfg (PrepareRequest input) = ignore (Prepare p cfg input)"
| "serve p cfg (DeployRequest input sink) = ignore (Deploy p cfg input sink)"
| "serve p cfg (RetryDNSRequest uuid sink) = ignore (RetryDNS p cfg uuid sink)"
| "serve p cfg (RetryFailedStepRequest uuid sink) = ignore (RetryFailedStep p cfg uuid sink)"
| "serve p cfg (CancelRequest uuid) = ignore (Cancel p cfg uuid)"
| "serve p cfg (SafeLogsRequest uuid) = ignore (SafeLogs p cfg uuid)"

fun serve_all :: "'w ports \<Rightarrow> Config \<Rightarrow> request list \<Rightarrow> ('w sys, unit) state" where
  "serve_all p cfg [] = State_Monad.return ()"
| "serve_all p cfg (q # qs) = State_Monad.bind (serve p cfg q) (\<lambda>_. serve_all p cfg qs)"

definition started :: "'w \<Rightarrow> database \<Rightarrow> 'w sys" where
  "started w db = \<lparr>sys_world = w, sys_db = db, sys_running = {}, sys_slots = 0, sys_log = []\<rparr>"

context workflow_effects
begin

lemma io_ignore: "state_io_rel R m \<Longrightarrow> state_io_rel R (ignore m)"
  unfolding ignore_def by (intro io_basic)

lemma io_serve: "state_io_rel R (serve p cfg q)"
  by (cases q) (simp_all add: io_ignore io_service)

lemma io_serve_all: "state_io_rel R (serve_all p cfg qs)"
  by (induction qs) (auto intro!: io_basic io_serve)

lemma serve_all_rel: "R s (exec_state (serve_all p cfg qs) s)"
  using io_serve_all by (rule io_exec)

end

text \<open>Every event of a trace is right for the event before it.\<close>

fun chained :: "('e option \<Rightarrow> 'e \<Rightarrow> bool) \<Rightarrow> 'e option \<Rightarrow> 'e list \<Rightarrow> bool" where
  "chained ok prev [] = True"
| "chained ok prev (e # es) = (ok prev e \<and> chained ok (Some e) es)"

lemma chained_mono: "chained ok prev es \<Longrightarrow> (\<And>prev e. ok prev e \<Longrightarrow> ok' prev e) \<Longrightarrow> chained ok' prev es"
  by (induction es arbitrary: prev) auto

lemma ordered_chained: "ordered cfg prev es \<longleftrightarrow> chained (supported cfg) prev es"
  by (induction es arbitrary: prev) auto

lemma service_chained:
  assumes "\<And>prev e. supported cfg prev e \<Longrightarrow> ok prev e"
  shows "chained ok None (sys_log (exec_state (serve_all p cfg qs) (started w db)))"
proof -
  have "ordered cfg None (sys_log (exec_state (serve_all p cfg qs) (started w db)))"
    using flow.serve_all_rel [of cfg "started w db" p qs] by (auto simp: grows_def started_def)
  then show ?thesis unfolding ordered_chained by (rule chained_mono) (rule assms)
qed

section \<open>Properties\<close>

fun node_creation :: "event option \<Rightarrow> event \<Rightarrow> bool" where
  "node_creation prev (EvCreateNode input r) =
     (case prev of
        Some (EvGetNodes (Inr nodes)) \<Rightarrow>
          list_all (\<lambda>n. \<not> same_name (cn_Name input) n \<and> \<not> same_address (cn_Address input) n) nodes
      | _ \<Rightarrow> False)"
| "node_creation prev (EvDbNodeUUID uuid nuuid r) =
     (case prev of
        Some (EvCreateNode _ (Inr node)) \<Rightarrow> node_UUID node = nuuid
      | Some (EvGetNodes (Inr nodes)) \<Rightarrow> list_ex (\<lambda>n. node_UUID n = nuuid) nodes
      | _ \<Rightarrow> False)"
| "node_creation prev _ = True"

text \<open>
  C3. The deployment workflow creates a Node only directly after it listed the Nodes and saw none with the
  same name or address, and the identifier it stores in the deployment is the one of the Node the
  panel has just created, or of a Node it has just listed.
\<close>

theorem node_created_once:
  "chained node_creation None (sys_log (exec_state (serve_all p cfg qs) (started w db)))"
proof (rule service_chained)
  show "node_creation prev e" if "supported cfg prev e" for prev e
    using that by (cases e) auto
qed

end
