(* ===== verification/Deploy_Limits.thy ===== *)
theory Deploy_Limits
  imports Deploy_Order Deploy_Demo
begin

text \<open>
  Resources of the deployment service: the polling loop stays within its timeout, the relations of
  the execution slots and of the well-formed database are instances of the frame (\<^verbatim>\<open>Service\<close> applies
  them to all its requests), and a DNS retry touches nothing but DNS and the deployment's rows.
\<close>

section \<open>Polling\<close>

fun waited :: "event list \<Rightarrow> int list" where
  "waited [] = []"
| "waited (EvPollWait backoff # es) = backoff # waited es"
| "waited (_ # es) = waited es"

fun polled :: "event list \<Rightarrow> nat" where
  "polled [] = 0"
| "polled (EvGetNode uuid r # es) = Suc (polled es)"
| "polled (_ # es) = polled es"

lemma waited_append: "waited (es @ es') = waited es @ waited es'"
  by (induction es rule: waited.induct) simp_all

lemma polled_append: "polled (es @ es') = polled es + polled es'"
  by (induction es rule: polled.induct) simp_all

lemma next_backoff_bounds:
  assumes "0 < b" and "b \<le> cfg_MaxPollBackoff cfg"
  shows "b \<le> next_backoff cfg b \<and> next_backoff cfg b \<le> cfg_MaxPollBackoff cfg"
  using assms by (auto simp: next_backoff_def)

definition poll_bound :: "Config \<Rightarrow> int \<Rightarrow> int \<Rightarrow> event list \<Rightarrow> bool" where
  "poll_bound cfg elapsed backoff es \<longleftrightarrow>
     polled es \<le> Suc (length (waited es)) \<and>
     (\<forall>b \<in> set (waited es). backoff \<le> b \<and> b \<le> cfg_MaxPollBackoff cfg) \<and>
     (waited es \<noteq> [] \<longrightarrow> sum_list (waited es) \<le> cfg_NodeConnectTimeout cfg - elapsed)"

lemma poll_bound_stop:
  "polled es \<le> 1 \<Longrightarrow> waited es = [] \<Longrightarrow> poll_bound cfg elapsed backoff es"
  by (simp add: poll_bound_def)

lemma poll_bound_wait:
  assumes "polled es \<le> 1" "waited es = []" "polled es' = 0" "waited es' = []"
    and "elapsed + backoff \<le> cfg_NodeConnectTimeout cfg" "backoff \<le> cfg_MaxPollBackoff cfg"
  shows "poll_bound cfg elapsed backoff (es @ [EvPollWait backoff] @ es')"
  using assms by (simp add: poll_bound_def waited_append polled_append)

lemma poll_bound_step:
  assumes "polled es \<le> 1" "waited es = []" "poll_bound cfg fires later es'"
    and "elapsed + backoff \<le> fires" "fires \<le> cfg_NodeConnectTimeout cfg"
    and "backoff \<le> later" "backoff \<le> cfg_MaxPollBackoff cfg"
  shows "poll_bound cfg elapsed backoff (es @ [EvPollWait backoff] @ es')"
  using assms by (fastforce simp: poll_bound_def waited_append polled_append)

lemma logs_poll_answer: "logs sys_log (poll_answer sink r) (\<lambda>_ es. polled es = 0 \<and> waited es = [])"
  unfolding poll_answer_def by (intro log_rules) simp_all

lemma logs_poll_done: "logs sys_log (poll_done p) (\<lambda>_ es. polled es = 0 \<and> waited es = [])"
  unfolding poll_done_def ctx_err_def by (intro log_rules) simp_all

lemma logs_poll:
  assumes "0 < backoff" and "backoff \<le> cfg_MaxPollBackoff cfg"
  shows "logs sys_log (poll p cfg uuid sink elapsed backoff) (\<lambda>_. poll_bound cfg elapsed backoff)"
  using assms
proof (induction p cfg uuid sink elapsed backoff rule: poll.induct)
  case (1 p cfg uuid sink elapsed backoff)
  note grow = next_backoff_bounds [OF "1.prems"]
  define later where "later = next_backoff cfg backoff"
  have rest: "logs sys_log
      (let fires = elapsed + int took + max 1 backoff in
         if cfg_NodeConnectTimeout cfg < fires then poll_done p
         else do {
           ended \<leftarrow> call (p_poll_wait p backoff) (\<lambda>_. [EvPollWait backoff]);
           if ended then poll_done p else poll p cfg uuid sink fires later
         })
      (\<lambda>_ es'. poll_bound cfg elapsed backoff (es @ es'))"
    if es: "polled es \<le> 1" "waited es = []" for took es
  proof (intro logs_let logs_if logs_bind logs_call, goal_cases)
    case (1 fires)
    show ?case by (rule logs_mono [OF logs_poll_done]) (use es in \<open>auto simp: polled_append waited_append intro: poll_bound_stop\<close>)
  next
    case (2 fires)
    show ?case
      by (rule logs_mono [OF logs_poll_done], rule poll_bound_wait) (use es 2 "1.prems" in auto)
  next
    case (3 fires ended)
    have "logs sys_log (poll p cfg uuid sink fires later) (\<lambda>_. poll_bound cfg fires later)"
      using "1.IH" 3 grow "1.prems" by (auto simp: later_def)
    then show ?case
      by (rule logs_mono, intro poll_bound_step) (use es 3 "1.prems" grow in \<open>auto simp: later_def\<close>)
  qed
  have stop: "poll_bound cfg elapsed backoff ([EvGetNode uuid r] @ es)" if "polled es = 0 \<and> waited es = []" for r es
    using that by (intro poll_bound_stop) (auto simp: polled_append waited_append)
  show ?case
  proof (subst poll.simps, intro logs_bind logs_call, clarify, intro logs_bind, rule logs_mono [OF logs_poll_answer], goal_cases)
    case (1 a b answer es)
    then show ?case
      using rest [of "[EvGetNode uuid a] @ es" b] stop [of es a]
      unfolding later_def by (auto split: option.splits intro!: logs_return)
  qed
qed


lemma waited_sum: "\<forall>b \<in> set bs. lo \<le> b \<Longrightarrow> int (length bs) * lo \<le> sum_list bs" for bs :: "int list"
  by (induction bs) (auto simp: algebra_simps)

text \<open>
  C6. Waiting for a Node ends.  With the backoffs of an accepted configuration, one call of
  \<open>pollNode\<close> waits no longer than the connection timeout in total, each wait lies between the
  initial and the maximal backoff, and the panel is asked at most once more than the number of waits
  of the initial backoff that fit into the timeout.
\<close>

theorem pollNode_bounded:
  assumes "NewDeploymentService given = Some cfg" and "run_state (pollNode p cfg uuid sink) s = (r, t)"
  shows "\<exists>es. sys_log t = sys_log s @ es \<and>
    (\<forall>b \<in> set (waited es). cfg_InitialPollBackoff cfg \<le> b \<and> b \<le> cfg_MaxPollBackoff cfg) \<and>
    sum_list (waited es) \<le> cfg_NodeConnectTimeout cfg \<and>
    int (polled es) \<le> 1 + cfg_NodeConnectTimeout cfg div cfg_InitialPollBackoff cfg"
proof -
  have cfg: "0 < cfg_InitialPollBackoff cfg" "cfg_InitialPollBackoff cfg \<le> cfg_MaxPollBackoff cfg"
    "0 < cfg_NodeConnectTimeout cfg"
    using assms(1) by (auto simp: NewDeploymentService_def Let_def split: if_splits)
  from logsD [OF logs_poll [OF cfg(1,2)] assms(2) [unfolded pollNode_def]]
  obtain es where es: "sys_log t = sys_log s @ es" and bound: "poll_bound cfg 0 (cfg_InitialPollBackoff cfg) es"
    by blast
  have total: "sum_list (waited es) \<le> cfg_NodeConnectTimeout cfg"
    using bound cfg(3) by (cases "waited es") (auto simp: poll_bound_def)
  have "int (length (waited es)) * cfg_InitialPollBackoff cfg \<le> sum_list (waited es)"
    by (rule waited_sum) (use bound in \<open>auto simp: poll_bound_def\<close>)
  with total have "int (length (waited es)) \<le> cfg_NodeConnectTimeout cfg div cfg_InitialPollBackoff cfg"
    using cfg(1) by (metis le_div_geq order_trans zdiv_mono1 nonzero_mult_div_cancel_right less_irrefl)
  then show ?thesis using es bound total by (auto simp: poll_bound_def)
qed

theorem pollNode_bounded_witness:
  "NewDeploymentService demo_cfg = Some demo_cfg \<and>
   (\<exists>r t es. run_state (pollNode demo_ports demo_cfg ''n'' False) demo_start = (r, t) \<and>
      sys_log t = sys_log demo_start @ es \<and> sum_list (waited es) \<le> 3 \<and> int (polled es) \<le> 4)"
proof -
  have cfg: "NewDeploymentService demo_cfg = Some demo_cfg" by code_simp
  obtain r t where run: "run_state (pollNode demo_ports demo_cfg ''n'' False) demo_start = (r, t)" by fastforce
  show ?thesis using pollNode_bounded [OF cfg run] cfg run by (auto simp: demo_cfg_def)
qed

section \<open>Execution slots\<close>

definition same_slots :: "'w sys \<Rightarrow> 'w sys \<Rightarrow> bool" where
  "same_slots s t \<longleftrightarrow> sys_running t = sys_running s \<and> sys_slots t = sys_slots s"

interpretation slots: workflow_all same_slots "\<lambda>e. True" "\<lambda>db db'. True" p
  by unfold_locales (auto simp: same_slots_def)

section \<open>The database\<close>

definition others_keep :: "'w ports \<Rightarrow> bool" where
  "others_keep p \<longleftrightarrow> (\<forall>w db. db_wf db \<longrightarrow> db_wf (p_others p w db))"

definition keeps_wf :: "'w ports \<Rightarrow> database \<Rightarrow> database \<Rightarrow> bool" where
  "keeps_wf p db db' \<longleftrightarrow> (others_keep p \<longrightarrow> db_wf db \<longrightarrow> db_wf db')"

interpretation rows: workflow_all "\<lambda>s t. keeps_wf p (sys_db s) (sys_db t)" "\<lambda>e. True" "keeps_wf p" p
  by unfold_locales (auto simp: keeps_wf_def others_keep_def intro: repository_wf)

section \<open>Retrying DNS\<close>

fun dns_retry_event :: "event \<Rightarrow> bool" where
  "dns_retry_event (EvAddIP _ _ _) = True"
| "dns_retry_event (EvDbState _ _ _) = True"
| "dns_retry_event (EvDbStep _ _) = True"
| "dns_retry_event e = bookkeeping e"

interpretation retry: workflow_trace "list_all dns_retry_event"
proof unfold_locales
  show "list_all dns_retry_event [e]" if "bookkeeping e" for e using that by (cases e) auto
qed auto

text \<open>
  \<open>RetryDNS\<close> does nothing but the DNS step: it creates or changes no Node, connects to no VPS,
  and stores no Node identifier or address.
\<close>

theorem RetryDNS_only_dns:
  "\<exists>es. sys_log (exec_state (RetryDNS p cfg uuid sink) s) = sys_log s @ es \<and> list_all dns_retry_event es"
proof -
  have state: "state_io_rel (grows (list_all dns_retry_event)) (setState p uuid status step code message)"
    for uuid status step code message
    unfolding setState_def UpdateState_op_def by (intro retry.io_basic retry.io_db_call) simp_all
  have step: "state_io_rel (grows (list_all dns_retry_event)) (RecordStep_op p params)" for params
    unfolding RecordStep_op_def by (intro retry.io_db_call) simp_all
  have publish: "state_io_rel (grows (list_all dns_retry_event)) (publish_dns p cfg current uuid sink)" for current uuid
    unfolding publish_dns_def publish_result_def completeStage_def record_step_def GetNode_op_def AddIP_op_def
    by (intro retry.io_basic retry.io_call retry.io_failStage state step) simp_all
  have skip: "state_io_rel (grows (list_all dns_retry_event)) (skip_dns p current sink)" for current
    unfolding skip_dns_def by (intro retry.io_basic state step)
  show ?thesis
    using retry.io_exec [OF retry.io_RetryDNS [OF publish skip]] by (simp add: grows_def)
qed

end
