(* ===== verification/Node_Frame.thy ===== *)
theory Node_Frame
  imports Deploy_Frame
begin

text \<open>
  Operations on a Node seen from outside: a client picks the events that change something outside the
  service (locale \<open>outward\<close>) and states what a run shows of them.  Steps that show nothing are
  skipped by the rules.
\<close>

definition shows_out :: "(event \<Rightarrow> bool) \<Rightarrow> ('w sys, 'a) state \<Rightarrow> ('a \<Rightarrow> event list \<Rightarrow> bool) \<Rightarrow> bool" where
  "shows_out out m P \<longleftrightarrow> logs sys_log m (\<lambda>r es. P r (filter out es))"

named_theorems shows_rules \<open>introduction rules for \<open>shows_out\<close>\<close>

lemma shows_return [shows_rules]: "P a [] \<Longrightarrow> shows_out out (State_Monad.return a) P"
  by (simp add: shows_out_def logs_return)

lemma shows_okE [shows_rules]: "P (Inr a) [] \<Longrightarrow> shows_out out (okE a) P"
  by (simp add: shows_out_def logs_okE)

lemma shows_failE [shows_rules]: "P (Inl e) [] \<Longrightarrow> shows_out out (failE e) P"
  by (simp add: shows_out_def logs_failE)

lemma shows_if [shows_rules]:
  "(b \<Longrightarrow> shows_out out m P) \<Longrightarrow> (\<not> b \<Longrightarrow> shows_out out n P) \<Longrightarrow> shows_out out (if b then m else n) P"
  by simp

lemma shows_case_option [shows_rules]:
  "(x = None \<Longrightarrow> shows_out out m P) \<Longrightarrow> (\<And>y. x = Some y \<Longrightarrow> shows_out out (n y) P) \<Longrightarrow>
     shows_out out (case x of None \<Rightarrow> m | Some y \<Rightarrow> n y) P"
  by (cases x) simp_all

lemma shows_case_sum [shows_rules]:
  "(\<And>e. x = Inl e \<Longrightarrow> shows_out out (m e) P) \<Longrightarrow> (\<And>y. x = Inr y \<Longrightarrow> shows_out out (n y) P) \<Longrightarrow>
     shows_out out (case x of Inl e \<Rightarrow> m e | Inr y \<Rightarrow> n y) P"
  by (cases x) simp_all

lemma shows_case_prod [shows_rules]:
  "(\<And>a b. x = (a, b) \<Longrightarrow> shows_out out (m a b) P) \<Longrightarrow> shows_out out (case x of (a, b) \<Rightarrow> m a b) P"
  by (cases x) simp_all

lemma shows_case_list [shows_rules]:
  "(x = [] \<Longrightarrow> shows_out out m P) \<Longrightarrow> (\<And>y ys. x = y # ys \<Longrightarrow> shows_out out (n y ys) P) \<Longrightarrow>
     shows_out out (case x of [] \<Rightarrow> m | y # ys \<Rightarrow> n y ys) P"
  by (cases x) simp_all

lemma logs_case_list:
  "(x = [] \<Longrightarrow> logs log m P) \<Longrightarrow> (\<And>y ys. x = y # ys \<Longrightarrow> logs log (n y ys) P) \<Longrightarrow>
     logs log (case x of [] \<Rightarrow> m | y # ys \<Rightarrow> n y ys) P"
  by (cases x) simp_all

lemma io_case_list:
  "(x = [] \<Longrightarrow> state_io_rel R m) \<Longrightarrow> (\<And>y ys. x = y # ys \<Longrightarrow> state_io_rel R (n y ys)) \<Longrightarrow>
     state_io_rel R (case x of [] \<Rightarrow> m | y # ys \<Rightarrow> n y ys)"
  by (cases x) simp_all

lemma shows_let [shows_rules]: "(\<And>x. x = a \<Longrightarrow> shows_out out (m x) P) \<Longrightarrow> shows_out out (let x = a in m x) P"
  by simp

lemma shows_mono: "shows_out out m P \<Longrightarrow> (\<And>r es. P r es \<Longrightarrow> Q r es) \<Longrightarrow> shows_out out m Q"
  unfolding shows_out_def by (rule logs_mono)

lemma shows_call: "(\<And>a. P a (filter out (ev a))) \<Longrightarrow> shows_out out (call port ev) P"
  unfolding shows_out_def by (intro logs_call)

lemma shows_db_call: "(\<And>r. P r (filter out [ev r])) \<Longrightarrow> shows_out out (db_call p f ev) P"
  unfolding shows_out_def by (intro logs_db_call)

lemma shows_bind:
  assumes "shows_out out m (\<lambda>a es. shows_out out (f a) (\<lambda>r es'. P r (es @ es')))"
  shows "shows_out out (State_Monad.bind m f) P"
  using assms unfolding shows_out_def by (intro logs_bind) simp

lemma shows_bindE:
  assumes "shows_out out m (\<lambda>x es. case x of Inl e \<Rightarrow> P (Inl e) es
      | Inr a \<Rightarrow> shows_out out (f a) (\<lambda>r es'. P r (es @ es')))"
  shows "shows_out out (bindE m f) P"
  using assms unfolding shows_out_def by (intro logs_bindE) (simp cong: sum.case_cong)

locale outward =
  fixes out :: "event \<Rightarrow> bool"
  assumes out_bookkeeping: "bookkeeping e \<Longrightarrow> \<not> out e"

sublocale outward \<subseteq> workflow_trace "\<lambda>es. filter out es = []"
  by unfold_locales (simp_all add: out_bookkeeping)

context outward
begin

abbreviation hidden :: "('w sys, 'a) state \<Rightarrow> bool" where
  "hidden m \<equiv> state_io_rel (grows (\<lambda>es. filter out es = [])) m"

lemma hidden_logs: "hidden m \<Longrightarrow> logs sys_log m (\<lambda>_ es. filter out es = [])"
  by (simp add: logs_def state_io_rel_def grows_def)

lemma shows_hidden: "hidden m \<Longrightarrow> (\<And>r. P r []) \<Longrightarrow> shows_out out m P"
  unfolding shows_out_def by (rule logs_mono [OF hidden_logs]) auto

lemma shows_hidden_bind: "hidden m \<Longrightarrow> (\<And>a. shows_out out (f a) P) \<Longrightarrow> shows_out out (State_Monad.bind m f) P"
  by (rule shows_bind, rule shows_hidden, assumption) simp

lemma shows_hidden_bindE:
  "hidden m \<Longrightarrow> (\<And>e. P (Inl e) []) \<Longrightarrow> (\<And>a. shows_out out (f a) P) \<Longrightarrow> shows_out out (bindE m f) P"
  by (rule shows_bindE, rule shows_hidden, assumption) (auto split: sum.split)

lemma shows_then:
  assumes "shows_out out m P" and "\<And>r. hidden (f r)" and "\<And>r s. result_of (f r) s = r"
  shows "shows_out out (State_Monad.bind m f) P"
proof (intro shows_bind shows_mono [OF assms(1)])
  fix r es
  assume "P r es"
  have "logs sys_log (f r) (\<lambda>r' es. r' = r \<and> filter out es = [])"
    using assms(2) [of r] assms(3) [of r] by (auto simp: state_io_rel_def grows_def logs_def)
  then show "shows_out out (f r) (\<lambda>r es'. P r (es @ es'))"
    unfolding shows_out_def by (rule logs_mono) (use \<open>P r es\<close> in auto)
qed

lemma shows_with_execution:
  fixes body :: "('w, 'a) op"
  assumes "shows_out out body P" and "\<And>e. P (Inl e) []"
  shows "shows_out out (with_execution p cfg uuid body) P"
proof -
  have slot: "hidden (do { releaseSlot cfg; State_Monad.return r })" for r :: "go_error + 'a"
    unfolding releaseSlot_def
    by (intro io_bind io_return trace_silent io_note_event io_observe ok_bookkeeping) simp_all
  have mark: "hidden (do { release uuid; State_Monad.return r })" for r :: "go_error + 'a"
    unfolding release_def by (intro io_bind io_return trace_silent io_note_event ok_bookkeeping) simp_all
  have begin_: "hidden (beginExecution uuid)" and acquire_: "hidden (acquire p cfg)"
    unfolding beginExecution_def acquire_def
    by (intro io_rules trace_silent io_note_event io_observe io_call_silent ok_bookkeeping; simp)+
  show ?thesis
    unfolding with_execution_def
    by (intro shows_hidden_bindE begin_ acquire_ shows_then assms slot mark) (simp_all split: prod.splits)
qed

end

end
