(* ===== verification/Node_Address.thy ===== *)
theory Node_Address
  imports Node_Frame
begin

text \<open>
  Changing the address of a Node (\<^verbatim>\<open>internal/orchestrator/ip_change.go\<close>): the search of a Node, the
  preview, and the change with its rollback.
\<close>

section \<open>Data\<close>

record NodeIPTarget =
  nt_UUID :: string
  nt_Name :: string
  nt_Address :: addr
  nt_Connected :: bool
  nt_DNSZones :: "string list"
  nt_Managed :: bool

record NodeIPChangeInput =
  nc_NodeUUID :: string
  nc_ExpectedIP :: addr
  nc_NewIP :: addr

section \<open>Finding a Node\<close>

text \<open>The loop of \<^verbatim>\<open>FindNodeForIPChange\<close> and \<^verbatim>\<open>findExactNode\<close>: a query that is an address is compared with addresses only.\<close>

definition matches_query :: "string \<Rightarrow> Node \<Rightarrow> bool" where
  "matches_query query node =
     (case ParseAddr query of
        None \<Rightarrow> EqualFold (TrimSpace (node_Name node)) query
      | Some queryIP \<Rightarrow>
          (case ParseAddr (TrimSpace (node_Address node)) of
             None \<Rightarrow> False
           | Some address \<Rightarrow> Unmap address = Unmap queryIP))"

definition findExactNode :: "'w ports \<Rightarrow> string \<Rightarrow> ('w, Node \<times> addr) op" where
  "findExactNode p query =
     (let query = TrimSpace query in
      if query = [] then failE (OrchErr ErrInvalidInput)
      else do {
        r \<leftarrow> GetNodes_op p;
        case r of
          Inl _ \<Rightarrow> failE (OrchErr ErrNodeIPChangeFailed)
        | Inr nodes \<Rightarrow>
            (case filter (matches_query query) nodes of
               [] \<Rightarrow> failE (OrchErr ErrNodeNotFound)
             | node # rest \<Rightarrow>
                 if rest \<noteq> [] then failE (OrchErr ErrAmbiguousNode)
                 else
                   (case ParseAddr (TrimSpace (node_Address node)) of
                      None \<Rightarrow> failE (OrchErr ErrNodeIPChangeFailed)
                    | Some address \<Rightarrow>
                        if \<not> publicIP address then failE (OrchErr ErrNodeIPChangeFailed)
                        else okE (node, Unmap address)))
      })"

text \<open>The deployment that manages a Node, if there is one; another error ends the operation.\<close>

definition find_managed :: "'w ports \<Rightarrow> Config \<Rightarrow> string \<Rightarrow> ('w, Deployment option) op" where
  "find_managed p cfg uuid = do {
     r \<leftarrow> FindNode_op p (cfg_PanelID cfg) uuid;
     case r of
       Inr managed \<Rightarrow> okE (Some managed)
     | Inl e \<Rightarrow> if errors_Is e RepoNotFound then okE None else failE (OrchErr ErrPersistenceFailed)
   }"

text \<open>The zones of an address; none are asked for where DNS is disabled.\<close>

definition zones_of :: "'w ports \<Rightarrow> Config \<Rightarrow> addr \<Rightarrow> ('w, ZoneMatch list) op" where
  "zones_of p cfg address =
     (if cfg_DNSDisabled cfg then okE []
      else do {
        r \<leftarrow> FindZonesByIP_op p address;
        case r of Inl _ \<Rightarrow> failE (OrchErr ErrDNSUpdateFailed) | Inr zones \<Rightarrow> okE zones
      })"

definition sort_Strings :: "string list \<Rightarrow> string list" where
  "sort_Strings xs = sort_by string_less xs"

definition FindNodeForIPChange :: "'w ports \<Rightarrow> Config \<Rightarrow> string \<Rightarrow> ('w, NodeIPTarget) op" where
  "FindNodeForIPChange p cfg query =
     bindE (findExactNode p query) (\<lambda>(node, address).
     bindE (zones_of p cfg address) (\<lambda>zones.
     bindE (find_managed p cfg (node_UUID node)) (\<lambda>managed.
     okE \<lparr>nt_UUID = node_UUID node, nt_Name = node_Name node, nt_Address = address,
          nt_Connected = node_IsConnected node, nt_DNSZones = sort_Strings (map zm_FQDN zones),
          nt_Managed = managed \<noteq> None\<rparr>)))"

section \<open>Changing the address\<close>

text \<open>
  The first loop of \<^verbatim>\<open>ReplaceNodeIP\<close>: a different Node with the new address is an error, and the
  last Node with the identifier is selected.
\<close>

fun select_node :: "string \<Rightarrow> addr \<Rightarrow> Node option \<Rightarrow> Node list \<Rightarrow> go_error + Node option" where
  "select_node uuid newIP selected [] = Inr selected"
| "select_node uuid newIP selected (node # nodes) =
     (if node_UUID node \<noteq> uuid \<and> names_ip newIP (node_Address node)
      then Inl (OrchErr ErrDuplicateNodeAddress)
      else select_node uuid newIP (if node_UUID node = uuid then Some node else selected) nodes)"

text \<open>\<open>rollbackNodeIP\<close>: the zones in reverse order, then the Node; errors are ignored.\<close>

fun restore_zones :: "'w ports \<Rightarrow> addr \<Rightarrow> addr \<Rightarrow> ZoneMatch list \<Rightarrow> ('w sys, unit) state" where
  "restore_zones p oldIP newIP [] = State_Monad.return ()"
| "restore_zones p oldIP newIP (zone # zones) = do {
     _ \<leftarrow> ReplaceIP_op p (zm_FQDN zone) newIP oldIP;
     restore_zones p oldIP newIP zones
   }"

definition rollbackNodeIP :: "'w ports \<Rightarrow> string \<Rightarrow> addr \<Rightarrow> addr \<Rightarrow> ZoneMatch list \<Rightarrow> ('w sys, unit) state" where
  "rollbackNodeIP p uuid oldIP newIP zones = do {
     restore_zones p oldIP newIP (rev zones);
     _ \<leftarrow> UpdateNodeAddress_op p uuid oldIP;
     State_Monad.return ()
   }"

text \<open>The loop over the zones; with its second result, the zones changed so far.\<close>

fun replace_zones ::
  "'w ports \<Rightarrow> addr \<Rightarrow> addr \<Rightarrow> ZoneMatch list \<Rightarrow> ZoneMatch list \<Rightarrow> ('w sys, bool \<times> ZoneMatch list) state" where
  "replace_zones p oldIP newIP [] changed = State_Monad.return (True, changed)"
| "replace_zones p oldIP newIP (zone # zones) changed = do {
     r \<leftarrow> ReplaceIP_op p (zm_FQDN zone) oldIP newIP;
     case r of
       Inl _ \<Rightarrow> State_Monad.return (False, changed)
     | Inr result \<Rightarrow> replace_zones p oldIP newIP zones (if rr_Changed result then changed @ [zone] else changed)
   }"

definition store_address :: "'w ports \<Rightarrow> Deployment option \<Rightarrow> addr \<Rightarrow> ('w sys, bool) state" where
  "store_address p managed newIP =
     (case managed of
        None \<Rightarrow> State_Monad.return True
      | Some current \<Rightarrow> do {
          r \<leftarrow> SetTargetVPSIP_op p (dep_ID current) newIP;
          State_Monad.return (case r of Inl _ \<Rightarrow> False | Inr _ \<Rightarrow> True)
        })"

definition msg_ip_same :: string where
  "msg_ip_same = text_bytes
   [73, 80, 32, 208, 189, 208, 190, 208, 180, 209, 139, 32, 209, 131, 208, 182, 208, 181, 32, 209,
     128, 208, 176, 208, 178, 208, 181, 208, 189, 32]"

definition msg_ip_node :: string where
  "msg_ip_node = text_bytes
   [73, 80, 32, 208, 189, 208, 190, 208, 180, 209, 139, 32, 194, 171]"

definition msg_ip_changed :: string where
  "msg_ip_changed = text_bytes
   [194, 187, 32, 208, 184, 208, 183, 208, 188, 208, 181, 208, 189, 209, 145, 208, 189, 58, 32]"

definition msg_ip_arrow :: string where
  "msg_ip_arrow = text_bytes
   [32, 226, 134, 146, 32]"

definition msg_ip_zones :: string where
  "msg_ip_zones = text_bytes
   [46, 32, 68, 78, 83, 45, 208, 183, 208, 190, 208, 189, 32, 208, 190, 208, 177, 208, 189, 208,
     190, 208, 178, 208, 187, 208, 181, 208, 189, 208, 190, 58, 32]"

definition change_address ::
  "'w ports \<Rightarrow> Node \<Rightarrow> addr \<Rightarrow> addr \<Rightarrow> ZoneMatch list \<Rightarrow> Deployment option \<Rightarrow> ('w, string) op" where
  "change_address p node oldIP newIP zones managed = do {
     r \<leftarrow> UpdateNodeAddress_op p (node_UUID node) newIP;
     case r of
       Inl _ \<Rightarrow> failE (OrchErr ErrNodeIPChangeFailed)
     | Inr _ \<Rightarrow> do {
         (replaced, changed) \<leftarrow> replace_zones p oldIP newIP zones [];
         if \<not> replaced then do {
           rollbackNodeIP p (node_UUID node) oldIP newIP changed;
           failE (OrchErr ErrDNSUpdateFailed)
         } else do {
           stored \<leftarrow> store_address p managed newIP;
           if \<not> stored then do {
             rollbackNodeIP p (node_UUID node) oldIP newIP changed;
             failE (OrchErr ErrPersistenceFailed)
           } else
             okE (msg_ip_node @ node_Name node @ msg_ip_changed @ addr_String oldIP @ msg_ip_arrow @
               addr_String newIP @ msg_ip_zones @ Itoa (int (length zones)))
         }
       }
   }"

definition replace_node_ip :: "'w ports \<Rightarrow> Config \<Rightarrow> NodeIPChangeInput \<Rightarrow> addr \<Rightarrow> addr \<Rightarrow> ('w, string) op" where
  "replace_node_ip p cfg input oldIP newIP = do {
     r \<leftarrow> GetNodes_op p;
     case r of
       Inl _ \<Rightarrow> failE (OrchErr ErrNodeIPChangeFailed)
     | Inr nodes \<Rightarrow>
         bindE (liftE (select_node (nc_NodeUUID input) newIP None nodes)) (\<lambda>selected.
         case selected of
           None \<Rightarrow> failE (OrchErr ErrNodeNotFound)
         | Some node \<Rightarrow>
             if \<not> names_ip oldIP (node_Address node) then failE (OrchErr ErrNodeIPChangeFailed)
             else
               bindE (zones_of p cfg oldIP) (\<lambda>zones.
               bindE (find_managed p cfg (node_UUID node)) (\<lambda>managed.
               change_address p node oldIP newIP zones managed)))
   }"

definition ReplaceNodeIP :: "'w ports \<Rightarrow> Config \<Rightarrow> NodeIPChangeInput \<Rightarrow> ('w, string) op" where
  "ReplaceNodeIP p cfg input =
     (if TrimSpace (nc_NodeUUID input) = [] \<or> \<not> IsValid (nc_ExpectedIP input) \<or>
         \<not> IsValid (nc_NewIP input) \<or> \<not> publicIP (nc_NewIP input)
      then failE (OrchErr ErrInvalidInput)
      else
        let oldIP = Unmap (nc_ExpectedIP input); newIP = Unmap (nc_NewIP input) in
        if oldIP = newIP then okE (msg_ip_same @ addr_String newIP)
        else with_execution p cfg (''node-ip:'' @ TrimSpace (nc_NodeUUID input))
               (replace_node_ip p cfg input oldIP newIP))"

section \<open>Compensation\<close>

text \<open>What a change of address does outside the service.\<close>

fun moves_address :: "event \<Rightarrow> bool" where
  "moves_address (EvUpdateAddress _ _) = True"
| "moves_address (EvReplaceIP _ _ _ _) = True"
| "moves_address (EvAddIP _ _ _) = True"
| "moves_address (EvMoveIP _ _ _ _) = True"
| "moves_address (EvCreateNode _ _) = True"
| "moves_address (EvUpdateProfile _ _) = True"
| "moves_address (EvSwitchSNI _ _) = True"
| "moves_address _ = False"

context outward
begin

lemma hidden_find_managed: "(\<And>r. \<not> out (EvDbFindNode uuid r)) \<Longrightarrow> hidden (find_managed p cfg uuid)"
  unfolding find_managed_def FindNode_op_def by (intro io_basic io_db_read) simp

end

interpretation address: outward moves_address
proof unfold_locales
  show "\<not> moves_address e" if "bookkeeping e" for e using that by (cases e) auto
qed

text \<open>The replacements of a trace; those that changed a zone, and the calls that undo them.\<close>

fun replaced :: "event \<Rightarrow> bool" where
  "replaced (EvReplaceIP fqdn oldIP newIP (Inr _)) = True"
| "replaced _ = False"

fun replace_calls :: "event list \<Rightarrow> (string \<times> addr \<times> addr) list" where
  "replace_calls [] = []"
| "replace_calls (EvReplaceIP fqdn oldIP newIP r # es) = (fqdn, oldIP, newIP) # replace_calls es"
| "replace_calls (_ # es) = replace_calls es"

fun reversals :: "event list \<Rightarrow> (string \<times> addr \<times> addr) list" where
  "reversals [] = []"
| "reversals (EvReplaceIP fqdn oldIP newIP (Inr result) # es) =
     (if rr_Changed result then [(fqdn, newIP, oldIP)] else []) @ reversals es"
| "reversals (_ # es) = reversals es"

fun replacing :: "addr \<Rightarrow> addr \<Rightarrow> event \<Rightarrow> bool" where
  "replacing a b (EvReplaceIP fqdn oldIP newIP r) = (oldIP = a \<and> newIP = b)"
| "replacing a b _ = False"

text \<open>
  A run shows nothing; or one update of the Node that failed; or an update that succeeded and
  replacements in zones.  In the last case a success has no failed replacement, and after a
  failure every zone that was changed is changed back, the last one first, and then the Node.
\<close>

definition compensated :: "addr \<Rightarrow> addr \<Rightarrow> bool \<Rightarrow> event list \<Rightarrow> bool" where
  "compensated oldIP newIP success es \<longleftrightarrow>
     es = [] \<or>
     (\<exists>uuid e. \<not> success \<and> es = [EvUpdateAddress \<lparr>ua_UUID = uuid, ua_Address = newIP\<rparr> (Inl e)]) \<or>
     (\<exists>uuid node forward.
        success \<and> es = EvUpdateAddress \<lparr>ua_UUID = uuid, ua_Address = newIP\<rparr> (Inr node) # forward \<and>
        list_all (replacing oldIP newIP) forward \<and> list_all replaced forward) \<or>
     (\<exists>uuid node forward undo r.
        \<not> success \<and>
        es = EvUpdateAddress \<lparr>ua_UUID = uuid, ua_Address = newIP\<rparr> (Inr node) # forward @ undo @
          [EvUpdateAddress \<lparr>ua_UUID = uuid, ua_Address = oldIP\<rparr> r] \<and>
        list_all (replacing oldIP newIP) forward \<and> list_all (replacing newIP oldIP) undo \<and>
        replace_calls undo = rev (reversals forward))"

lemma replace_calls_append: "replace_calls (es @ es') = replace_calls es @ replace_calls es'"
  by (induction es rule: replace_calls.induct) simp_all

lemma reversals_append: "reversals (es @ es') = reversals es @ reversals es'"
  by (induction es rule: reversals.induct) simp_all

abbreviation undo_call :: "addr \<Rightarrow> addr \<Rightarrow> ZoneMatch \<Rightarrow> string \<times> addr \<times> addr" where
  "undo_call oldIP newIP zone \<equiv> (zm_FQDN zone, newIP, oldIP)"

lemma shows_restore_zones:
  "shows_out moves_address (restore_zones p oldIP newIP zones)
     (\<lambda>_ es. list_all (replacing newIP oldIP) es \<and> replace_calls es = map (undo_call oldIP newIP) zones)"
proof (induction zones)
  case (Cons zone zones)
  show ?case
    unfolding restore_zones.simps ReplaceIP_op_def
    by (intro shows_bind shows_call shows_mono [OF Cons.IH]) (auto simp: replace_calls_append)
qed (simp add: shows_return)

lemma shows_replace_zones:
  "shows_out moves_address (replace_zones p oldIP newIP zones changed)
     (\<lambda>(done_all, changed') es. list_all (replacing oldIP newIP) es \<and> (done_all \<longrightarrow> list_all replaced es) \<and>
        map (undo_call oldIP newIP) changed' = map (undo_call oldIP newIP) changed @ reversals es)"
proof (induction zones arbitrary: changed)
  case (Cons zone zones)
  show ?case
    unfolding replace_zones.simps ReplaceIP_op_def
    by (intro shows_bind shows_call shows_case_sum shows_return shows_mono [OF Cons.IH]) auto
qed (simp add: shows_return)

lemma shows_rollbackNodeIP:
  "shows_out moves_address (rollbackNodeIP p uuid oldIP newIP zones)
     (\<lambda>_ es. \<exists>undo r. es = undo @ [EvUpdateAddress \<lparr>ua_UUID = uuid, ua_Address = oldIP\<rparr> r] \<and>
        list_all (replacing newIP oldIP) undo \<and>
        replace_calls undo = rev (map (undo_call oldIP newIP) zones))"
  unfolding rollbackNodeIP_def UpdateNodeAddress_op_def Let_def
  by (intro shows_bind shows_mono [OF shows_restore_zones] shows_call shows_return) (auto simp: rev_map)

lemma shows_store_address: "address.hidden (store_address p managed newIP)"
  unfolding store_address_def SetTargetVPSIP_op_def
  by (intro address.io_rules address.io_db_call) simp_all

lemma compensated_undone:
  assumes "list_all (replacing oldIP newIP) forward" "list_all (replacing newIP oldIP) undo"
    and "replace_calls undo = rev (reversals forward)"
  shows "compensated oldIP newIP False (EvUpdateAddress \<lparr>ua_UUID = uuid, ua_Address = newIP\<rparr> (Inr node) #
    forward @ undo @ [EvUpdateAddress \<lparr>ua_UUID = uuid, ua_Address = oldIP\<rparr> r])"
  unfolding compensated_def using assms by blast

lemma shows_change_address:
  fixes p :: "'w ports"
  shows "shows_out moves_address (change_address p node oldIP newIP zones managed)
     (\<lambda>r. compensated oldIP newIP (\<not> isl r))"
proof -
  define update where "update = EvUpdateAddress \<lparr>ua_UUID = node_UUID node, ua_Address = newIP\<rparr>"
  have undo: "shows_out moves_address (do {
        rollbackNodeIP p (node_UUID node) oldIP newIP changed;
        failE e
      } :: ('w, string) op) (\<lambda>r es. compensated oldIP newIP (\<not> isl r) (update (Inr moved) # forward @ es))"
    if "list_all (replacing oldIP newIP) forward" "map (undo_call oldIP newIP) changed = reversals forward"
    for e changed forward moved
    using that
    by (intro shows_bind shows_mono [OF shows_rollbackNodeIP] shows_failE)
      (auto simp: update_def intro: compensated_undone)
  have finish: "shows_out moves_address
      (if \<not> all_replaced then do {
         rollbackNodeIP p (node_UUID node) oldIP newIP changed;
         failE e
       } else do {
         stored \<leftarrow> store_address p managed newIP;
         if \<not> stored then do {
           rollbackNodeIP p (node_UUID node) oldIP newIP changed;
           failE e'
         } else okE message
       }) (\<lambda>r es. compensated oldIP newIP (\<not> isl r) (update (Inr moved) # forward @ es))"
    if "list_all (replacing oldIP newIP) forward" "all_replaced \<longrightarrow> list_all replaced forward"
      "map (undo_call oldIP newIP) changed = reversals forward"
    for all_replaced changed forward moved and e e' :: go_error and message :: string
    using that
    by (intro shows_if undo address.shows_hidden_bind shows_store_address shows_okE)
      (auto simp: compensated_def update_def)
  have [simp]: "moves_address (update r)" for r by (simp add: update_def)
  show ?thesis
    unfolding change_address_def UpdateNodeAddress_op_def Let_def update_def [symmetric]
  proof (intro shows_bind shows_call shows_case_sum shows_failE shows_mono [OF shows_replace_zones], goal_cases)
    case (1 r e)
    then show ?case by (simp add: compensated_def update_def)
  next
    case (2 r moved res forward)
    then show ?case by (cases res) (simp add: finish)
  qed
qed

lemma hidden_zones_of: "address.hidden (zones_of p cfg ip)"
  unfolding zones_of_def FindZonesByIP_op_def by (intro address.io_basic address.io_call) simp

lemma shows_ReplaceNodeIP:
  "shows_out moves_address (ReplaceNodeIP p cfg input)
     (\<lambda>r. compensated (Unmap (nc_ExpectedIP input)) (Unmap (nc_NewIP input)) (\<not> isl r))"
proof -
  have none: "compensated oldIP newIP b []" for oldIP newIP b by (simp add: compensated_def)
  have "shows_out moves_address (replace_node_ip p cfg input oldIP newIP) (\<lambda>r. compensated oldIP newIP (\<not> isl r))"
    for oldIP newIP
    unfolding replace_node_ip_def GetNodes_op_def
    by (intro address.shows_hidden_bind address.shows_hidden_bindE address.io_call address.io_rules shows_rules
        hidden_zones_of address.hidden_find_managed shows_change_address none) simp_all
  then show ?thesis
    unfolding ReplaceNodeIP_def Let_def
    by (intro shows_if shows_failE shows_okE address.shows_with_execution none)
qed

text \<open>
  C14. A change of a Node's address is all or nothing as far as the service can make it: a run shows
  no change; or only an update of the Node that the panel refused; or it updates the Node and then
  replaces the address in every zone, without an error when it succeeds; and when it fails after
  that, it calls back every zone it had changed, the last one first, and then gives the Node its
  old address again.
\<close>

theorem ReplaceNodeIP_compensates:
  "\<exists>es. sys_log (exec_state (ReplaceNodeIP p cfg input) s) = sys_log s @ es \<and>
     compensated (Unmap (nc_ExpectedIP input)) (Unmap (nc_NewIP input))
       (\<not> isl (result_of (ReplaceNodeIP p cfg input) s)) (filter moves_address es)"
  using shows_ReplaceNodeIP [of p cfg input] unfolding shows_out_def logs_def by blast

end
