(* ===== verification/Node_Host_Move.thy ===== *)
theory Node_Host_Move
  imports Node_Address
begin

text \<open>
  Moving a Node to another Host of its panel (\<^verbatim>\<open>internal/orchestrator/node_host_move.go\<close>): the
  options, and the move of its SNI, its profile, its DNS record and its row, with the rollback.
\<close>

section \<open>Data\<close>

record NodeHostMoveTarget =
  hm_UUID :: string
  hm_Name :: string
  hm_Address :: string
  hm_Managed :: bool
  hm_CurrentHostKnown :: bool
  hm_CurrentHostRemark :: string
  hm_CurrentHostAddress :: string
  hm_ExpectedConfigProfileUUID :: string
  hm_ExpectedInboundUUIDs :: "string list"

record NodeHostMoveOption =
  ho_UUID :: string
  ho_Remark :: string
  ho_Address :: string

record NodeHostMoveInput =
  mi_NodeUUID :: string
  mi_TargetHostUUID :: string
  mi_ExpectedConfigProfileUUID :: string
  mi_ExpectedInboundUUIDs :: "string list"
  mi_Password :: string

record NodeHostMoveResult =
  mo_NodeName :: string
  mo_PreviousHostKnown :: bool
  mo_PreviousHost :: string
  mo_TargetHost :: string
  mo_TargetAddress :: string
  mo_Managed :: bool
  mo_DNSUpdated :: bool

section \<open>Profiles\<close>

definition canonicalUUIDs :: "string list \<Rightarrow> string list" where
  "canonicalUUIDs values = sort_Strings (filter (\<lambda>v. v \<noteq> []) (map TrimSpace values))"

definition nodeProfileFingerprint :: "Node \<Rightarrow> string \<times> string list" where
  "nodeProfileFingerprint node =
     ((case node_ActiveConfigProfileUUID node of None \<Rightarrow> [] | Some profile \<Rightarrow> TrimSpace profile),
      canonicalUUIDs (node_ActiveInboundUUIDs node))"

definition sameNodeProfile :: "string \<Rightarrow> string list \<Rightarrow> string \<Rightarrow> string list \<Rightarrow> bool" where
  "sameNodeProfile leftProfile leftInbounds rightProfile rightInbounds =
     (if TrimSpace leftProfile \<noteq> TrimSpace rightProfile then False
      else canonicalUUIDs leftInbounds = canonicalUUIDs rightInbounds)"

definition uses_profile :: "Node \<Rightarrow> DeploymentProfile \<Rightarrow> bool" where
  "uses_profile node profile =
     (case nodeProfileFingerprint node of (profileUUID, inboundUUIDs) \<Rightarrow>
        sameNodeProfile profileUUID inboundUUIDs (dp_ActiveConfigProfileUUID profile) (dp_ActiveInbounds profile))"

definition matchingNodeHosts :: "Node \<Rightarrow> Host list \<Rightarrow> Host list" where
  "matchingNodeHosts node hosts =
     filter (\<lambda>host. \<not> host_IsDisabled host \<and>
       (case DeploymentProfileFromHost host of Inl _ \<Rightarrow> False | Inr profile \<Rightarrow> uses_profile node profile)) hosts"

definition nodeByUUID :: "'w ports \<Rightarrow> string \<Rightarrow> ('w, Node) op" where
  "nodeByUUID p uuid = do {
     r \<leftarrow> GetNodes_op p;
     case r of
       Inl _ \<Rightarrow> failE (OrchErr ErrNodeHostMoveFailed)
     | Inr nodes \<Rightarrow>
         (case List.find (\<lambda>n. node_UUID n = uuid) nodes of
            None \<Rightarrow> failE (OrchErr ErrNodeNotFound)
          | Some node \<Rightarrow> okE node)
   }"

text \<open>\<open>nodeAddress\<close> of \<^verbatim>\<open>node_sni.go\<close>; \<open>None\<close> is its error.\<close>

definition nodeAddress :: "string \<Rightarrow> addr option" where
  "nodeAddress value =
     (case ParseAddr (TrimSpace value) of
        None \<Rightarrow> None
      | Some address \<Rightarrow> if \<not> publicIP address then None else Some (Unmap address))"

section \<open>The options\<close>

definition option_less :: "NodeHostMoveOption \<Rightarrow> NodeHostMoveOption \<Rightarrow> bool" where
  "option_less a b =
     (if EqualFold (ho_Remark a) (ho_Remark b) then string_less (ho_UUID a) (ho_UUID b)
      else string_less (ToLower (ho_Remark a)) (ToLower (ho_Remark b)))"

definition move_option :: "Node \<Rightarrow> Host \<Rightarrow> NodeHostMoveOption option" where
  "move_option node host =
     (if host_IsDisabled host then None
      else case DeploymentProfileFromHost host of
        Inl _ \<Rightarrow> None
      | Inr profile \<Rightarrow>
          if uses_profile node profile then None
          else Some \<lparr>ho_UUID = host_UUID host, ho_Remark = host_Remark host, ho_Address = dp_SNIDomain profile\<rparr>)"

definition PrepareNodeHostMove ::
  "'w ports \<Rightarrow> Config \<Rightarrow> string \<Rightarrow> ('w, NodeHostMoveTarget \<times> NodeHostMoveOption list) op" where
  "PrepareNodeHostMove p cfg uuid =
     (let uuid = TrimSpace uuid in
      if uuid = [] then failE (OrchErr ErrInvalidInput)
      else
        bindE (nodeByUUID p uuid) (\<lambda>node. do {
          r \<leftarrow> GetHosts_op p;
          case r of
            Inl _ \<Rightarrow> failE (OrchErr ErrNodeHostMoveFailed)
          | Inr hosts \<Rightarrow>
              bindE (find_managed p cfg (node_UUID node)) (\<lambda>managed.
              case matchingNodeHosts node hosts of
                [current] \<Rightarrow>
                  okE (\<lparr>hm_UUID = node_UUID node, hm_Name = node_Name node, hm_Address = node_Address node,
                        hm_Managed = managed \<noteq> None, hm_CurrentHostKnown = True,
                        hm_CurrentHostRemark = host_Remark current, hm_CurrentHostAddress = host_Address current,
                        hm_ExpectedConfigProfileUUID = fst (nodeProfileFingerprint node),
                        hm_ExpectedInboundUUIDs = snd (nodeProfileFingerprint node)\<rparr>,
                       sort_by option_less (List.map_filter (move_option node) hosts))
              | _ \<Rightarrow> failE (OrchErr ErrNodeHostMoveFailed))
        }))"

section \<open>The move\<close>

text \<open>The inputs of the switch on the VPS, there and back.\<close>

definition switch_back :: "NodeSNISwitchInput \<Rightarrow> NodeSNISwitchInput" where
  "switch_back sw =
     sw\<lparr>sw_PreviousSNI := sw_TargetSNI sw, sw_TargetSNI := sw_PreviousSNI sw,
        sw_PreviousCertificate := sw_Certificate sw, sw_Certificate := sw_PreviousCertificate sw\<rparr>"

definition rollbackNodeHostMove ::
  "'w ports \<Rightarrow> string \<Rightarrow> Host \<Rightarrow> NodeSNISwitchInput \<Rightarrow> bool \<Rightarrow> ('w sys, unit) state" where
  "rollbackNodeHostMove p uuid previousHost sw dnsChanged = do {
     _ \<leftarrow> UpdateNodeProfile_op p uuid previousHost;
     case DeploymentProfileFromHost previousHost of
       Inl _ \<Rightarrow> State_Monad.return ()
     | Inr previousProfile \<Rightarrow> do {
         _ \<leftarrow> (if dnsChanged
               then State_Monad.bind (MoveIP_op p (sw_TargetSNI sw) (dp_SNIDomain previousProfile) (sw_Address sw))
                      (\<lambda>_. State_Monad.return ())
               else State_Monad.return ());
         _ \<leftarrow> SwitchSNI_op p ((switch_back sw)\<lparr>sw_TargetSNI := dp_SNIDomain previousProfile\<rparr>);
         State_Monad.return ()
       }
   }"

definition fail_move ::
  "'w ports \<Rightarrow> Node \<Rightarrow> Host \<Rightarrow> NodeSNISwitchInput \<Rightarrow> bool \<Rightarrow> orch_error \<Rightarrow> ('w, 'a) op" where
  "fail_move p node previous sw dnsChanged e = do {
     rollbackNodeHostMove p (node_UUID node) previous sw dnsChanged;
     failE (OrchErr e)
   }"

text \<open>The last step, the row of the deployment; and the DNS step before it.\<close>

definition move_row ::
  "'w ports \<Rightarrow> Config \<Rightarrow> Node \<Rightarrow> Host \<Rightarrow> Host \<Rightarrow> NodeSNISwitchInput \<Rightarrow> Deployment option \<Rightarrow> bool
     \<Rightarrow> ('w, NodeHostMoveResult) op" where
  "move_row p cfg node previous selected sw managed dnsChanged =
     (let result = \<lparr>mo_NodeName = node_Name node, mo_PreviousHostKnown = True,
            mo_PreviousHost = host_Remark previous, mo_TargetHost = host_Remark selected,
            mo_TargetAddress = sw_TargetSNI sw, mo_Managed = managed \<noteq> None,
            mo_DNSUpdated = (\<not> cfg_DNSDisabled cfg)\<rparr> in
      case managed of
        None \<Rightarrow> okE result
      | Some current \<Rightarrow> do {
          r \<leftarrow> SetNodeHostBinding_op p (dep_ID current)
            \<lparr>hb_HostUUID = host_UUID selected, hb_HostRemark = host_Remark selected, hb_SNIDomain = sw_TargetSNI sw\<rparr>;
          case r of
            Inl _ \<Rightarrow> fail_move p node previous sw dnsChanged ErrPersistenceFailed
          | Inr _ \<Rightarrow> okE result
        })"

definition move_dns ::
  "'w ports \<Rightarrow> Config \<Rightarrow> Node \<Rightarrow> Host \<Rightarrow> Host \<Rightarrow> NodeSNISwitchInput \<Rightarrow> Deployment option
     \<Rightarrow> ('w, NodeHostMoveResult) op" where
  "move_dns p cfg node previous selected sw managed =
     (if cfg_DNSDisabled cfg then move_row p cfg node previous selected sw managed False
      else do {
        r \<leftarrow> MoveIP_op p (sw_PreviousSNI sw) (sw_TargetSNI sw) (sw_Address sw);
        case r of
          Inl _ \<Rightarrow> fail_move p node previous sw False ErrDNSUpdateFailed
        | Inr result \<Rightarrow> move_row p cfg node previous selected sw managed (mr_Changed result)
      })"

definition move_profile ::
  "'w ports \<Rightarrow> Config \<Rightarrow> Node \<Rightarrow> Host \<Rightarrow> Host \<Rightarrow> DeploymentProfile \<Rightarrow> NodeSNISwitchInput \<Rightarrow> Deployment option
     \<Rightarrow> ('w, NodeHostMoveResult) op" where
  "move_profile p cfg node previous selected targetProfile sw managed = do {
     switched \<leftarrow> SwitchSNI_op p sw;
     case switched of
       Some _ \<Rightarrow> failE (OrchErr ErrNodeSNISwitchFailed)
     | None \<Rightarrow> do {
         r \<leftarrow> UpdateNodeProfile_op p (node_UUID node) selected;
         case r of
           Inl _ \<Rightarrow> fail_move p node previous sw False ErrNodeHostMoveFailed
         | Inr updated \<Rightarrow>
             if \<not> uses_profile updated targetProfile
             then fail_move p node previous sw False ErrNodeHostMoveFailed
             else move_dns p cfg node previous selected sw managed
       }
   }"

definition move_certificates ::
  "'w ports \<Rightarrow> Config \<Rightarrow> Node \<Rightarrow> Host \<Rightarrow> DeploymentProfile \<Rightarrow> Host \<Rightarrow> DeploymentProfile \<Rightarrow> addr \<Rightarrow> string
     \<Rightarrow> ('w, NodeHostMoveResult) op" where
  "move_certificates p cfg node previous previousProfile selected targetProfile address password =
     bindE (find_managed p cfg (node_UUID node)) (\<lambda>managed. do {
       c \<leftarrow> PrepareCertificate_op p (dp_SNIDomain previousProfile);
       case c of
         Inl _ \<Rightarrow> failE (OrchErr ErrCertificateUnavailable)
       | Inr previousCertificate \<Rightarrow> do {
           c \<leftarrow> PrepareCertificate_op p (dp_SNIDomain targetProfile);
           case c of
             Inl _ \<Rightarrow> failE (OrchErr ErrCertificateUnavailable)
           | Inr targetCertificate \<Rightarrow>
               move_profile p cfg node previous selected targetProfile
                 \<lparr>sw_Address = address, sw_PreviousSNI = dp_SNIDomain previousProfile,
                  sw_TargetSNI = dp_SNIDomain targetProfile, sw_Password = password,
                  sw_PreviousCertificate = previousCertificate, sw_Certificate = targetCertificate\<rparr> managed
         }
     })"

definition move_checked ::
  "'w ports \<Rightarrow> Config \<Rightarrow> NodeHostMoveInput \<Rightarrow> Node \<Rightarrow> Host list \<Rightarrow> ('w, NodeHostMoveResult) op" where
  "move_checked p cfg input node hosts =
     (case List.find (\<lambda>h. host_UUID h = mi_TargetHostUUID input) hosts of
        None \<Rightarrow> failE (OrchErr ErrHostUnavailable)
      | Some selected \<Rightarrow>
          if host_IsDisabled selected then failE (OrchErr ErrHostUnavailable)
          else case DeploymentProfileFromHost selected of
            Inl _ \<Rightarrow> failE (OrchErr ErrHostUnavailable)
          | Inr targetProfile \<Rightarrow>
              if uses_profile node targetProfile then failE (OrchErr ErrNodeHostUnchanged)
              else case matchingNodeHosts node hosts of
                [previous] \<Rightarrow>
                  (case DeploymentProfileFromHost previous of
                     Inl _ \<Rightarrow> failE (OrchErr ErrNodeHostMoveFailed)
                   | Inr previousProfile \<Rightarrow>
                       if EqualFold (dp_SNIDomain previousProfile) (dp_SNIDomain targetProfile)
                       then failE (OrchErr ErrNodeHostMoveFailed)
                       else case nodeAddress (node_Address node) of
                         None \<Rightarrow> failE (OrchErr ErrNodeHostMoveFailed)
                       | Some address \<Rightarrow>
                           move_certificates p cfg node previous previousProfile selected targetProfile address
                             (mi_Password input))
              | _ \<Rightarrow> failE (OrchErr ErrNodeHostMoveFailed))"

definition move_node :: "'w ports \<Rightarrow> Config \<Rightarrow> NodeHostMoveInput \<Rightarrow> ('w, NodeHostMoveResult) op" where
  "move_node p cfg input =
     bindE (nodeByUUID p (mi_NodeUUID input)) (\<lambda>node.
     if (case nodeProfileFingerprint node of (profileUUID, inboundUUIDs) \<Rightarrow>
           \<not> sameNodeProfile profileUUID inboundUUIDs (TrimSpace (mi_ExpectedConfigProfileUUID input))
               (canonicalUUIDs (mi_ExpectedInboundUUIDs input)))
     then failE (OrchErr ErrNodeStateChanged)
     else do {
       r \<leftarrow> GetHosts_op p;
       case r of
         Inl _ \<Rightarrow> failE (OrchErr ErrNodeHostMoveFailed)
       | Inr hosts \<Rightarrow> move_checked p cfg input node hosts
     })"

definition MoveNodeToHost :: "'w ports \<Rightarrow> Config \<Rightarrow> NodeHostMoveInput \<Rightarrow> ('w, NodeHostMoveResult) op" where
  "MoveNodeToHost p cfg input =
     (let input = input\<lparr>mi_NodeUUID := TrimSpace (mi_NodeUUID input),
            mi_TargetHostUUID := TrimSpace (mi_TargetHostUUID input)\<rparr> in
      if mi_NodeUUID input = [] \<or> mi_TargetHostUUID input = [] \<or> length (mi_Password input) = 0 \<or>
         \<not> cfg_NodeSNISwitcher cfg
      then failE (OrchErr ErrInvalidInput)
      else with_execution p cfg (''node-host:'' @ mi_NodeUUID input) (move_node p cfg input))"

section \<open>Compensation\<close>

fun moves_host :: "event \<Rightarrow> bool" where
  "moves_host (EvDbBinding _ _ _) = True"
| "moves_host e = moves_address e"

interpretation host: outward moves_host
proof unfold_locales
  show "\<not> moves_host e" if "bookkeeping e" for e using that by (cases e) auto
qed

text \<open>The moves of DNS records that changed something, undone.\<close>

fun dns_undo :: "event list \<Rightarrow> (string \<times> string \<times> addr) list" where
  "dns_undo [] = []"
| "dns_undo (EvMoveIP source target ip (Inr result) # es) =
     (if mr_Changed result then [(target, source, ip)] else []) @ dns_undo es"
| "dns_undo (_ # es) = dns_undo es"

fun dns_moves :: "event list \<Rightarrow> (string \<times> string \<times> addr) list" where
  "dns_moves [] = []"
| "dns_moves (EvMoveIP source target ip r # es) = (source, target, ip) # dns_moves es"
| "dns_moves (_ # es) = dns_moves es"

fun accepted :: "event \<Rightarrow> bool" where
  "accepted (EvMoveIP _ _ _ (Inr _)) = True"
| "accepted (EvDbBinding _ _ (Inr _)) = True"
| "accepted _ = False"

text \<open>
  A run shows nothing; or a refused switch on the VPS; or the switch, the new profile, and what
  follows.  In the last case a success has no refused step; after a failure the Node gets its
  previous profile again, a moved DNS record goes back, and the VPS is switched back.
\<close>

definition host_moved :: "bool \<Rightarrow> event list \<Rightarrow> bool" where
  "host_moved success es \<longleftrightarrow>
     (\<not> success \<and> es = []) \<or>
     (\<exists>sw e. \<not> success \<and> es = [EvSwitchSNI sw (Some e)]) \<or>
     (\<exists>sw u node rest. success \<and> es = EvSwitchSNI sw None # EvUpdateProfile u (Inr node) # rest \<and>
        list_all accepted rest) \<or>
     (\<exists>sw u r forward previous r' undo r''.
        \<not> success \<and>
        es = EvSwitchSNI sw None # EvUpdateProfile u r # forward @ EvUpdateProfile \<lparr>up_UUID = up_UUID u, up_Host = previous\<rparr> r' #
          undo @ [EvSwitchSNI (switch_back sw) r''] \<and>
        dns_moves undo = dns_undo forward \<and>
        (case DeploymentProfileFromHost previous of Inl _ \<Rightarrow> False | Inr profile \<Rightarrow> dp_SNIDomain profile = sw_PreviousSNI sw))"

section \<open>What each step shows\<close>

abbreviation dns_return :: "NodeSNISwitchInput \<Rightarrow> bool \<Rightarrow> (string \<times> string \<times> addr) list" where
  "dns_return sw changed \<equiv> (if changed then [(sw_TargetSNI sw, sw_PreviousSNI sw, sw_Address sw)] else [])"

definition host_undone :: "string \<Rightarrow> Host \<Rightarrow> NodeSNISwitchInput \<Rightarrow> bool \<Rightarrow> event list \<Rightarrow> bool" where
  "host_undone uuid previous sw dnsChanged es \<longleftrightarrow>
     (\<exists>r undo r'. es = EvUpdateProfile \<lparr>up_UUID = uuid, up_Host = previous\<rparr> r # undo @ [EvSwitchSNI (switch_back sw) r'] \<and>
        dns_moves undo = dns_return sw dnsChanged)"

text \<open>The rest of a move: all accepted; or undone, with the move of the DNS record of before (\<open>changed\<close>).\<close>

definition finished_or_undone :: "string \<Rightarrow> Host \<Rightarrow> NodeSNISwitchInput \<Rightarrow> bool \<Rightarrow> bool \<Rightarrow> event list \<Rightarrow> bool" where
  "finished_or_undone uuid previous sw changed success es \<longleftrightarrow>
     (if success then list_all accepted es
      else \<exists>forward undo changed'. es = forward @ undo \<and> host_undone uuid previous sw changed' undo \<and>
        dns_return sw changed @ dns_undo forward = dns_return sw changed')"

lemma finished_or_undone_now:
  "host_undone uuid previous sw changed es \<Longrightarrow> dns_undo forward = [] \<Longrightarrow>
     finished_or_undone uuid previous sw changed False (forward @ es)"
  unfolding finished_or_undone_def by (simp only: if_False) (rule exI [of _ forward], rule exI [of _ es], rule exI [of _ changed], simp)

lemma finished_or_undone_moved:
  assumes "finished_or_undone uuid previous sw (mr_Changed result) success es"
  shows "finished_or_undone uuid previous sw False success
    (EvMoveIP (sw_PreviousSNI sw) (sw_TargetSNI sw) (sw_Address sw) (Inr result) # es)"
proof (cases success)
  case False
  with assms obtain forward undo changed where "es = forward @ undo" "host_undone uuid previous sw changed undo"
    and "dns_return sw (mr_Changed result) @ dns_undo forward = dns_return sw changed"
    unfolding finished_or_undone_def by auto
  moreover define move where "move = EvMoveIP (sw_PreviousSNI sw) (sw_TargetSNI sw) (sw_Address sw) (Inr result)"
  ultimately have "move # es = (move # forward) @ undo" "dns_undo (move # forward) = dns_return sw changed"
    by simp_all
  with False \<open>host_undone uuid previous sw changed undo\<close> show ?thesis
    unfolding finished_or_undone_def move_def [symmetric] if_False
    by (simp only: simp_thms if_False if_True append_Nil)
      (rule exI [of _ "move # forward"], rule exI [of _ undo], rule exI [of _ changed], simp)
qed (use assms in \<open>simp add: finished_or_undone_def\<close>)

lemma shows_rollbackNodeHostMove:
  assumes "DeploymentProfileFromHost previous = Inr profile" "dp_SNIDomain profile = sw_PreviousSNI sw"
  shows "shows_out moves_host (rollbackNodeHostMove p uuid previous sw dnsChanged)
     (\<lambda>_. host_undone uuid previous sw dnsChanged)"
  unfolding rollbackNodeHostMove_def UpdateNodeProfile_op_def MoveIP_op_def SwitchSNI_op_def Let_def assms sum.case
  by (intro shows_bind shows_call shows_if shows_return) (auto simp: host_undone_def switch_back_def)

text \<open>The previous Host has a profile, and its name is the one the switch left.\<close>

definition leaves :: "Host \<Rightarrow> NodeSNISwitchInput \<Rightarrow> bool" where
  "leaves previous sw \<longleftrightarrow>
     (case DeploymentProfileFromHost previous of Inl _ \<Rightarrow> False | Inr profile \<Rightarrow> dp_SNIDomain profile = sw_PreviousSNI sw)"

lemma shows_fail_move:
  fixes p :: "'w ports"
  assumes "leaves previous sw"
    and "\<And>es. host_undone (node_UUID node) previous sw changed es \<Longrightarrow> P (Inl (OrchErr e)) es"
  shows "shows_out moves_host (fail_move p node previous sw changed e :: ('w, 'a) op) P"
proof -
  obtain profile where "DeploymentProfileFromHost previous = Inr profile" "dp_SNIDomain profile = sw_PreviousSNI sw"
    using assms(1) by (auto simp: leaves_def split: sum.splits)
  then show ?thesis
    unfolding fail_move_def
    by (intro shows_bind shows_mono [OF shows_rollbackNodeHostMove] shows_failE) (simp_all add: assms(2))
qed

lemma shows_move_row:
  assumes "leaves previous sw"
  shows "shows_out moves_host (move_row p cfg node previous selected sw managed changed)
     (\<lambda>r. finished_or_undone (node_UUID node) previous sw changed (\<not> isl r))"
proof -
  have "finished_or_undone (node_UUID node) previous sw changed True []" by (simp add: finished_or_undone_def)
  moreover have "finished_or_undone (node_UUID node) previous sw changed True [EvDbBinding uuid params (Inr d)]"
    for uuid params d by (simp add: finished_or_undone_def)
  moreover have "finished_or_undone (node_UUID node) previous sw changed False (EvDbBinding uuid params r # es)"
    if "host_undone (node_UUID node) previous sw changed es" for uuid params r es
    using finished_or_undone_now [OF that, of "[EvDbBinding uuid params r]"] by simp
  ultimately show ?thesis
    unfolding move_row_def Let_def SetNodeHostBinding_op_def
    by (intro shows_bind shows_db_call shows_rules shows_fail_move [OF assms]) simp_all
qed

lemma shows_move_dns:
  assumes "leaves previous sw"
  shows "shows_out moves_host (move_dns p cfg node previous selected sw managed)
     (\<lambda>r. finished_or_undone (node_UUID node) previous sw False (\<not> isl r))"
proof -
  have "finished_or_undone (node_UUID node) previous sw False False (EvMoveIP source target ip (Inl err) # es)"
    if "host_undone (node_UUID node) previous sw False es" for source target ip err es
    using finished_or_undone_now [OF that, of "[EvMoveIP source target ip (Inl err)]"] by simp
  then show ?thesis
    unfolding move_dns_def MoveIP_op_def
    by (intro shows_bind shows_call shows_rules shows_fail_move [OF assms] shows_move_row [OF assms]
        shows_mono [OF shows_move_row [OF assms]])
      (simp_all add: finished_or_undone_moved)
qed

lemma host_moved_rest:
  assumes "leaves previous sw" "finished_or_undone (up_UUID u) previous sw False success es"
    and "success \<Longrightarrow> \<exists>node. r = Inr node"
  shows "host_moved success (EvSwitchSNI sw None # EvUpdateProfile u r # es)"
proof (cases success)
  case True
  with assms show ?thesis unfolding host_moved_def finished_or_undone_def by auto
next
  case False
  with assms obtain forward undo changed where es: "es = forward @ undo" "dns_undo forward = dns_return sw changed"
    and undone: "host_undone (up_UUID u) previous sw changed undo"
    by (auto simp: finished_or_undone_def)
  from undone obtain r' undo' r'' where undo: "dns_moves undo' = dns_return sw changed"
    "undo = EvUpdateProfile \<lparr>up_UUID = up_UUID u, up_Host = previous\<rparr> r' # undo' @ [EvSwitchSNI (switch_back sw) r'']"
    unfolding host_undone_def by blast
  show ?thesis
    unfolding host_moved_def es undo
    by (rule disjI2, rule disjI2, rule disjI2, rule exI [of _ sw], rule exI [of _ u], rule exI [of _ r],
        rule exI [of _ forward], rule exI [of _ previous], rule exI [of _ r'], rule exI [of _ undo'],
        rule exI [of _ r'']) (use False undo es assms(1) in \<open>simp add: leaves_def\<close>)
qed

lemma shows_move_profile:
  assumes "leaves previous sw"
  shows "shows_out moves_host (move_profile p cfg node previous selected targetProfile sw managed)
     (\<lambda>r. host_moved (\<not> isl r))"
proof -
  define u where "u = \<lparr>up_UUID = node_UUID node, up_Host = selected\<rparr>"
  have refused: "host_moved False [EvSwitchSNI sw (Some e)]" for e by (simp add: host_moved_def)
  have undone: "host_moved False (EvSwitchSNI sw None # EvUpdateProfile u r # es)"
    if "host_undone (node_UUID node) previous sw False es" for r es
    using finished_or_undone_now [OF that, of "[]"] host_moved_rest [OF assms, of u False] by (simp add: u_def)
  have moved: "host_moved (\<not> isl r) (EvSwitchSNI sw None # EvUpdateProfile u (Inr node') # es)"
    if "finished_or_undone (node_UUID node) previous sw False (\<not> isl r) es" for r :: "go_error + NodeHostMoveResult" and es node'
    using that by (intro host_moved_rest [OF assms]) (simp_all add: u_def)
  show ?thesis
    unfolding move_profile_def SwitchSNI_op_def UpdateNodeProfile_op_def Let_def u_def [symmetric]
    by (intro shows_bind shows_call shows_rules shows_fail_move [OF assms] shows_mono [OF shows_move_dns [OF assms]])
      (simp_all add: refused undone moved)
qed

lemma hidden_nodeByUUID: "host.hidden (nodeByUUID p uuid)"
  unfolding nodeByUUID_def GetNodes_op_def by (intro host.io_rules host.io_call) simp

lemma hidden_PrepareCertificate: "host.hidden (PrepareCertificate_op p sni)"
  unfolding PrepareCertificate_op_def by (intro host.io_call) simp

lemma host_moved_none: "host_moved False []"
  by (simp add: host_moved_def)

lemma shows_move_certificates:
  assumes "DeploymentProfileFromHost previous = Inr previousProfile"
  shows "shows_out moves_host
    (move_certificates p cfg node previous previousProfile selected targetProfile ip password)
    (\<lambda>r. host_moved (\<not> isl r))"
  unfolding move_certificates_def
  by (intro host.shows_hidden_bindE host.shows_hidden_bind host.hidden_find_managed hidden_PrepareCertificate
      shows_rules shows_move_profile)
    (simp_all add: host_moved_none leaves_def assms)

lemma shows_move_checked: "shows_out moves_host (move_checked p cfg input node hosts) (\<lambda>r. host_moved (\<not> isl r))"
  unfolding move_checked_def
  by (intro shows_rules shows_move_certificates) (simp_all add: host_moved_none)

lemma shows_MoveNodeToHost: "shows_out moves_host (MoveNodeToHost p cfg input) (\<lambda>r. host_moved (\<not> isl r))"
proof -
  have "shows_out moves_host (move_node p cfg input') (\<lambda>r. host_moved (\<not> isl r))" for input'
    unfolding move_node_def GetHosts_op_def
    by (intro host.shows_hidden_bindE host.shows_hidden_bind host.io_call hidden_nodeByUUID shows_move_checked
        shows_rules) (simp_all add: host_moved_none)
  then show ?thesis
    unfolding MoveNodeToHost_def Let_def
    by (intro shows_if shows_failE host.shows_with_execution) (simp_all add: host_moved_none)
qed

text \<open>
  C13. Moving a Node to another Host is all or nothing as far as the service can make it: a failed run
  shows nothing, or a switch of the SNI that the VPS refused, or else it gives the Node its previous
  profile again, moves the DNS record back exactly when it had moved it, and switches the VPS back
  to the previous SNI with the previous certificate; a successful run has switched, changed the
  profile, and had no later step refused.
\<close>

theorem MoveNodeToHost_compensates:
  "\<exists>es. sys_log (exec_state (MoveNodeToHost p cfg input) s) = sys_log s @ es \<and>
     host_moved (\<not> isl (result_of (MoveNodeToHost p cfg input) s)) (filter moves_host es)"
  using shows_MoveNodeToHost [of p cfg input] unfolding shows_out_def logs_def by blast

end
