(* ===== verification/Dns_Sync.thy ===== *)
theory Dns_Sync
  imports Node_Address "HOL-Library.AList"
begin

text \<open>
  Bringing DNS in line with the panel (\<^verbatim>\<open>internal/orchestrator/dns_sync.go\<close>): the preview and the
  synchronisation of one Node, for Nodes with a deployment and for those without.
\<close>

section \<open>Data\<close>

record NodeDNSSyncTarget =
  ds_UUID :: string
  ds_Name :: string
  ds_Address :: addr
  ds_Connected :: bool
  ds_Managed :: bool
  ds_DNSZone :: string
  ds_PreviousIP :: addr
  ds_CurrentZones :: "string list"
  ds_CurrentPresent :: bool
  ds_PreviousPresent :: bool
  ds_CanSync :: bool
  ds_Note :: string

record NodeDNSSyncInput =
  dy_NodeUUID :: string
  dy_ExpectedIP :: addr

datatype sync_action = DNSSyncAdded | DNSSyncReplaced | DNSSyncAlreadyPresent

record NodeDNSSyncResult =
  dr_NodeName :: string
  dr_Address :: addr
  dr_DNSZone :: string
  dr_Action :: sync_action
  dr_PreviousIP :: addr

definition note_incomplete :: string where
  "note_incomplete = text_bytes
   [76, 101, 103, 97, 99, 121, 45, 208, 189, 208, 190, 208, 180, 208, 176, 32, 208, 189, 208, 181,
     32, 209, 129, 208, 190, 208, 180, 208, 181, 209, 128, 208, 182, 208, 184, 209, 130, 32, 208,
     191, 208, 190, 208, 187, 208, 189, 208, 190, 208, 179, 208, 190, 32, 208, 191, 209, 128, 208,
     190, 209, 132, 208, 184, 208, 187, 209, 143, 32, 208, 184, 32, 105, 110, 98, 111, 117, 110,
     100, 32, 208, 180, 208, 187, 209, 143, 32, 208, 190, 208, 191, 209, 128, 208, 181, 208, 180,
     208, 181, 208, 187, 208, 181, 208, 189, 208, 184, 209, 143, 32, 68, 78, 83, 45, 208, 183, 208,
     190, 208, 189, 209, 139]"

definition note_no_host :: string where
  "note_no_host = text_bytes
   [208, 148, 208, 187, 209, 143, 32, 208, 191, 209, 128, 208, 190, 209, 132, 208, 184, 208, 187,
     209, 143, 32, 208, 184, 32, 105, 110, 98, 111, 117, 110, 100, 32, 108, 101, 103, 97, 99, 121,
     45, 208, 189, 208, 190, 208, 180, 209, 139, 32, 208, 189, 208, 181, 32, 208, 189, 208, 176,
     208, 185, 208, 180, 208, 181, 208, 189, 32, 208, 191, 208, 190, 208, 180, 209, 133, 208, 190,
     208, 180, 209, 143, 209, 137, 208, 184, 208, 185, 32, 208, 176, 208, 186, 209, 130, 208, 184,
     208, 178, 208, 189, 209, 139, 208, 185, 32, 72, 111, 115, 116]"

definition note_ambiguous :: string where
  "note_ambiguous = text_bytes
   [208, 159, 209, 128, 208, 190, 209, 132, 208, 184, 208, 187, 209, 140, 32, 208, 184, 32, 105,
     110, 98, 111, 117, 110, 100, 32, 108, 101, 103, 97, 99, 121, 45, 208, 189, 208, 190, 208, 180,
     209, 139, 32, 209, 129, 208, 190, 208, 190, 209, 130, 208, 178, 208, 181, 209, 130, 209, 129,
     209, 130, 208, 178, 209, 131, 209, 142, 209, 130, 32, 208, 189, 208, 181, 209, 129, 208, 186,
     208, 190, 208, 187, 209, 140, 208, 186, 208, 184, 208, 188, 32, 72, 111, 115, 116, 32, 209,
     129, 32, 209, 128, 208, 176, 208, 183, 208, 189, 209, 139, 208, 188, 208, 184, 32, 83, 78, 73,
     59, 32, 208, 178, 209, 139, 208, 177, 208, 190, 209, 128, 32, 208, 183, 208, 190, 208, 189,
     209, 139, 32, 208, 189, 208, 181, 208, 190, 208, 180, 208, 189, 208, 190, 208, 183, 208, 189,
     208, 176, 209, 135, 208, 181, 208, 189]"

definition note_inferred :: string where
  "note_inferred = text_bytes
   [208, 166, 208, 181, 208, 187, 208, 181, 208, 178, 208, 176, 209, 143, 32, 208, 183, 208, 190,
     208, 189, 208, 176, 32, 208, 190, 208, 191, 209, 128, 208, 181, 208, 180, 208, 181, 208, 187,
     208, 181, 208, 189, 208, 176, 32, 208, 191, 208, 190, 32, 209, 129, 208, 190, 208, 178, 208,
     191, 208, 176, 208, 180, 208, 181, 208, 189, 208, 184, 209, 142, 32, 208, 191, 209, 128, 208,
     190, 209, 132, 208, 184, 208, 187, 209, 143, 32, 208, 184, 32, 105, 110, 98, 111, 117, 110,
     100, 32, 208, 189, 208, 190, 208, 180, 209, 139, 32, 209, 129, 32, 72, 111, 115, 116]"

definition note_no_address :: string where
  "note_no_address = text_bytes
   [59, 32, 208, 178, 32, 209, 128, 208, 176, 209, 129, 209, 136, 208, 184, 209, 128, 208, 181, 208,
     189, 208, 189, 208, 190, 208, 185, 32, 208, 183, 208, 190, 208, 189, 208, 181, 32, 208, 189,
     208, 181, 209, 130, 32, 209, 129, 209, 130, 208, 176, 209, 128, 208, 190, 208, 185, 32, 208,
     183, 208, 176, 208, 191, 208, 184, 209, 129, 208, 184, 44, 32, 208, 191, 208, 190, 209, 141,
     209, 130, 208, 190, 208, 188, 209, 131, 32, 209, 129, 208, 187, 209, 131, 208, 182, 208, 181,
     208, 177, 208, 189, 209, 139, 208, 185, 32, 97, 100, 100, 114, 101, 115, 115, 32, 208, 189,
     208, 181, 208, 187, 209, 140, 208, 183, 209, 143, 32, 209, 131, 208, 179, 208, 176, 208, 180,
     208, 176, 209, 130, 209, 140, 32, 208, 177, 208, 181, 208, 183, 208, 190, 208, 191, 208, 176,
     209, 129, 208, 189, 208, 190]"

definition note_matches :: string where
  "note_matches = text_bytes
   [59, 32, 68, 78, 83, 32, 209, 131, 208, 182, 208, 181, 32, 209, 129, 208, 190, 208, 190, 209,
     130, 208, 178, 208, 181, 209, 130, 209, 129, 209, 130, 208, 178, 209, 131, 208, 181, 209, 130,
     32, 82, 101, 109, 110, 97, 119, 97, 118, 101]"

definition note_will_add :: string where
  "note_will_add = text_bytes
   [59, 32, 208, 176, 208, 186, 209, 130, 209, 131, 208, 176, 208, 187, 209, 140, 208, 189, 209,
     139, 208, 185, 32, 73, 80, 32, 208, 177, 209, 131, 208, 180, 208, 181, 209, 130, 32, 208, 180,
     208, 190, 208, 177, 208, 176, 208, 178, 208, 187, 208, 181, 208, 189, 44, 32, 208, 189, 208,
     181, 208, 184, 208, 183, 208, 178, 208, 181, 209, 129, 209, 130, 208, 189, 209, 139, 208, 181,
     32, 209, 129, 209, 130, 208, 176, 209, 128, 209, 139, 208, 181, 32, 208, 176, 208, 180, 209,
     128, 208, 181, 209, 129, 208, 176, 32, 108, 101, 103, 97, 99, 121, 45, 208, 189, 208, 190, 208,
     180, 209, 139, 32, 209, 131, 208, 180, 208, 176, 208, 187, 209, 143, 209, 130, 209, 140, 209,
     129, 209, 143, 32, 208, 189, 208, 181, 32, 208, 177, 209, 131, 208, 180, 209, 131, 209, 130]"

definition note_unsafe :: string where
  "note_unsafe = text_bytes
   [208, 146, 32, 209, 128, 208, 176, 209, 129, 209, 136, 208, 184, 209, 128, 208, 181, 208, 189,
     208, 189, 208, 190, 208, 185, 32, 68, 78, 83, 45, 208, 183, 208, 190, 208, 189, 208, 181, 32,
     208, 189, 208, 181, 209, 130, 32, 209, 129, 209, 130, 208, 176, 209, 128, 208, 190, 208, 185,
     32, 208, 183, 208, 176, 208, 191, 208, 184, 209, 129, 208, 184, 32, 208, 189, 208, 190, 208,
     180, 209, 139, 59, 32, 208, 176, 208, 180, 209, 128, 208, 181, 209, 129, 32, 208, 189, 208,
     176, 208, 183, 208, 189, 208, 176, 209, 135, 208, 181, 208, 189, 208, 184, 209, 143, 32, 208,
     189, 208, 181, 208, 187, 209, 140, 208, 183, 209, 143, 32, 209, 131, 208, 179, 208, 176, 208,
     180, 208, 176, 209, 130, 209, 140, 32, 208, 177, 208, 181, 208, 183, 208, 190, 208, 191, 208,
     176, 209, 129, 208, 189, 208, 190]"

definition note_stale_removed :: string where
  "note_stale_removed = text_bytes
   [208, 144, 208, 186, 209, 130, 209, 131, 208, 176, 208, 187, 209, 140, 208, 189, 209, 139, 208,
     185, 32, 73, 80, 32, 209, 131, 208, 182, 208, 181, 32, 208, 181, 209, 129, 209, 130, 209, 140,
     59, 32, 209, 131, 209, 129, 209, 130, 208, 176, 209, 128, 208, 181, 208, 178, 209, 136, 208,
     184, 208, 185, 32, 73, 80, 32, 208, 177, 209, 131, 208, 180, 208, 181, 209, 130, 32, 209, 131,
     208, 180, 208, 176, 208, 187, 209, 145, 208, 189, 32, 208, 184, 208, 183, 32, 209, 134, 208,
     181, 208, 187, 208, 181, 208, 178, 208, 190, 208, 185, 32, 208, 183, 208, 190, 208, 189, 209,
     139]"

definition note_in_sync :: string where
  "note_in_sync = text_bytes
   [68, 78, 83, 32, 209, 131, 208, 182, 208, 181, 32, 209, 129, 208, 190, 208, 190, 209, 130, 208,
     178, 208, 181, 209, 130, 209, 129, 209, 130, 208, 178, 209, 131, 208, 181, 209, 130, 32, 82,
     101, 109, 110, 97, 119, 97, 118, 101]"

definition note_replaced :: string where
  "note_replaced = text_bytes
   [208, 163, 209, 129, 209, 130, 208, 176, 209, 128, 208, 181, 208, 178, 209, 136, 208, 184, 208,
     185, 32, 73, 80, 32, 208, 177, 209, 131, 208, 180, 208, 181, 209, 130, 32, 208, 183, 208, 176,
     208, 188, 208, 181, 208, 189, 209, 145, 208, 189, 32, 208, 176, 208, 186, 209, 130, 209, 131,
     208, 176, 208, 187, 209, 140, 208, 189, 209, 139, 208, 188, 32, 73, 80, 32, 208, 184, 208, 183,
     32, 82, 101, 109, 110, 97, 119, 97, 118, 101]"

definition note_added :: string where
  "note_added = text_bytes
   [208, 144, 208, 186, 209, 130, 209, 131, 208, 176, 208, 187, 209, 140, 208, 189, 209, 139, 208,
     185, 32, 73, 80, 32, 208, 184, 208, 183, 32, 82, 101, 109, 110, 97, 119, 97, 118, 101, 32, 208,
     177, 209, 131, 208, 180, 208, 181, 209, 130, 32, 208, 180, 208, 190, 208, 177, 208, 176, 208,
     178, 208, 187, 208, 181, 208, 189, 32, 208, 178, 32, 68, 78, 83]"

section \<open>The zone of a Node\<close>

definition zoneContainsIP :: "Zone \<Rightarrow> addr \<Rightarrow> bool" where
  "zoneContainsIP zone address \<longleftrightarrow> IsValid address \<and> zone_has_ip (Unmap address) zone"

definition advanced_zone :: "Zone \<Rightarrow> bool" where
  "advanced_zone zone \<longleftrightarrow> length (elems (z_Nodes zone)) \<noteq> 0"

text \<open>\<open>findNodeByUUID\<close>: the first Node with the trimmed identifier.\<close>

definition findNodeByUUID :: "'w ports \<Rightarrow> string \<Rightarrow> ('w, Node \<times> addr) op" where
  "findNodeByUUID p uuid = do {
     r \<leftarrow> GetNodes_op p;
     case r of
       Inl _ \<Rightarrow> failE (OrchErr ErrNodeIPChangeFailed)
     | Inr nodes \<Rightarrow>
         (case List.find (\<lambda>n. node_UUID n = TrimSpace uuid) nodes of
            None \<Rightarrow> failE (OrchErr ErrNodeNotFound)
          | Some node \<Rightarrow>
              (case ParseAddr (TrimSpace (node_Address node)) of
                 None \<Rightarrow> failE (OrchErr ErrNodeIPChangeFailed)
               | Some address \<Rightarrow>
                   if \<not> publicIP address then failE (OrchErr ErrNodeIPChangeFailed)
                   else okE (node, Unmap address)))
   }"

text \<open>
  The Hosts a legacy Node may belong to, by the key of their domain; the last Host of a key gives
  the domain, as an assignment to a map does.
\<close>

definition host_candidate :: "string \<Rightarrow> string list \<Rightarrow> Host \<Rightarrow> (string \<times> string) option" where
  "host_candidate profileUUID activeInbounds host =
     (if host_IsDisabled host then None
      else case DeploymentProfileFromHost host of
        Inl _ \<Rightarrow> None
      | Inr profile \<Rightarrow>
          if dp_ActiveConfigProfileUUID profile \<noteq> profileUUID \<or> length (dp_ActiveInbounds profile) \<noteq> 1 then None
          else if \<not> list_ex (\<lambda>i. i = dp_ActiveInbounds profile ! 0) activeInbounds then None
          else
            let key = normalizeDomain (dp_SNIDomain profile) in
            if key \<noteq> [] then Some (key, dp_SNIDomain profile) else None)"

fun host_candidates :: "string \<Rightarrow> string list \<Rightarrow> Host list \<Rightarrow> (string \<times> string) list \<Rightarrow> (string \<times> string) list" where
  "host_candidates profileUUID activeInbounds [] candidates = candidates"
| "host_candidates profileUUID activeInbounds (host # hosts) candidates =
     host_candidates profileUUID activeInbounds hosts
       (case host_candidate profileUUID activeInbounds host of
          None \<Rightarrow> candidates
        | Some (key, sni) \<Rightarrow> AList.update key sni candidates)"

definition inferLegacyDNSZone :: "'w ports \<Rightarrow> Node \<Rightarrow> ('w, ZoneMatch option \<times> string) op" where
  "inferLegacyDNSZone p node =
     (case node_ActiveConfigProfileUUID node of
        None \<Rightarrow> okE (None, note_incomplete)
      | Some profile \<Rightarrow>
          if TrimSpace profile = [] \<or> length (node_ActiveInboundUUIDs node) = 0
          then okE (None, note_incomplete)
          else do {
            r \<leftarrow> GetHosts_op p;
            case r of
              Inl _ \<Rightarrow> failE (OrchErr ErrNodeIPChangeFailed)
            | Inr hosts \<Rightarrow>
                let activeInbounds = filter (\<lambda>i. i \<noteq> []) (map TrimSpace (node_ActiveInboundUUIDs node));
                    candidates = host_candidates (TrimSpace profile) activeInbounds hosts [] in
                (case candidates of
                   [] \<Rightarrow> okE (None, note_no_host)
                 | (key, sni) # rest \<Rightarrow>
                     if rest \<noteq> [] then okE (None, note_ambiguous)
                     else do {
                       m \<leftarrow> FindZone_op p sni;
                       case m of
                         Inl _ \<Rightarrow> failE (OrchErr ErrDNSUpdateFailed)
                       | Inr zone \<Rightarrow> okE (Some zone, note_inferred)
                     })
          })"

section \<open>The preview\<close>

definition legacy_target :: "NodeDNSSyncTarget \<Rightarrow> addr \<Rightarrow> ZoneMatch option \<Rightarrow> string \<Rightarrow> NodeDNSSyncTarget" where
  "legacy_target target address inferred note =
     (let target = target\<lparr>ds_Note := note\<rparr> in
      case inferred of
        None \<Rightarrow> target
      | Some zone \<Rightarrow>
          let present = zoneContainsIP (zm_Zone zone) address;
              target = target\<lparr>ds_DNSZone := zm_FQDN zone, ds_CurrentPresent := present, ds_CanSync := True\<rparr> in
          if advanced_zone (zm_Zone zone) \<and> \<not> present
          then target\<lparr>ds_CanSync := False, ds_Note := note @ note_no_address\<rparr>
          else if present then target\<lparr>ds_Note := note @ note_matches\<rparr>
          else target\<lparr>ds_Note := note @ note_will_add\<rparr>)"

definition managed_target :: "NodeDNSSyncTarget \<Rightarrow> addr \<Rightarrow> Deployment \<Rightarrow> ZoneMatch \<Rightarrow> NodeDNSSyncTarget" where
  "managed_target target address managed zone =
     (let previous = Unmap (dep_TargetVPSIP managed);
          present = zoneContainsIP (zm_Zone zone) address;
          previousPresent = (IsValid previous \<and> zoneContainsIP (zm_Zone zone) previous);
          target = target\<lparr>ds_Managed := True, ds_DNSZone := zm_FQDN zone, ds_PreviousIP := previous,
            ds_CurrentPresent := present, ds_PreviousPresent := previousPresent, ds_CanSync := True\<rparr> in
      if advanced_zone (zm_Zone zone) \<and> \<not> present \<and> \<not> previousPresent
      then target\<lparr>ds_CanSync := False, ds_Note := note_unsafe\<rparr>
      else if present \<and> previous \<noteq> address \<and> previousPresent then target\<lparr>ds_Note := note_stale_removed\<rparr>
      else if present then target\<lparr>ds_Note := note_in_sync\<rparr>
      else if previous \<noteq> address \<and> previousPresent then target\<lparr>ds_Note := note_replaced\<rparr>
      else target\<lparr>ds_Note := note_added\<rparr>)"

definition FindNodeForDNSSync :: "'w ports \<Rightarrow> Config \<Rightarrow> string \<Rightarrow> ('w, NodeDNSSyncTarget) op" where
  "FindNodeForDNSSync p cfg query =
     (if cfg_DNSDisabled cfg then failE (OrchErr ErrDNSSyncUnavailable)
      else
        bindE (findExactNode p query) (\<lambda>(node, address).
        bindE (zones_of p cfg address) (\<lambda>zones.
        let target = \<lparr>ds_UUID = node_UUID node, ds_Name = node_Name node, ds_Address = address,
              ds_Connected = node_IsConnected node, ds_Managed = False, ds_DNSZone = [],
              ds_PreviousIP = AddrZero, ds_CurrentZones = sort_Strings (map zm_FQDN zones),
              ds_CurrentPresent = False, ds_PreviousPresent = False, ds_CanSync = False, ds_Note = []\<rparr> in
        bindE (find_managed p cfg (node_UUID node)) (\<lambda>managed.
        case managed of
          None \<Rightarrow> bindE (inferLegacyDNSZone p node) (\<lambda>(inferred, note). okE (legacy_target target address inferred note))
        | Some current \<Rightarrow> do {
            m \<leftarrow> FindZone_op p (dep_SNIDomain current);
            case m of
              Inl _ \<Rightarrow> failE (OrchErr ErrDNSUpdateFailed)
            | Inr zone \<Rightarrow> okE (managed_target target address current zone)
          }))))"

section \<open>The synchronisation\<close>

text \<open>The zone to change, and the address the deployment had (none for a legacy Node).\<close>

definition sync_zone :: "'w ports \<Rightarrow> Node \<Rightarrow> Deployment option \<Rightarrow> ('w, ZoneMatch \<times> addr) op" where
  "sync_zone p node managed =
     (case managed of
        None \<Rightarrow>
          bindE (inferLegacyDNSZone p node) (\<lambda>(inferred, note).
          case inferred of
            None \<Rightarrow> failE (OrchErr ErrDNSTargetUnknown)
          | Some zone \<Rightarrow> okE (zone, AddrZero))
      | Some current \<Rightarrow> do {
          m \<leftarrow> FindZone_op p (dep_SNIDomain current);
          case m of
            Inl _ \<Rightarrow> failE (OrchErr ErrDNSUpdateFailed)
          | Inr zone \<Rightarrow> okE (zone, Unmap (dep_TargetVPSIP current))
        })"

definition sync_records :: "'w ports \<Rightarrow> ZoneMatch \<Rightarrow> addr \<Rightarrow> addr \<Rightarrow> ('w, sync_action) op" where
  "sync_records p zone previous address =
     (let currentPresent = zoneContainsIP (zm_Zone zone) address;
          previousPresent = (IsValid previous \<and> previous \<noteq> address \<and> zoneContainsIP (zm_Zone zone) previous) in
      if previousPresent then do {
        r \<leftarrow> ReplaceIP_op p (zm_FQDN zone) previous address;
        case r of
          Inl _ \<Rightarrow> failE (OrchErr ErrDNSUpdateFailed)
        | Inr result \<Rightarrow> okE (if rr_Changed result then DNSSyncReplaced else DNSSyncAlreadyPresent)
      }
      else if \<not> currentPresent then
        (if advanced_zone (zm_Zone zone) then failE (OrchErr ErrDNSTargetUnknown)
         else do {
           r \<leftarrow> AddIP_op p (zm_FQDN zone) address;
           case r of
             Inl _ \<Rightarrow> failE (OrchErr ErrDNSUpdateFailed)
           | Inr result \<Rightarrow> okE (if ar_Added result then DNSSyncAdded else DNSSyncAlreadyPresent)
         })
      else okE DNSSyncAlreadyPresent)"

definition sync_row :: "'w ports \<Rightarrow> Deployment option \<Rightarrow> addr \<Rightarrow> addr \<Rightarrow> ('w, unit) op" where
  "sync_row p managed previous address =
     (case managed of
        None \<Rightarrow> okE ()
      | Some current \<Rightarrow>
          if previous \<noteq> address then do {
            r \<leftarrow> SetTargetVPSIP_op p (dep_ID current) address;
            case r of Inl _ \<Rightarrow> failE (OrchErr ErrPersistenceFailed) | Inr _ \<Rightarrow> okE ()
          } else okE ())"

definition sync_node :: "'w ports \<Rightarrow> Config \<Rightarrow> NodeDNSSyncInput \<Rightarrow> ('w, NodeDNSSyncResult) op" where
  "sync_node p cfg input =
     bindE (findNodeByUUID p (dy_NodeUUID input)) (\<lambda>(node, address).
     if address \<noteq> Unmap (dy_ExpectedIP input) then failE (OrchErr ErrNodeIPChangeFailed)
     else
       bindE (find_managed p cfg (node_UUID node)) (\<lambda>managed.
       bindE (sync_zone p node managed) (\<lambda>(zone, previous).
       bindE (sync_records p zone previous address) (\<lambda>action.
       bindE (sync_row p managed previous address) (\<lambda>_.
       okE \<lparr>dr_NodeName = node_Name node, dr_Address = address, dr_DNSZone = zm_FQDN zone,
            dr_Action = action, dr_PreviousIP = previous\<rparr>)))))"

definition SyncNodeDNS :: "'w ports \<Rightarrow> Config \<Rightarrow> NodeDNSSyncInput \<Rightarrow> ('w, NodeDNSSyncResult) op" where
  "SyncNodeDNS p cfg input =
     (if cfg_DNSDisabled cfg then failE (OrchErr ErrDNSSyncUnavailable)
      else if TrimSpace (dy_NodeUUID input) = [] \<or> \<not> IsValid (dy_ExpectedIP input) \<or> \<not> publicIP (dy_ExpectedIP input)
        then failE (OrchErr ErrInvalidInput)
      else with_execution p cfg (''node-dns:'' @ TrimSpace (dy_NodeUUID input)) (sync_node p cfg input))"

section \<open>What a synchronisation does\<close>

fun syncs :: "event \<Rightarrow> bool" where
  "syncs (EvFindZone _ _) = True"
| "syncs e = moves_address e"

interpretation sync: outward syncs
proof unfold_locales
  show "\<not> syncs e" if "bookkeeping e" for e using that by (cases e) auto
qed

text \<open>
  \<open>synced address zone es\<close>: the DNS changes after the zone was read.  Nothing where it has the
  address and no stale one; the replacement of a stale address of it; or the addition of the
  address to a zone of simple entries that lacks it.
\<close>

definition synced :: "addr \<Rightarrow> ZoneMatch \<Rightarrow> bool \<Rightarrow> event list \<Rightarrow> bool" where
  "synced address zone success es \<longleftrightarrow>
     (es = [] \<and> (success \<longrightarrow> zoneContainsIP (zm_Zone zone) address)) \<or>
     (\<exists>old r. es = [EvReplaceIP (zm_FQDN zone) old address r] \<and> old \<noteq> address \<and>
        zoneContainsIP (zm_Zone zone) old \<and> (success \<longrightarrow> \<not> isl r)) \<or>
     (\<exists>r. es = [EvAddIP (zm_FQDN zone) address r] \<and> \<not> zoneContainsIP (zm_Zone zone) address \<and>
        \<not> advanced_zone (zm_Zone zone) \<and> (success \<longrightarrow> \<not> isl r))"

lemma shows_sync_records:
  "shows_out syncs (sync_records p zone previous address) (\<lambda>r. synced address zone (\<not> isl r))"
  unfolding sync_records_def ReplaceIP_op_def AddIP_op_def
  by (intro shows_let shows_if shows_bind shows_call shows_case_sum shows_failE shows_okE) (auto simp: synced_def)

lemma hidden_sync_row: "sync.hidden (sync_row p managed previous address)"
  unfolding sync_row_def SetTargetVPSIP_op_def by (intro sync.io_rules sync.io_db_call) simp_all

lemma synced_fails: "synced address zone True es \<Longrightarrow> synced address zone False es"
  by (auto simp: synced_def)

text \<open>What the lookup of the zone shows: one lookup at most, whose zone is the one to change.\<close>

definition found :: "go_error + ZoneMatch \<times> addr \<Rightarrow> event list \<Rightarrow> bool" where
  "found r es \<longleftrightarrow> (case r of
     Inr (zone, previous) \<Rightarrow> \<exists>fqdn. es = [EvFindZone fqdn (Inr zone)]
   | Inl _ \<Rightarrow> es = [] \<or> (\<exists>fqdn e. es = [EvFindZone fqdn (Inl e)]))"

lemma shows_infer:
  "shows_out syncs (inferLegacyDNSZone p node) (\<lambda>r es. case r of
     Inr (Some zone, note) \<Rightarrow> \<exists>fqdn. es = [EvFindZone fqdn (Inr zone)]
   | Inr (None, note) \<Rightarrow> es = []
   | Inl _ \<Rightarrow> es = [] \<or> (\<exists>fqdn e. es = [EvFindZone fqdn (Inl e)]))"
  unfolding inferLegacyDNSZone_def GetHosts_op_def FindZone_op_def
  by (intro shows_rules shows_bind shows_call) auto

lemma shows_sync_zone: "shows_out syncs (sync_zone p node managed) found"
proof (cases managed)
  case None
  have "shows_out syncs (bindE (inferLegacyDNSZone p node) (\<lambda>(inferred, note).
          case inferred of None \<Rightarrow> failE (OrchErr ErrDNSTargetUnknown) | Some zone \<Rightarrow> okE (zone, AddrZero))) found"
    by (intro shows_bindE shows_mono [OF shows_infer])
      (auto simp: found_def split: sum.splits option.splits prod.splits intro!: shows_rules)
  then show ?thesis by (simp add: sync_zone_def None)
next
  case (Some current)
  have "shows_out syncs (do {
          m \<leftarrow> FindZone_op p (dep_SNIDomain current);
          case m of
            Inl _ \<Rightarrow> failE (OrchErr ErrDNSUpdateFailed)
          | Inr zone \<Rightarrow> okE (zone, Unmap (dep_TargetVPSIP current))
        }) found"
    unfolding FindZone_op_def by (intro shows_rules shows_bind shows_call) (auto simp: found_def)
  then show ?thesis by (simp add: sync_zone_def Some)
qed

text \<open>A run: what its lookup shows, and then the change.\<close>

definition sync_shown :: "addr \<Rightarrow> go_error + NodeDNSSyncResult \<Rightarrow> event list \<Rightarrow> bool" where
  "sync_shown address r es \<longleftrightarrow>
     (case r of
        Inl _ \<Rightarrow> es = [] \<or> (\<exists>fqdn e. es = [EvFindZone fqdn (Inl e)]) \<or>
          (\<exists>fqdn zone change. es = EvFindZone fqdn (Inr zone) # change \<and> synced address zone False change)
      | Inr result \<Rightarrow>
          (\<exists>fqdn zone change. es = EvFindZone fqdn (Inr zone) # change \<and> synced address zone True change \<and>
             dr_DNSZone result = zm_FQDN zone \<and> dr_Address result = address))"

lemma shows_sync_node: "shows_out syncs (sync_node p cfg input) (sync_shown (Unmap (dy_ExpectedIP input)))"
proof -
  have records: "shows_out syncs
      (bindE (sync_records p zone previous address) (\<lambda>action.
       bindE (sync_row p managed previous address) (\<lambda>_.
       okE \<lparr>dr_NodeName = node_Name node, dr_Address = address, dr_DNSZone = zm_FQDN zone,
            dr_Action = action, dr_PreviousIP = previous\<rparr>)))
      (\<lambda>r es. sync_shown address r (EvFindZone fqdn (Inr zone) # es))"
    for fqdn zone previous address managed node
    by (intro shows_bindE shows_mono [OF shows_sync_records])
      (auto split: sum.split intro!: sync.shows_hidden_bindE hidden_sync_row shows_okE
        simp: sync_shown_def dest: synced_fails)
  have found: "shows_out syncs
      (bindE (sync_zone p node managed) (\<lambda>(zone, previous).
       bindE (sync_records p zone previous address) (\<lambda>action.
       bindE (sync_row p managed previous address) (\<lambda>_.
       okE \<lparr>dr_NodeName = node_Name node, dr_Address = address, dr_DNSZone = zm_FQDN zone,
            dr_Action = action, dr_PreviousIP = previous\<rparr>))))
      (sync_shown expected)" if "\<not> address \<noteq> expected" for address expected managed node
  proof (rule shows_bindE, rule shows_mono [OF shows_sync_zone], goal_cases)
    case (1 r es)
    show ?case
    proof (cases r)
      case (Inl e)
      with 1 show ?thesis by (auto simp: found_def sync_shown_def)
    next
      case (Inr found)
      with 1 records that show ?thesis by (cases found) (auto simp: found_def)
    qed
  qed
  have none: "sync_shown address (Inl e) []" for address e by (simp add: sync_shown_def)
  have by_uuid: "sync.hidden (findNodeByUUID p uuid)" for uuid
    unfolding findNodeByUUID_def GetNodes_op_def by (intro sync.io_rules sync.io_call) simp
  have managed: "sync.hidden (find_managed p cfg uuid)" for uuid
    unfolding find_managed_def FindNode_op_def by (intro sync.io_basic sync.io_db_read) simp
  show ?thesis
    unfolding sync_node_def
    by (intro found sync.shows_hidden_bindE by_uuid managed none shows_case_prod shows_if shows_failE)
qed

text \<open>
  C23. \<open>SyncNodeDNS\<close> never changes a Node: it reads one zone and makes at most one change in it.  It
  replaces an address of that zone by the address the operator confirmed, or adds that address to a
  zone that lacks it and has only simple entries, or changes nothing.  After a success the zone had
  the address already, or the balancer accepted the change.
\<close>

theorem SyncNodeDNS_one_change:
  "\<exists>es. sys_log (exec_state (SyncNodeDNS p cfg input) s) = sys_log s @ es \<and>
     sync_shown (Unmap (dy_ExpectedIP input)) (result_of (SyncNodeDNS p cfg input) s) (filter syncs es)"
proof -
  have "shows_out syncs (SyncNodeDNS p cfg input) (sync_shown (Unmap (dy_ExpectedIP input)))"
    unfolding SyncNodeDNS_def
    by (intro shows_if shows_failE sync.shows_with_execution shows_sync_node) (simp_all add: sync_shown_def)
  then show ?thesis unfolding shows_out_def logs_def by blast
qed

end
