(* ===== verification/Service.thy ===== *)
theory Service
  imports Deploy_Limits Node_Host_Move Dns_Sync
begin

text \<open>
  The whole deployment service: every method it exports, as requests that are handled one after the
  other.  To the deployment workflow of \<^verbatim>\<open>Deploy_Order\<close> come the change of an address, the move to
  another Host, the synchronisation of DNS, their previews and the bootstrap of a certificate.
  What no request leaks and what every request keeps of the database is shown here; what requests
  do to DNS and when a deployment is completed, in \<^verbatim>\<open>Service_Order\<close>.
\<close>

section \<open>The bootstrap of a certificate\<close>

text \<open>
  \<^verbatim>\<open>BootstrapCertificate\<close> of \<^verbatim>\<open>internal/orchestrator/service.go\<close>.  The certificate manager is a
  parameter here (its model is \<^verbatim>\<open>Cert_Manager\<close>): \<open>None\<close> when it is no \<^verbatim>\<open>CertificateBootstrapper\<close>, and
  else a call that answers a result or the text of its error.  The operator gets a text with
  every answer, with an error too.
\<close>

record BootstrapAnswer =
  ba_SNI :: string
  ba_Version :: string
  ba_ManagedTargets :: nat
  ba_AcknowledgedLegacyIPs :: nat

type_synonym 'w bootstrapper = "(string \<Rightarrow> int \<Rightarrow> 'w \<Rightarrow> (string + BootstrapAnswer) \<times> 'w) option"

definition BootstrapCertificate ::
  "'w bootstrapper \<Rightarrow> string \<Rightarrow> int \<Rightarrow> ('w sys, string \<times> go_error option) state" where
  "BootstrapCertificate boot sni operatorUserID =
     (case boot of
        None \<Rightarrow> State_Monad.return ([], Some (safeError ''CERTIFICATE_BOOTSTRAP_UNAVAILABLE''
          ''Certificate bootstrap is unavailable'' ErrCertificateUnavailable))
      | Some bootstrap \<Rightarrow> do {
          r \<leftarrow> call (bootstrap sni operatorUserID) (\<lambda>_. []);
          State_Monad.return (case r of
            Inl err \<Rightarrow>
              let message = safeText err ''Certificate bootstrap could not be completed'' in
              (message, Some (safeError ''CERTIFICATE_BOOTSTRAP_FAILED'' message ErrCertificateUnavailable))
          | Inr result \<Rightarrow>
              (''Certificate '' @ ba_Version result @ '' activated for '' @ ba_SNI result @
               ''; managed targets: '' @ Itoa (int (ba_ManagedTargets result)) @
               ''; acknowledged legacy targets: '' @ Itoa (int (ba_AcknowledgedLegacyIPs result)), None))
        })"

section \<open>Requests\<close>

datatype service_request =
    Workflow request
  | FindForIPChange string
  | ChangeIP NodeIPChangeInput
  | PrepareHostMove string
  | MoveToHost NodeHostMoveInput
  | FindForDNSSync string
  | SyncDNS NodeDNSSyncInput
  | Bootstrap string int

fun handle :: "'w ports \<Rightarrow> 'w bootstrapper \<Rightarrow> Config \<Rightarrow> service_request \<Rightarrow> ('w sys, unit) state" where
  "handle p boot cfg (Workflow q) = serve p cfg q"
| "handle p boot cfg (FindForIPChange query) = ignore (FindNodeForIPChange p cfg query)"
| "handle p boot cfg (ChangeIP input) = ignore (ReplaceNodeIP p cfg input)"
| "handle p boot cfg (PrepareHostMove uuid) = ignore (PrepareNodeHostMove p cfg uuid)"
| "handle p boot cfg (MoveToHost input) = ignore (MoveNodeToHost p cfg input)"
| "handle p boot cfg (FindForDNSSync query) = ignore (FindNodeForDNSSync p cfg query)"
| "handle p boot cfg (SyncDNS input) = ignore (SyncNodeDNS p cfg input)"
| "handle p boot cfg (Bootstrap sni userID) =
     State_Monad.bind (BootstrapCertificate boot sni userID) (\<lambda>_. State_Monad.return ())"

fun handle_all :: "'w ports \<Rightarrow> 'w bootstrapper \<Rightarrow> Config \<Rightarrow> service_request list \<Rightarrow> ('w sys, unit) state" where
  "handle_all p boot cfg [] = State_Monad.return ()"
| "handle_all p boot cfg (q # qs) = State_Monad.bind (handle p boot cfg q) (\<lambda>_. handle_all p boot cfg qs)"

section \<open>The operations on Nodes, in the frame\<close>

context workflow_frame
begin

lemma io_ignored: "state_io_rel R m \<Longrightarrow> state_io_rel R (ignore m)"
  unfolding ignore_def by (intro io_basic)

lemma io_BootstrapCertificate: "state_io_rel R (BootstrapCertificate boot sni userID)"
  unfolding BootstrapCertificate_def by (intro io_basic io_call_silent)

lemma io_findExactNode: "state_io_rel R (findExactNode p query)"
  unfolding findExactNode_def GetNodes_op_def
  by (intro io_basic io_case_list io_call ok_bookkeeping) simp

lemma io_nodes_by_uuid: "state_io_rel R (nodeByUUID p uuid)" "state_io_rel R (findNodeByUUID p uuid)"
  unfolding nodeByUUID_def findNodeByUUID_def GetNodes_op_def
  by (intro io_basic io_call ok_bookkeeping; simp)+

lemma io_find_managed: "state_io_rel R (find_managed p cfg uuid)"
  unfolding find_managed_def FindNode_op_def
  by (intro io_basic io_db_read ok_bookkeeping) simp

lemma io_zones_of: "state_io_rel R (zones_of p cfg address)"
  unfolding zones_of_def FindZonesByIP_op_def by (intro io_basic io_call ok_bookkeeping) simp

lemma io_FindNodeForIPChange: "state_io_rel R (FindNodeForIPChange p cfg query)"
  unfolding FindNodeForIPChange_def by (intro io_basic io_findExactNode io_zones_of io_find_managed)

lemma io_PrepareNodeHostMove: "state_io_rel R (PrepareNodeHostMove p cfg uuid)"
  unfolding PrepareNodeHostMove_def GetHosts_op_def
  by (intro io_basic io_case_list io_nodes_by_uuid io_find_managed io_call ok_bookkeeping) simp

lemma io_inferLegacyDNSZone:
  "(\<And>fqdn r. ok (EvFindZone fqdn r)) \<Longrightarrow> state_io_rel R (inferLegacyDNSZone p node)"
  unfolding inferLegacyDNSZone_def GetHosts_op_def FindZone_op_def
  by (intro io_basic io_case_list io_call) (simp_all add: ok_bookkeeping)

lemma io_FindNodeForDNSSync:
  "(\<And>fqdn r. ok (EvFindZone fqdn r)) \<Longrightarrow> state_io_rel R (FindNodeForDNSSync p cfg query)"
  unfolding FindNodeForDNSSync_def FindZone_op_def
  by (intro io_basic io_findExactNode io_zones_of io_find_managed io_inferLegacyDNSZone io_call)

text \<open>The change of an address; without zones no record is touched.\<close>

lemma io_replace_zones:
  assumes "\<And>fqdn r. ok (EvReplaceIP fqdn oldIP newIP r)"
  shows "state_io_rel R (replace_zones p oldIP newIP zones changed)"
proof (induction zones arbitrary: changed)
  case (Cons zone zones)
  then show ?case
    unfolding replace_zones.simps ReplaceIP_op_def by (intro io_basic io_call assms)
qed (simp add: io_basic)

lemma io_restore_zones:
  assumes "\<And>fqdn r. ok (EvReplaceIP fqdn newIP oldIP r)"
  shows "state_io_rel R (restore_zones p oldIP newIP zones)"
proof (induction zones)
  case (Cons zone zones)
  then show ?case
    unfolding restore_zones.simps ReplaceIP_op_def by (intro io_basic io_call assms)
qed (simp add: io_basic)

lemma io_change_address:
  assumes address: "\<And>input r. ok (EvUpdateAddress input r)" and row: "\<And>uuid ip r. ok (EvDbTargetIP uuid ip r)"
    and zones: "\<And>fqdn r. zones \<noteq> [] \<Longrightarrow> ok (EvReplaceIP fqdn oldIP newIP r) \<and> ok (EvReplaceIP fqdn newIP oldIP r)"
  shows "state_io_rel R (change_address p node oldIP newIP zones managed)"
proof (cases "zones = []")
  case True
  have "state_io_rel R (rollbackNodeIP p uuid oldIP newIP [])" for uuid
    unfolding rollbackNodeIP_def UpdateNodeAddress_op_def by (simp, intro io_basic io_call address)
  moreover have "state_io_rel R (store_address p managed newIP)"
    unfolding store_address_def SetTargetVPSIP_op_def by (intro io_basic io_db_call row K_target)
  ultimately show ?thesis
    unfolding change_address_def UpdateNodeAddress_op_def True replace_zones.simps
    by (simp only: State_Monad.bind_left_identity case_prod_conv) (intro io_basic io_call address)
next
  case False
  have "state_io_rel R (rollbackNodeIP p uuid oldIP newIP changed)" for uuid changed
    unfolding rollbackNodeIP_def UpdateNodeAddress_op_def
    by (intro io_basic io_call address io_restore_zones) (use zones False in blast)
  moreover have "state_io_rel R (store_address p managed newIP)"
    unfolding store_address_def SetTargetVPSIP_op_def by (intro io_basic io_db_call row K_target)
  ultimately show ?thesis
    unfolding change_address_def UpdateNodeAddress_op_def
    by (intro io_basic io_call address io_replace_zones) (use zones False in blast)
qed

lemma io_ReplaceNodeIP:
  assumes address: "\<And>input r. ok (EvUpdateAddress input r)" and row: "\<And>uuid ip r. ok (EvDbTargetIP uuid ip r)"
    and zones: "\<And>fqdn r. \<not> cfg_DNSDisabled cfg \<Longrightarrow>
      ok (EvReplaceIP fqdn (Unmap (nc_ExpectedIP input)) (Unmap (nc_NewIP input)) r) \<and>
      ok (EvReplaceIP fqdn (Unmap (nc_NewIP input)) (Unmap (nc_ExpectedIP input)) r)"
  shows "state_io_rel R (ReplaceNodeIP p cfg input)"
proof -
  let ?old = "Unmap (nc_ExpectedIP input)" and ?new = "Unmap (nc_NewIP input)"
  have zone_part: "state_io_rel R (bindE (zones_of p cfg ?old) (\<lambda>zones.
      bindE (find_managed p cfg uuid) (\<lambda>managed. change_address p node ?old ?new zones managed)))" for uuid node
  proof (cases "cfg_DNSDisabled cfg")
    case True
    then show ?thesis
      unfolding zones_of_def if_P [OF True] bindE_okE
      by (intro io_basic io_find_managed io_change_address address row) simp
  next
    case False
    then show ?thesis
      by (intro io_basic io_zones_of io_find_managed io_change_address address row) (use zones in blast)
  qed
  have "state_io_rel R (replace_node_ip p cfg input ?old ?new)"
    unfolding replace_node_ip_def GetNodes_op_def
    by (intro io_basic io_call zone_part ok_bookkeeping) simp
  then show ?thesis
    unfolding ReplaceNodeIP_def Let_def by (intro io_basic io_with_execution)
qed

lemma io_MoveNodeToHost:
  assumes switch: "\<And>sw r. ok (EvSwitchSNI sw r)" and profile: "\<And>input r. ok (EvUpdateProfile input r)"
    and binding: "\<And>uuid params r. ok (EvDbBinding uuid params r)"
    and moves: "\<And>source target ip r. \<not> cfg_DNSDisabled cfg \<Longrightarrow> ok (EvMoveIP source target ip r)"
  shows "state_io_rel R (MoveNodeToHost p cfg input)"
proof -
  have failing: "state_io_rel R (fail_move p node previous sw changed e)"
    if "changed \<Longrightarrow> \<not> cfg_DNSDisabled cfg" for node previous sw changed and e :: orch_error
    unfolding fail_move_def rollbackNodeHostMove_def UpdateNodeProfile_op_def MoveIP_op_def SwitchSNI_op_def
    by (intro io_basic io_call profile moves switch) (use that in blast)
  have row: "state_io_rel R (move_row p cfg node previous selected sw managed changed)"
    if "changed \<Longrightarrow> \<not> cfg_DNSDisabled cfg" for node previous selected sw managed changed
    unfolding move_row_def SetNodeHostBinding_op_def Let_def
    by (intro io_basic io_db_call binding K_binding failing) (use that in blast)
  have dns: "state_io_rel R (move_dns p cfg node previous selected sw managed)" for node previous selected sw managed
    unfolding move_dns_def MoveIP_op_def
    by (intro io_basic io_call row failing moves) simp_all
  have certificates: "state_io_rel R (move_certificates p cfg node previous prof selected target address password)"
    for node previous prof selected target address password
    unfolding move_certificates_def move_profile_def PrepareCertificate_op_def SwitchSNI_op_def UpdateNodeProfile_op_def
    by (intro io_basic io_find_managed io_call switch profile failing dns) (simp_all add: ok_bookkeeping)
  show ?thesis
    unfolding MoveNodeToHost_def move_node_def move_checked_def GetHosts_op_def Let_def
    by (intro io_basic io_with_execution io_case_list io_nodes_by_uuid io_call certificates) (simp_all add: ok_bookkeeping)
qed

lemma io_SyncNodeDNS:
  assumes find: "\<And>fqdn r. ok (EvFindZone fqdn r)" and row: "\<And>uuid ip r. ok (EvDbTargetIP uuid ip r)"
    and change: "\<And>fqdn old r. \<not> cfg_DNSDisabled cfg \<Longrightarrow> ok (EvReplaceIP fqdn old (Unmap (dy_ExpectedIP input)) r)"
      "\<And>fqdn r. \<not> cfg_DNSDisabled cfg \<Longrightarrow> ok (EvAddIP fqdn (Unmap (dy_ExpectedIP input)) r)"
  shows "state_io_rel R (SyncNodeDNS p cfg input)"
proof (cases "cfg_DNSDisabled cfg")
  case True
  then show ?thesis unfolding SyncNodeDNS_def by (simp add: io_failE)
next
  case False
  let ?ip = "Unmap (dy_ExpectedIP input)"
  have records: "state_io_rel R (sync_records p zone previous address)" if "address = ?ip" for zone previous address
    unfolding sync_records_def ReplaceIP_op_def AddIP_op_def that
    by (intro io_basic io_call change False)
  have rest: "state_io_rel R (if address \<noteq> ?ip then failE e
      else bindE (find_managed p cfg uuid) (\<lambda>managed.
        bindE (sync_zone p node managed) (\<lambda>(zone, previous).
        bindE (sync_records p zone previous address) (\<lambda>action.
        bindE (sync_row p managed previous address) (\<lambda>_. okE (result zone previous action))))))"
    for address e uuid node and result :: "ZoneMatch \<Rightarrow> addr \<Rightarrow> sync_action \<Rightarrow> NodeDNSSyncResult"
    unfolding sync_zone_def sync_row_def FindZone_op_def SetTargetVPSIP_op_def
    by (intro io_basic io_find_managed io_inferLegacyDNSZone io_call io_db_call K_target find row records) simp_all
  show ?thesis
    unfolding SyncNodeDNS_def sync_node_def
    by (intro io_basic io_with_execution io_nodes_by_uuid rest)
qed

end

text \<open>A relation that allows every event has every request.\<close>

context workflow_all
begin

lemma io_handle: "state_io_rel R (handle p boot cfg q)"
proof (cases q)
  case (Workflow w)
  then show ?thesis by (simp add: io_serve)
next
  case (Bootstrap sni userID)
  then show ?thesis by (auto intro!: io_basic io_BootstrapCertificate)
qed (simp_all add: io_ignored io_FindNodeForIPChange io_ReplaceNodeIP io_PrepareNodeHostMove io_MoveNodeToHost
    io_FindNodeForDNSSync io_SyncNodeDNS every)

lemma io_handle_all: "state_io_rel R (handle_all p boot cfg qs)"
  by (induction qs) (auto intro!: io_basic io_handle)

lemma handle_all_rel: "R s (exec_state (handle_all p boot cfg qs) s)"
  using io_handle_all by (rule io_exec)

end

section \<open>Properties\<close>

text \<open>
  C7. The service leaks neither an execution slot nor the mark of a running operation: after any
  sequence of requests to any of its exported methods, the deployment workflow, the change of an
  address, the move to another Host and the synchronisation of DNS included, and on every error
  path, the operations marked as running and the slots in use are those of the start.
\<close>

theorem service_releases:
  "sys_running (exec_state (handle_all p boot cfg qs) s) = sys_running s \<and>
   sys_slots (exec_state (handle_all p boot cfg qs) s) = sys_slots s"
  using slots.handle_all_rel [of s p boot cfg qs] by (simp add: same_slots_def)

text \<open>
  C8. The rows of the service stay well-formed: as long as the other processes keep the invariant
  of the tables, every sequence of requests to any of its exported methods does, whatever becomes of
  its statements.
\<close>

theorem service_keeps_db_wf:
  assumes "\<forall>w db. db_wf db \<longrightarrow> db_wf (p_others p w db)" and "db_wf db"
  shows "db_wf (sys_db (exec_state (handle_all p boot cfg qs) (started w db)))"
  using rows.handle_all_rel [of p "started w db" boot cfg qs] assms
  by (simp add: keeps_wf_def others_keep_def started_def)

definition demo_sync :: NodeDNSSyncInput where
  "demo_sync = \<lparr>dy_NodeUUID = ''n'', dy_ExpectedIP = Addr4 0x08080808\<rparr>"

theorem service_keeps_db_wf_witness:
  "db_wf \<lparr>deployments = [], deployment_steps = []\<rparr> \<and>
   db_wf (sys_db (exec_state (handle_all demo_ports None demo_cfg [Workflow (DeployRequest demo_input True), SyncDNS demo_sync])
     (started () \<lparr>deployments = [], deployment_steps = []\<rparr>)))"
proof -
  have e: "db_wf \<lparr>deployments = [], deployment_steps = []\<rparr>" by (simp add: db_wf_def tbl_distinct_def)
  show ?thesis by (intro conjI e service_keeps_db_wf) (simp add: demo_ports_def)
qed

end
