(* ===== verification/Service_Order.thy ===== *)
theory Service_Order
  imports Service
begin

text \<open>
  What the requests to the deployment service do to DNS, and when a deployment is completed.  The log
  of a sequence of requests is cut into the events of each request; an event with consequences is
  justified by the events of its own request before it.
\<close>

section \<open>Justified events\<close>

text \<open>Every event is right after the events before it.\<close>

fun along :: "('e list \<Rightarrow> 'e \<Rightarrow> bool) \<Rightarrow> 'e list \<Rightarrow> 'e list \<Rightarrow> bool" where
  "along ok before [] = True"
| "along ok before (e # es) = (ok before e \<and> along ok (before @ [e]) es)"

lemma along_append: "along ok before (es @ es') \<longleftrightarrow> along ok before es \<and> along ok (before @ es) es'"
  by (induction es arbitrary: before) auto

lemma along_mono: "along ok before es \<Longrightarrow> (\<And>b e. ok b e \<Longrightarrow> ok' b e) \<Longrightarrow> along ok' before es"
  by (induction es arbitrary: before) auto

lemma along_all: "list_all good es \<Longrightarrow> (\<And>b e. good e \<Longrightarrow> ok b e) \<Longrightarrow> along ok before es"
  by (induction es arbitrary: before) auto

text \<open>
  What publishing a deployment needs of its row: the identifier, the Node, the name and the
  address; and those of the rows a request has read.
\<close>

type_synonym dns_target = "string \<times> string option \<times> string \<times> addr"

definition dns_target_of :: "Deployment \<Rightarrow> dns_target" where
  "dns_target_of row = (dep_ID row, dep_RemnawaveNodeUUID row, dep_SNIDomain row, dep_TargetVPSIP row)"

definition targets_read :: "event list \<Rightarrow> dns_target set" where
  "targets_read es = {dns_target_of row |row. \<exists>uuid. EvDbGet uuid (Inr row) \<in> set es}"

lemma targets_read_append [simp]: "targets_read (es @ es') = targets_read es \<union> targets_read es'"
  by (auto simp: targets_read_def)

fun dns_change :: "event \<Rightarrow> bool" where
  "dns_change (EvAddIP _ _ _) = True"
| "dns_change (EvReplaceIP _ _ _ _) = True"
| "dns_change (EvMoveIP _ _ _ _) = True"
| "dns_change _ = False"

lemma bookkeeping_quiet [simp]: "bookkeeping e \<Longrightarrow> \<not> dns_change e"
  by (cases e) simp_all

text \<open>
  A DNS change of a request: the deployment workflow adds the address and the name of a row it
  has read, directly after the panel said that the Node of that row is connected; the change of an
  address replaces the confirmed address by the new one, or back; the move to another Host moves an
  address; the synchronisation brings in the confirmed address.  No other request changes DNS,
  and none does where DNS is disabled.
\<close>

definition dns_justified :: "Config \<Rightarrow> service_request \<Rightarrow> event list \<Rightarrow> event \<Rightarrow> bool" where
  "dns_justified cfg q before e \<longleftrightarrow>
     (dns_change e \<longrightarrow> \<not> cfg_DNSDisabled cfg \<and>
       (case q of
          Workflow _ \<Rightarrow>
            (\<exists>front uuid node i fqdn ip r. e = EvAddIP fqdn ip r \<and> before = front @ [EvGetNode uuid (Inr node)] \<and>
               node_IsConnected node \<and> (i, Some uuid, fqdn, ip) \<in> targets_read front)
        | ChangeIP input \<Rightarrow>
            (let old = Unmap (nc_ExpectedIP input); new = Unmap (nc_NewIP input) in
             \<exists>fqdn r. e = EvReplaceIP fqdn old new r \<or> e = EvReplaceIP fqdn new old r)
        | MoveToHost _ \<Rightarrow> (\<exists>source target ip r. e = EvMoveIP source target ip r)
        | SyncDNS input \<Rightarrow>
            (\<exists>fqdn old r. e = EvReplaceIP fqdn old (Unmap (dy_ExpectedIP input)) r) \<or>
            (\<exists>fqdn r. e = EvAddIP fqdn (Unmap (dy_ExpectedIP input)) r)
        | _ \<Rightarrow> False))"

text \<open>
  The completion of a deployment: only the workflow writes it, directly after the DNS step of that
  deployment was stored; that step is stored as completed only directly after the balancer accepted
  the address and the name of a row of that deployment the request has read, and as skipped only where
  DNS is disabled.
\<close>

definition completion_justified :: "Config \<Rightarrow> service_request \<Rightarrow> event list \<Rightarrow> event \<Rightarrow> bool" where
  "completion_justified cfg q before e \<longleftrightarrow>
     (case e of
        EvDbState uuid params _ \<Rightarrow> up_Status params = StatusCompleted \<longrightarrow>
          (\<exists>w. q = Workflow w) \<and>
          (\<exists>front step row. before = front @ [EvDbStep step (Inr row)] \<and> rp_DeploymentID step = uuid \<and>
             rp_Name step = stepAddDNS \<and> rp_Status step \<in> {StepStatusCompleted, StepStatusSkipped})
      | EvDbStep params _ \<Rightarrow> rp_Name params = stepAddDNS \<longrightarrow>
          (rp_Status params = StepStatusCompleted \<longrightarrow>
             (\<exists>front fqdn ip result node. before = front @ [EvAddIP fqdn ip (Inr result)] \<and>
                (rp_DeploymentID params, node, fqdn, ip) \<in> targets_read front)) \<and>
          (rp_Status params = StepStatusSkipped \<longrightarrow> cfg_DNSDisabled cfg)
      | _ \<Rightarrow> True)"

lemma bookkeeping_justified: "bookkeeping e \<Longrightarrow> dns_justified cfg q before e \<and> completion_justified cfg q before e"
  by (cases e) (auto simp: dns_justified_def completion_justified_def)

definition justified :: "Config \<Rightarrow> service_request \<Rightarrow> event list \<Rightarrow> event \<Rightarrow> bool" where
  "justified cfg q before e \<longleftrightarrow> dns_justified cfg q before e \<and> completion_justified cfg q before e"

section \<open>The deployment workflow\<close>

text \<open>
  The traces of a workflow request \<open>w\<close> that are justified after the events \<open>pre\<close>, once the targets
  \<open>S\<close> have been read.
\<close>

definition after :: "Config \<Rightarrow> request \<Rightarrow> dns_target set \<Rightarrow> event list \<Rightarrow> event list \<Rightarrow> bool" where
  "after cfg w S pre es \<longleftrightarrow>
     (\<forall>before. S \<subseteq> targets_read before \<longrightarrow> along (justified cfg (Workflow w)) (before @ pre) es)"

lemma after_Nil [simp]: "after cfg w S pre []"
  by (simp add: after_def)

lemma after_Cons [simp]:
  "after cfg w S pre (e # es) \<longleftrightarrow>
     (\<forall>before. S \<subseteq> targets_read before \<longrightarrow> justified cfg (Workflow w) (before @ pre) e) \<and> after cfg w S (pre @ [e]) es"
  by (auto simp: after_def)

abbreviation allowed :: "Config \<Rightarrow> request \<Rightarrow> dns_target set \<Rightarrow> event list \<Rightarrow> bool" where
  "allowed cfg w S \<equiv> after cfg w S []"

lemma allowed_append:
  assumes "after cfg w S pre es" "allowed cfg w T es'" "T \<subseteq> S \<union> targets_read es"
  shows "after cfg w S pre (es @ es')"
proof -
  have "T \<subseteq> targets_read (before @ pre @ es)" if "S \<subseteq> targets_read before" for before
    using that assms(3) by auto
  then show ?thesis using assms(1,2) by (simp add: after_def along_append)
qed

lemma justified_bookkeeping: "bookkeeping e \<Longrightarrow> justified cfg q before e"
  by (simp add: justified_def bookkeeping_justified)

interpretation allow: workflow_trace "allowed cfg w S"
proof unfold_locales
  show "allowed cfg w S (es @ es')" if "allowed cfg w S es" "allowed cfg w S es'" for es es'
    using allowed_append [OF that] by blast
qed (simp_all add: justified_bookkeeping)

lemma logs_book_after:
  assumes "state_io_rel (grows (list_all bookkeeping)) m"
  shows "logs sys_log m (\<lambda>_. after cfg w S pre)"
  using assms unfolding logs_grows [symmetric]
  by (rule logs_mono) (auto simp: after_def intro: along_all justified_bookkeeping)

text \<open>Publishing a row that has been read.\<close>

lemma publish_result_after:
  assumes "dns_target_of current \<in> S"
  shows "logs sys_log (publish_result p cfg current sink added) (\<lambda>_. after cfg w S
    (pre @ [EvAddIP (dep_SNIDomain current) (dep_TargetVPSIP current) added]))"
proof (cases added)
  case (Inl e)
  then show ?thesis
    unfolding publish_result_def
    by (simp only: sum.case) (intro logs_book_after book.io_basic book.io_failStage; simp)
next
  case (Inr result)
  have stored: "justified cfg (Workflow w)
      (before @ pre @ [EvAddIP (dep_SNIDomain current) (dep_TargetVPSIP current) (Inr result)]) (EvDbStep params r)"
    if "S \<subseteq> targets_read before" "rp_DeploymentID params = dep_ID current" "rp_Status params = StepStatusCompleted"
    for before params r
  proof -
    have "(rp_DeploymentID params, dep_RemnawaveNodeUUID current, dep_SNIDomain current, dep_TargetVPSIP current)
        \<in> targets_read (before @ pre)"
      using assms that by (auto simp: dns_target_of_def)
    then show ?thesis using that by (auto simp: justified_def dns_justified_def completion_justified_def)
  qed
  have completed: "justified cfg (Workflow w) (before @ pre @ [e, EvDbStep step (Inr row)]) (EvDbState (dep_ID current) params r)"
    if "rp_DeploymentID step = dep_ID current" "rp_Name step = stepAddDNS" "rp_Status step = StepStatusCompleted"
    for before e step row params r
    using that append_assoc [of before "pre @ [e]" "[EvDbStep step (Inr row)]"]
    by (auto simp: justified_def dns_justified_def completion_justified_def)
  show ?thesis
    unfolding Inr publish_result_def completeStage_def record_step_def setState_def RecordStep_op_def
      UpdateState_op_def Let_def bindE_bindE
    by (simp only: sum.case) (intro log_rules; auto simp: stored completed justified_bookkeeping split: sum.splits intro!: log_rules)
qed

lemma publish_allowed:
  assumes "dns_target_of current \<in> S" "dep_RemnawaveNodeUUID current = Some uuid" "\<not> cfg_DNSDisabled cfg"
  shows "state_io_rel (grows (allowed cfg w S)) (publish_dns p cfg current uuid sink)"
proof -
  have healthy: "justified cfg (Workflow w) (before @ [EvGetNode uuid (Inr node)])
      (EvAddIP (dep_SNIDomain current) (dep_TargetVPSIP current) r)"
    if "S \<subseteq> targets_read before" "node_IsConnected node" for before node r
    using that assms by (auto simp: justified_def dns_justified_def completion_justified_def dns_target_of_def)
  have branch: "logs sys_log
      (if case r of Inl _ \<Rightarrow> True | Inr node \<Rightarrow> \<not> node_IsConnected node then m
       else State_Monad.bind (AddIP_op p (dep_SNIDomain current) (dep_TargetVPSIP current)) (publish_result p cfg current sink))
      (\<lambda>_. after cfg w S [EvGetNode uuid r])"
    if m: "state_io_rel (grows (list_all bookkeeping)) m" for r m
  proof (cases "case r of Inl _ \<Rightarrow> True | Inr node \<Rightarrow> \<not> node_IsConnected node")
    case True
    then show ?thesis using logs_book_after [OF m] by simp
  next
    case False
    then obtain node where r: "r = Inr node" and up: "node_IsConnected node" by (auto split: sum.splits)
    show ?thesis
      unfolding AddIP_op_def r using up healthy
      by (auto intro!: logs_bind logs_call logs_mono [OF publish_result_after [OF assms(1), where pre = "[EvGetNode uuid (Inr node)]"]])
  qed
  show ?thesis
    unfolding logs_grows [symmetric] publish_dns_def GetNode_op_def
    by (intro logs_bind logs_call logs_bindE logs_ctx_check)
      (simp_all add: justified_bookkeeping split del: if_split, intro branch book.io_failStage, simp)
qed

lemma skip_allowed:
  assumes "cfg_DNSDisabled cfg"
  shows "state_io_rel (grows (allowed cfg w S)) (skip_dns p current sink)"
proof -
  have skipped: "justified cfg (Workflow w) before (EvDbStep params r)" if "rp_Status params = StepStatusSkipped" for before params r
    using that assms by (auto simp: justified_def dns_justified_def completion_justified_def)
  have completed: "justified cfg (Workflow w) (before @ [EvDbStep step (Inr row)]) (EvDbState (dep_ID current) params r)"
    if "rp_DeploymentID step = dep_ID current" "rp_Name step = stepAddDNS" "rp_Status step = StepStatusSkipped"
    for before step row params r
    using that by (auto simp: justified_def dns_justified_def completion_justified_def)
  show ?thesis
    unfolding logs_grows [symmetric] skip_dns_def RecordStep_op_def setState_def UpdateState_op_def Let_def bindE_bindE
    by (intro log_rules; auto simp: skipped completed justified_bookkeeping split: sum.splits intro!: log_rules)
qed

lemma addDNS_allowed:
  assumes "dns_target_of current \<in> S"
  shows "state_io_rel (grows (allowed cfg w S)) (addDNS p cfg current sink)"
  unfolding addDNS_def
  by (intro allow.io_basic allow.io_beginStage publish_allowed skip_allowed assms) simp_all

text \<open>What follows a read may use the row that was read.\<close>

definition reads_row :: "Config \<Rightarrow> request \<Rightarrow> ('w, Deployment) op \<Rightarrow> bool" where
  "reads_row cfg w m \<longleftrightarrow> logs sys_log m (\<lambda>r es. (\<forall>S. allowed cfg w S es) \<and>
     (\<forall>row. r = Inr row \<longrightarrow> dns_target_of row \<in> targets_read es))"

lemma then_row:
  assumes "reads_row cfg w m"
    and "\<And>row. state_io_rel (grows (allowed cfg w {dns_target_of row})) (k row)"
  shows "state_io_rel (grows (allowed cfg w S)) (bindE m k)"
  unfolding logs_grows [symmetric]
proof (intro logs_bindE logs_mono [OF assms(1) [unfolded reads_row_def]])
  fix r es
  assume read: "(\<forall>S. allowed cfg w S es) \<and> (\<forall>row. r = Inr row \<longrightarrow> dns_target_of row \<in> targets_read es)"
  show "case r of Inl e \<Rightarrow> allowed cfg w S es | Inr row \<Rightarrow> logs sys_log (k row) (\<lambda>_ es'. allowed cfg w S (es @ es'))"
  proof (cases r)
    case (Inr row)
    have "logs sys_log (k row) (\<lambda>_. allowed cfg w {dns_target_of row})"
      using assms(2) by (simp add: logs_grows)
    then show ?thesis
      using read Inr by (auto elim!: logs_mono intro: allowed_append)
  qed (use read in simp)
qed

lemma reads_row_reload: "reads_row cfg w (reload p uuid message)"
  unfolding reads_row_def reload_def GetDeployment_op_def or_fail_def
  by (intro logs_bind logs_db_call logs_case_sum logs_okE logs_bindE logs_ctx_check logs_failE)
    (auto simp: targets_read_def justified_bookkeeping intro!: logs_failE)

lemma reads_row_load: "reads_row cfg w (load_deployment p cfg uuid)"
proof -
  have "logs sys_log (deploymentForPanel p cfg uuid)
      (\<lambda>r es. (\<forall>S. allowed cfg w S es) \<and> (\<forall>row. r = Inr row \<longrightarrow> dns_target_of row \<in> targets_read es))"
    unfolding deploymentForPanel_def GetDeployment_op_def
    by (intro logs_bindE logs_db_call) (auto simp: targets_read_def justified_bookkeeping split: sum.split
        intro!: logs_if logs_failE logs_okE)
  then show ?thesis
    unfolding reads_row_def load_deployment_def or_fail_def
    by (intro logs_bind) (erule logs_mono, auto split: sum.split intro!: logs_okE logs_bindE logs_ctx_check logs_failE)
qed

text \<open>The other effects of the workflow need no justification here.\<close>

lemma justified_free [simp]:
  "justified cfg (Workflow w) before (EvPreflight uuid address result)"
  "justified cfg (Workflow w) before (EvProvision input err)"
  "justified cfg (Workflow w) before (EvFindZone fqdn match)"
  "justified cfg (Workflow w) before (EvCreateNode create node)"
  "justified cfg (Workflow w) before (EvDbNodeUUID uuid nuuid row)"
  by (simp_all add: justified_def dns_justified_def completion_justified_def)

lemma deploy_allowed: "state_io_rel (grows (allowed cfg w S)) (Deploy p cfg input sink)"
proof -
  have final: "state_io_rel (grows (allowed cfg w {dns_target_of current})) (deploy_final p cfg sink current)" for current
    unfolding deploy_final_def by (intro allow.io_basic addDNS_allowed) simp_all
  have wait: "state_io_rel (grows (allowed cfg w {dns_target_of current})) (deploy_wait p cfg sink current)" for current
    unfolding deploy_wait_def
    by (intro allow.io_if final allow.io_bindE allow.io_waitForHealthyNode then_row [OF reads_row_reload])
  have assign: "state_io_rel (grows (allowed cfg w S)) (assign_node p cfg current host)" for S current host
    unfolding assign_node_def obtain_node_def new_node_def GetNodes_op_def SetNodeUUID_op_def
    by (intro allow.io_basic allow.io_call allow.io_db_call allow.io_failStage) (simp_all add: justified_bookkeeping)
  have create: "state_io_rel (grows (allowed cfg w {dns_target_of current})) (deploy_create p cfg sink host current)" for host current
    unfolding deploy_create_def
    by (intro allow.io_if wait allow.io_bindE allow.io_createNode assign then_row [OF reads_row_reload])
  have provision: "state_io_rel (grows (allowed cfg w S)) (provision_vps p cfg sink input)" for S input
  proof -
    have "state_io_rel (grows (allowed cfg w S)) (call (p_Provision p input) (\<lambda>(reports, err). [EvProvision input err]))"
      by (rule allow.trace_call) (simp split: prod.split)
    then show ?thesis unfolding provision_vps_def by (intro allow.io_basic allow.io_emit_reports)
  qed
  have stages: "state_io_rel (grows (allowed cfg w {dns_target_of current})) (deploy_stages p cfg sink host current)" for host current
    unfolding deploy_stages_def
    by (intro allow.io_if create allow.io_bindE allow.io_prepareAndProvision provision then_row [OF reads_row_reload])
  have loaded: "state_io_rel (grows (allowed cfg w {dns_target_of current})) (deploy_loaded p cfg input sink current)" for current
    unfolding deploy_loaded_def deploy_checked_def
    by (intro allow.io_basic allow.io_selectedHost allow.io_checkUnique allow.io_failStage stages) simp_all
  show ?thesis
    unfolding Deploy_def
    by (intro allow.io_bind allow.io_if allow.io_failE allow.io_observe allow.io_return allow.io_with_execution
        then_row [OF reads_row_load] loaded)
qed

lemma retry_dns_allowed: "state_io_rel (grows (allowed cfg w S)) (RetryDNS p cfg uuid sink)"
proof -
  have add: "state_io_rel (grows (allowed cfg w {dns_target_of current}))
      (addDNS p cfg (current\<lparr>dep_Status := StatusAddingToDNS\<rparr>) sink)" for current
    by (rule addDNS_allowed) (simp add: dns_target_of_def)
  show ?thesis
    unfolding RetryDNS_def
    by (intro allow.io_with_execution then_row [OF reads_row_load] allow.io_basic allow.io_beginStage add) simp
qed

lemma serve_allowed: "state_io_rel (grows (allowed cfg w {})) (serve p cfg w)"
proof -
  have resume: "resume_status step = Some st \<Longrightarrow> st \<noteq> StatusCompleted" for step st
    by (auto simp: resume_status_def split: if_splits)
  have retry: "state_io_rel (grows (allowed cfg w {})) (RetryFailedStep p cfg uuid sink)" for w uuid sink
    unfolding RetryFailedStep_def
    by (intro allow.io_basic allow.io_load allow.io_setState deploy_allowed retry_dns_allowed) (simp_all add: resume)
  have prepare: "state_io_rel (grows (allowed cfg w {})) (Prepare p cfg input)" for w input
  proof -
    have report: "state_io_rel (grows (allowed cfg w {})) (prepared_report p cfg profile result created)" for profile result created
      unfolding prepared_report_def FindZone_op_def
      by (intro allow.io_basic allow.io_call) (simp_all add: justified_bookkeeping)
    have preflight: "state_io_rel (grows (allowed cfg w {})) (prepare_preflight p cfg input profile created)" for profile created
      unfolding prepare_preflight_def
      by (intro allow.io_basic allow.io_beginStage allow.io_call allow.io_failStage allow.io_completeStage allow.io_load report)
        (simp_all add: step_names)
    show ?thesis
      unfolding Prepare_def CreateDeployment_op_def
      by (intro allow.io_basic allow.io_selectedHost allow.io_checkUnique allow.io_call_silent allow.io_db_call
          allow.io_with_execution preflight) (simp_all add: justified_bookkeeping)
  qed
  show ?thesis
    by (cases w) (simp_all add: allow.io_ignored deploy_allowed retry_dns_allowed retry prepare allow.io_Cancel allow.io_SafeLogs)
qed

section \<open>The operations on Nodes\<close>

text \<open>Requests whose events need no history: each is bookkeeping or one of the events that are good.\<close>

interpretation events: workflow_trace "list_all (\<lambda>e. bookkeeping e \<or> good e)"
  by unfold_locales simp_all

definition operator_event :: "event \<Rightarrow> bool" where
  "operator_event e \<longleftrightarrow> (case e of
     EvUpdateAddress _ _ \<Rightarrow> True | EvUpdateProfile _ _ \<Rightarrow> True | EvSwitchSNI _ _ \<Rightarrow> True | EvFindZone _ _ \<Rightarrow> True
   | EvDbTargetIP _ _ _ \<Rightarrow> True | EvDbBinding _ _ _ \<Rightarrow> True | _ \<Rightarrow> False)"

definition operator_dns :: "Config \<Rightarrow> service_request \<Rightarrow> event \<Rightarrow> bool" where
  "operator_dns cfg q e \<longleftrightarrow> operator_event e \<or> dns_change e \<and> (\<forall>before. dns_justified cfg q before e)"

lemma operator_justified: "operator_dns cfg q e \<Longrightarrow> justified cfg q before e"
  by (cases e) (auto simp: operator_dns_def operator_event_def justified_def dns_justified_def completion_justified_def)

lemma operator_dns_free [simp]:
  "operator_dns cfg q (EvUpdateAddress input r)" "operator_dns cfg q (EvUpdateProfile profile r)"
  "operator_dns cfg q (EvSwitchSNI sw err)" "operator_dns cfg q (EvFindZone fqdn match)"
  "operator_dns cfg q (EvDbTargetIP uuid ip row)" "operator_dns cfg q (EvDbBinding uuid params row)"
  by (simp_all add: operator_dns_def operator_event_def)

lemma handle_operator:
  assumes "\<And>w. q \<noteq> Workflow w"
  shows "state_io_rel (grows (list_all (\<lambda>e. bookkeeping e \<or> operator_dns cfg q e))) (handle p boot cfg q)"
proof (cases q)
  case (Workflow w)
  then show ?thesis using assms by blast
next
  case (ChangeIP input)
  have "operator_dns cfg q (EvReplaceIP fqdn (Unmap (nc_ExpectedIP input)) (Unmap (nc_NewIP input)) r)"
    "operator_dns cfg q (EvReplaceIP fqdn (Unmap (nc_NewIP input)) (Unmap (nc_ExpectedIP input)) r)"
    if "\<not> cfg_DNSDisabled cfg" for fqdn r
    using that by (auto simp: operator_dns_def dns_justified_def Let_def ChangeIP)
  then show ?thesis
    unfolding ChangeIP handle.simps by (intro events.io_ignored events.io_ReplaceNodeIP) simp_all
next
  case (MoveToHost input)
  have "operator_dns cfg q (EvMoveIP source target ip r)" if "\<not> cfg_DNSDisabled cfg" for source target ip r
    using that by (auto simp: operator_dns_def dns_justified_def MoveToHost)
  then show ?thesis
    unfolding MoveToHost handle.simps by (intro events.io_ignored events.io_MoveNodeToHost) simp_all
next
  case (SyncDNS input)
  have "operator_dns cfg q (EvReplaceIP fqdn old (Unmap (dy_ExpectedIP input)) r)"
    "operator_dns cfg q (EvAddIP fqdn (Unmap (dy_ExpectedIP input)) added)"
    if "\<not> cfg_DNSDisabled cfg" for fqdn old r added
    using that by (auto simp: operator_dns_def dns_justified_def SyncDNS)
  then show ?thesis
    unfolding SyncDNS handle.simps by (intro events.io_ignored events.io_SyncNodeDNS) simp_all
next
  case (Bootstrap sni userID)
  then show ?thesis by (auto intro!: events.io_basic events.io_BootstrapCertificate)
qed (simp_all add: events.io_ignored events.io_FindNodeForIPChange events.io_PrepareNodeHostMove
    events.io_FindNodeForDNSSync)

lemma handle_justified: "logs sys_log (handle p boot cfg q) (\<lambda>_. along (justified cfg q) [])"
proof (cases "\<exists>w. q = Workflow w")
  case True
  then obtain w where q: "q = Workflow w" by blast
  show ?thesis
    using serve_allowed [of cfg w p] unfolding q handle.simps logs_grows [symmetric]
    by (rule logs_mono) (auto simp: after_def)
next
  case False
  then show ?thesis
    using handle_operator [of q cfg p boot] unfolding logs_grows [symmetric]
    by (auto elim!: logs_mono intro: along_all justified_bookkeeping operator_justified)
qed

lemma handle_all_segments:
  assumes "\<And>q. logs sys_log (handle p boot cfg q) (\<lambda>_. P q)"
  shows "\<exists>ess. sys_log (exec_state (handle_all p boot cfg qs) s) = sys_log s @ concat ess \<and> list_all2 P qs ess"
proof (induction qs arbitrary: s)
  case Nil
  show ?case by (intro exI [of _ "[]"]) simp
next
  case (Cons q qs)
  obtain es where es: "sys_log (exec_state (handle p boot cfg q) s) = sys_log s @ es" "P q es"
    using assms [of q] unfolding logs_def by blast
  obtain ess where ess: "sys_log (exec_state (handle_all p boot cfg qs) (exec_state (handle p boot cfg q) s)) =
      sys_log (exec_state (handle p boot cfg q) s) @ concat ess" "list_all2 P qs ess"
    using Cons.IH by blast
  show ?case
    by (intro exI [of _ "es # ess"]) (use es ess in \<open>simp add: split_beta\<close>)
qed

section \<open>Properties\<close>


text \<open>
  C2. Of the exported methods of the deployment service, only those of the deployment workflow set
  a deployment to \<open>COMPLETED\<close>, and only directly after the DNS step of that deployment was stored as
  completed or skipped.  That step is written as completed only directly after the balancer
  accepted the name and the address of a row of that deployment read in the same request, and as
  skipped only where DNS is disabled for the panel.  (Recovery also completes deployments, on its
  own terms: see \<^verbatim>\<open>Recovery\<close>.)
\<close>

theorem completion_only_after_dns:
  "\<exists>ess. sys_log (exec_state (handle_all p boot cfg qs) s) = sys_log s @ concat ess \<and>
     list_all2 (\<lambda>q. along (completion_justified cfg q) []) qs ess"
  by (intro handle_all_segments logs_mono [OF handle_justified])
    (auto simp: justified_def elim: along_mono)

end
