(* ===== verification/Recovery.thy ===== *)
theory Recovery
  imports Node_Frame Safe_Text
begin

text \<open>
  The recovery service (\<^verbatim>\<open>internal/recovery/service.go\<close>), which classifies the deployments that a
  restart left unfinished, and the recheck an operator asks for.  The properties: it only reads the
  panel and DNS, it completes only what it has just seen healthy, and what it answers is what it
  has stored.
\<close>

section \<open>Data\<close>

datatype Classification = SafeToRecheck | SafeToRetryDNS | RecoveredCompleted | NeedsManualReview

record RecoveryResult =
  rc_DeploymentID :: string
  rc_Classification :: Classification
  rc_SafeMessage :: string

record RecoveryService =
  rs_panelID :: string
  rs_dnsDisabled :: bool

text \<open>The constructors; a dependency that is \<^verbatim>\<open>nil\<close> is \<open>False\<close>.\<close>

definition NewForPanelWithDNSMode ::
  "bool \<Rightarrow> bool \<Rightarrow> bool \<Rightarrow> string \<Rightarrow> bool \<Rightarrow> go_error + RecoveryService" where
  "NewForPanelWithDNSMode repository remnawaveAPI dns panelID dnsDisabled =
     (if \<not> repository \<or> \<not> remnawaveAPI \<or> \<not> dns then Inl (OtherErr ''recovery dependencies are required'')
      else let panelID = TrimSpace panelID in
        if panelID = [] then Inl (OtherErr ''recovery panel is required'')
        else Inr \<lparr>rs_panelID = panelID, rs_dnsDisabled = dnsDisabled\<rparr>)"

definition NewForPanel :: "bool \<Rightarrow> bool \<Rightarrow> bool \<Rightarrow> string \<Rightarrow> go_error + RecoveryService" where
  "NewForPanel repository remnawaveAPI dns panelID = NewForPanelWithDNSMode repository remnawaveAPI dns panelID False"

text \<open>The nil dereference of \<^verbatim>\<open>*item.RemnawaveNodeUUID\<close>, a panic of the program.\<close>

definition nil_dereference :: go_error where
  "nil_dereference = OtherErr ''runtime error: invalid memory address or nil pointer dereference''"

section \<open>Operations\<close>

definition recovery_result :: "Deployment \<Rightarrow> Classification \<Rightarrow> string \<Rightarrow> RecoveryResult" where
  "recovery_result item c message =
     \<lparr>rc_DeploymentID = dep_ID item, rc_Classification = c, rc_SafeMessage = message\<rparr>"

text \<open>A state update that ends a classification.\<close>

definition store_result ::
  "'w ports \<Rightarrow> Deployment \<Rightarrow> UpdateDeploymentStateParams \<Rightarrow> string \<Rightarrow> Classification \<Rightarrow> string
     \<Rightarrow> ('w, RecoveryResult) op" where
  "store_result p item params failure c message = do {
     r \<leftarrow> UpdateState_op p (dep_ID item) params;
     case r of
       Inl _ \<Rightarrow> failE (OtherErr failure)
     | Inr _ \<Rightarrow> okE (recovery_result item c message)
   }"

definition manual :: "'w ports \<Rightarrow> Deployment \<Rightarrow> string \<Rightarrow> ('w, RecoveryResult) op" where
  "manual p item message =
     (let message = safeNodeMessage (Some message) in
      store_result p item
        \<lparr>up_Status = StatusManualReview, up_CurrentStep = dep_CurrentStep item,
         up_SafeErrorCode = Some ''MANUAL_REVIEW_REQUIRED'', up_SafeErrorMessage = Some message\<rparr>
        ''persist manual review state failed'' NeedsManualReview message)"

definition lists_address :: "addr \<Rightarrow> string \<Rightarrow> bool" where
  "lists_address target value =
     (case ParseAddr (TrimSpace value) of None \<Rightarrow> False | Some ip \<Rightarrow> Unmap ip = Unmap target)"

definition dnsContains :: "'w ports \<Rightarrow> string \<Rightarrow> addr \<Rightarrow> ('w, bool) op" where
  "dnsContains p sni target = do {
     r \<leftarrow> FindZone_op p sni;
     case r of
       Inl err \<Rightarrow> failE err
     | Inr match \<Rightarrow>
         okE (list_ex (lists_address target) (elems (z_IPs (zm_Zone match))) \<or>
              list_ex (\<lambda>node. lists_address target (zn_IP node)) (elems (z_Nodes (zm_Zone match))))
   }"

definition recovered_node :: "Deployment \<Rightarrow> Node \<Rightarrow> bool" where
  "recovered_node item node \<longleftrightarrow>
     TrimSpace (node_Name node) = dep_NodeName item \<and>
     (case ParseAddr (TrimSpace (node_Address node)) of
        None \<Rightarrow> False
      | Some address \<Rightarrow> Unmap address = Unmap (dep_TargetVPSIP item))"

definition completed_params :: UpdateDeploymentStateParams where
  "completed_params = \<lparr>up_Status = StatusCompleted, up_CurrentStep = ''completed'',
     up_SafeErrorCode = None, up_SafeErrorMessage = None\<rparr>"

definition judge_dns :: "'w ports \<Rightarrow> RecoveryService \<Rightarrow> Deployment \<Rightarrow> ('w, RecoveryResult) op" where
  "judge_dns p rs item =
     (if rs_dnsDisabled rs then do {
        _ \<leftarrow> RecordStep_op p \<lparr>rp_DeploymentID = dep_ID item, rp_Name = ''add_dns'', rp_Status = StepStatusSkipped,
          rp_SafeSummary = Some ''DNS balancing is disabled for this panel'', rp_ErrorMessage = None\<rparr>;
        store_result p item completed_params ''persist recovered completion failed''
          RecoveredCompleted ''Node is healthy; DNS balancing is disabled''
      } else do {
        contains \<leftarrow> dnsContains p (dep_SNIDomain item) (dep_TargetVPSIP item);
        case contains of
          Inl _ \<Rightarrow> manual p item ''DNS state could not be verified''
        | Inr True \<Rightarrow>
            store_result p item completed_params ''persist recovered completion failed''
              RecoveredCompleted ''Node and DNS were already healthy''
        | Inr False \<Rightarrow>
            store_result p item
              \<lparr>up_Status = StatusDNSFailed, up_CurrentStep = ''add_dns'',
               up_SafeErrorCode = Some ''DNS_RETRY_REQUIRED'',
               up_SafeErrorMessage = Some ''Node is healthy and DNS requires an explicit retry''\<rparr>
              ''persist DNS retry state failed'' SafeToRetryDNS ''Node is healthy and DNS can be retried''
      })"

definition judge_node :: "'w ports \<Rightarrow> RecoveryService \<Rightarrow> Deployment \<Rightarrow> string \<Rightarrow> ('w, RecoveryResult) op" where
  "judge_node p rs item uuid = do {
     r \<leftarrow> GetNode_op p uuid;
     case r of
       Inl _ \<Rightarrow> manual p item ''Remnawave Node health could not be verified''
     | Inr node \<Rightarrow>
         if \<not> node_IsConnected node \<and> node_IsConnecting node then
           store_result p item
             \<lparr>up_Status = StatusWaitingRemnawave, up_CurrentStep = ''wait_remnawave'',
              up_SafeErrorCode = None, up_SafeErrorMessage = None\<rparr>
             ''persist Remnawave recheck state failed'' SafeToRecheck ''Remnawave Node is still connecting''
         else if \<not> node_IsConnected node then manual p item (safeNodeMessage (node_LastStatusMessage node))
         else judge_dns p rs item
   }"

text \<open>\<^verbatim>\<open>GetNode(ctx, *item.RemnawaveNodeUUID)\<close> and what follows.\<close>

definition judge_item :: "'w ports \<Rightarrow> RecoveryService \<Rightarrow> Deployment \<Rightarrow> ('w, RecoveryResult) op" where
  "judge_item p rs item =
     (case dep_RemnawaveNodeUUID item of
        None \<Rightarrow> failE nil_dereference
      | Some uuid \<Rightarrow> judge_node p rs item uuid)"

definition inspectExternalState :: "'w ports \<Rightarrow> RecoveryService \<Rightarrow> Deployment \<Rightarrow> ('w, RecoveryResult) op" where
  "inspectExternalState p rs item =
     (if dep_RemnawaveNodeUUID item = None then do {
        r \<leftarrow> GetNodes_op p;
        case r of
          Inl _ \<Rightarrow> manual p item ''Remnawave state could not be verified''
        | Inr nodes \<Rightarrow>
            (case filter (recovered_node item) nodes of
               [exact] \<Rightarrow> do {
                 r \<leftarrow> SetNodeUUID_op p (dep_ID item) (node_UUID exact);
                 case r of
                   Inl _ \<Rightarrow> failE (OtherErr ''persist recovered Remnawave Node failed'')
                 | Inr updated \<Rightarrow> judge_item p rs updated
               }
             | _ \<Rightarrow> manual p item ''Existing Remnawave Node could not be identified safely'')
      }
      else judge_item p rs item)"

definition classify :: "'w ports \<Rightarrow> RecoveryService \<Rightarrow> Deployment \<Rightarrow> ('w, RecoveryResult) op" where
  "classify p rs item =
     (if dep_Status item = StatusCompleted then
        okE (recovery_result item RecoveredCompleted ''Deployment is already completed'')
      else if dep_Status item \<in> {StatusCreatingRemnawave, StatusWaitingRemnawave, StatusAddingToDNS} then
        inspectExternalState p rs item
      else if dep_Status item \<in> {StatusFailed, StatusManualReview} then
        (if dep_CurrentStep item \<in> {''create_remnawave_node'', ''wait_remnawave'', ''add_dns''}
         then inspectExternalState p rs item
         else manual p item ''Failed deployment cannot be rechecked automatically at this step'')
      else if dep_Status item = StatusDNSFailed then inspectExternalState p rs item
      else manual p item ''Restart occurred during a step that cannot be repeated automatically'')"

definition RecheckRemnawave :: "'w ports \<Rightarrow> RecoveryService \<Rightarrow> string \<Rightarrow> ('w, RecoveryResult) op" where
  "RecheckRemnawave p rs uuid = do {
     r \<leftarrow> GetDeployment_op p uuid;
     case r of
       Inl _ \<Rightarrow> failE (OtherErr ''load deployment for recheck failed'')
     | Inr item \<Rightarrow>
         if dep_PanelID item \<noteq> [] \<and> dep_PanelID item \<noteq> rs_panelID rs
         then failE (OtherErr ''deployment belongs to another panel'')
         else classify p rs item
   }"

text \<open>
  The loop of \<^verbatim>\<open>RecoverUnfinished\<close>: the results so far, and the error that stopped it.  The
  repository has the scoped query, so the type assertion succeeds.
\<close>

fun recover_items ::
  "'w ports \<Rightarrow> RecoveryService \<Rightarrow> Deployment list \<Rightarrow> RecoveryResult list
     \<Rightarrow> ('w sys, RecoveryResult list \<times> go_error option) state" where
  "recover_items p rs [] results = State_Monad.return (results, None)"
| "recover_items p rs (item # items) results =
     (if dep_PanelID item \<noteq> [] \<and> dep_PanelID item \<noteq> rs_panelID rs then recover_items p rs items results
      else do {
        r \<leftarrow> classify p rs item;
        case r of
          Inl err \<Rightarrow> State_Monad.return (results, Some err)
        | Inr result \<Rightarrow> recover_items p rs items (results @ [result])
      })"

definition RecoverUnfinished ::
  "'w ports \<Rightarrow> RecoveryService \<Rightarrow> int \<Rightarrow> ('w sys, RecoveryResult list \<times> go_error option) state" where
  "RecoverUnfinished p rs limit = do {
     r \<leftarrow> db_call p (\<lambda>oc now db. (FindUnfinishedDeploymentsByPanel oc (rs_panelID rs) limit db, db))
            (\<lambda>_. EvDbUnfinished (rs_panelID rs) limit);
     case r of
       Inl _ \<Rightarrow> State_Monad.return ([], Some (OtherErr ''load unfinished deployments failed''))
     | Inr items \<Rightarrow> recover_items p rs items []
   }"

section \<open>What recovery may complete\<close>

fun acts_outside :: "event \<Rightarrow> bool" where
  "acts_outside (EvCreateNode _ _) = True"
| "acts_outside (EvUpdateAddress _ _) = True"
| "acts_outside (EvUpdateProfile _ _) = True"
| "acts_outside (EvAddIP _ _ _) = True"
| "acts_outside (EvReplaceIP _ _ _ _) = True"
| "acts_outside (EvMoveIP _ _ _ _) = True"
| "acts_outside (EvProvision _ _) = True"
| "acts_outside (EvSwitchSNI _ _) = True"
| "acts_outside _ = False"

interpretation reading: outward acts_outside
proof unfold_locales
  show "\<not> acts_outside e" if "bookkeeping e" for e using that by (cases e) auto
qed

fun state_write :: "event \<Rightarrow> bool" where
  "state_write (EvDbState _ _ _) = True"
| "state_write _ = False"

definition no_writes :: "event list \<Rightarrow> bool" where
  "no_writes es \<longleftrightarrow> list_all (\<lambda>e. \<not> state_write e) es"

definition zone_lists :: "ZoneMatch \<Rightarrow> addr \<Rightarrow> bool" where
  "zone_lists match target \<longleftrightarrow>
     list_ex (lists_address target) (elems (z_IPs (zm_Zone match))) \<or>
     list_ex (\<lambda>node. lists_address target (zn_IP node)) (elems (z_Nodes (zm_Zone match)))"

text \<open>
  What recovery has seen right before it completes a deployment: a connected Node, the one of the
  row, and then the zone of the row's SNI name with the row's address.  With DNS disabled there is no
  DNS check: the last event is the record of the skipped step, whether it was stored or not.
\<close>

definition verified :: "RecoveryService \<Rightarrow> Deployment \<Rightarrow> event list \<Rightarrow> bool" where
  "verified rs row before \<longleftrightarrow>
     (\<exists>front uuid node e. before = front @ [EvGetNode uuid (Inr node), e] \<and> node_IsConnected node \<and>
        dep_RemnawaveNodeUUID row = Some uuid \<and>
        (if rs_dnsDisabled rs
         then \<exists>step answer. e = EvDbStep step answer \<and> rp_DeploymentID step = dep_ID row \<and>
           rp_Name step = ''add_dns'' \<and> rp_Status step = StepStatusSkipped
         else \<exists>match. e = EvFindZone (dep_SNIDomain row) (Inr match) \<and> zone_lists match (dep_TargetVPSIP row)))"

text \<open>
  The row a classification is about: the one it was given, or the one that came back when the
  identifier of its Node was stored in it.
\<close>

definition row_seen :: "Deployment \<Rightarrow> event list \<Rightarrow> Deployment \<Rightarrow> bool" where
  "row_seen item es row \<longleftrightarrow> row = item \<or>
     (\<exists>uuid. EvDbNodeUUID (dep_ID item) uuid (Inr row) \<in> set es \<and> uuid_column (dep_ID item) = Some (dep_ID row))"

fun stored_as :: "Classification \<Rightarrow> Status" where
  "stored_as SafeToRecheck = StatusWaitingRemnawave"
| "stored_as SafeToRetryDNS = StatusDNSFailed"
| "stored_as RecoveredCompleted = StatusCompleted"
| "stored_as NeedsManualReview = StatusManualReview"

text \<open>
  A classification: it writes no state, and is an error or the answer for a completed deployment; or
  its last event is its only write of a state, which completes only what is verified, and it answers
  exactly when the write was accepted, with the classification of the stored status.
\<close>

definition judged :: "RecoveryService \<Rightarrow> Deployment \<Rightarrow> go_error + RecoveryResult \<Rightarrow> event list \<Rightarrow> bool" where
  "judged rs item result es \<longleftrightarrow>
     result \<noteq> Inl nil_dereference \<and>
     ((no_writes es \<and>
        (case result of Inl _ \<Rightarrow> True
         | Inr answer \<Rightarrow> dep_Status item = StatusCompleted \<and> es = [] \<and>
             rc_Classification answer = RecoveredCompleted \<and> rc_DeploymentID answer = dep_ID item)) \<or>
      (\<exists>before row params r. es = before @ [EvDbState (dep_ID row) params r] \<and> no_writes before \<and>
         row_seen item before row \<and>
         (up_Status params = StatusCompleted \<longrightarrow> verified rs row before) \<and>
         (case result of Inl _ \<Rightarrow> isl r
          | Inr answer \<Rightarrow> \<not> isl r \<and> up_Status params = stored_as (rc_Classification answer) \<and>
              rc_DeploymentID answer = dep_ID row)))"

lemma judged_write:
  assumes "no_writes before" "result \<noteq> Inl nil_dereference" "row_seen item before row"
    and "up_Status params = StatusCompleted \<Longrightarrow> verified rs row before"
    and "case result of Inl _ \<Rightarrow> isl r
      | Inr answer \<Rightarrow> \<not> isl r \<and> up_Status params = stored_as (rc_Classification answer) \<and>
          rc_DeploymentID answer = dep_ID row"
  shows "judged rs item result (before @ [EvDbState (dep_ID row) params r])"
  unfolding judged_def using assms by (intro conjI disjI2) blast+

lemma judged_error: "no_writes es \<Longrightarrow> e \<noteq> nil_dereference \<Longrightarrow> judged rs item (Inl e) es"
  by (simp add: judged_def)

lemma no_writes_simps [simp]: "no_writes []" "no_writes (e # es) = (\<not> state_write e \<and> no_writes es)"
  "no_writes (es @ es') = (no_writes es \<and> no_writes es')"
  by (simp_all add: no_writes_def)

lemma failures_not_nil [simp]:
  "OtherErr ''persist manual review state failed'' \<noteq> nil_dereference"
  "OtherErr ''persist recovered completion failed'' \<noteq> nil_dereference"
  "OtherErr ''persist DNS retry state failed'' \<noteq> nil_dereference"
  "OtherErr ''persist Remnawave recheck state failed'' \<noteq> nil_dereference"
  "OtherErr ''persist recovered Remnawave Node failed'' \<noteq> nil_dereference"
  by (simp_all add: nil_dereference_def)

lemma row_seen_append: "row_seen item es row \<Longrightarrow> row_seen item (es @ es') row"
  by (auto simp: row_seen_def)

lemma row_seen_same [simp]: "row_seen item es item"
  by (simp add: row_seen_def)

lemma judged_store_result:
  assumes "no_writes before" "row_seen item before row" "OtherErr failure \<noteq> nil_dereference"
    and "up_Status params = stored_as c" and "c = RecoveredCompleted \<Longrightarrow> verified rs row before"
  shows "logs sys_log (store_result p row params failure c message) (\<lambda>r es. judged rs item r (before @ es))"
proof -
  have "verified rs row before" if "up_Status params = StatusCompleted"
    using assms(4,5) that by (cases c) simp_all
  then have "judged rs item (case r of Inl _ \<Rightarrow> Inl (OtherErr failure) | Inr _ \<Rightarrow> Inr (recovery_result row c message))
      (before @ [EvDbState (dep_ID row) params r])" for r
    using assms(1-4) by (intro judged_write) (auto simp: recovery_result_def split: sum.split)
  then show ?thesis
    unfolding store_result_def UpdateState_op_def
    by (intro logs_bind logs_db_call logs_case_sum logs_failE logs_okE) (force split: sum.splits)+
qed

lemma judged_manual:
  "no_writes before \<Longrightarrow> row_seen item before row \<Longrightarrow>
     logs sys_log (manual p row message) (\<lambda>r es. judged rs item r (before @ es))"
  unfolding manual_def Let_def by (rule judged_store_result) simp_all

lemma judged_then_store:
  assumes "no_writes (before @ [e])" "row_seen item before row" "OtherErr failure \<noteq> nil_dereference"
    and "up_Status params = stored_as c" and "c = RecoveredCompleted \<Longrightarrow> verified rs row (before @ [e])"
  shows "logs sys_log (store_result p row params failure c message) (\<lambda>r es. judged rs item r (before @ [e] @ es))"
  using judged_store_result [OF assms(1) row_seen_append [OF assms(2)] assms(3-)] by simp

lemma judged_then_manual:
  "no_writes (before @ [e]) \<Longrightarrow> row_seen item before row \<Longrightarrow>
     logs sys_log (manual p row message) (\<lambda>r es. judged rs item r (before @ [e] @ es))"
  using judged_manual [of "before @ [e]" item row] row_seen_append by simp

lemma logs_dnsContains:
  assumes "\<And>err. P (Inl err) [EvFindZone sni (Inl err)]"
    and "\<And>match. P (Inr (zone_lists match target)) [EvFindZone sni (Inr match)]"
  shows "logs sys_log (dnsContains p sni target) P"
  unfolding dnsContains_def FindZone_op_def zone_lists_def [symmetric]
  by (intro logs_bind logs_call logs_case_sum logs_failE logs_okE) (simp_all add: assms)

lemma judged_dns:
  assumes "no_writes front" "node_IsConnected node" "row_seen item front row" "dep_RemnawaveNodeUUID row = Some uuid"
  shows "logs sys_log (judge_dns p rs row) (\<lambda>r es. judged rs item r (front @ [EvGetNode uuid (Inr node)] @ es))"
proof -
  define before where "before = front @ [EvGetNode uuid (Inr node)]"
  have skipped: "verified rs row (before @ [EvDbStep step r])"
    if "rs_dnsDisabled rs" "rp_Status step = StepStatusSkipped" "rp_DeploymentID step = dep_ID row"
      "rp_Name step = ''add_dns''" for step r
    unfolding verified_def before_def using assms that by simp
  have found: "verified rs row (before @ [EvFindZone (dep_SNIDomain row) (Inr match)])"
    if "\<not> rs_dnsDisabled rs" "zone_lists match (dep_TargetVPSIP row)" for match
    unfolding verified_def before_def using assms that by simp
  have seen: "no_writes before" "row_seen item before row"
    using assms by (simp_all add: before_def row_seen_append)
  then have judge: "logs sys_log (case contains of
        Inl e \<Rightarrow> manual p row unverified
      | Inr True \<Rightarrow> store_result p row completed_params failure RecoveredCompleted message
      | Inr False \<Rightarrow> store_result p row params failure' SafeToRetryDNS message')
      (\<lambda>r es. judged rs item r (before @ [e] @ es))"
    if "\<not> state_write e" "contains = Inr True \<Longrightarrow> verified rs row (before @ [e])"
      "OtherErr failure \<noteq> nil_dereference" "OtherErr failure' \<noteq> nil_dereference"
      "up_Status params = StatusDNSFailed"
    for contains :: "go_error + bool" and unverified failure message params failure' message' e
    using that
    by (cases contains)
      (auto intro!: judged_then_store [unfolded append.simps] judged_then_manual [unfolded append.simps]
        simp: completed_params_def split: bool.split)
  have "logs sys_log (judge_dns p rs row) (\<lambda>r es. judged rs item r (before @ es))"
    unfolding judge_dns_def RecordStep_op_def
    by (intro logs_if logs_bind logs_db_call logs_dnsContains judged_then_store judge)
      (use seen in \<open>simp_all add: skipped found completed_params_def\<close>)
  then show ?thesis by (simp add: before_def)
qed

lemma judged_node:
  assumes "no_writes front" "row_seen item front row" "dep_RemnawaveNodeUUID row = Some uuid"
  shows "logs sys_log (judge_node p rs row uuid) (\<lambda>r es. judged rs item r (front @ es))"
  unfolding judge_node_def GetNode_op_def
  by (intro logs_bind logs_call logs_case_sum logs_if judged_then_store judged_then_manual)
    (auto simp: assms intro!: judged_dns [unfolded append.simps])

lemma logs_SetNodeUUID:
  assumes "\<And>e. P (Inl e) [EvDbNodeUUID uuid node (Inl e)]"
    and "\<And>row. dep_RemnawaveNodeUUID row \<noteq> None \<Longrightarrow> uuid_column uuid = Some (dep_ID row) \<Longrightarrow>
      P (Inr row) [EvDbNodeUUID uuid node (Inr row)]"
  shows "logs sys_log (SetNodeUUID_op p uuid node) P"
proof -
  have "dep_RemnawaveNodeUUID row \<noteq> None \<and> uuid_column uuid = Some (dep_ID row)"
    if "SetRemnawaveNodeUUID oc now uuid node db = (Inr row, db')"
    for oc now db row db'
    using that
    by (auto simp: SetRemnawaveNodeUUID_def update_returning_def dest: dep_tbl.lookup_key
        split: if_splits option.splits db_outcome.splits)
  then have "P r [EvDbNodeUUID uuid node r]" if "SetRemnawaveNodeUUID oc now uuid node db = (r, db')" for oc now db r db'
    using that assms by (cases r) (simp, blast)
  then show ?thesis
    unfolding SetNodeUUID_op_def logs_def db_call_def by (auto split: prod.splits)
qed

lemma judged_inspect: "logs sys_log (inspectExternalState p rs item) (judged rs item)"
proof (cases "dep_RemnawaveNodeUUID item")
  case (Some uuid)
  then show ?thesis
    using judged_node [of "[]" item item uuid p rs]
    by (simp add: inspectExternalState_def judge_item_def row_seen_def)
next
  case None
  have one: "logs sys_log (do {
      r \<leftarrow> SetNodeUUID_op p (dep_ID item) node;
      case r of
        Inl _ \<Rightarrow> failE (OtherErr ''persist recovered Remnawave Node failed'')
      | Inr updated \<Rightarrow> judge_item p rs updated
    }) (\<lambda>r es. judged rs item r (front @ es))" if "no_writes front" for front node
  proof -
    have "logs sys_log (judge_item p rs row)
        (\<lambda>r es. judged rs item r (front @ [EvDbNodeUUID (dep_ID item) node (Inr row)] @ es))"
      if "dep_RemnawaveNodeUUID row \<noteq> None" "uuid_column (dep_ID item) = Some (dep_ID row)" for row :: Deployment
    proof -
      from that obtain uuid where uuid: "dep_RemnawaveNodeUUID row = Some uuid" by blast
      have "row_seen item (front @ [EvDbNodeUUID (dep_ID item) node (Inr row)]) row"
        using that(2) by (auto simp: row_seen_def)
      from judged_node [OF _ this uuid, of p rs] \<open>no_writes front\<close> uuid show ?thesis by (simp add: judge_item_def)
    qed
    then show ?thesis
      using that by (intro logs_bind logs_SetNodeUUID) (auto intro!: logs_failE judged_error)
  qed
  show ?thesis
    unfolding inspectExternalState_def GetNodes_op_def
    by (intro logs_bind logs_call logs_if logs_case_sum logs_case_list one judged_manual)
      (simp_all add: None)
qed

lemma judged_classify: "logs sys_log (classify p rs item) (judged rs item)"
proof -
  have "judged rs item (Inr (recovery_result item RecoveredCompleted message)) []"
    if "dep_Status item = StatusCompleted" for message
    using that by (simp add: judged_def recovery_result_def)
  then show ?thesis
    unfolding classify_def
    using judged_manual [of "[]" item item p _ rs]
    by (intro logs_if logs_okE judged_inspect) simp_all
qed

text \<open>
  C20. Whatever the row and the environment, classifying a deployment writes at most one state, as
  its last step and into that row.  It writes \<open>COMPLETED\<close> only right after it has seen the Node of
  the row connected and then the address of the row in the zone of its SNI name; when DNS is
  disabled for the panel there is no check of DNS, and the record of the skipped step, which may
  fail, takes its place.  It answers exactly when the write was accepted, for that row and with the
  classification of the status it wrote; and it never dereferences a missing Node identifier.
\<close>

theorem classify_completes_verified:
  "\<exists>es. sys_log (exec_state (classify p rs item) s) = sys_log s @ es \<and>
     judged rs item (result_of (classify p rs item) s) es"
  using judged_classify [of p rs item] unfolding logs_def by blast

section \<open>Recovery after a restart\<close>

text \<open>A cancelled deployment is not left alone: it becomes \<open>MANUAL_REVIEW\<close>.\<close>

lemma classify_cancelled:
  assumes "dep_Status item = StatusCancelled"
  shows "logs sys_log (classify p rs item)
    (\<lambda>_ es. \<exists>params r. es = [EvDbState (dep_ID item) params r] \<and> up_Status params = StatusManualReview)"
  unfolding classify_def manual_def store_result_def UpdateState_op_def Let_def
  using assms by (intro logs_if logs_bind logs_db_call logs_case_sum logs_failE logs_okE) simp_all

definition in_panel :: "RecoveryService \<Rightarrow> Deployment \<Rightarrow> bool" where
  "in_panel rs item \<longleftrightarrow> dep_PanelID item = [] \<or> dep_PanelID item = rs_panelID rs"

text \<open>The classified rows of the panel in order, each with its answer, up to the first error.\<close>

fun judged_all ::
  "RecoveryService \<Rightarrow> Deployment list \<Rightarrow> RecoveryResult list \<Rightarrow> go_error option \<Rightarrow> event list \<Rightarrow> bool" where
  "judged_all rs [] answers err es \<longleftrightarrow> answers = [] \<and> err = None \<and> es = []"
| "judged_all rs (item # items) answers err es \<longleftrightarrow>
     (\<exists>es1 es2. es = es1 @ es2 \<and>
        ((\<exists>e. judged rs item (Inl e) es1 \<and> answers = [] \<and> err = Some e \<and> es2 = []) \<or>
         (\<exists>answer answers'. judged rs item (Inr answer) es1 \<and> answers = answer # answers' \<and>
            judged_all rs items answers' err es2)))"

lemma judged_recover_items:
  "logs sys_log (recover_items p rs items results)
     (\<lambda>(results', err) es. \<exists>answers. results' = results @ answers \<and>
        judged_all rs (filter (in_panel rs) items) answers err es)"
proof (induction items arbitrary: results)
  case (Cons item items)
  have stop: "judged rs item (Inl e) es \<Longrightarrow> judged_all rs (item # rows) [] (Some e) es" for e es rows
    by simp
  have go: "judged rs item (Inr answer) es \<Longrightarrow> judged_all rs rows answers err es' \<Longrightarrow>
      judged_all rs (item # rows) (answer # answers) err (es @ es')" for answer es rows answers err es'
    by simp blast
  show ?case
  proof (cases "in_panel rs item")
    case True
    then have "\<not> (dep_PanelID item \<noteq> [] \<and> dep_PanelID item \<noteq> rs_panelID rs)" by (auto simp: in_panel_def)
    then show ?thesis
      using True
      by (simp only: recover_items.simps if_False)
        (intro logs_bind logs_mono [OF judged_classify] logs_case_sum logs_return logs_mono [OF Cons.IH],
          auto simp del: judged_all.simps intro: stop go)
  qed (use Cons.IH in \<open>auto simp: in_panel_def\<close>)
qed (simp add: logs_return)

text \<open>
  The rows the load answers: the stalest unfinished ones of the panel in the database as it is when
  the statement runs, which others may have changed before.
\<close>

definition loaded :: "'w ports \<Rightarrow> RecoveryService \<Rightarrow> int \<Rightarrow> 'w sys \<Rightarrow> go_error + Deployment list" where
  "loaded p rs limit s =
     FindUnfinishedDeploymentsByPanel (fst (fst (p_db p (sys_world s)))) (rs_panelID rs) limit
       (p_others p (sys_world s) (sys_db s))"

definition unfinished_rows :: "RecoveryService \<Rightarrow> database \<Rightarrow> Deployment list" where
  "unfinished_rows rs db =
     filter (\<lambda>item. dep_PanelID item = rs_panelID rs \<and> \<not> Status_Terminal (dep_Status item)) (deployments db)"

definition recovered ::
  "'w ports \<Rightarrow> RecoveryService \<Rightarrow> int \<Rightarrow> 'w sys \<Rightarrow> RecoveryResult list \<times> go_error option \<Rightarrow> event list \<Rightarrow> bool" where
  "recovered p rs limit s result es \<longleftrightarrow>
     (case loaded p rs limit s of
        Inl _ \<Rightarrow> result = ([], Some (OtherErr ''load unfinished deployments failed'')) \<and> es = []
      | Inr items \<Rightarrow>
          stalest limit (unfinished_rows rs (p_others p (sys_world s) (sys_db s))) items \<and>
          judged_all rs items (fst result) (snd result) es)"

lemma loaded_stalest:
  assumes "loaded p rs limit s = Inr items"
  shows "stalest limit (unfinished_rows rs (p_others p (sys_world s) (sys_db s))) items"
    and "filter (in_panel rs) items = items"
proof -
  show stalest: "stalest limit (unfinished_rows rs (p_others p (sys_world s) (sys_db s))) items"
    using FindUnfinishedDeploymentsByPanel_exact assms by (simp add: loaded_def unfinished_rows_def)
  show "filter (in_panel rs) items = items"
    using stalest_subset [OF stalest]
    by (intro filter_True) (auto simp: unfinished_rows_def in_panel_def)
qed

text \<open>
  C21. Recovery after a restart loads the unfinished deployments of its own panel, the \<open>limit\<close> stalest
  or all of them, and classifies every row it loaded, one after the other and in that order, until
  one classification is an error: its answers are those of the rows before, and it ends in
  an error exactly then, or when the load itself failed, and then it does nothing more.
\<close>

theorem RecoverUnfinished_classifies:
  "\<exists>es. sys_log (exec_state (RecoverUnfinished p rs limit) s) =
       sys_log s @ EvDbUnfinished (rs_panelID rs) limit # es \<and>
     recovered p rs limit s (result_of (RecoverUnfinished p rs limit) s) es"
proof -
  let ?load = "db_call p (\<lambda>oc now db. (FindUnfinishedDeploymentsByPanel oc (rs_panelID rs) limit db, db))
      (\<lambda>_. EvDbUnfinished (rs_panelID rs) limit)"
  have load: "result_of ?load s = loaded p rs limit s"
    "sys_log (exec_state ?load s) = sys_log s @ [EvDbUnfinished (rs_panelID rs) limit]"
    by (simp_all add: db_call_def loaded_def split: prod.splits)
  show ?thesis
  proof (cases "loaded p rs limit s")
    case (Inl e)
    then show ?thesis using load by (simp add: RecoverUnfinished_def recovered_def split_beta)
  next
    case (Inr items)
    have "logs sys_log (recover_items p rs items []) (\<lambda>result es. judged_all rs items (fst result) (snd result) es)"
      using judged_recover_items [of p rs items "[]"] loaded_stalest(2) [OF Inr] by (auto elim!: logs_mono)
    then obtain es where "sys_log (exec_state (recover_items p rs items []) (exec_state ?load s)) =
        sys_log (exec_state ?load s) @ es"
      "judged_all rs items (fst (result_of (recover_items p rs items []) (exec_state ?load s)))
         (snd (result_of (recover_items p rs items []) (exec_state ?load s))) es"
      unfolding logs_def by blast
    then show ?thesis
      using load Inr loaded_stalest(1) [OF Inr] by (simp add: RecoverUnfinished_def recovered_def split_beta)
  qed
qed

lemma hidden_manual: "reading.hidden (manual p row message)"
  unfolding manual_def store_result_def Let_def UpdateState_op_def
  by (intro reading.io_basic reading.io_db_call) simp_all

lemma hidden_store_result: "reading.hidden (store_result p row params failure c message)"
  unfolding store_result_def UpdateState_op_def
  by (intro reading.io_basic reading.io_db_call) simp_all

lemma hidden_judge_item: "reading.hidden (judge_item p rs row)"
  unfolding judge_item_def judge_node_def judge_dns_def dnsContains_def GetNode_op_def FindZone_op_def RecordStep_op_def
  by (intro reading.io_basic reading.io_db_call reading.io_call hidden_manual hidden_store_result)
    (auto intro!: hidden_store_result split: bool.split)

lemma hidden_classify: "reading.hidden (classify p rs item)"
  unfolding classify_def inspectExternalState_def GetNodes_op_def SetNodeUUID_op_def
  by (intro reading.io_basic io_case_list reading.io_db_call reading.io_call hidden_manual hidden_judge_item) simp_all

lemma hidden_recover_items: "reading.hidden (recover_items p rs items results)"
proof (induction items arbitrary: results)
  case (Cons item items)
  then show ?case unfolding recover_items.simps by (intro reading.io_basic hidden_classify)
qed (simp add: reading.io_basic)

text \<open>
  C22. Recovery never repeats an effect: neither a recovery after a restart nor a recheck creates or
  changes a Node, touches a DNS zone or a VPS; both only read the panel and DNS and write the
  repository.
\<close>

theorem recovery_only_reads:
  "(\<exists>es. sys_log (exec_state (RecoverUnfinished p rs limit) s) = sys_log s @ es \<and> filter acts_outside es = []) \<and>
   (\<exists>es. sys_log (exec_state (RecheckRemnawave p rs uuid) s) = sys_log s @ es \<and> filter acts_outside es = [])"
proof -
  have "reading.hidden (RecoverUnfinished p rs limit)"
    unfolding RecoverUnfinished_def
    by (intro reading.io_basic reading.io_db_read hidden_recover_items) simp
  moreover have "reading.hidden (RecheckRemnawave p rs uuid)"
    unfolding RecheckRemnawave_def
    by (intro reading.io_basic reading.io_GetDeployment hidden_classify)
  ultimately show ?thesis by (auto simp: state_io_rel_def grows_def)
qed

end
