(* ===== verification/Provision_Engine.thy ===== *)
theory Provision_Engine
  imports Deploy_Service
begin

text \<open>
  The provisioning engine (\<^verbatim>\<open>internal/provisioner/engine.go\<close>): twelve stages in a fixed order, each
  inspected, applied and validated, with its progress in the steps of the deployment.  A stage is
  three calls on a world of any type.  The properties: every run follows the protocol of a stage,
  a failed stage ends the run, and a stage that is done is not worked on again.
  The time a stage took is not modelled; only the operator's display reads it.
\<close>

section \<open>Stages\<close>

record Inspection =
  ins_Satisfied :: bool
  ins_Summary :: string

record 'w stage =
  stg_Name :: string
  stg_Inspect :: "'w \<Rightarrow> (go_error + Inspection) \<times> 'w"
  stg_Apply :: "'w \<Rightarrow> go_error option \<times> 'w"
  stg_Validate :: "'w \<Rightarrow> go_error option \<times> 'w"

datatype stage_event =
    SeList
  | SeRecord RecordStepParams bool
  | SeInspect string "go_error + Inspection"
  | SeApply string "go_error option"
  | SeValidate string "go_error option"
  | SeReport Report

record 'w engine_ports =
  en_ctx_err :: "'w \<Rightarrow> go_error option \<times> 'w"
  en_db :: "'w \<Rightarrow> (db_outcome \<times> time) \<times> 'w"
  en_others :: "'w \<Rightarrow> database \<Rightarrow> database"

record 'w prov =
  pv_world :: 'w
  pv_db :: database
  pv_log :: "stage_event list"

text \<open>\<^verbatim>\<open>NewEngine\<close>; a \<^verbatim>\<open>nil\<close> stage is \<open>None\<close>, and \<open>store\<close> says whether there is one.\<close>

fun stages_in_order :: "string list \<Rightarrow> 'w stage option list \<Rightarrow> 'w stage list option" where
  "stages_in_order (name # names) (Some stage # stages) =
     (if stg_Name stage \<noteq> name then None
      else case stages_in_order names stages of None \<Rightarrow> None | Some rest \<Rightarrow> Some (stage # rest))"
| "stages_in_order names (None # stages) = None"
| "stages_in_order names stages = Some []"

definition NewEngine :: "bool \<Rightarrow> 'w stage option list \<Rightarrow> go_error + 'w stage list" where
  "NewEngine store stages =
     (if \<not> store then Inl (OtherErr ''provisioner step store is required'')
      else if length stages \<noteq> length StageNames then Inl (OtherErr ''provisioner requires 12 stages'')
      else case stages_in_order StageNames stages of
        None \<Rightarrow> Inl (OtherErr ''provisioner stage has the wrong name'')
      | Some engine \<Rightarrow> Inr engine)"

section \<open>Calls\<close>

definition prov_call :: "('w \<Rightarrow> 'a \<times> 'w) \<Rightarrow> ('a \<Rightarrow> stage_event list) \<Rightarrow> ('w prov, 'a) state" where
  "prov_call port ev = State (\<lambda>s. case port (pv_world s) of (a, w) \<Rightarrow>
     (a, s\<lparr>pv_world := w, pv_log := pv_log s @ ev a\<rparr>))"

definition prov_db ::
  "'w engine_ports \<Rightarrow> (db_outcome \<Rightarrow> time \<Rightarrow> database \<Rightarrow> 'r \<times> database) \<Rightarrow> ('r \<Rightarrow> stage_event)
     \<Rightarrow> ('w prov, 'r) state" where
  "prov_db p f ev = State (\<lambda>s.
     case en_db p (pv_world s) of ((oc, now), w) \<Rightarrow>
     case f oc now (en_others p (pv_world s) (pv_db s)) of (r, db) \<Rightarrow>
       (r, s\<lparr>pv_world := w, pv_db := db, pv_log := pv_log s @ [ev r]\<rparr>))"

definition emitReport :: "bool \<Rightarrow> Report \<Rightarrow> ('w prov, unit) state" where
  "emitReport progress report =
     (if progress then State_Monad.update (\<lambda>s. s\<lparr>pv_log := pv_log s @ [SeReport report]\<rparr>)
      else State_Monad.return ())"

definition safeSummary :: "string \<Rightarrow> string \<Rightarrow> string" where
  "safeSummary value fallback =
     (let value = TrimSpace value in
      if value = [] \<or> 160 < length value \<or> list_ex (\<lambda>c. byte c = 13 \<or> byte c = 10) value then fallback else value)"

definition engine_record ::
  "'w engine_ports \<Rightarrow> string \<Rightarrow> string \<Rightarrow> StepStatus \<Rightarrow> string \<Rightarrow> string \<Rightarrow> ('w prov, go_error + Step) state" where
  "engine_record p uuid name status summary errorMessage =
     (let params = \<lparr>rp_DeploymentID = uuid, rp_Name = name, rp_Status = status,
            rp_SafeSummary = (if summary \<noteq> [] then Some summary else None),
            rp_ErrorMessage = (if errorMessage \<noteq> [] then Some errorMessage else None)\<rparr>
      in prov_db p (\<lambda>oc now. RecordDeploymentStep oc now params) (\<lambda>r. SeRecord params (\<not> isl r)))"

text \<open>\<open>runStage\<close>: whether the stage changed something, its summary, and its error.\<close>

definition runStage :: "'w stage \<Rightarrow> ('w prov, Report \<times> go_error option) state" where
  "runStage stage =
     (let report = \<lparr>rep_Name = stg_Name stage, rep_Status = StepStatusOther [], rep_Changed = False, rep_Summary = []\<rparr> in do {
        inspection \<leftarrow> prov_call (stg_Inspect stage) (\<lambda>r. [SeInspect (stg_Name stage) r]);
        case inspection of
          Inl _ \<Rightarrow> State_Monad.return (report\<lparr>rep_Summary := ''inspection failed''\<rparr>, Some (OtherErr ''stage inspection failed''))
        | Inr found \<Rightarrow>
            if ins_Satisfied found
            then State_Monad.return (report\<lparr>rep_Summary := safeSummary (ins_Summary found) ''already configured''\<rparr>, None)
            else do {
              applied \<leftarrow> prov_call (stg_Apply stage) (\<lambda>r. [SeApply (stg_Name stage) r]);
              case applied of
                Some _ \<Rightarrow> State_Monad.return (report\<lparr>rep_Changed := True, rep_Summary := ''apply failed''\<rparr>,
                            Some (OtherErr ''stage apply failed''))
              | None \<Rightarrow> do {
                  validated \<leftarrow> prov_call (stg_Validate stage) (\<lambda>r. [SeValidate (stg_Name stage) r]);
                  case validated of
                    Some _ \<Rightarrow> State_Monad.return (report\<lparr>rep_Changed := True, rep_Summary := ''validation failed''\<rparr>,
                                Some (OtherErr ''stage validation failed''))
                  | None \<Rightarrow> State_Monad.return
                      (report\<lparr>rep_Changed := True, rep_Summary := ''configured and validated''\<rparr>, None)
                }
            }
      })"

section \<open>A run\<close>

text \<open>The map \<open>completed\<close>: the last step of a name decides, and a missing name is \<open>False\<close>.\<close>

definition completed_steps :: "Step list \<Rightarrow> string \<Rightarrow> bool" where
  "completed_steps persisted =
     fold (\<lambda>step known. known(step_Name step := (step_Status step = StepStatusCompleted))) persisted (\<lambda>_. False)"

text \<open>
  One round of the loop, for a stage that is not completed: the reports it adds, and the error with
  which the run returns.
\<close>

definition fail_stage ::
  "'w engine_ports \<Rightarrow> bool \<Rightarrow> string \<Rightarrow> Report \<Rightarrow> go_error \<Rightarrow> ('w prov, Report list \<times> go_error option) state" where
  "fail_stage p progress uuid report runErr = do {
     persist \<leftarrow> engine_record p uuid (rep_Name report) StepStatusFailed (rep_Summary report)
       ''stage failed; inspect protected service logs'';
     let failed = report\<lparr>rep_Status := StepStatusFailed\<rparr>;
     emitReport progress failed;
     State_Monad.return ([failed],
       Some (case persist of Inl persistErr \<Rightarrow> ErrJoin runErr persistErr | Inr _ \<Rightarrow> runErr))
   }"

definition finish_stage ::
  "'w engine_ports \<Rightarrow> bool \<Rightarrow> string \<Rightarrow> Report \<Rightarrow> ('w prov, Report list \<times> go_error option) state" where
  "finish_stage p progress uuid report = do {
     stored \<leftarrow> engine_record p uuid (rep_Name report) StepStatusCompleted (rep_Summary report) [];
     case stored of
       Inl err \<Rightarrow> State_Monad.return ([], Some err)
     | Inr _ \<Rightarrow> do {
         let report = report\<lparr>rep_Status := StepStatusCompleted\<rparr>;
         emitReport progress report;
         State_Monad.return ([report], None)
       }
   }"

definition work_stage ::
  "'w engine_ports \<Rightarrow> bool \<Rightarrow> string \<Rightarrow> 'w stage \<Rightarrow> ('w prov, Report list \<times> go_error option) state" where
  "work_stage p progress uuid stage = do {
     e \<leftarrow> prov_call (en_ctx_err p) (\<lambda>_. []);
     case e of
       Some err \<Rightarrow> State_Monad.return ([], Some err)
     | None \<Rightarrow> do {
         started \<leftarrow> engine_record p uuid (stg_Name stage) StepStatusRunning ''started'' [];
         case started of
           Inl err \<Rightarrow> State_Monad.return ([], Some err)
         | Inr _ \<Rightarrow> do {
             emitReport progress \<lparr>rep_Name = stg_Name stage, rep_Status = StepStatusRunning, rep_Changed = False,
               rep_Summary = ''started''\<rparr>;
             (report, runErr) \<leftarrow> runStage stage;
             case runErr of
               Some err \<Rightarrow> fail_stage p progress uuid report err
             | None \<Rightarrow> finish_stage p progress uuid report
           }
       }
   }"

fun run_stages ::
  "'w engine_ports \<Rightarrow> bool \<Rightarrow> string \<Rightarrow> (string \<Rightarrow> bool) \<Rightarrow> 'w stage list \<Rightarrow> Report list
     \<Rightarrow> ('w prov, Report list \<times> go_error option) state" where
  "run_stages p progress uuid completed [] reports = State_Monad.return (reports, None)"
| "run_stages p progress uuid completed (stage # stages) reports =
     (if completed (stg_Name stage) then do {
        let report = \<lparr>rep_Name = stg_Name stage, rep_Status = StepStatusSkipped, rep_Changed = False,
              rep_Summary = ''already completed''\<rparr>;
        emitReport progress report;
        run_stages p progress uuid completed stages (reports @ [report])
      }
      else do {
        (added, err) \<leftarrow> work_stage p progress uuid stage;
        case err of
          Some err \<Rightarrow> State_Monad.return (reports @ added, Some err)
        | None \<Rightarrow> run_stages p progress uuid completed stages (reports @ added)
      })"

definition RunWithProgress ::
  "'w engine_ports \<Rightarrow> 'w stage list \<Rightarrow> string \<Rightarrow> bool \<Rightarrow> ('w prov, Report list \<times> go_error option) state" where
  "RunWithProgress p stages uuid progress =
     (if TrimSpace uuid = [] then State_Monad.return ([], Some (OtherErr ''deployment ID is required''))
      else do {
        r \<leftarrow> prov_db p (\<lambda>oc now db. (ListDeploymentSteps oc uuid db, db)) (\<lambda>_. SeList);
        case r of
          Inl err \<Rightarrow> State_Monad.return ([], Some err)
        | Inr persisted \<Rightarrow> run_stages p progress uuid (completed_steps persisted) stages []
      })"

definition Run :: "'w engine_ports \<Rightarrow> 'w stage list \<Rightarrow> string \<Rightarrow> ('w prov, Report list \<times> go_error option) state" where
  "Run p stages uuid = RunWithProgress p stages uuid False"

section \<open>The protocol of a stage\<close>

text \<open>
  The stages still to do and how far the first one is.  \<open>Stopped\<close> is the end of a run after an error.
\<close>

datatype phase = Ready | Running | Unsatisfied | Applied | Reached | Broken | Stopped

definition records :: "string \<Rightarrow> string \<Rightarrow> StepStatus \<Rightarrow> RecordStepParams \<Rightarrow> bool" where
  "records uuid name status params \<longleftrightarrow>
     rp_DeploymentID params = uuid \<and> rp_Name params = name \<and> rp_Status params = status"

fun protocol_step :: "string \<Rightarrow> string list \<times> phase \<Rightarrow> stage_event \<Rightarrow> (string list \<times> phase) option" where
  "protocol_step uuid (n # ns, Ready) (SeRecord params ok) =
     (if records uuid n StepStatusRunning params then Some (n # ns, if ok then Running else Stopped) else None)"
| "protocol_step uuid (n # ns, Running) (SeInspect m r) =
     (if m \<noteq> n then None
      else Some (n # ns, case r of Inl _ \<Rightarrow> Broken | Inr found \<Rightarrow> if ins_Satisfied found then Reached else Unsatisfied))"
| "protocol_step uuid (n # ns, Unsatisfied) (SeApply m r) =
     (if m \<noteq> n then None else Some (n # ns, if r = None then Applied else Broken))"
| "protocol_step uuid (n # ns, Applied) (SeValidate m r) =
     (if m \<noteq> n then None else Some (n # ns, if r = None then Reached else Broken))"
| "protocol_step uuid (n # ns, Reached) (SeRecord params ok) =
     (if records uuid n StepStatusCompleted params then Some (if ok then (ns, Ready) else (n # ns, Stopped)) else None)"
| "protocol_step uuid (n # ns, Broken) (SeRecord params ok) =
     (if records uuid n StepStatusFailed params then Some (n # ns, Stopped) else None)"
| "protocol_step uuid st e = None"

fun protocol :: "string \<Rightarrow> string list \<times> phase \<Rightarrow> stage_event list \<Rightarrow> (string list \<times> phase) option" where
  "protocol uuid st [] = Some st"
| "protocol uuid st (e # es) = (case protocol_step uuid st e of None \<Rightarrow> None | Some st' \<Rightarrow> protocol uuid st' es)"

text \<open>The events of the protocol; the others only look or tell the operator.\<close>

fun acts :: "stage_event \<Rightarrow> bool" where
  "acts SeList = False"
| "acts (SeReport _) = False"
| "acts e = True"

lemma protocol_append:
  "protocol uuid st (es @ es') = (case protocol uuid st es of None \<Rightarrow> None | Some st' \<Rightarrow> protocol uuid st' es')"
  by (induction es arbitrary: st) (auto split: option.splits)

lemma logs_prov_call: "(\<And>a. P a (ev a)) \<Longrightarrow> logs pv_log (prov_call port ev) P"
  by (auto simp: logs_def prov_call_def split: prod.splits)

lemma logs_prov_db: "(\<And>r. P r [ev r]) \<Longrightarrow> logs pv_log (prov_db p f ev) P"
  by (auto simp: logs_def prov_db_def split: prod.splits)

lemma logs_emitReport: "P () [SeReport report] \<Longrightarrow> P () [] \<Longrightarrow> logs pv_log (emitReport progress report) P"
  by (simp add: emitReport_def logs_def)

lemma logs_engine_record:
  assumes "\<And>params r. records uuid name status params \<Longrightarrow> P r [SeRecord params (\<not> isl r)]"
  shows "logs pv_log (engine_record p uuid name status summary errorMessage) P"
  unfolding engine_record_def Let_def by (intro logs_prov_db assms) (simp add: records_def)

lemma logs_runStage:
  assumes "\<And>report err es. rep_Name report = stg_Name stage \<Longrightarrow> filter acts es = es \<Longrightarrow>
    (\<And>uuid ns. protocol uuid (stg_Name stage # ns, Running) es =
       Some (stg_Name stage # ns, if err = None then Reached else Broken)) \<Longrightarrow> P (report, err) es"
  shows "logs pv_log (runStage stage) P"
  unfolding runStage_def Let_def
  by (intro logs_bind logs_prov_call logs_case_sum logs_if logs_case_option logs_return) (auto intro!: assms)

text \<open>What a run of the loop leaves: reports of a prefix of its stages, and the state of the protocol.\<close>

definition settled :: "Report \<Rightarrow> bool" where
  "settled report \<longleftrightarrow> rep_Status report \<in> {StepStatusCompleted, StepStatusSkipped}"

definition run_result ::
  "string \<Rightarrow> (string \<Rightarrow> bool) \<Rightarrow> string list \<Rightarrow> Report list \<Rightarrow> go_error option \<Rightarrow> stage_event list \<Rightarrow> bool" where
  "run_result uuid completed names reports err es \<longleftrightarrow>
     (\<exists>rest ph. protocol uuid (filter (\<lambda>n. \<not> completed n) names, Ready) (filter acts es) = Some (rest, ph) \<and>
        (err = None \<longleftrightarrow> rest = [] \<and> ph = Ready)) \<and>
     map rep_Name reports = take (length reports) names \<and>
     list_all (\<lambda>report. rep_Status report = StepStatusSkipped \<longleftrightarrow> completed (rep_Name report)) reports \<and>
     (err = None \<longrightarrow> length reports = length names \<and> list_all settled reports)"

lemma run_result_stop:
  assumes "protocol uuid (filter (\<lambda>n. \<not> completed n) names, Ready) (filter acts es) = Some (rest, ph)"
    and "rest \<noteq> []" "map rep_Name reports = take (length reports) names"
    and "list_all (\<lambda>report. rep_Status report = StepStatusSkipped \<longleftrightarrow> completed (rep_Name report)) reports"
  shows "run_result uuid completed names reports (Some e) es"
  using assms by (auto simp: run_result_def)

lemma run_result_next:
  assumes "run_result uuid completed names reports err es"
    and "if completed name then filter acts before = []
         else protocol uuid (name # filter (\<lambda>n. \<not> completed n) names, Ready) (filter acts before) =
           Some (filter (\<lambda>n. \<not> completed n) names, Ready)"
    and "rep_Name report = name" "rep_Status report = (if completed name then StepStatusSkipped else StepStatusCompleted)"
  shows "run_result uuid completed (name # names) (report # reports) err (before @ es)"
  using assms by (auto simp: run_result_def settled_def protocol_append split: if_splits)

definition loop_result ::
  "string \<Rightarrow> (string \<Rightarrow> bool) \<Rightarrow> string list \<Rightarrow> Report list \<Rightarrow> Report list \<times> go_error option \<Rightarrow> stage_event list \<Rightarrow> bool" where
  "loop_result uuid completed names reports r es \<longleftrightarrow>
     (\<exists>added. fst r = reports @ added \<and> run_result uuid completed names added (snd r) es)"

text \<open>One round: the stage is done, or the protocol stays at it.\<close>

definition worked :: "string \<Rightarrow> string \<Rightarrow> Report list \<times> go_error option \<Rightarrow> stage_event list \<Rightarrow> bool" where
  "worked uuid n r es \<longleftrightarrow>
     (case r of
        (added, None) \<Rightarrow> (\<exists>report. added = [report] \<and> rep_Name report = n \<and> rep_Status report = StepStatusCompleted) \<and>
          (\<forall>ns. protocol uuid (n # ns, Ready) (filter acts es) = Some (ns, Ready))
      | (added, Some e) \<Rightarrow> map rep_Name added = take (length added) [n] \<and>
          list_all (\<lambda>report. rep_Status report = StepStatusFailed) added \<and>
          (\<exists>ph. \<forall>ns. protocol uuid (n # ns, Ready) (filter acts es) = Some (n # ns, ph)))"

lemma worked_work_stage: "logs pv_log (work_stage p progress uuid stage) (worked uuid (stg_Name stage))"
proof -
  let ?n = "stg_Name stage"
  have failing: "logs pv_log (fail_stage p progress uuid report err) (\<lambda>r es'. worked uuid ?n r (before @ es'))"
    if "\<And>ns. protocol uuid (?n # ns, Ready) (filter acts before) = Some (?n # ns, Broken)" "rep_Name report = ?n"
    for report err before
    unfolding fail_stage_def Let_def
    by (intro logs_bind logs_engine_record logs_return logs_emitReport)
      (use that in \<open>auto simp: worked_def protocol_append\<close>)
  have finish: "logs pv_log (finish_stage p progress uuid report) (\<lambda>r es'. worked uuid ?n r (before @ es'))"
    if "\<And>ns. protocol uuid (?n # ns, Ready) (filter acts before) = Some (?n # ns, Reached)" "rep_Name report = ?n"
    for report before
    unfolding finish_stage_def Let_def
    by (intro logs_bind logs_engine_record logs_return logs_emitReport logs_case_sum)
      (use that in \<open>auto simp: worked_def protocol_append\<close>)
  have work: "logs pv_log (runStage stage) (\<lambda>a es. logs pv_log
      (case a of (report, runErr) \<Rightarrow> case runErr of
          Some err \<Rightarrow> fail_stage p progress uuid report err
        | None \<Rightarrow> finish_stage p progress uuid report)
      (\<lambda>r es'. worked uuid ?n r (before @ es @ es')))"
    if "\<And>ns. protocol uuid (?n # ns, Ready) (filter acts before) = Some (?n # ns, Running)" for before
  proof (rule logs_runStage)
    fix report :: Report and err :: "go_error option" and es
    assume "rep_Name report = ?n" "filter acts es = es"
      "\<And>uuid ns. protocol uuid (?n # ns, Running) es = Some (?n # ns, if err = None then Reached else Broken)"
    then show "logs pv_log
      (case (report, err) of (report, runErr) \<Rightarrow> (case runErr of
          Some err \<Rightarrow> fail_stage p progress uuid report err
        | None \<Rightarrow> finish_stage p progress uuid report))
      (\<lambda>r es'. worked uuid ?n r (before @ es @ es'))"
      using failing [of "before @ es" report] finish [of "before @ es" report] that
      by (cases err) (simp_all add: protocol_append)
  qed
  have start: "logs pv_log (runStage stage) (\<lambda>a es. logs pv_log
      (case a of (report, runErr) \<Rightarrow> case runErr of
          Some err \<Rightarrow> fail_stage p progress uuid report err
        | None \<Rightarrow> finish_stage p progress uuid report)
      (\<lambda>r es'. worked uuid ?n r ([SeRecord params True] @ told @ es @ es')))"
    if "records uuid ?n StepStatusRunning params" "filter acts told = []" for params told
    using work [of "SeRecord params True # told"] that by simp
  show ?thesis
    unfolding work_stage_def
    by (intro logs_bind logs_prov_call logs_case_option logs_return logs_engine_record logs_case_sum logs_emitReport)
      (simp_all add: start [where told = "[]", simplified] start [where told = "[SeReport report]" for report, simplified],
       auto simp: worked_def)
qed

lemma loop_result_run_stages:
  "logs pv_log (run_stages p progress uuid completed stages reports)
     (loop_result uuid completed (map stg_Name stages) reports)"
proof (induction stages arbitrary: reports)
  case Nil
  then show ?case by (simp add: logs_return run_result_def loop_result_def)
next
  case (Cons stage stages)
  let ?n = "stg_Name stage" and ?names = "map stg_Name stages"
  have go: "logs pv_log (run_stages p progress uuid completed stages (reports @ [report]))
      (\<lambda>r es'. loop_result uuid completed (?n # ?names) reports r (before @ es'))"
    if "if completed ?n then filter acts before = []
         else \<forall>ns. protocol uuid (?n # ns, Ready) (filter acts before) = Some (ns, Ready)"
      "rep_Name report = ?n" "rep_Status report = (if completed ?n then StepStatusSkipped else StepStatusCompleted)"
    for report before
    by (rule logs_mono [OF Cons.IH]) (use that in \<open>auto simp: loop_result_def intro: run_result_next split: if_splits\<close>)
  show ?case
  proof (cases "completed ?n")
    case True
    then show ?thesis
      unfolding run_stages.simps Let_def if_P [OF True] list.map
      by (intro logs_bind logs_emitReport go) (simp_all add: True)
  next
    case False
    have stop: "loop_result uuid completed (?n # ?names) reports (reports @ added, Some e) es"
      if w: "worked uuid ?n (added, Some e) es" for added e es
    proof -
      from w obtain ph where "\<And>ns. protocol uuid (?n # ns, Ready) (filter acts es) = Some (?n # ns, ph)"
        and added: "map rep_Name added = take (length added) [?n]"
          "list_all (\<lambda>report. rep_Status report = StepStatusFailed) added" by (auto simp: worked_def)
      moreover have "map rep_Name added = take (length added) (?n # ?names)" using added by (cases added) auto
      moreover have "list_all (\<lambda>report. rep_Status report = StepStatusSkipped \<longleftrightarrow> completed (rep_Name report)) added"
        using added False by (cases added) auto
      ultimately show ?thesis using False by (simp add: loop_result_def run_result_def)
    qed
    have next_: "logs pv_log (run_stages p progress uuid completed stages (reports @ added))
        (\<lambda>r es'. loop_result uuid completed (?n # ?names) reports r (es @ es'))"
      if "worked uuid ?n (added, None) es" for added es
      using that False go by (auto simp: worked_def)
    show ?thesis
      unfolding run_stages.simps if_not_P [OF False] list.map
      by (intro logs_bind logs_mono [OF worked_work_stage])
        (auto split: option.splits prod.splits intro!: logs_return stop next_)
  qed
qed

text \<open>
  What the store answers when a run asks for the steps of the deployment, on the database others may
  have changed before; a stage is done for the run when the last of these rows with its name has the
  status \<open>COMPLETED\<close>.
\<close>

definition listed_steps :: "'w engine_ports \<Rightarrow> string \<Rightarrow> 'w prov \<Rightarrow> go_error + Step list" where
  "listed_steps p uuid s =
     ListDeploymentSteps (fst (fst (en_db p (pv_world s)))) uuid (en_others p (pv_world s) (pv_db s))"

definition listed_done :: "Step list \<Rightarrow> string \<Rightarrow> bool" where
  "listed_done rows n \<longleftrightarrow>
     (let own = filter (\<lambda>row. step_Name row = n) rows in own \<noteq> [] \<and> step_Status (last own) = StepStatusCompleted)"

lemma completed_steps_listed: "completed_steps rows = listed_done rows"
proof
  show "completed_steps rows n = listed_done rows n" for n
    by (induction rows rule: rev_induct) (auto simp: completed_steps_def listed_done_def Let_def)
qed

text \<open>
  C15. Every run of the engine follows the protocol of a stage, whatever the stages, the database and
  the environment do.  The stages left to work on are exactly those whose row in the steps the
  store answered is not \<open>COMPLETED\<close>, so that a running, failed or skipped row does not spare a stage.  They
  are worked on in order: each is recorded as running, inspected, applied only when it was not
  satisfied and validated after it was applied, and recorded as completed only when it was satisfied
  or validated; a failure is recorded and ends the run.  The run reports a prefix of the stages, as
  skipped exactly those done before, and it succeeds exactly when all of them are done, with each
  reported completed or skipped.  Without a deployment or the steps it fails and touches no stage.
\<close>

theorem RunWithProgress_follows_protocol:
  "\<exists>es. pv_log (exec_state (RunWithProgress p stages uuid progress) s) = pv_log s @ es \<and>
     (case result_of (RunWithProgress p stages uuid progress) s of (reports, err) \<Rightarrow>
        if TrimSpace uuid = [] then reports = [] \<and> err \<noteq> None \<and> es = []
        else case listed_steps p uuid s of
            Inl e \<Rightarrow> reports = [] \<and> err = Some e \<and> es = [SeList]
          | Inr rows \<Rightarrow> run_result uuid (listed_done rows) (map stg_Name stages) reports err es)"
proof (cases "TrimSpace uuid = []")
  case True
  then show ?thesis by (simp add: RunWithProgress_def)
next
  case False
  let ?load = "prov_db p (\<lambda>oc now db. (ListDeploymentSteps oc uuid db, db)) (\<lambda>_. SeList)"
  have load: "result_of ?load s = listed_steps p uuid s" "pv_log (exec_state ?load s) = pv_log s @ [SeList]"
    by (simp_all add: prov_db_def listed_steps_def split: prod.splits)
  show ?thesis
  proof (cases "listed_steps p uuid s")
    case (Inl e)
    then show ?thesis using load False by (simp add: RunWithProgress_def split_beta)
  next
    case (Inr rows)
    let ?loop = "run_stages p progress uuid (listed_done rows) stages []"
    obtain es where "pv_log (exec_state ?loop (exec_state ?load s)) = pv_log (exec_state ?load s) @ es"
      and "loop_result uuid (listed_done rows) (map stg_Name stages) [] (result_of ?loop (exec_state ?load s)) es"
      using loop_result_run_stages unfolding logs_def by blast
    then show ?thesis
      using load False Inr
      by (auto simp: RunWithProgress_def completed_steps_listed split_beta loop_result_def run_result_def)
  qed
qed

section \<open>Resuming\<close>

text \<open>The step of a stage is stored as completed.\<close>

definition stored_done :: "string \<Rightarrow> string \<Rightarrow> database \<Rightarrow> bool" where
  "stored_done uuid n db \<longleftrightarrow>
     (\<exists>key r. uuid_column uuid = Some key \<and> tbl_lookup step_key (key, n) (deployment_steps db) = Some r \<and>
        step_Status r = StepStatusCompleted)"

lemma RecordDeploymentStep_cases:
  "(snd (RecordDeploymentStep oc now params db) = db \<and> isl (fst (RecordDeploymentStep oc now params db))) \<or>
   (\<exists>key. uuid_column (rp_DeploymentID params) = Some key \<and>
      deployment_steps (snd (RecordDeploymentStep oc now params db)) =
        snd (upsert_step now key params (deployment_steps db)))"
  by (simp add: RecordDeploymentStep_def Let_def case_prod_beta split: option.split)

lemma RecordDeploymentStep_db:
  obtains "snd (RecordDeploymentStep oc now params db) = db" "isl (fst (RecordDeploymentStep oc now params db))"
  | key where "uuid_column (rp_DeploymentID params) = Some key"
    and "deployment_steps (snd (RecordDeploymentStep oc now params db)) =
      snd (upsert_step now key params (deployment_steps db))"
  using RecordDeploymentStep_cases [of oc now params db] by blast

lemma stored_done_other:
  assumes "stored_done uuid n db" and "rp_Name params \<noteq> n"
  shows "stored_done uuid n (snd (RecordDeploymentStep oc now params db))"
proof (rule RecordDeploymentStep_db [of oc now params db])
  fix key
  assume "deployment_steps (snd (RecordDeploymentStep oc now params db)) =
      snd (upsert_step now key params (deployment_steps db))"
  then show ?thesis
    using assms
    by (auto simp: stored_done_def upsert_step_def step_tbl.lookup_modify step_tbl.lookup_add split: option.splits)
qed (use assms in simp)

lemma stored_done_record:
  assumes "\<not> isl (fst (RecordDeploymentStep oc now params db))" and "rp_Status params = StepStatusCompleted"
  shows "stored_done (rp_DeploymentID params) (rp_Name params) (snd (RecordDeploymentStep oc now params db))"
  by (rule RecordDeploymentStep_db [of oc now params db])
    (use assms in \<open>simp_all add: stored_done_def upsert_step_lookup upsert_step_fields\<close>)

lemma distinct_sort_by [simp]: "distinct (sort_by lt xs) \<longleftrightarrow> distinct xs"
  by (rule mset_eq_imp_distinct_iff) simp

lemma completed_steps_iff:
  "distinct (map step_Name rows) \<Longrightarrow>
     completed_steps rows n \<longleftrightarrow> (\<exists>r \<in> set rows. step_Name r = n \<and> step_Status r = StepStatusCompleted)"
  unfolding completed_steps_def
proof (induction rows rule: rev_induct)
  case (snoc row rows)
  then have "step_Name r \<noteq> step_Name row" if "r \<in> set rows" for r using that by (auto simp: image_iff)
  with snoc show ?case by (cases "step_Name row = n") auto
qed simp

lemma listed_completed:
  assumes "ListDeploymentSteps oc uuid db = Inr rows" and "db_wf db"
  shows "completed_steps rows n \<longleftrightarrow> stored_done uuid n db"
proof -
  from assms(1) obtain key where key: "uuid_column uuid = Some key"
    and rows: "rows = sort_by step_before (filter (\<lambda>r. step_DeploymentID r = key) (deployment_steps db))"
    by (auto simp: ListDeploymentSteps_def split: if_splits option.splits)
  have "inj_on step_key (set (deployment_steps db))" "distinct (deployment_steps db)"
    using assms(2) by (auto simp: db_wf_def tbl_distinct_def distinct_map)
  then have "inj_on step_Name {r \<in> set (deployment_steps db). step_DeploymentID r = key}"
    and "distinct (filter (\<lambda>r. step_DeploymentID r = key) (deployment_steps db))"
    by (auto simp: inj_on_def step_key_def)
  then have "distinct (map step_Name rows)"
    by (simp add: distinct_map rows)
  then have "completed_steps rows n \<longleftrightarrow> (\<exists>r \<in> set (deployment_steps db). step_key r = (key, n) \<and> step_Status r = StepStatusCompleted)"
    by (auto simp: completed_steps_iff step_key_def rows)
  also have "\<dots> \<longleftrightarrow> stored_done uuid n db"
    using step_tbl.lookup_row step_tbl.lookup_key assms(2) by (fastforce simp: stored_done_def key db_wf_def)
  finally show ?thesis .
qed

text \<open>What working on a stage leaves in the database: the steps of the other stages.\<close>

definition keeps :: "string \<Rightarrow> database \<Rightarrow> database \<Rightarrow> bool" where
  "keeps name db db' \<longleftrightarrow> db_wf db' \<and> (\<forall>uuid n. n \<noteq> name \<longrightarrow> stored_done uuid n db \<longrightarrow> stored_done uuid n db')"

lemma keeps_trans: "keeps name a b \<Longrightarrow> keeps name b c \<Longrightarrow> keeps name a c"
  by (simp add: keeps_def)

lemma wp_split:
  "wp m (\<lambda>a. wp (f a) Q) s \<Longrightarrow> wp (State_Monad.bind m f) Q s"
  "Q a s \<Longrightarrow> wp (State_Monad.return a) Q s"
  "(\<And>e. x = Inl e \<Longrightarrow> wp (k e) Q s) \<Longrightarrow> (\<And>y. x = Inr y \<Longrightarrow> wp (h y) Q s) \<Longrightarrow>
     wp (case x of Inl e \<Rightarrow> k e | Inr y \<Rightarrow> h y) Q s"
  "(z = None \<Longrightarrow> wp m' Q s) \<Longrightarrow> (\<And>y. z = Some y \<Longrightarrow> wp (h' y) Q s) \<Longrightarrow>
     wp (case z of None \<Rightarrow> m' | Some y \<Rightarrow> h' y) Q s"
  by (simp_all add: wp_bind wp_return split: sum.split option.split)

lemma wp_prov_call: "(\<And>a t. pv_db t = pv_db s \<Longrightarrow> Q a t) \<Longrightarrow> wp (prov_call port ev) Q s"
  by (simp add: prov_call_def wp_State split: prod.split)

lemma wp_emitReport: "(\<And>t. pv_db t = pv_db s \<Longrightarrow> Q () t) \<Longrightarrow> wp (emitReport progress report) Q s"
  by (simp add: emitReport_def wp_update wp_return)

lemma wp_engine_record:
  assumes others: "en_others p = (\<lambda>_ db. db)" and wf: "db_wf (pv_db s)"
    and Q: "\<And>r t. keeps name (pv_db s) (pv_db t) \<Longrightarrow>
      (\<not> isl r \<Longrightarrow> status = StepStatusCompleted \<Longrightarrow> stored_done uuid name (pv_db t)) \<Longrightarrow> Q r t"
  shows "wp (engine_record p uuid name status summary errorMessage) Q s"
proof -
  have keep: "keeps name (pv_db s) (snd (RecordDeploymentStep oc now params (pv_db s)))"
    if "rp_Name params = name" for oc now params
    using that RecordDeploymentStep_wf [OF wf] stored_done_other by (simp add: keeps_def)
  have store: "stored_done uuid name (snd (RecordDeploymentStep oc now params (pv_db s)))"
    if "rp_Name params = name" "rp_DeploymentID params = uuid" "rp_Status params = StepStatusCompleted"
      "\<not> isl (fst (RecordDeploymentStep oc now params (pv_db s)))" for oc now params
    using stored_done_record [of oc now params "pv_db s"] that by simp
  show ?thesis
    unfolding engine_record_def Let_def prov_db_def wp_State case_prod_beta others
    by (rule Q) (simp_all add: keep store)
qed

lemma wp_runStage:
  assumes "\<And>report err t. rep_Name report = stg_Name stage \<Longrightarrow> pv_db t = pv_db s \<Longrightarrow> Q (report, err) t"
  shows "wp (runStage stage) Q s"
  unfolding runStage_def Let_def wp_bind
  by (rule wp_prov_call)
    (auto simp: wp_simps assms split: sum.split option.split intro!: wp_prov_call)

lemma wp_work_stage:
  assumes others: "en_others p = (\<lambda>_ db. db)" and wf: "db_wf (pv_db s)"
    and Q: "\<And>added err t. keeps (stg_Name stage) (pv_db s) (pv_db t) \<Longrightarrow>
      (err = None \<Longrightarrow> stored_done uuid (stg_Name stage) (pv_db t)) \<Longrightarrow>
      (\<And>report. report \<in> set added \<Longrightarrow> rep_Name report = stg_Name stage \<and> (settled report \<longrightarrow> err = None)) \<Longrightarrow>
      Q (added, err) t"
  shows "wp (work_stage p progress uuid stage) Q s"
proof -
  let ?n = "stg_Name stage"
  have finish: "wp (finish_stage p progress uuid report) Q t"
    if "keeps ?n (pv_db s) (pv_db t)" "rep_Name report = ?n" for report t
    unfolding finish_stage_def wp_bind Let_def
    by (rule wp_engine_record [OF others])
      (use that in \<open>auto simp: keeps_def wp_simps isl_def split: sum.split intro!: wp_emitReport Q\<close>)
  have failing: "wp (fail_stage p progress uuid report err) Q t"
    if "keeps ?n (pv_db s) (pv_db t)" "rep_Name report = ?n" for report err t
    unfolding fail_stage_def wp_bind Let_def
    by (rule wp_engine_record [OF others])
      (use that in \<open>auto simp: keeps_def wp_simps settled_def split: sum.split intro!: wp_emitReport Q\<close>)
  have refl: "keeps ?n (pv_db s) (pv_db s)" using wf by (simp add: keeps_def)
  have run: "wp (runStage stage) (\<lambda>a. wp (case a of (report, runErr) \<Rightarrow> case runErr of
      Some err \<Rightarrow> fail_stage p progress uuid report err | None \<Rightarrow> finish_stage p progress uuid report) Q) t"
    if "keeps ?n (pv_db s) (pv_db t)" for t
    by (rule wp_runStage) (auto split: option.split intro: finish failing simp: that)
  show ?thesis
    unfolding work_stage_def Let_def
    by (intro wp_prov_call wp_split Q wp_engine_record [OF others] wp_emitReport run)
      (auto simp: keeps_def refl wf)
qed

lemma wp_run_stages:
  assumes others: "en_others p = (\<lambda>_ db. db)"
  shows "distinct (map stg_Name stages) \<Longrightarrow> db_wf (pv_db s) \<Longrightarrow>
    (\<And>n. completed n \<Longrightarrow> stored_done uuid n (pv_db s)) \<Longrightarrow>
    wp (run_stages p progress uuid completed stages reports)
      (\<lambda>r t. db_wf (pv_db t) \<and>
        (\<forall>n. n \<notin> stg_Name ` set stages \<or> completed n \<longrightarrow> stored_done uuid n (pv_db s) \<longrightarrow> stored_done uuid n (pv_db t)) \<and>
        (\<forall>report \<in> set (fst r). settled report \<longrightarrow> report \<in> set reports \<or> stored_done uuid (rep_Name report) (pv_db t))) s"
proof (induction stages arbitrary: reports s)
  case Nil
  then show ?case by (simp add: wp_return)
next
  case (Cons stage stages)
  show ?case
  proof (cases "completed (stg_Name stage)")
    case True
    show ?thesis
      unfolding run_stages.simps if_P [OF True] Let_def wp_bind
      by (intro wp_emitReport wp_mono [OF Cons.IH]) (use True Cons.prems in \<open>auto 4 4\<close>)
  next
    case False
    let ?n = "stg_Name stage"
    have stop: "wp (run_stages p progress uuid completed (stage # stages) reports) Q s"
      if "\<And>added err t. keeps ?n (pv_db s) (pv_db t) \<Longrightarrow>
        (err = None \<Longrightarrow> stored_done uuid ?n (pv_db t)) \<Longrightarrow>
        (\<And>report. report \<in> set added \<Longrightarrow> rep_Name report = ?n \<and> (settled report \<longrightarrow> err = None)) \<Longrightarrow>
        wp (case err of Some err \<Rightarrow> State_Monad.return (reports @ added, Some err)
            | None \<Rightarrow> run_stages p progress uuid completed stages (reports @ added)) Q t" for Q
      unfolding run_stages.simps if_not_P [OF False]
      by (intro wp_split wp_work_stage [OF others]) (use Cons.prems that in auto)
    have carry: "stored_done uuid n (pv_db t)" if "keeps ?n (pv_db s) (pv_db t)" "completed n" for n t
      using that False Cons.prems(3) [of n] by (cases "n = ?n") (auto simp: keeps_def)
    have kept: "stored_done uuid n (pv_db t)"
      if "keeps ?n (pv_db s) (pv_db t)" "n \<noteq> ?n" "stored_done uuid n (pv_db s)" for n t
      using that by (simp add: keeps_def)
    have wf: "db_wf (pv_db t)" if "keeps ?n (pv_db s) (pv_db t)" for t
      using that by (simp add: keeps_def)
    show ?thesis
      by (rule stop, intro wp_split wp_mono [OF Cons.IH])
        (use False Cons.prems(1) in \<open>auto intro: carry wf kept\<close>)
  qed
qed

text \<open>The stage an event is about.\<close>

fun event_stage :: "stage_event \<Rightarrow> string" where
  "event_stage (SeRecord params _) = rp_Name params"
| "event_stage (SeInspect n _) = n"
| "event_stage (SeApply n _) = n"
| "event_stage (SeValidate n _) = n"
| "event_stage _ = []"

lemma protocol_step_stage:
  "protocol_step uuid (ns, ph) e = Some (ns', ph') \<Longrightarrow> event_stage e \<in> set ns \<and> set ns' \<subseteq> set ns"
  by (induction uuid "(ns, ph)" e rule: protocol_step.induct) (auto simp: records_def split: if_splits)

lemma protocol_stages:
  "protocol uuid st es = Some st' \<Longrightarrow> e \<in> set es \<Longrightarrow> event_stage e \<in> set (fst st)"
proof (induction es arbitrary: st)
  case (Cons e' es)
  then show ?case
    using protocol_step_stage [of uuid "fst st" "snd st" e'] by (fastforce split: option.splits)
qed simp

lemma run_result_spares:
  "run_result uuid completed names added err es \<Longrightarrow> completed n \<Longrightarrow> e \<in> set es \<Longrightarrow> acts e \<Longrightarrow> event_stage e \<noteq> n"
  by (auto simp: run_result_def dest: protocol_stages [where e = e])

lemma RunWithProgress_spares:
  assumes "en_others q = (\<lambda>_ db. db)" and "db_wf (pv_db t)" and "stored_done uuid n (pv_db t)"
  shows "\<exists>es. pv_log (exec_state (RunWithProgress q stages uuid progress) t) = pv_log t @ es \<and>
    list_all (\<lambda>e. acts e \<longrightarrow> event_stage e \<noteq> n) es"
proof (cases "TrimSpace uuid = []")
  case True
  then show ?thesis by (simp add: RunWithProgress_def)
next
  case False
  obtain oc now w where db: "en_db q (pv_world t) = ((oc, now), w)" by (metis prod.exhaust)
  let ?t = "t\<lparr>pv_world := w, pv_log := pv_log t @ [SeList]\<rparr>"
  have run: "run_state (RunWithProgress q stages uuid progress) t =
    (case ListDeploymentSteps oc uuid (pv_db t) of
       Inl err \<Rightarrow> (([], Some err), ?t)
     | Inr persisted \<Rightarrow> run_state (run_stages q progress uuid (completed_steps persisted) stages []) ?t)"
    using False by (simp add: RunWithProgress_def prov_db_def db assms(1) split: sum.split)
  show ?thesis
  proof (cases "ListDeploymentSteps oc uuid (pv_db t)")
    case (Inl err)
    then show ?thesis by (simp add: run)
  next
    case (Inr persisted)
    then have "completed_steps persisted n" using listed_completed assms(2,3) by blast
    moreover obtain es where "pv_log (exec_state (run_stages q progress uuid (completed_steps persisted) stages []) ?t) =
        pv_log ?t @ es"
      and "loop_result uuid (completed_steps persisted) (map stg_Name stages) []
        (result_of (run_stages q progress uuid (completed_steps persisted) stages []) ?t) es"
      using loop_result_run_stages unfolding logs_def by blast
    ultimately show ?thesis
      by (auto simp: run Inr list_all_iff loop_result_def dest: run_result_spares)
  qed
qed

lemma RunWithProgress_stores:
  assumes "en_others p = (\<lambda>_ db. db)" and "db_wf (pv_db s)" and "distinct (map stg_Name stages)"
  shows "wp (RunWithProgress p stages uuid progress) (\<lambda>r t. db_wf (pv_db t) \<and>
    (\<forall>report \<in> set (fst r). settled report \<longrightarrow> stored_done uuid (rep_Name report) (pv_db t))) s"
  unfolding RunWithProgress_def prov_db_def assms(1)
  by (simp add: wp_simps case_prod_beta assms(2) split: sum.split)
    (use assms listed_completed in \<open>auto intro!: wp_mono [OF wp_run_stages]\<close>)

text \<open>
  C16. A stage that is done is never worked on again.  When nobody else writes the deployment's
  rows, a stage that one run reports as completed or skipped is not inspected, applied, validated or
  recorded by the next run for the deployment, with whatever stages, environment and progress
  callback; a run after a successful one therefore touches no stage.
\<close>

theorem RunWithProgress_resumes:
  assumes "en_others p = (\<lambda>_ db. db)" and "en_others q = (\<lambda>_ db. db)"
    and "db_wf (pv_db s)" and "distinct (map stg_Name stages)"
    and "report \<in> set (fst (result_of (RunWithProgress p stages uuid progress) s))" and "settled report"
    and "pv_db t = pv_db (exec_state (RunWithProgress p stages uuid progress) s)"
  shows "\<exists>es. pv_log (exec_state (RunWithProgress q stages' uuid progress') t) = pv_log t @ es \<and>
    list_all (\<lambda>e. acts e \<longrightarrow> event_stage e \<noteq> rep_Name report) es"
  using RunWithProgress_stores [OF assms(1,3,4), of uuid progress] RunWithProgress_spares [OF assms(2)] assms(5-7)
  unfolding wp_run by metis

text \<open>Two stages, the first of which needs work, on the sample deployment.\<close>

definition demo_stage :: "string \<Rightarrow> bool \<Rightarrow> nat stage" where
  "demo_stage name satisfied =
     \<lparr>stg_Name = name, stg_Inspect = (\<lambda>w. (Inr \<lparr>ins_Satisfied = satisfied, ins_Summary = []\<rparr>, w)),
      stg_Apply = (\<lambda>w. (None, w + 1)), stg_Validate = (\<lambda>w. (None, w))\<rparr>"

definition demo_engine_ports :: "nat engine_ports" where
  "demo_engine_ports =
     \<lparr>en_ctx_err = (\<lambda>w. (None, w)), en_db = (\<lambda>w. ((DbOk, 9), w)), en_others = (\<lambda>_ db. db)\<rparr>"

definition demo_run :: "(nat prov, Report list \<times> go_error option) state" where
  "demo_run = RunWithProgress demo_engine_ports [demo_stage ''system'' False, demo_stage ''docker'' True]
     (dep_ID sample_row) False"

definition demo_prov :: "nat prov" where
  "demo_prov = \<lparr>pv_world = 0, pv_db = sample_db, pv_log = []\<rparr>"

lemma demo_run_done:
  "fst (result_of demo_run demo_prov) =
     [\<lparr>rep_Name = ''system'', rep_Status = StepStatusCompleted, rep_Changed = True, rep_Summary = ''configured and validated''\<rparr>,
      \<lparr>rep_Name = ''docker'', rep_Status = StepStatusCompleted, rep_Changed = False, rep_Summary = ''already configured''\<rparr>]"
  by code_simp

theorem RunWithProgress_resumes_witness:
  "\<exists>es. pv_log (exec_state demo_run (exec_state demo_run demo_prov)) = pv_log (exec_state demo_run demo_prov) @ es \<and>
    list_all (\<lambda>e. acts e \<longrightarrow> event_stage e \<noteq> ''system'') es"
proof -
  let ?stages = "[demo_stage ''system'' False, demo_stage ''docker'' True]"
  let ?report = "\<lparr>rep_Name = ''system'', rep_Status = StepStatusCompleted, rep_Changed = True,
    rep_Summary = ''configured and validated''\<rparr>"
  have others: "en_others demo_engine_ports = (\<lambda>_ db. db)" by (simp add: demo_engine_ports_def)
  have wf: "db_wf (pv_db demo_prov)" by (simp add: demo_prov_def sample_db_wf)
  have dist: "distinct (map stg_Name ?stages)" by (simp add: demo_stage_def)
  have done1: "?report \<in> set (fst (result_of demo_run demo_prov))" unfolding demo_run_done by simp
  have settled: "settled ?report" by (simp add: settled_def)
  show ?thesis
    using RunWithProgress_resumes [OF others others wf dist done1 [unfolded demo_run_def] settled refl,
        of ?stages False]
    by (simp add: demo_run_def)
qed

lemma stages_in_order_names [simp]: "stages_in_order (map stg_Name engine) (map Some engine) = Some engine"
  by (induction engine) simp_all

lemma stages_in_order_Some:
  "stages_in_order names stages = Some engine \<Longrightarrow> length stages = length names \<Longrightarrow>
     stages = map Some engine \<and> map stg_Name engine = names"
  by (induction names stages arbitrary: engine rule: stages_in_order.induct)
    (auto split: option.splits if_splits)

text \<open>
  The engine is built exactly from a store and the twelve stages of \<^verbatim>\<open>StageNames\<close> in their order.
\<close>

theorem NewEngine_exact:
  "NewEngine store stages = Inr engine \<longleftrightarrow> store \<and> stages = map Some engine \<and> map stg_Name engine = StageNames"
proof
  assume "NewEngine store stages = Inr engine"
  then show "store \<and> stages = map Some engine \<and> map stg_Name engine = StageNames"
    using stages_in_order_Some [of StageNames stages engine]
    by (auto simp: NewEngine_def split: option.splits if_splits)
next
  assume built: "store \<and> stages = map Some engine \<and> map stg_Name engine = StageNames"
  then have "length engine = length StageNames" and "stages_in_order StageNames (map Some engine) = Some engine"
    by (metis length_map, metis stages_in_order_names)
  with built show "NewEngine store stages = Inr engine" by (simp add: NewEngine_def)
qed

end
