(* ===== verification/Ssh_Command.thy ===== *)
theory Ssh_Command
  imports Go_Errors Go_Strings
begin

text \<open>
  Running one command over an SSH connection (\<^verbatim>\<open>internal/ssh/command.go\<close>): what the session produced
  and how it ended is the environment; the bounded buffers and the verdict are the program's.
  Durations are dropped.  A second part is the quoting of shell arguments, of which the program has
  two versions (\<^verbatim>\<open>provisioner/remote.go\<close>, and \<^verbatim>\<open>royalip/service.go\<close> and \<^verbatim>\<open>cherryip/service.go\<close>).
\<close>

section \<open>Bounded output\<close>

record limitedBuffer =
  lb_buffer :: string
  lb_limit :: int
  lb_exceeded :: bool

definition newLimitedBuffer :: "int \<Rightarrow> limitedBuffer" where
  "newLimitedBuffer limit = \<lparr>lb_buffer = [], lb_limit = limit, lb_exceeded = False\<rparr>"

text \<open>\<^verbatim>\<open>Write\<close>: it always reports the whole length, so that the session goes on.\<close>

definition limited_Write :: "string \<Rightarrow> limitedBuffer \<Rightarrow> int \<times> limitedBuffer" where
  "limited_Write chunk b =
     (let originalLength = int (length chunk);
          remaining = lb_limit b - int (length (lb_buffer b))
      in if remaining < int (length chunk)
         then (originalLength, b\<lparr>lb_exceeded := True, lb_buffer := lb_buffer b @ take (nat (max 0 remaining)) chunk\<rparr>)
         else (originalLength, b\<lparr>lb_buffer := lb_buffer b @ chunk\<rparr>))"

definition collect :: "int \<Rightarrow> string list \<Rightarrow> limitedBuffer" where
  "collect limit chunks = fold (\<lambda>chunk b. snd (limited_Write chunk b)) chunks (newLimitedBuffer limit)"

lemma collect_bounded:
  assumes "0 \<le> limit"
  shows "collect limit chunks = \<lparr>lb_buffer = take (nat limit) (concat chunks), lb_limit = limit,
    lb_exceeded = (limit < int (length (concat chunks)))\<rparr>"
proof (induction chunks rule: rev_induct)
  case Nil
  then show ?case using assms by (simp add: collect_def newLimitedBuffer_def)
next
  case (snoc chunk chunks)
  have step: "collect limit (chunks @ [chunk]) = snd (limited_Write chunk (collect limit chunks))"
    by (simp add: collect_def)
  show ?case
    unfolding step snoc limited_Write_def Let_def using assms by (auto simp: min_def nat_diff_distrib)
qed

section \<open>Running a command\<close>

datatype wait_result = WaitOk | WaitExit int | WaitOther

datatype command_error =
    SessionNotCreated
  | CommandNotStarted
  | CommandCancelled go_error
  | OutputLimitExceeded
  | CommandError int
  | NoExitStatus

record CommandResult =
  cmd_Stdout :: string
  cmd_Stderr :: string
  cmd_ExitStatus :: int
  cmd_TimedOut :: bool

text \<open>
  \<open>cancelled\<close>: the context was done before the command was.  \<open>ctx\<close>: what the context says when the
  output has been collected.
\<close>

record session_run =
  sr_created :: bool
  sr_started :: bool
  sr_stdout :: "string list"
  sr_stderr :: "string list"
  sr_cancelled :: bool
  sr_ctx :: "go_error option"
  sr_wait :: wait_result

definition Connection_Run :: "int \<Rightarrow> int \<Rightarrow> session_run \<Rightarrow> CommandResult \<times> command_error option" where
  "Connection_Run stdoutLimit stderrLimit run =
     (let none = \<lparr>cmd_Stdout = [], cmd_Stderr = [], cmd_ExitStatus = - 1, cmd_TimedOut = False\<rparr> in
      if \<not> sr_created run then (none, Some SessionNotCreated)
      else if \<not> sr_started run then (none, Some CommandNotStarted)
      else
        let stdout = collect stdoutLimit (sr_stdout run);
            stderr = collect stderrLimit (sr_stderr run);
            result = \<lparr>cmd_Stdout = lb_buffer stdout, cmd_Stderr = lb_buffer stderr, cmd_ExitStatus = 0,
              cmd_TimedOut = (sr_cancelled run \<and> sr_ctx run = Some CtxDeadlineExceeded)\<rparr>
        in case sr_ctx run of
             Some err \<Rightarrow> (result\<lparr>cmd_ExitStatus := - 1\<rparr>, Some (CommandCancelled err))
           | None \<Rightarrow>
               let result = (case sr_wait run of
                     WaitOk \<Rightarrow> result | WaitExit status \<Rightarrow> result\<lparr>cmd_ExitStatus := status\<rparr>
                   | WaitOther \<Rightarrow> result\<lparr>cmd_ExitStatus := - 1\<rparr>)
               in if lb_exceeded stdout \<or> lb_exceeded stderr then (result, Some OutputLimitExceeded)
                  else case sr_wait run of
                    WaitOk \<Rightarrow> (result, None)
                  | WaitExit status \<Rightarrow> (result, Some (CommandError (cmd_ExitStatus result)))
                  | WaitOther \<Rightarrow> (result, Some NoExitStatus))"

text \<open>
  C39. The output of a command never exceeds its limits, whatever the server sends; and \<open>Run\<close> reports success
  exactly when the command was started, ended by itself with status 0 and within the context, and all of its
  output fits: then the result holds the complete output.
\<close>

theorem Connection_Run_complete:
  assumes "0 \<le> stdoutLimit" and "0 \<le> stderrLimit"
  shows "case Connection_Run stdoutLimit stderrLimit run of (result, err) \<Rightarrow>
    int (length (cmd_Stdout result)) \<le> stdoutLimit \<and> int (length (cmd_Stderr result)) \<le> stderrLimit \<and>
    (err = None \<longleftrightarrow> sr_created run \<and> sr_started run \<and> sr_ctx run = None \<and> sr_wait run = WaitOk \<and>
       int (length (concat (sr_stdout run))) \<le> stdoutLimit \<and> int (length (concat (sr_stderr run))) \<le> stderrLimit) \<and>
    (err \<noteq> None \<or> cmd_Stdout result = concat (sr_stdout run) \<and> cmd_Stderr result = concat (sr_stderr run) \<and>
       cmd_ExitStatus result = 0)"
  using assms unfolding Connection_Run_def Let_def collect_bounded [OF assms(1)] collect_bounded [OF assms(2)]
  by (cases "sr_wait run") (auto simp: min_def split: option.split)

definition demo_run :: session_run where
  "demo_run = \<lparr>sr_created = True, sr_started = True, sr_stdout = [''ab'', ''c''], sr_stderr = [], sr_cancelled = False,
     sr_ctx = None, sr_wait = WaitOk\<rparr>"

theorem Connection_Run_complete_witness:
  "(0 :: int) \<le> 3 \<and> cmd_Stdout (fst (Connection_Run 3 3 demo_run)) = ''abc'' \<and>
   int (length (cmd_Stdout (fst (Connection_Run 2 3 demo_run)))) \<le> 2"
  using Connection_Run_complete [of 3 3 demo_run] Connection_Run_complete [of 2 3 demo_run]
  by (auto simp: demo_run_def case_prod_beta)

section \<open>Shell words\<close>

text \<open>\<^verbatim>\<open>provisioner.shellQuote\<close> and the one of the server IP services.\<close>

definition is_break :: "char \<Rightarrow> bool" where
  "is_break c \<longleftrightarrow> byte c = 13 \<or> byte c = 10 \<or> byte c = 0"

definition replace_quote :: "string \<Rightarrow> string \<Rightarrow> string" where
  "replace_quote by v = concat (map (\<lambda>c. if byte c = 39 then by else [c]) v)"

definition quote_char :: char where "quote_char = CHR 0x27"

definition shellQuote :: "string \<Rightarrow> string option" where
  "shellQuote v =
     (if list_ex is_break v then None
      else Some ([quote_char] @ replace_quote [quote_char, CHR 0x22, quote_char, CHR 0x22, quote_char] v @ [quote_char]))"

definition server_shellQuote :: "string \<Rightarrow> string" where
  "server_shellQuote v = [quote_char] @ replace_quote [quote_char, CHR 0x5C, quote_char, quote_char] v @ [quote_char]"

definition shellPath :: "string \<Rightarrow> string option" where
  "shellPath v = (if \<not> HasPrefix v ''/'' \<or> list_ex is_break v then None else shellQuote v)"

text \<open>
  How a POSIX shell reads a word: between single quotes every byte stands for itself; between double
  quotes every byte but \<open>$\<close>, the backquote, the backslash and the double quote does; outside, a
  backslash makes the next byte literal and ordinary bytes stand for themselves.  Anything else (an
  expansion, an operator, a blank, a newline, a NUL) is not one literal word: \<open>None\<close>.
\<close>

datatype sh_mode = Plain | Single | Double

definition plain_char :: "char \<Rightarrow> bool" where
  "plain_char c \<longleftrightarrow> is_lower c \<or> is_upper c \<or> is_digit c \<or> c \<in> set ''_./:=@%+,-''"

fun sh_word :: "sh_mode \<Rightarrow> string \<Rightarrow> string option" where
  "sh_word Plain [] = Some []"
| "sh_word Single [] = None"
| "sh_word Double [] = None"
| "sh_word Plain (c # s) =
     (if byte c = 39 then sh_word Single s
      else if byte c = 34 then sh_word Double s
      else if byte c = 92 then (case s of [] \<Rightarrow> None | d # s' \<Rightarrow>
        if is_break d then None else map_option ((#) d) (sh_word Plain s'))
      else if plain_char c then map_option ((#) c) (sh_word Plain s) else None)"
| "sh_word Single (c # s) =
     (if byte c = 39 then sh_word Plain s
      else if byte c = 0 then None else map_option ((#) c) (sh_word Single s))"
| "sh_word Double (c # s) =
     (if byte c = 34 then sh_word Plain s
      else if byte c \<in> {0, 36, 92, 96} then None else map_option ((#) c) (sh_word Double s))"

lemma byte_quote [simp]: "byte quote_char = 39"
  by (simp add: quote_char_def)

lemma byte_is_quote: "byte c = 39 \<Longrightarrow> c = quote_char"
  by (metis byte_quote char_of_char)

lemma replace_quote_simps [simp]:
  "replace_quote by [] = []"
  "replace_quote by (c # v) = (if byte c = 39 then by else [c]) @ replace_quote by v"
  by (simp_all add: replace_quote_def)

lemma quoted_word:
  assumes "\<And>s. sh_word Single (by @ s) = map_option ((#) quote_char) (sh_word Single s)"
    and "list_all (\<lambda>c. byte c \<noteq> 0) v"
  shows "sh_word Plain ([quote_char] @ replace_quote by v @ [quote_char]) = Some v"
proof -
  have "sh_word Single (replace_quote by v @ [quote_char]) = Some v"
    using assms(2) by (induction v) (auto simp: assms(1) dest: byte_is_quote)
  then show ?thesis by simp
qed

text \<open>
  C40. A quoted value reaches the remote shell as one word that is exactly the value, whatever
  characters it has: no byte of it is read as shell syntax.  This holds of both versions, for every value
  that can be passed at all (no NUL byte).
\<close>

theorem shellQuote_roundtrip:
  assumes "list_all (\<lambda>c. byte c \<noteq> 0) v"
  shows "sh_word Plain (server_shellQuote v) = Some v \<and>
    (case shellQuote v of None \<Rightarrow> list_ex is_break v | Some q \<Rightarrow> sh_word Plain q = Some v)"
proof
  show "sh_word Plain (server_shellQuote v) = Some v"
    unfolding server_shellQuote_def by (rule quoted_word [OF _ assms]) (simp add: is_break_def)
  have "sh_word Plain ([quote_char] @ replace_quote [quote_char, CHR 0x22, quote_char, CHR 0x22, quote_char] v @ [quote_char]) = Some v"
    by (rule quoted_word [OF _ assms]) (simp add: option.map_comp o_def)
  then show "case shellQuote v of None \<Rightarrow> list_ex is_break v | Some q \<Rightarrow> sh_word Plain q = Some v"
    by (simp add: shellQuote_def)
qed

theorem shellQuote_roundtrip_witness:
  "list_all (\<lambda>c. byte c \<noteq> 0) (''/a $(x); '' @ [quote_char, quote_char] @ '' b'') \<and>
   sh_word Plain (server_shellQuote (''/a $(x); '' @ [quote_char, quote_char] @ '' b'')) =
     Some (''/a $(x); '' @ [quote_char, quote_char] @ '' b'')"
  using shellQuote_roundtrip [of "''/a $(x); '' @ [quote_char, quote_char] @ '' b''"] by (simp add: quote_char_def)

end
