(* ===== verification/Remote_Stage.thy ===== *)
theory Remote_Stage
  imports Provision_Engine Ssh_Command
begin

text \<open>
  The stages that are configured by remote commands (\<^verbatim>\<open>internal/provisioner/remote.go\<close>), as stages of
  the engine: managed files, compared by their SHA-256 digest and written through a temporary file,
  and three optional commands.  The shell of the VPS is the environment: it answers a command with
  its output, or not.  \<^verbatim>\<open>hex.EncodeToString\<close> of \<^verbatim>\<open>sha256.Sum256\<close> is the parameter \<open>rr_digest\<close>.
\<close>

section \<open>Commands\<close>

record managedFile =
  mf_path :: string
  mf_mode :: string
  mf_content :: string

record remoteStage =
  rs_name :: string
  rs_files :: "managedFile list"
  rs_inspectCommand :: string
  rs_applyCommand :: string
  rs_validateCommand :: string

datatype remote_event = ReCommand string "string option" "string option"

record 'w runner =
  rr_Run :: "string \<Rightarrow> string option \<Rightarrow> 'w \<Rightarrow> string option \<times> 'w"
  rr_ctx_err :: "'w \<Rightarrow> go_error option \<times> 'w"
  rr_digest :: "string \<Rightarrow> string"

record 'w remote =
  rw_world :: 'w
  rw_log :: "remote_event list"

type_synonym ('w, 'a) remote_op = "('w remote, go_error + 'a) state"

definition remote_run :: "'w runner \<Rightarrow> string \<Rightarrow> string option \<Rightarrow> ('w remote, string option) state" where
  "remote_run p command stdin = State (\<lambda>s. case rr_Run p command stdin (rw_world s) of (r, w) \<Rightarrow>
     (r, s\<lparr>rw_world := w, rw_log := rw_log s @ [ReCommand command stdin r]\<rparr>))"

definition match_command :: "string \<Rightarrow> string" where
  "match_command path = ''if [ -f '' @ path @ '' ]; then sha256sum '' @ path @ '' | cut -d'' @ [quote_char] @ '' '' @ [quote_char]
     @ '' -f1; else printf missing; fi''"

definition lines :: "string list \<Rightarrow> string" where
  "lines ls = join [newline_char] ls"

definition write_command :: "string \<Rightarrow> string \<Rightarrow> string" where
  \<open>write_command path mode = lines
     [''set -eu'', ''target='' @ path, ''directory=$(dirname "$target")'', ''install -d -m 0755 "$directory"'',
      ''temporary=$(mktemp "$directory/.provisioner.XXXXXX")'',
      ''trap '' @ [quote_char] @ ''rm -f "$temporary"'' @ [quote_char] @ '' EXIT'',
      ''cat > "$temporary"'', ''chmod '' @ mode @ '' "$temporary"'',
      ''if [ -f "$target" ] && cmp -s "$temporary" "$target"; then'', ''    exit 0'', ''fi'',
      ''mv -f "$temporary" "$target"'', ''trap - EXIT'']\<close>

definition fileMatches :: "'w runner \<Rightarrow> managedFile \<Rightarrow> ('w, bool) remote_op" where
  "fileMatches p file =
     (case shellPath (mf_path file) of
        None \<Rightarrow> failE (OtherErr ''managed file path must be an absolute path'')
      | Some path \<Rightarrow> do {
          result \<leftarrow> remote_run p (match_command path) None;
          case result of
            None \<Rightarrow> failE (OtherErr ''managed file inspection failed'')
          | Some stdout \<Rightarrow> okE (TrimSpace stdout = rr_digest p (mf_content file))
        })"

definition commandReady :: "'w runner \<Rightarrow> string \<Rightarrow> ('w, bool) remote_op" where
  "commandReady p command = do {
     result \<leftarrow> remote_run p command None;
     case result of
       None \<Rightarrow> failE (OtherErr ''remote inspection command failed'')
     | Some stdout \<Rightarrow>
         if TrimSpace stdout = ''ready'' then okE True
         else if TrimSpace stdout = ''pending'' then okE False
         else failE (OtherErr ''remote inspection returned an invalid response'')
   }"

definition runChecked :: "'w runner \<Rightarrow> string \<Rightarrow> string option \<Rightarrow> ('w remote, go_error option) state" where
  "runChecked p command stdin = do {
     result \<leftarrow> remote_run p command stdin;
     case result of
       Some _ \<Rightarrow> State_Monad.return None
     | None \<Rightarrow> do {
         e \<leftarrow> State (\<lambda>s. case rr_ctx_err p (rw_world s) of (e, w) \<Rightarrow> (e, s\<lparr>rw_world := w\<rparr>));
         State_Monad.return (Some (case e of Some err \<Rightarrow> err | None \<Rightarrow> OtherErr ''remote apply command failed''))
       }
   }"

text \<open>The regular expression \<^verbatim>\<open>^[0-7]{3,4}$\<close>.\<close>

definition valid_mode :: "string \<Rightarrow> bool" where
  "valid_mode mode \<longleftrightarrow> length mode \<in> {3, 4} \<and> list_all (\<lambda>c. 48 \<le> byte c \<and> byte c \<le> 55) mode"

definition writeFile :: "'w runner \<Rightarrow> managedFile \<Rightarrow> ('w remote, go_error option) state" where
  "writeFile p file =
     (case shellPath (mf_path file) of
        None \<Rightarrow> State_Monad.return (Some (OtherErr ''managed file path must be an absolute path''))
      | Some path \<Rightarrow>
          if \<not> valid_mode (mf_mode file) then State_Monad.return (Some (OtherErr ''invalid managed file mode''))
          else runChecked p (write_command path (mf_mode file)) (Some (mf_content file)))"

section \<open>The stage\<close>

text \<open>The loops over the files: whether all match, and writing them until one cannot be written.\<close>

fun all_match :: "'w runner \<Rightarrow> managedFile list \<Rightarrow> ('w, bool) remote_op" where
  "all_match p [] = okE True"
| "all_match p (file # files) =
     bindE (fileMatches p file) (\<lambda>matches. if matches then all_match p files else okE False)"

fun write_all :: "'w runner \<Rightarrow> managedFile list \<Rightarrow> ('w remote, go_error option) state" where
  "write_all p [] = State_Monad.return None"
| "write_all p (file # files) = do {
     e \<leftarrow> writeFile p file;
     case e of Some err \<Rightarrow> State_Monad.return (Some err) | None \<Rightarrow> write_all p files
   }"

definition remote_Inspect :: "'w runner \<Rightarrow> remoteStage \<Rightarrow> ('w, Inspection) remote_op" where
  "remote_Inspect p s = bindE (all_match p (rs_files s)) (\<lambda>matches.
     if \<not> matches then okE \<lparr>ins_Satisfied = False, ins_Summary = ''managed configuration requires update''\<rparr>
     else if rs_inspectCommand s \<noteq> [] then bindE (commandReady p (rs_inspectCommand s)) (\<lambda>ready.
       if \<not> ready then okE \<lparr>ins_Satisfied = False, ins_Summary = ''service state requires update''\<rparr>
       else okE \<lparr>ins_Satisfied = True, ins_Summary = ''already configured''\<rparr>)
     else okE \<lparr>ins_Satisfied = True, ins_Summary = ''already configured''\<rparr>)"

definition remote_Apply :: "'w runner \<Rightarrow> remoteStage \<Rightarrow> ('w remote, go_error option) state" where
  "remote_Apply p s = do {
     e \<leftarrow> write_all p (rs_files s);
     case e of
       Some err \<Rightarrow> State_Monad.return (Some err)
     | None \<Rightarrow> if rs_applyCommand s \<noteq> [] then runChecked p (rs_applyCommand s) None else State_Monad.return None
   }"

definition remote_Validate :: "'w runner \<Rightarrow> remoteStage \<Rightarrow> ('w remote, go_error option) state" where
  "remote_Validate p s = do {
     matches \<leftarrow> all_match p (rs_files s);
     if matches \<noteq> Inr True then State_Monad.return (Some (OtherErr ''managed file validation failed''))
     else if rs_validateCommand s \<noteq> [] then do {
       ready \<leftarrow> commandReady p (rs_validateCommand s);
       State_Monad.return (if ready \<noteq> Inr True then Some (OtherErr ''remote service validation failed'') else None)
     }
     else State_Monad.return None
   }"

definition remote_stage :: "'w runner \<Rightarrow> remoteStage \<Rightarrow> 'w remote stage" where
  "remote_stage p s = \<lparr>stg_Name = rs_name s, stg_Inspect = run_state (remote_Inspect p s),
     stg_Apply = run_state (remote_Apply p s), stg_Validate = run_state (remote_Validate p s)\<rparr>"

section \<open>What a configured stage means\<close>

definition file_matched :: "'w runner \<Rightarrow> managedFile \<Rightarrow> remote_event list \<Rightarrow> bool" where
  "file_matched p file es \<longleftrightarrow> (\<exists>path stdout. shellPath (mf_path file) = Some path \<and>
     ReCommand (match_command path) None (Some stdout) \<in> set es \<and> TrimSpace stdout = rr_digest p (mf_content file))"

definition said_ready :: "string \<Rightarrow> remote_event list \<Rightarrow> bool" where
  "said_ready command es \<longleftrightarrow> command = [] \<or>
     (\<exists>stdout. ReCommand command None (Some stdout) \<in> set es \<and> TrimSpace stdout = ''ready'')"

definition files_matched :: "'w runner \<Rightarrow> remoteStage \<Rightarrow> remote_event list \<Rightarrow> bool" where
  "files_matched p s es \<longleftrightarrow> list_all (\<lambda>file. file_matched p file es) (rs_files s)"

text \<open>A write of a managed file, through its quoted path.\<close>

definition writes :: "managedFile \<Rightarrow> remote_event \<Rightarrow> bool" where
  "writes file e \<longleftrightarrow> (\<exists>path r. shellPath (mf_path file) = Some path \<and>
     e = ReCommand (write_command path (mf_mode file)) (Some (mf_content file)) r)"

text \<open>A command that only looks: the digest of a managed file, or one of the two inspection commands.\<close>

fun looks :: "remoteStage \<Rightarrow> remote_event \<Rightarrow> bool" where
  "looks s (ReCommand command stdin r) \<longleftrightarrow> stdin = None \<and> (command \<in> {rs_inspectCommand s, rs_validateCommand s} \<or>
     list_ex (\<lambda>file. \<exists>path. shellPath (mf_path file) = Some path \<and> command = match_command path) (rs_files s))"

lemma logs_remote_run [log_rules]: "(\<And>r. P r [ReCommand command stdin r]) \<Longrightarrow> logs rw_log (remote_run p command stdin) P"
  by (auto simp: logs_def remote_run_def split: prod.splits)

lemma looks_match:
  "file \<in> set (rs_files s) \<Longrightarrow> shellPath (mf_path file) = Some path \<Longrightarrow> looks s (ReCommand (match_command path) None r)"
  by (auto simp: list_ex_iff)

lemma logs_fileMatches:
  "file \<in> set (rs_files s) \<Longrightarrow> logs rw_log (fileMatches p file) (\<lambda>r es. list_all (looks s) es \<and> (r = Inr True \<longrightarrow> file_matched p file es))"
  unfolding fileMatches_def
  by (cases "shellPath (mf_path file)") (auto simp: file_matched_def looks_match simp del: looks.simps split: option.split intro!: log_rules)

lemma logs_commandReady:
  "command \<in> {rs_inspectCommand s, rs_validateCommand s} \<Longrightarrow> logs rw_log (commandReady p command) (\<lambda>r es. list_all (looks s) es \<and> (r = Inr True \<longrightarrow> said_ready command es))"
  unfolding commandReady_def by (intro log_rules) (auto simp: said_ready_def split: option.split intro!: log_rules)

lemma matched_after: "file_matched p file es \<Longrightarrow> file_matched p file (es @ es')"
  "file_matched p file es' \<Longrightarrow> file_matched p file (es @ es')"
  by (auto simp: file_matched_def)

lemma files_after: "files_matched p s es \<Longrightarrow> files_matched p s (es @ es')"
  by (auto simp: files_matched_def list_all_iff matched_after)

lemma ready_after: "said_ready command es' \<Longrightarrow> said_ready command (es @ es')"
  by (auto simp: said_ready_def)

lemma said_ready_Nil: "said_ready [] es"
  by (simp add: said_ready_def)

lemma logs_all_match:
  "set files \<subseteq> set (rs_files s) \<Longrightarrow> logs rw_log (all_match p files) (\<lambda>r es. list_all (looks s) es \<and> (r = Inr True \<longrightarrow> list_all (\<lambda>file. file_matched p file es) files))"
proof (induction files)
  case Nil
  then show ?case by (simp add: logs_okE)
next
  case (Cons f files)
  have rest: "logs rw_log (all_match p files) (\<lambda>r es'. list_all (looks s) es' \<and>
      (r = Inr True \<longrightarrow> file_matched p f (es @ es') \<and> list_all (\<lambda>file. file_matched p file (es @ es')) files))"
    if "file_matched p f es" for es
    by (rule logs_mono [OF Cons.IH]) (use that Cons.prems in \<open>auto simp: list_all_iff matched_after\<close>)
  show ?case
    unfolding all_match.simps
    using Cons.prems
    by (intro logs_bindE logs_mono [OF logs_fileMatches [where s = s]]) (auto split: sum.split intro!: logs_if logs_okE rest)
qed

lemma logs_Inspect:
  "logs rw_log (remote_Inspect p s) (\<lambda>r es. list_all (looks s) es \<and>
     (\<forall>found. r = Inr found \<longrightarrow> ins_Satisfied found \<longrightarrow> files_matched p s es \<and> said_ready (rs_inspectCommand s) es))"
proof -
  have ready: "logs rw_log (bindE (commandReady p (rs_inspectCommand s)) (\<lambda>ready.
       if \<not> ready then okE \<lparr>ins_Satisfied = False, ins_Summary = ''service state requires update''\<rparr>
       else okE \<lparr>ins_Satisfied = True, ins_Summary = ''already configured''\<rparr>))
     (\<lambda>r es'. list_all (looks s) es' \<and> (\<forall>found. r = Inr found \<longrightarrow> ins_Satisfied found \<longrightarrow>
       files_matched p s (es @ es') \<and> said_ready (rs_inspectCommand s) (es @ es')))"
    if "files_matched p s es" for es
    by (intro logs_bindE logs_mono [OF logs_commandReady [where s = s]])
      (use files_after [OF that] in \<open>auto split: sum.split intro!: logs_if logs_okE dest: ready_after\<close>)
  show ?thesis
    unfolding remote_Inspect_def
    by (intro logs_bindE logs_mono [OF logs_all_match [where s = s]])
      (auto split: sum.split intro!: logs_if logs_okE ready simp: files_matched_def [symmetric] said_ready_Nil)
qed

lemma logs_Validate_remote:
  "logs rw_log (remote_Validate p s) (\<lambda>r es. list_all (looks s) es \<and>
     (r = None \<longrightarrow> files_matched p s es \<and> said_ready (rs_validateCommand s) es))"
proof -
  have ready: "logs rw_log (do {
       ready \<leftarrow> commandReady p (rs_validateCommand s);
       State_Monad.return (if ready \<noteq> Inr True then Some (OtherErr ''remote service validation failed'') else None)
     }) (\<lambda>r es'. list_all (looks s) es' \<and>
       (r = None \<longrightarrow> files_matched p s (es @ es') \<and> said_ready (rs_validateCommand s) (es @ es')))"
    if "files_matched p s es" for es
    by (intro logs_bind logs_mono [OF logs_commandReady [where s = s]] logs_return)
      (use files_after [OF that] in \<open>auto dest: ready_after split: if_splits\<close>)
  show ?thesis
    unfolding remote_Validate_def
    by (intro logs_bind logs_mono [OF logs_all_match [where s = s]])
      (auto intro!: logs_if logs_return ready simp: files_matched_def [symmetric] said_ready_Nil)
qed

lemma logs_runChecked:
  "(\<And>r e. P e [ReCommand command stdin r]) \<Longrightarrow> logs rw_log (runChecked p command stdin) P"
  unfolding runChecked_def
  by (intro log_rules; force simp: logs_def split: option.split prod.split)

lemma logs_appends_remote: "logs rw_log (remote_Apply p s) (\<lambda>_ _. True)"
proof -
  have writes: "logs rw_log (write_all p files) (\<lambda>_ _. True)" for files
    by (induction files) (auto simp: writeFile_def intro!: log_rules logs_runChecked split: option.split)
  show ?thesis
    unfolding remote_Apply_def by (intro log_rules logs_mono [OF writes]) (auto intro!: log_rules logs_runChecked split: option.split)
qed

text \<open>The verdict of a stage: after the last thing it changed, everything it manages was verified.\<close>

definition verified_at_end :: "'w runner \<Rightarrow> remoteStage \<Rightarrow> remote_event list \<Rightarrow> bool" where
  "verified_at_end p s es \<longleftrightarrow> (\<exists>before after. es = before @ after \<and> list_all (looks s) after \<and> files_matched p s after \<and>
     (said_ready (rs_inspectCommand s) after \<or> said_ready (rs_validateCommand s) after))"

lemma verified_at_endI:
  "list_all (looks s) after \<Longrightarrow> files_matched p s after \<Longrightarrow>
     said_ready (rs_inspectCommand s) after \<or> said_ready (rs_validateCommand s) after \<Longrightarrow> verified_at_end p s (before @ after)"
  unfolding verified_at_end_def by (intro exI [of _ before] exI [of _ after]) simp

definition settles :: "'w runner \<Rightarrow> remoteStage \<Rightarrow> go_error option \<Rightarrow> remote_event list \<Rightarrow> remote_event list \<Rightarrow> bool" where
  "settles p s err before after \<longleftrightarrow> (\<exists>es. after = before @ es \<and> (err = None \<longrightarrow> verified_at_end p s es))"

text \<open>
  C17. When the engine takes a remote stage for configured, whatever its shell answered, then the last
  commands of the stage only looked, and by their answers every managed file had exactly the
  content the stage wants, under its quoted path, and its service said that it is ready: nothing was
  written after that.
\<close>

theorem remote_stage_settles:
  "case run_state (runStage (remote_stage p s)) st of ((report, err), st') \<Rightarrow>
     settles p s err (rw_log (pv_world st)) (rw_log (pv_world st'))"
proof -
  let ?log = "\<lambda>st. rw_log (pv_world st)"
  obtain found w1 where inspect: "run_state (remote_Inspect p s) (pv_world st) = (found, w1)" by fastforce
  obtain es1 where es1: "rw_log w1 = ?log st @ es1" "list_all (looks s) es1"
      "\<forall>f. found = Inr f \<longrightarrow> ins_Satisfied f \<longrightarrow> files_matched p s es1 \<and> said_ready (rs_inspectCommand s) es1"
    using logsD [OF logs_Inspect inspect] by blast
  obtain applied w2 where apply_stage: "run_state (remote_Apply p s) w1 = (applied, w2)" by fastforce
  obtain es2 where es2: "rw_log w2 = rw_log w1 @ es2" using logsD [OF logs_appends_remote apply_stage] by blast
  obtain validated w3 where validate: "run_state (remote_Validate p s) w2 = (validated, w3)" by fastforce
  obtain es3 where es3: "rw_log w3 = rw_log w2 @ es3" "list_all (looks s) es3"
      "validated = None \<longrightarrow> files_matched p s es3 \<and> said_ready (rs_validateCommand s) es3"
    using logsD [OF logs_Validate_remote validate] by blast
  have satisfied: "settles p s None (?log st) (?log st @ es1)" if "found = Inr f" "ins_Satisfied f" for f
    unfolding settles_def using that es1 verified_at_endI [of s es1 p "[]"] by (intro exI [of _ es1]) auto
  have configured: "settles p s None (?log st) (?log st @ es1 @ es2 @ es3)" if "validated = None"
    unfolding settles_def
    using that es3 verified_at_endI [of s es3 p "es1 @ es2"] by (intro exI [of _ "es1 @ es2 @ es3"]) auto
  have failed: "settles p s (Some err) (?log st) (?log st @ es)" for err es
    by (simp add: settles_def)
  show ?thesis
    using es1(1) es2 es3(1) satisfied configured failed
    by (auto simp: runStage_def Let_def prov_call_def remote_stage_def inspect apply_stage validate
        split: sum.splits option.splits)
qed

end
