(* ===== verification/Cert_Repository.thy ===== *)
theory Cert_Repository
  imports Repository Certificates
begin

text \<open>
  The certificate tables and their operations: \<^verbatim>\<open>internal/repository/postgres/certificates.go\<close>,
  under the constraints of the migrations \<^verbatim>\<open>000003\<close>, \<^verbatim>\<open>000005\<close> and \<^verbatim>\<open>000006\<close>.  As in
  \<^verbatim>\<open>Repository\<close> each operation takes the outcome of its statement or transaction and the
  server's clock.  \<^verbatim>\<open>lower(btrim(x))\<close> strips blanks and maps ASCII letters; instants count from
  Go's zero time.  The operations of \<^verbatim>\<open>certmanager.Repository\<close> are those of a panel, with the panel
  given by \<^verbatim>\<open>scoped_repository.go\<close>.
\<close>

section \<open>Tables\<close>

record CertRecordRow =
  cr_PanelID :: string
  cr_SNI :: string
  cr_Fingerprint :: "string option"
  cr_Serial :: "string option"
  cr_IssuedAt :: "time option"
  cr_ExpiresAt :: "time option"
  cr_LastRenewedAt :: "time option"
  cr_Status :: CertStatus
  cr_ActiveVersion :: "string option"
  cr_UpdatedAt :: time

record CertVersionRow =
  cv_PanelID :: string
  cv_Version :: Version

record DistributionRow =
  cd_PanelID :: string
  cd_SNI :: string
  cd_Version :: string
  cd_DeploymentID :: string
  cd_NodeIP :: addr
  cd_Status :: DistributionStatus
  cd_SafeErrorMessage :: "string option"
  cd_AttemptedAt :: time

record TargetReviewRow =
  cw_PanelID :: string
  cw_Review :: TargetReview

record cert_db =
  cdb_deployments :: "Deployment list"
  cdb_records :: "CertRecordRow list"
  cdb_versions :: "CertVersionRow list"
  cdb_distributions :: "DistributionRow list"
  cdb_reviews :: "TargetReviewRow list"

definition record_key :: "CertRecordRow \<Rightarrow> string \<times> string" where
  "record_key r = (cr_PanelID r, cr_SNI r)"

definition version_key :: "CertVersionRow \<Rightarrow> string \<times> string \<times> string" where
  "version_key r = (cv_PanelID r, ver_SNI (cv_Version r), ver_Version (cv_Version r))"

definition distribution_key :: "DistributionRow \<Rightarrow> string \<times> string \<times> string \<times> string" where
  "distribution_key r = (cd_PanelID r, cd_SNI r, cd_Version r, cd_DeploymentID r)"

definition review_key :: "TargetReviewRow \<Rightarrow> string \<times> string \<times> addr" where
  "review_key r = (cw_PanelID r, tr_SNI (cw_Review r), tr_IP (cw_Review r))"

definition btrim :: "string \<Rightarrow> string" where
  "btrim s = rev (dropWhile (\<lambda>c. c = CHR '' '') (rev (dropWhile (\<lambda>c. c = CHR '' '') s)))"

definition sni_column :: "string \<Rightarrow> string" where
  "sni_column s = ToLower (btrim s)"

definition IsZero :: "time \<Rightarrow> bool" where
  "IsZero t \<longleftrightarrow> t = 0"

section \<open>Writes\<close>

text \<open>\<^verbatim>\<open>INSERT ... ON CONFLICT (panel_id, sni_domain) DO UPDATE\<close> of a record's status.\<close>

definition record_ok :: "string \<Rightarrow> string \<Rightarrow> bool" where
  "record_ok panelID sni \<longleftrightarrow> validPanelID panelID \<and> CHR ''.'' \<in> set sni"

definition upsert_record :: "time \<Rightarrow> string \<Rightarrow> string \<Rightarrow> CertStatus \<Rightarrow> CertRecordRow list \<Rightarrow> CertRecordRow list" where
  "upsert_record now panelID sni status rows =
     (case tbl_lookup record_key (panelID, sni) rows of
        None \<Rightarrow> tbl_insert \<lparr>cr_PanelID = panelID, cr_SNI = sni, cr_Fingerprint = None, cr_Serial = None,
          cr_IssuedAt = None, cr_ExpiresAt = None, cr_LastRenewedAt = None, cr_Status = status,
          cr_ActiveVersion = None, cr_UpdatedAt = now\<rparr> rows
      | Some _ \<Rightarrow> tbl_modify record_key (panelID, sni) (\<lambda>r. r\<lparr>cr_Status := status, cr_UpdatedAt := now\<rparr>) rows)"

text \<open>The end of a statement or transaction that changes the tables to \<open>db'\<close>.\<close>

definition commit :: "db_outcome \<Rightarrow> cert_db \<Rightarrow> cert_db \<Rightarrow> go_error option \<times> cert_db" where
  "commit oc db db' =
     (case oc of DbOk \<Rightarrow> (None, db') | DbError \<Rightarrow> (Some RepoQueryFailed, db) | DbLost \<Rightarrow> (Some RepoQueryFailed, db'))"

definition SaveVersionForPanel ::
  "db_outcome \<Rightarrow> time \<Rightarrow> string \<Rightarrow> Version \<Rightarrow> cert_db \<Rightarrow> go_error option \<times> cert_db" where
  "SaveVersionForPanel oc now panelID version db =
     (let sni = sni_column (ver_SNI version);
          row = \<lparr>cv_PanelID = panelID, cv_Version = version\<lparr>ver_SNI := sni\<rparr>\<rparr> in
      if TrimSpace (ver_SNI version) = [] \<or> TrimSpace (ver_Version version) = [] \<or> ver_Fingerprint version = []
         \<or> ver_Serial version = [] \<or> IsZero (ver_IssuedAt version) \<or> \<not> ver_IssuedAt version < ver_ExpiresAt version
      then (Some (CertErr CertInvalidInput []), db)
      else if \<not> record_ok panelID sni \<or> tbl_lookup version_key (version_key row) (cdb_versions db) \<noteq> None
      then (Some RepoQueryFailed, db)
      else commit oc db (db\<lparr>cdb_records := upsert_record now panelID sni StatusIssuing (cdb_records db),
                            cdb_versions := tbl_insert row (cdb_versions db)\<rparr>))"

definition set_version_status :: "VersionStatus \<Rightarrow> CertVersionRow \<Rightarrow> CertVersionRow" where
  "set_version_status status row = row\<lparr>cv_Version := cv_Version row\<lparr>ver_Status := status\<rparr>\<rparr>"

definition SetVersionStatusForPanel ::
  "db_outcome \<Rightarrow> string \<Rightarrow> string \<Rightarrow> string \<Rightarrow> VersionStatus \<Rightarrow> cert_db \<Rightarrow> go_error option \<times> cert_db" where
  "SetVersionStatusForPanel oc panelID sni version status db =
     (let key = (panelID, sni_column sni, version) in
      if oc \<noteq> DbOk \<or> tbl_lookup version_key key (cdb_versions db) \<noteq> None
      then commit oc db (db\<lparr>cdb_versions := tbl_modify version_key key (set_version_status status) (cdb_versions db)\<rparr>)
      else (Some (CertErr CertNotFound []), db))"

text \<open>
  \<^verbatim>\<open>UPDATE certificate_versions ... WHERE ... (status = 'ACTIVE' OR version = $3)\<close>, and the record
  that takes over the version's metadata.
\<close>

definition activated_version :: "string \<Rightarrow> string \<Rightarrow> string \<Rightarrow> CertVersionRow \<Rightarrow> CertVersionRow" where
  "activated_version panelID sni version row =
     (if cv_PanelID row = panelID \<and> ver_SNI (cv_Version row) = sni
         \<and> (ver_Status (cv_Version row) = VersionActive \<or> ver_Version (cv_Version row) = version)
      then set_version_status (if ver_Version (cv_Version row) = version then VersionActive else VersionSuperseded) row
      else row)"

definition activated_record :: "time \<Rightarrow> bool \<Rightarrow> Version \<Rightarrow> CertRecordRow \<Rightarrow> CertRecordRow" where
  "activated_record now renewed v row =
     row\<lparr>cr_Fingerprint := Some (ver_Fingerprint v), cr_Serial := Some (ver_Serial v),
         cr_IssuedAt := Some (ver_IssuedAt v), cr_ExpiresAt := Some (ver_ExpiresAt v),
         cr_LastRenewedAt := (if renewed then Some now else cr_LastRenewedAt row),
         cr_Status := StatusActive, cr_ActiveVersion := Some (ver_Version v), cr_UpdatedAt := now\<rparr>"

definition ActivateVersionForPanel ::
  "db_outcome \<Rightarrow> time \<Rightarrow> string \<Rightarrow> string \<Rightarrow> string \<Rightarrow> bool \<Rightarrow> cert_db \<Rightarrow> go_error option \<times> cert_db" where
  "ActivateVersionForPanel oc now panelID sni version renewed db =
     (let sni = sni_column sni in
      case tbl_lookup version_key (panelID, sni, version) (cdb_versions db) of
        None \<Rightarrow> (Some (if oc = DbOk then CertErr CertNotFound [] else RepoQueryFailed), db)
      | Some row \<Rightarrow> commit oc db (db\<lparr>
          cdb_versions := map (activated_version panelID sni version) (cdb_versions db),
          cdb_records := tbl_modify record_key (panelID, sni) (activated_record now renewed (cv_Version row)) (cdb_records db)\<rparr>))"

definition SetStatusForPanel ::
  "db_outcome \<Rightarrow> time \<Rightarrow> string \<Rightarrow> string \<Rightarrow> CertStatus \<Rightarrow> cert_db \<Rightarrow> go_error option \<times> cert_db" where
  "SetStatusForPanel oc now panelID sni status db =
     (let sni = sni_column sni in
      if \<not> record_ok panelID sni then (Some RepoQueryFailed, db)
      else commit oc db (db\<lparr>cdb_records := upsert_record now panelID sni status (cdb_records db)\<rparr>))"

text \<open>The foreign keys of \<^verbatim>\<open>certificate_distributions\<close>: the version, and the deployment of the panel.\<close>

definition RecordDistributionForPanel ::
  "db_outcome \<Rightarrow> string \<Rightarrow> DistributionRecord \<Rightarrow> cert_db \<Rightarrow> go_error option \<times> cert_db" where
  "RecordDistributionForPanel oc panelID rec db =
     (if \<not> IsValid (dr_NodeIP rec) \<or> TrimSpace (dr_DeploymentID rec) = [] then (Some (CertErr CertInvalidInput []), db)
      else
        let row = \<lparr>cd_PanelID = panelID, cd_SNI = sni_column (dr_SNI rec), cd_Version = dr_Version rec,
              cd_DeploymentID = ToLower (dr_DeploymentID rec), cd_NodeIP = dr_NodeIP rec, cd_Status = dr_Status rec,
              cd_SafeErrorMessage = (if dr_SafeErrorMessage rec \<noteq> [] then Some (dr_SafeErrorMessage rec) else None),
              cd_AttemptedAt = dr_AttemptedAt rec\<rparr>
        in if Zone (dr_NodeIP rec) \<noteq> []
              \<or> tbl_lookup version_key (panelID, cd_SNI row, cd_Version row) (cdb_versions db) = None
              \<or> \<not> list_ex (\<lambda>d. dep_PanelID d = panelID \<and> Some (dep_ID d) = uuid_column (dr_DeploymentID rec)) (cdb_deployments db)
           then (Some RepoQueryFailed, db)
           else commit oc db (db\<lparr>cdb_distributions :=
             (case tbl_lookup distribution_key (distribution_key row) (cdb_distributions db) of
                None \<Rightarrow> tbl_insert row (cdb_distributions db)
              | Some _ \<Rightarrow> tbl_modify distribution_key (distribution_key row) (\<lambda>_. row) (cdb_distributions db))\<rparr>))"

definition conflicting_review :: "time \<Rightarrow> TargetReview \<Rightarrow> TargetReviewRow \<Rightarrow> TargetReviewRow" where
  "conflicting_review now new row =
     row\<lparr>cw_Review := cw_Review row\<lparr>tr_State := tr_State new, tr_Reason := tr_Reason new,
       tr_AcknowledgedBy := tr_AcknowledgedBy new, tr_AcknowledgedAt := tr_AcknowledgedAt new, tr_UpdatedAt := now\<rparr>\<rparr>"

definition RecordTargetReviewForPanel ::
  "db_outcome \<Rightarrow> time \<Rightarrow> string \<Rightarrow> TargetReview \<Rightarrow> cert_db \<Rightarrow> go_error option \<times> cert_db" where
  "RecordTargetReviewForPanel oc now panelID review db =
     (if TrimSpace (tr_SNI review) = [] \<or> \<not> IsValid (tr_IP review) \<or> TrimSpace (tr_Reason review) = []
      then (Some (CertErr CertInvalidInput []), db)
      else if tr_State review = TargetLegacyAcknowledged
              \<and> (case tr_AcknowledgedBy review of None \<Rightarrow> True | Some operator \<Rightarrow> operator \<le> 0)
      then (Some (CertErr CertInvalidInput []), db)
      else
        let sni = sni_column (tr_SNI review);
            new = \<lparr>tr_SNI = sni, tr_IP = Unmap (tr_IP review), tr_State = tr_State review,
              tr_Reason = TrimSpace (tr_Reason review),
              tr_AcknowledgedBy = (if tr_State review = TargetManualReview then None else tr_AcknowledgedBy review),
              tr_CreatedAt = now, tr_UpdatedAt = now,
              tr_AcknowledgedAt = (if tr_State review = TargetLegacyAcknowledged then Some now else None)\<rparr>;
            key = (panelID, sni, Unmap (tr_IP review))
        in if Zone (Unmap (tr_IP review)) \<noteq> [] \<or> tbl_lookup record_key (panelID, sni) (cdb_records db) = None
           then (Some RepoQueryFailed, db)
           else commit oc db (db\<lparr>cdb_reviews :=
             (case tbl_lookup review_key key (cdb_reviews db) of
                None \<Rightarrow> tbl_insert \<lparr>cw_PanelID = panelID, cw_Review = new\<rparr> (cdb_reviews db)
              | Some _ \<Rightarrow> tbl_modify review_key key (conflicting_review now new) (cdb_reviews db))\<rparr>))"

section \<open>Reads\<close>

definition scanCertificateRecord :: "CertRecordRow \<Rightarrow> go_error + Record" where
  "scanCertificateRecord row =
     (case (cr_Fingerprint row, cr_Serial row, cr_IssuedAt row, cr_ExpiresAt row, cr_ActiveVersion row) of
        (Some fingerprint, Some serial, Some issued, Some expires, Some version) \<Rightarrow>
          Inr \<lparr>rec_SNI = cr_SNI row, rec_Fingerprint = fingerprint, rec_Serial = serial, rec_IssuedAt = issued,
               rec_ExpiresAt = expires, rec_LastRenewedAt = cr_LastRenewedAt row, rec_Status = cr_Status row,
               rec_ActiveVersion = version, rec_UpdatedAt = cr_UpdatedAt row\<rparr>
      | _ \<Rightarrow> Inl RepoQueryFailed)"

definition GetActiveForPanel :: "db_outcome \<Rightarrow> string \<Rightarrow> string \<Rightarrow> cert_db \<Rightarrow> go_error + Record" where
  "GetActiveForPanel oc panelID sni db =
     (if oc \<noteq> DbOk then Inl RepoQueryFailed
      else case tbl_lookup record_key (panelID, sni_column sni) (cdb_records db) of
        None \<Rightarrow> Inl (CertErr CertNotFound [])
      | Some row \<Rightarrow> if cr_ActiveVersion row = None then Inl (CertErr CertNotFound []) else scanCertificateRecord row)"

fun scan_records :: "CertRecordRow list \<Rightarrow> go_error + Record list" where
  "scan_records [] = Inr []"
| "scan_records (row # rows) =
     (case scanCertificateRecord row of
        Inl err \<Rightarrow> Inl err
      | Inr r \<Rightarrow> (case scan_records rows of Inl err \<Rightarrow> Inl err | Inr rs \<Rightarrow> Inr (r # rs)))"

definition expires_before :: "CertRecordRow \<Rightarrow> CertRecordRow \<Rightarrow> bool" where
  "expires_before a b =
     (case (cr_ExpiresAt a, cr_ExpiresAt b) of
        (Some x, Some y) \<Rightarrow> x < y \<or> x = y \<and> string_less (cr_SNI a) (cr_SNI b)
      | _ \<Rightarrow> False)"

definition ListExpiringForPanel :: "db_outcome \<Rightarrow> string \<Rightarrow> time \<Rightarrow> int \<Rightarrow> cert_db \<Rightarrow> go_error + Record list" where
  "ListExpiringForPanel oc panelID before limit db =
     (if limit < 1 \<or> 100 < limit then Inl (CertErr CertInvalidInput [])
      else if oc \<noteq> DbOk then Inl RepoQueryFailed
      else scan_records (take (nat limit) (sort_by expires_before
             (filter (\<lambda>r. cr_PanelID r = panelID \<and> cr_ActiveVersion r \<noteq> None
                \<and> (case cr_ExpiresAt r of None \<Rightarrow> False | Some t \<Rightarrow> t \<le> before)) (cdb_records db)))))"

definition newest_version :: "Version \<Rightarrow> Version \<Rightarrow> bool" where
  "newest_version a b \<longleftrightarrow> ver_CreatedAt b < ver_CreatedAt a \<or>
     ver_CreatedAt a = ver_CreatedAt b \<and> string_less (ver_Version b) (ver_Version a)"

definition ListVersionsForPanel :: "db_outcome \<Rightarrow> string \<Rightarrow> string \<Rightarrow> cert_db \<Rightarrow> go_error + Version list" where
  "ListVersionsForPanel oc panelID sni db =
     (if oc \<noteq> DbOk then Inl RepoQueryFailed
      else Inr (sort_by newest_version (map cv_Version
             (filter (\<lambda>r. cv_PanelID r = panelID \<and> ver_SNI (cv_Version r) = sni_column sni) (cdb_versions db)))))"

definition review_before :: "TargetReview \<Rightarrow> TargetReview \<Rightarrow> bool" where
  "review_before a b \<longleftrightarrow> addr_less (tr_IP a) (tr_IP b) \<or> tr_IP a = tr_IP b \<and> tr_CreatedAt a < tr_CreatedAt b"

definition ListTargetReviewsForPanel :: "db_outcome \<Rightarrow> string \<Rightarrow> string \<Rightarrow> cert_db \<Rightarrow> go_error + TargetReview list" where
  "ListTargetReviewsForPanel oc panelID sni db =
     (if oc \<noteq> DbOk then Inl RepoQueryFailed
      else Inr (sort_by review_before (map cw_Review
             (filter (\<lambda>r. cw_PanelID r = panelID \<and> tr_SNI (cw_Review r) = sni_column sni) (cdb_reviews db)))))"

definition latest_first :: "Deployment \<Rightarrow> Deployment \<Rightarrow> bool" where
  "latest_first a b \<longleftrightarrow> dep_UpdatedAt b < dep_UpdatedAt a \<or>
     dep_UpdatedAt a = dep_UpdatedAt b \<and> string_less (dep_ID b) (dep_ID a)"

definition FindDeploymentsByPanelSNI ::
  "db_outcome \<Rightarrow> string \<Rightarrow> string \<Rightarrow> int \<Rightarrow> cert_db \<Rightarrow> go_error + Deployment list" where
  "FindDeploymentsByPanelSNI oc panelID sni limit db =
     (if limit < 1 \<or> 100 < limit then Inl RepoInvalidArgument
      else if oc \<noteq> DbOk then Inl RepoQueryFailed
      else Inr (take (nat limit) (sort_by latest_first
             (filter (\<lambda>d. dep_PanelID d = panelID \<and> ToLower (dep_SNIDomain d) = sni_column sni) (cdb_deployments db)))))"

section \<open>Well-formed tables\<close>

interpretation record_tbl: table record_key "tbl_lookup record_key" "tbl_modify record_key" tbl_insert
    "tbl_distinct record_key" set
  by (rule tbl_table)

interpretation version_tbl: table version_key "tbl_lookup version_key" "tbl_modify version_key" tbl_insert
    "tbl_distinct version_key" set
  by (rule tbl_table)

text \<open>
  The record of an active version has the metadata of that version, which is stored, and a version is
  \<open>ACTIVE\<close> only as the active version of its record.
\<close>

definition takes_over :: "CertRecordRow \<Rightarrow> CertVersionRow \<Rightarrow> bool" where
  "takes_over r v \<longleftrightarrow>
     cr_Fingerprint r = Some (ver_Fingerprint (cv_Version v)) \<and> cr_Serial r = Some (ver_Serial (cv_Version v)) \<and>
     cr_IssuedAt r = Some (ver_IssuedAt (cv_Version v)) \<and> cr_ExpiresAt r = Some (ver_ExpiresAt (cv_Version v))"

definition record_row_ok :: "CertVersionRow list \<Rightarrow> CertRecordRow \<Rightarrow> bool" where
  "record_row_ok versions r \<longleftrightarrow>
     (\<forall>version. cr_ActiveVersion r = Some version \<longrightarrow>
        (\<exists>v. tbl_lookup version_key (cr_PanelID r, cr_SNI r, version) versions = Some v \<and> takes_over r v))"

definition version_row_ok :: "CertRecordRow list \<Rightarrow> CertVersionRow \<Rightarrow> bool" where
  "version_row_ok records v \<longleftrightarrow>
     (\<exists>r. tbl_lookup record_key (cv_PanelID v, ver_SNI (cv_Version v)) records = Some r \<and>
        (ver_Status (cv_Version v) = VersionActive \<longrightarrow> cr_ActiveVersion r = Some (ver_Version (cv_Version v))))"

definition cert_wf :: "cert_db \<Rightarrow> bool" where
  "cert_wf db \<longleftrightarrow>
     tbl_distinct record_key (cdb_records db) \<and> tbl_distinct version_key (cdb_versions db) \<and>
     (\<forall>r \<in> set (cdb_records db). record_row_ok (cdb_versions db) r) \<and>
     (\<forall>v \<in> set (cdb_versions db). version_row_ok (cdb_records db) v)"

lemma keys_kept [simp]:
  "record_key (r\<lparr>cr_Status := status, cr_UpdatedAt := now\<rparr>) = record_key r"
  "record_key (activated_record now renewed v r) = record_key r"
  "version_key (set_version_status vs row) = version_key row"
  "version_key (activated_version panelID sni version row) = version_key row"
  by (simp_all add: record_key_def version_key_def activated_record_def set_version_status_def activated_version_def)

lemma kept_simps [simp]:
  "cv_PanelID (set_version_status vs row) = cv_PanelID row"
  "ver_SNI (cv_Version (set_version_status vs row)) = ver_SNI (cv_Version row)"
  "ver_Version (cv_Version (set_version_status vs row)) = ver_Version (cv_Version row)"
  "ver_Status (cv_Version (set_version_status vs row)) = vs"
  "takes_over r (set_version_status vs row) = takes_over r row"
  "cv_PanelID (activated_version panelID sni version row) = cv_PanelID row"
  "ver_SNI (cv_Version (activated_version panelID sni version row)) = ver_SNI (cv_Version row)"
  "ver_Version (cv_Version (activated_version panelID sni version row)) = ver_Version (cv_Version row)"
  "takes_over r (activated_version panelID sni version row) = takes_over r row"
  by (simp_all add: set_version_status_def activated_version_def takes_over_def)

lemma activated_record_version [simp]: "cr_ActiveVersion (activated_record now renewed v r) = Some (ver_Version v)"
  by (simp add: activated_record_def)

text \<open>Rewriting every row with the same key is a lookup away.\<close>

lemma tbl_lookup_map:
  "(\<And>r. key (f r) = key r) \<Longrightarrow> tbl_lookup key k (map f rows) = map_option f (tbl_lookup key k rows)"
  by (induction rows) (auto simp: tbl_lookup_def)

lemma tbl_distinct_map: "(\<And>r. key (f r) = key r) \<Longrightarrow> tbl_distinct key (map f rows) = tbl_distinct key rows"
  by (simp add: tbl_distinct_def comp_def)

lemma upsert_record_lookup:
  "tbl_lookup record_key k (upsert_record now panelID sni status rows) =
     (if k = (panelID, sni) \<and> tbl_lookup record_key k rows \<noteq> None \<or> k \<noteq> (panelID, sni)
      then map_option (\<lambda>r. if k = (panelID, sni) then r\<lparr>cr_Status := status, cr_UpdatedAt := now\<rparr> else r)
             (tbl_lookup record_key k rows)
      else Some \<lparr>cr_PanelID = panelID, cr_SNI = sni, cr_Fingerprint = None, cr_Serial = None,
          cr_IssuedAt = None, cr_ExpiresAt = None, cr_LastRenewedAt = None, cr_Status = status,
          cr_ActiveVersion = None, cr_UpdatedAt = now\<rparr>)"
  by (auto simp: upsert_record_def record_tbl.lookup_modify record_tbl.lookup_add record_key_def option.map_ident
      split: option.split)

lemma upsert_record_distinct:
  "tbl_distinct record_key rows \<Longrightarrow> tbl_distinct record_key (upsert_record now panelID sni status rows)"
  by (auto simp: upsert_record_def record_key_def intro!: record_tbl.keyed_modify record_tbl.keyed_add split: option.split)

lemma upsert_record_rows:
  "r \<in> set (upsert_record now panelID sni status rows) \<Longrightarrow>
     cr_ActiveVersion r = None \<or> (\<exists>r0 \<in> set rows. r = r0 \<or> r = r0\<lparr>cr_Status := status, cr_UpdatedAt := now\<rparr>)"
  by (auto simp: upsert_record_def tbl_insert_def tbl_modify_def split: option.splits if_splits)

lemma upsert_record_wf:
  assumes "cert_wf db"
  shows "cert_wf (db\<lparr>cdb_records := upsert_record now panelID sni status (cdb_records db)\<rparr>)"
proof -
  let ?records = "upsert_record now panelID sni status (cdb_records db)"
  have "record_row_ok (cdb_versions db) r" if "r \<in> set ?records" for r
    using upsert_record_rows [OF that] assms by (auto simp: cert_wf_def record_row_ok_def takes_over_def)
  moreover have "version_row_ok ?records v" if "v \<in> set (cdb_versions db)" for v
  proof -
    from that assms obtain r where "tbl_lookup record_key (cv_PanelID v, ver_SNI (cv_Version v)) (cdb_records db) = Some r"
      and "ver_Status (cv_Version v) = VersionActive \<longrightarrow> cr_ActiveVersion r = Some (ver_Version (cv_Version v))"
      by (auto simp: cert_wf_def version_row_ok_def)
    then show ?thesis by (simp add: version_row_ok_def upsert_record_lookup)
  qed
  ultimately show ?thesis
    using assms upsert_record_distinct by (simp add: cert_wf_def)
qed

lemma commit_wf: "cert_wf db \<Longrightarrow> cert_wf db' \<Longrightarrow> cert_wf (snd (commit oc db db'))"
  by (simp add: commit_def split: db_outcome.split)

lemma SaveVersionForPanel_wf:
  assumes wf: "cert_wf db" and status: "ver_Status version \<noteq> VersionActive"
  shows "cert_wf (snd (SaveVersionForPanel oc now panelID version db))"
proof -
  let ?sni = "sni_column (ver_SNI version)"
  let ?row = "\<lparr>cv_PanelID = panelID, cv_Version = version\<lparr>ver_SNI := ?sni\<rparr>\<rparr>"
  let ?db = "db\<lparr>cdb_records := upsert_record now panelID ?sni StatusIssuing (cdb_records db)\<rparr>"
  have wf': "cert_wf ?db" by (rule upsert_record_wf [OF wf])
  have "cert_wf (?db\<lparr>cdb_versions := tbl_insert ?row (cdb_versions db)\<rparr>)"
    if new: "tbl_lookup version_key (version_key ?row) (cdb_versions db) = None"
  proof -
    have "version_row_ok (cdb_records ?db) ?row"
      using status by (auto simp: version_row_ok_def upsert_record_lookup)
    moreover have "record_row_ok (tbl_insert ?row (cdb_versions db)) r" if "r \<in> set (cdb_records ?db)" for r
      using that wf' new by (fastforce simp: cert_wf_def record_row_ok_def version_tbl.lookup_add)
    ultimately show ?thesis
      using wf' version_tbl.keyed_add [OF new] by (simp add: cert_wf_def version_tbl.rows_add)
  qed
  then show ?thesis
    using wf by (auto simp: SaveVersionForPanel_def Let_def commit_wf)
qed

lemma SetVersionStatusForPanel_wf:
  assumes wf: "cert_wf db" and status: "status \<noteq> VersionActive"
  shows "cert_wf (snd (SetVersionStatusForPanel oc panelID sni version status db))"
proof -
  let ?key = "(panelID, sni_column sni, version)"
  let ?versions = "tbl_modify version_key ?key (set_version_status status) (cdb_versions db)"
  have "record_row_ok ?versions r" if "r \<in> set (cdb_records db)" for r
    using that wf by (fastforce simp: cert_wf_def record_row_ok_def version_tbl.lookup_modify)
  moreover have "version_row_ok (cdb_records db) v" if "v \<in> set ?versions" for v
    using that wf status by (auto simp: cert_wf_def version_row_ok_def tbl_modify_def)
  ultimately have "cert_wf (db\<lparr>cdb_versions := ?versions\<rparr>)"
    using wf version_tbl.keyed_modify [of "set_version_status status" "cdb_versions db"] by (simp add: cert_wf_def)
  then show ?thesis
    using wf by (simp add: SetVersionStatusForPanel_def Let_def commit_wf)
qed

lemma ActivateVersionForPanel_wf:
  assumes wf: "cert_wf db"
  shows "cert_wf (snd (ActivateVersionForPanel oc now panelID sni version renewed db))"
proof (cases "tbl_lookup version_key (panelID, sni_column sni, version) (cdb_versions db)")
  case None
  then show ?thesis using wf by (simp add: ActivateVersionForPanel_def)
next
  case (Some row)
  let ?sni = "sni_column sni" and ?f = "activated_version panelID (sni_column sni) version"
    and ?g = "activated_record now renewed (cv_Version row)"
  let ?versions = "map ?f (cdb_versions db)" and ?records = "tbl_modify record_key (panelID, ?sni) ?g (cdb_records db)"
  have row: "version_key row = (panelID, ?sni, version)" using version_tbl.lookup_key [OF Some] by simp
  have found: "tbl_lookup version_key k ?versions = map_option ?f (tbl_lookup version_key k (cdb_versions db))" for k
    by (simp add: tbl_lookup_map)
  have "record_row_ok ?versions r" if "r \<in> set ?records" for r
  proof -
    from that obtain r0 where r0: "r0 \<in> set (cdb_records db)"
      and r: "r = (if record_key r0 = (panelID, ?sni) then ?g r0 else r0)"
      by (auto simp: tbl_modify_def)
    show ?thesis
    proof (cases "record_key r0 = (panelID, ?sni)")
      case True
      then have "cr_PanelID r = panelID" "cr_SNI r = ?sni" "cr_ActiveVersion r = Some version" "takes_over r row"
        using r row by (simp_all add: record_key_def version_key_def activated_record_def takes_over_def)
      then show ?thesis using Some by (simp add: record_row_ok_def found)
    next
      case False
      then show ?thesis using r r0 wf by (fastforce simp: record_row_ok_def cert_wf_def found)
    qed
  qed
  moreover have "version_row_ok ?records v" if "v \<in> set ?versions" for v
  proof -
    from that obtain v0 where v0: "v0 \<in> set (cdb_versions db)" and v: "v = ?f v0" by auto
    then obtain r where r: "tbl_lookup record_key (cv_PanelID v0, ver_SNI (cv_Version v0)) (cdb_records db) = Some r"
      and active: "ver_Status (cv_Version v0) = VersionActive \<Longrightarrow> cr_ActiveVersion r = Some (ver_Version (cv_Version v0))"
      using wf by (auto simp: cert_wf_def version_row_ok_def)
    then show ?thesis
      using row v
      by (auto simp: version_row_ok_def record_tbl.lookup_modify activated_version_def version_key_def)
  qed
  moreover have "tbl_distinct version_key ?versions" "tbl_distinct record_key ?records"
    using wf record_tbl.keyed_modify [of ?g "cdb_records db" "(panelID, ?sni)"] by (simp_all add: cert_wf_def tbl_distinct_map)
  ultimately have "cert_wf (db\<lparr>cdb_versions := ?versions, cdb_records := ?records\<rparr>)"
    by (simp add: cert_wf_def)
  then show ?thesis
    using wf by (simp add: ActivateVersionForPanel_def Let_def Some commit_wf)
qed

lemma SetStatusForPanel_wf: "cert_wf db \<Longrightarrow> cert_wf (snd (SetStatusForPanel oc now panelID sni status db))"
  by (simp add: SetStatusForPanel_def Let_def commit_wf upsert_record_wf)

lemma cert_wf_tables [simp]:
  "cert_wf (db\<lparr>cdb_distributions := ds\<rparr>) = cert_wf db"
  "cert_wf (db\<lparr>cdb_reviews := rs\<rparr>) = cert_wf db"
  by (simp_all add: cert_wf_def)

lemma RecordDistributionForPanel_wf: "cert_wf db \<Longrightarrow> cert_wf (snd (RecordDistributionForPanel oc panelID rec db))"
  by (simp add: RecordDistributionForPanel_def Let_def commit_wf)

lemma RecordTargetReviewForPanel_wf: "cert_wf db \<Longrightarrow> cert_wf (snd (RecordTargetReviewForPanel oc now panelID review db))"
  by (simp add: RecordTargetReviewForPanel_def Let_def commit_wf)

lemmas cert_repository_wf = SaveVersionForPanel_wf SetVersionStatusForPanel_wf ActivateVersionForPanel_wf
  SetStatusForPanel_wf RecordDistributionForPanel_wf RecordTargetReviewForPanel_wf

section \<open>Properties\<close>

lemma scan_takes_over:
  assumes "takes_over r v" and "cr_ActiveVersion r = Some version"
  shows "\<exists>rec. scanCertificateRecord r = Inr rec \<and> rec_SNI rec = cr_SNI r \<and> rec_ActiveVersion rec = version \<and>
    rec_Fingerprint rec = ver_Fingerprint (cv_Version v) \<and> rec_ExpiresAt rec = ver_ExpiresAt (cv_Version v)"
  using assms by (simp add: scanCertificateRecord_def takes_over_def)

text \<open>
  Activating a version is read back: the record names the version and has its fingerprint and
  expiry, that version alone is \<open>ACTIVE\<close> for the domain, the version that was active before is
  superseded and not lost, and no other panel or domain changes.
\<close>

theorem ActivateVersion_readback:
  assumes "ActivateVersionForPanel oc now panelID sni version renewed db = (None, db')" and "cert_wf db"
  shows "\<exists>v rec. tbl_lookup version_key (panelID, sni_column sni, version) (cdb_versions db) = Some v \<and>
    GetActiveForPanel DbOk panelID sni db' = Inr rec \<and> rec_ActiveVersion rec = version \<and>
    rec_Fingerprint rec = ver_Fingerprint (cv_Version v) \<and> rec_ExpiresAt rec = ver_ExpiresAt (cv_Version v) \<and>
    map version_key (filter (\<lambda>w. cv_PanelID w = panelID \<and> ver_SNI (cv_Version w) = sni_column sni \<and>
      ver_Status (cv_Version w) = VersionActive) (cdb_versions db')) = [(panelID, sni_column sni, version)] \<and>
    map version_key (cdb_versions db') = map version_key (cdb_versions db) \<and>
    (\<forall>p s. (p, sni_column s) \<noteq> (panelID, sni_column sni) \<longrightarrow>
       GetActiveForPanel DbOk p s db' = GetActiveForPanel DbOk p s db \<and>
       ListVersionsForPanel DbOk p s db' = ListVersionsForPanel DbOk p s db)"
proof -
  let ?key = "(panelID, sni_column sni, version)" and ?f = "activated_version panelID (sni_column sni) version"
  obtain row where row: "tbl_lookup version_key ?key (cdb_versions db) = Some row"
    and db': "db' = db\<lparr>cdb_versions := map ?f (cdb_versions db), cdb_records := tbl_modify record_key
      (panelID, sni_column sni) (activated_record now renewed (cv_Version row)) (cdb_records db)\<rparr>"
    using assms(1)
    by (auto simp: ActivateVersionForPanel_def Let_def commit_def split: option.splits db_outcome.splits)
  have key: "row \<in> set (cdb_versions db)" "cv_PanelID row = panelID" "ver_SNI (cv_Version row) = sni_column sni"
    "ver_Version (cv_Version row) = version"
    using version_tbl.lookup_key [OF row] by (simp_all add: version_key_def)
  with assms(2) obtain r where "tbl_lookup record_key (panelID, sni_column sni) (cdb_records db) = Some r"
    by (auto simp: cert_wf_def version_row_ok_def)
  then have "tbl_lookup record_key (panelID, sni_column sni) (cdb_records db') =
      Some (activated_record now renewed (cv_Version row) r)"
    by (simp add: db' record_tbl.lookup_modify)
  moreover have over: "takes_over (activated_record now renewed (cv_Version row) r) row"
    by (simp add: takes_over_def activated_record_def)
  ultimately obtain rec where rec: "GetActiveForPanel DbOk panelID sni db' = Inr rec" "rec_ActiveVersion rec = version"
    "rec_Fingerprint rec = ver_Fingerprint (cv_Version row)" "rec_ExpiresAt rec = ver_ExpiresAt (cv_Version row)"
    using scan_takes_over [OF over, of version] by (auto simp: GetActiveForPanel_def key(4))
  have "filter (\<lambda>w. cv_PanelID (?f w) = panelID \<and> ver_SNI (cv_Version (?f w)) = sni_column sni \<and>
      ver_Status (cv_Version (?f w)) = VersionActive) (cdb_versions db) = filter (\<lambda>w. version_key w = ?key) (cdb_versions db)"
    by (rule filter_cong) (auto simp: activated_version_def version_key_def)
  also have "\<dots> = [row]"
    using assms(2) row by (simp add: filter_single_key cert_wf_def)
  finally have active: "map version_key (filter (\<lambda>w. cv_PanelID w = panelID \<and> ver_SNI (cv_Version w) = sni_column sni \<and>
      ver_Status (cv_Version w) = VersionActive) (cdb_versions db')) = [?key]"
    using version_tbl.lookup_key [OF row] by (simp add: db' filter_map comp_def)
  have others: "GetActiveForPanel DbOk p s db' = GetActiveForPanel DbOk p s db"
      "ListVersionsForPanel DbOk p s db' = ListVersionsForPanel DbOk p s db"
    if "(p, sni_column s) \<noteq> (panelID, sni_column sni)" for p s
  proof -
    show "GetActiveForPanel DbOk p s db' = GetActiveForPanel DbOk p s db"
      using that by (auto simp: GetActiveForPanel_def db' record_tbl.lookup_modify)
    let ?Q = "\<lambda>w. cv_PanelID w = p \<and> ver_SNI (cv_Version w) = sni_column s"
    have "filter ?Q (map ?f (cdb_versions db)) = map ?f (filter ?Q (cdb_versions db))"
      by (simp add: filter_map comp_def)
    also have "\<dots> = filter ?Q (cdb_versions db)"
      by (rule map_idI) (use that in \<open>auto simp: activated_version_def\<close>)
    finally have "filter ?Q (cdb_versions db') = filter ?Q (cdb_versions db)" by (simp add: db')
    then show "ListVersionsForPanel DbOk p s db' = ListVersionsForPanel DbOk p s db"
      by (simp add: ListVersionsForPanel_def)
  qed
  have "map version_key (cdb_versions db') = map version_key (cdb_versions db)" by (simp add: db')
  then show ?thesis
    using row rec active others by (intro exI [of _ row] exI [of _ rec]) auto
qed

definition no_certs :: cert_db where
  "no_certs = \<lparr>cdb_deployments = [], cdb_records = [], cdb_versions = [], cdb_distributions = [], cdb_reviews = []\<rparr>"

definition sample_version :: "string \<Rightarrow> Version" where
  "sample_version name = \<lparr>ver_SNI = ''a.io'', ver_Version = name, ver_Fingerprint = ''f'', ver_Serial = ''1'',
     ver_IssuedAt = 1, ver_ExpiresAt = 9, ver_Status = VersionPending, ver_CreatedAt = 2\<rparr>"

definition saved_certs :: cert_db where
  "saved_certs = snd (SaveVersionForPanel DbOk 3 ''p'' (sample_version ''v'') no_certs)"

lemma no_certs_wf: "cert_wf no_certs"
  by (simp add: no_certs_def cert_wf_def tbl_distinct_def)

lemma saved_certs_wf: "cert_wf saved_certs"
  unfolding saved_certs_def by (rule SaveVersionForPanel_wf [OF no_certs_wf]) (simp add: sample_version_def)

theorem ActivateVersion_readback_witness:
  "\<exists>rec db'. ActivateVersionForPanel DbOk 4 ''p'' ''a.io'' ''v'' False saved_certs = (None, db') \<and>
     GetActiveForPanel DbOk ''p'' ''a.io'' db' = Inr rec \<and> rec_ActiveVersion rec = ''v''"
proof -
  have "fst (ActivateVersionForPanel DbOk 4 ''p'' ''a.io'' ''v'' False saved_certs) = None" by code_simp
  then obtain db' where r: "ActivateVersionForPanel DbOk 4 ''p'' ''a.io'' ''v'' False saved_certs = (None, db')"
    by (cases "ActivateVersionForPanel DbOk 4 ''p'' ''a.io'' ''v'' False saved_certs") auto
  show ?thesis using ActivateVersion_readback [OF r saved_certs_wf] r by blast
qed

text \<open>
  Every certificate operation keeps the tables well-formed, whatever becomes of its statement,
  as long as a version is not saved or marked \<open>ACTIVE\<close> other than by an activation: the keys stay
  unique, the active version of a record is stored with the record's metadata, and a version is
  \<open>ACTIVE\<close> only as the active version of its record.
\<close>

theorem cert_repository_keeps_wf:
  assumes "cert_wf db" and "ver_Status version \<noteq> VersionActive" and "vs \<noteq> VersionActive"
  shows "cert_wf (snd (SaveVersionForPanel oc now panelID version db)) \<and>
    cert_wf (snd (SetVersionStatusForPanel oc panelID sni name vs db)) \<and>
    cert_wf (snd (ActivateVersionForPanel oc now panelID sni name renewed db)) \<and>
    cert_wf (snd (SetStatusForPanel oc now panelID sni status db)) \<and>
    cert_wf (snd (RecordDistributionForPanel oc panelID rec db)) \<and>
    cert_wf (snd (RecordTargetReviewForPanel oc now panelID review db))"
  using assms by (simp add: cert_repository_wf)

theorem cert_repository_keeps_wf_witness:
  "cert_wf saved_certs \<and> cert_wf (snd (ActivateVersionForPanel DbLost 4 ''p'' ''a.io'' ''v'' True saved_certs))"
proof -
  have status: "ver_Status (sample_version ''v'') \<noteq> VersionActive" by (simp add: sample_version_def)
  show ?thesis
    using cert_repository_keeps_wf [OF saved_certs_wf status, of VersionInvalid DbLost 4 "''p''" "''a.io''" "''v''" True]
      saved_certs_wf by simp
qed

end
