(* ===== verification/Cert_Resolver.thy ===== *)
theory Cert_Resolver
  imports Cert_Repository Dns_Zone
begin

text \<open>
  Which Nodes get the certificate of an SNI domain: the resolvers of
  \<^verbatim>\<open>internal/certmanager/distribution.go\<close> and \<^verbatim>\<open>inventory_resolver.go\<close>.  They take the answers of
  the DNS balancer, of the deployment query and of the review query.  A Go map of addresses is a
  list without repetition: its order does not matter, because the results are sorted.  The property:
  the resolution splits the addresses of the zone, so that no address is forgotten and none is
  trusted without a verified deployment or an operator's acknowledgement.
\<close>

section \<open>Resolution from the DNS balancer\<close>

text \<open>The addresses of a zone; \<open>None\<close> when one of the texts is not an address.\<close>

fun parse_zone_ips :: "string list \<Rightarrow> addr list option" where
  "parse_zone_ips [] = Some []"
| "parse_zone_ips (text # texts) =
     (case ParseAddr (TrimSpace text) of
        None \<Rightarrow> None
      | Some ip \<Rightarrow> (case parse_zone_ips texts of None \<Rightarrow> None | Some ips \<Rightarrow> Some (Unmap ip # ips)))"

text \<open>\<^verbatim>\<open>reviewByIP\<close>: the last review of an address decides.\<close>

definition review_states :: "TargetReview list \<Rightarrow> addr \<Rightarrow> TargetReviewState option" where
  "review_states reviews =
     fold (\<lambda>review states. if IsValid (tr_IP review) then states(Unmap (tr_IP review) \<mapsto> tr_State review) else states)
       reviews (\<lambda>_. None)"

text \<open>A deployment whose Node was reached over a verified SSH identity.\<close>

definition verified_deployment :: "string \<Rightarrow> Deployment \<Rightarrow> bool" where
  "verified_deployment sni item \<longleftrightarrow>
     EqualFold (TrimSuffix (TrimSpace (dep_SNIDomain item)) ''.'') sni \<and> dep_RemnawaveNodeUUID item \<noteq> None
     \<and> dep_SSHHostKeyFingerprint item \<noteq> None \<and> dep_Status item \<noteq> StatusCancelled"

text \<open>\<^verbatim>\<open>byIP\<close>: the first verified deployment of an address.\<close>

definition deployment_at :: "string \<Rightarrow> Deployment list \<Rightarrow> addr \<Rightarrow> Deployment option" where
  "deployment_at sni items ip = List.find (\<lambda>item. verified_deployment sni item \<and> Unmap (dep_TargetVPSIP item) = ip) items"

definition target_less :: "Target \<Rightarrow> Target \<Rightarrow> bool" where
  "target_less a b = addr_less (tg_IP a) (tg_IP b)"

definition split_targets :: "string \<Rightarrow> addr list \<Rightarrow> Deployment list \<Rightarrow> TargetReview list \<Rightarrow> TargetResolution" where
  "split_targets sni ips items reviews =
     (let unknown = filter (\<lambda>ip. deployment_at sni items ip = None) ips;
          acknowledged = (\<lambda>ip. review_states reviews ip = Some TargetLegacyAcknowledged) in
      \<lparr>tgs_Managed = sort_by target_less
         (List.map_filter (\<lambda>ip. map_option (\<lambda>item. \<lparr>tg_DeploymentID = dep_ID item, tg_IP = ip\<rparr>) (deployment_at sni items ip)) ips),
       tgs_Unmanaged = sort_by addr_less (filter (\<lambda>ip. \<not> acknowledged ip) unknown),
       tgs_LegacyAcknowledged = sort_by addr_less (filter acknowledged unknown)\<rparr>)"

definition no_targets :: TargetResolution where
  "no_targets = \<lparr>tgs_Managed = [], tgs_Unmanaged = [], tgs_LegacyAcknowledged = []\<rparr>"

definition DNS_Resolve ::
  "go_error + ZoneMatch \<Rightarrow> go_error + Deployment list \<Rightarrow> go_error + TargetReview list \<Rightarrow> string
     \<Rightarrow> go_error + TargetResolution" where
  "DNS_Resolve found inventory reviews sni =
     (case found of
        Inl _ \<Rightarrow> Inl (CertErr CertDistributionFailed ''DNS-balancer certificate zone is unavailable'')
      | Inr zone \<Rightarrow>
     case parse_zone_ips (elems (z_IPs (zm_Zone zone))) of
        None \<Rightarrow> Inl (CertErr CertDistributionFailed ''DNS-balancer certificate zone contains an invalid IP'')
      | Some ips \<Rightarrow>
     case parse_zone_ips (map zn_IP (elems (z_Nodes (zm_Zone zone)))) of
        None \<Rightarrow> Inl (CertErr CertDistributionFailed ''DNS-balancer certificate zone contains an invalid Node IP'')
      | Some nodes \<Rightarrow>
     let ipSet = remdups (ips @ nodes) in
     if ipSet = [] then Inr no_targets
     else case inventory of
        Inl _ \<Rightarrow> Inl (CertErr CertDistributionFailed ''Certificate deployment inventory is unavailable'')
      | Inr items \<Rightarrow>
     case reviews of
        Inl _ \<Rightarrow> Inl (CertErr CertDistributionFailed ''Certificate target reviews are unavailable'')
      | Inr reviews \<Rightarrow> Inr (split_targets sni ipSet items reviews))"

section \<open>Resolution from the inventory of a panel\<close>

text \<open>The loop with the addresses seen so far.\<close>

fun inventory_targets :: "string \<Rightarrow> string list \<Rightarrow> Deployment list \<Rightarrow> Target list" where
  "inventory_targets panelID seen [] = []"
| "inventory_targets panelID seen (item # items) =
     (let ip = Unmap (dep_TargetVPSIP item); key = addr_String ip in
      if dep_PanelID item \<noteq> panelID \<or> dep_RemnawaveNodeUUID item = None \<or> dep_SSHHostKeyFingerprint item = None
         \<or> dep_Status item = StatusCancelled then inventory_targets panelID seen items
      else if key \<in> set seen then inventory_targets panelID seen items
      else \<lparr>tg_DeploymentID = dep_ID item, tg_IP = ip\<rparr> # inventory_targets panelID (key # seen) items)"

definition Inventory_Resolve :: "string \<Rightarrow> go_error + Deployment list \<Rightarrow> go_error + TargetResolution" where
  "Inventory_Resolve panelID inventory =
     (case inventory of
        Inl _ \<Rightarrow> Inl (CertErr CertDistributionFailed ''Certificate deployment inventory is unavailable'')
      | Inr items \<Rightarrow> Inr (no_targets\<lparr>tgs_Managed := sort_by target_less (inventory_targets panelID [] items)\<rparr>))"

section \<open>Properties\<close>

interpretation target_order: strict_weak_order target_less
proof
  show "\<not> target_less y x" if "target_less x y" for x y
    using that unfolding target_less_def by (rule addr_order.lt_asym)
  show "\<not> target_less z x" if "\<not> target_less y x" "\<not> target_less z y" for x y z
    using that unfolding target_less_def by (rule addr_order.lt_negtrans)
qed

lemma strictly_sorted:
  assumes "distinct xs" and "sorted_wrt (\<lambda>a b. \<not> addr_less b a) xs"
  shows "sorted_wrt addr_less xs"
  using assms
proof (induction xs)
  case (Cons x xs)
  have "addr_less x y" if "y \<in> set xs" for y
    using that Cons.prems addr_less_total [of x y] by auto
  with Cons show ?case by simp
qed simp

lemma sort_addresses: "distinct ips \<Longrightarrow> sorted_wrt addr_less (sort_by addr_less ips)"
  by (rule strictly_sorted) (metis mset_eq_imp_distinct_iff mset_sort_by, rule addr_order.sorted_sort_by)

lemma sort_targets: "distinct (map tg_IP targets) \<Longrightarrow> sorted_wrt addr_less (map tg_IP (sort_by target_less targets))"
proof (rule strictly_sorted)
  show "distinct (map tg_IP (sort_by target_less targets))" if "distinct (map tg_IP targets)"
    using that by (metis mset_eq_imp_distinct_iff mset_map mset_sort_by)
  show "sorted_wrt (\<lambda>a b. \<not> addr_less b a) (map tg_IP (sort_by target_less targets))"
    using target_order.sorted_sort_by [of targets] by (simp add: sorted_wrt_map target_less_def)
qed

lemma map_managed:
  "map tg_IP (List.map_filter (\<lambda>ip. map_option (\<lambda>item. \<lparr>tg_DeploymentID = dep_ID item, tg_IP = ip\<rparr>) (f ip)) ips) =
     filter (\<lambda>ip. f ip \<noteq> None) ips"
  by (induction ips) (auto simp: List.map_filter_simps split: option.splits)

lemma split_targets_mset:
  "mset (map tg_IP (tgs_Managed (split_targets sni ips items reviews))) + mset (tgs_Unmanaged (split_targets sni ips items reviews)) +
     mset (tgs_LegacyAcknowledged (split_targets sni ips items reviews)) = mset ips"
proof -
  have "image_mset tg_IP (mset (tgs_Managed (split_targets sni ips items reviews))) =
      mset (filter (\<lambda>ip. deployment_at sni items ip \<noteq> None) ips)"
    unfolding split_targets_def Let_def TargetResolution.select_convs mset_sort_by
    by (simp only: mset_map [symmetric] map_managed)
  moreover have "mset (filter (\<lambda>ip. \<not> P ip) xs) + mset (filter P xs) = mset xs" for P and xs :: "addr list"
    by (induction xs) auto
  ultimately show ?thesis
    by (induction ips) (auto simp: split_targets_def)
qed

lemma split_targets_sorted:
  assumes "distinct ips"
  shows "sorted_wrt addr_less (map tg_IP (tgs_Managed (split_targets sni ips items reviews)))"
    and "sorted_wrt addr_less (tgs_Unmanaged (split_targets sni ips items reviews))"
    and "sorted_wrt addr_less (tgs_LegacyAcknowledged (split_targets sni ips items reviews))"
  using assms by (simp_all add: split_targets_def Let_def sort_addresses sort_targets map_managed)

lemma deployment_at_Some:
  "deployment_at sni items ip = Some item \<Longrightarrow>
     item \<in> set items \<and> verified_deployment sni item \<and> Unmap (dep_TargetVPSIP item) = ip"
  unfolding deployment_at_def by (drule find_Some_iff_in) simp

lemma deployment_at_None:
  "deployment_at sni items ip = None \<longleftrightarrow>
     \<not> list_ex (\<lambda>item. verified_deployment sni item \<and> Unmap (dep_TargetVPSIP item) = ip) items"
  by (auto simp: deployment_at_def find_None_iff list_ex_iff)

lemma managed_target:
  "t \<in> set (tgs_Managed (split_targets sni ips items reviews)) \<Longrightarrow>
     \<exists>item. deployment_at sni items (tg_IP t) = Some item \<and> tg_DeploymentID t = dep_ID item"
  by (auto simp: split_targets_def Let_def List.map_filter_def)

lemma split_targets_managed:
  "list_all (\<lambda>t. \<exists>item \<in> set items. verified_deployment sni item \<and> dep_ID item = tg_DeploymentID t \<and>
      Unmap (dep_TargetVPSIP item) = tg_IP t) (tgs_Managed (split_targets sni ips items reviews))"
  unfolding list_all_iff using managed_target deployment_at_Some by metis

lemma split_targets_rest:
  "list_all (\<lambda>ip. review_states reviews ip \<noteq> Some TargetLegacyAcknowledged \<and>
      \<not> list_ex (\<lambda>item. verified_deployment sni item \<and> Unmap (dep_TargetVPSIP item) = ip) items)
     (tgs_Unmanaged (split_targets sni ips items reviews))"
  "list_all (\<lambda>ip. review_states reviews ip = Some TargetLegacyAcknowledged)
     (tgs_LegacyAcknowledged (split_targets sni ips items reviews))"
  by (simp_all add: split_targets_def Let_def list_all_iff deployment_at_None)

text \<open>
  C38. A resolution splits the addresses of the zone: each one is in exactly one of the three lists,
  once, in the order of addresses.  A managed target is a listed deployment for the domain at that
  address, with a Node and a verified SSH host key and not cancelled; an address without one counts
  as acknowledged exactly when its last review says so, and needs a review otherwise.
\<close>

theorem DNS_Resolve_splits:
  assumes "DNS_Resolve (Inr zone) (Inr items) (Inr reviews) sni = Inr res"
  shows "\<exists>ips nodes. parse_zone_ips (elems (z_IPs (zm_Zone zone))) = Some ips \<and>
    parse_zone_ips (map zn_IP (elems (z_Nodes (zm_Zone zone)))) = Some nodes \<and>
    mset (map tg_IP (tgs_Managed res)) + mset (tgs_Unmanaged res) + mset (tgs_LegacyAcknowledged res) =
      mset_set (set ips \<union> set nodes) \<and>
    sorted_wrt addr_less (map tg_IP (tgs_Managed res)) \<and> sorted_wrt addr_less (tgs_Unmanaged res) \<and>
    sorted_wrt addr_less (tgs_LegacyAcknowledged res) \<and>
    list_all (\<lambda>t. \<exists>item \<in> set items. verified_deployment sni item \<and> dep_ID item = tg_DeploymentID t \<and>
      Unmap (dep_TargetVPSIP item) = tg_IP t) (tgs_Managed res) \<and>
    list_all (\<lambda>ip. review_states reviews ip \<noteq> Some TargetLegacyAcknowledged \<and>
      \<not> list_ex (\<lambda>item. verified_deployment sni item \<and> Unmap (dep_TargetVPSIP item) = ip) items) (tgs_Unmanaged res) \<and>
    list_all (\<lambda>ip. review_states reviews ip = Some TargetLegacyAcknowledged) (tgs_LegacyAcknowledged res)"
proof -
  obtain ips nodes where ips: "parse_zone_ips (elems (z_IPs (zm_Zone zone))) = Some ips"
      "parse_zone_ips (map zn_IP (elems (z_Nodes (zm_Zone zone)))) = Some nodes"
    and res: "res = (if remdups (ips @ nodes) = [] then no_targets else split_targets sni (remdups (ips @ nodes)) items reviews)"
    using assms by (auto simp: DNS_Resolve_def Let_def split: option.splits if_splits)
  have "no_targets = split_targets sni [] items reviews"
    by (simp add: no_targets_def split_targets_def sort_by_def List.map_filter_simps)
  with res have res': "res = split_targets sni (remdups (ips @ nodes)) items reviews" by (simp split: if_splits)
  have "mset (remdups (ips @ nodes)) = mset_set (set ips \<union> set nodes)"
    by (metis mset_set_set distinct_remdups set_append set_remdups)
  with ips show ?thesis
    using split_targets_mset [of sni "remdups (ips @ nodes)" items reviews]
      split_targets_sorted [of "remdups (ips @ nodes)" sni items reviews]
      split_targets_managed [of items sni "remdups (ips @ nodes)" reviews]
      split_targets_rest [where reviews = reviews and sni = sni and items = items and ips = "remdups (ips @ nodes)"]
    unfolding res' by (intro exI [of _ ips] exI [of _ nodes]) simp
qed

definition demo_zone :: ZoneMatch where
  "demo_zone = \<lparr>zm_Domain = ''io'', zm_ZoneName = ''a'', zm_FQDN = ''a.io'',
     zm_Zone = \<lparr>z_Name = ''a'', z_TTL = 60, z_Proxied = False, z_IPs = Some [''8.8.8.8'', ''9.9.9.9''], z_Nodes = None\<rparr>\<rparr>"

definition demo_item :: Deployment where
  "demo_item = sample_row\<lparr>dep_SNIDomain := ''a.io'', dep_TargetVPSIP := Addr4 0x08080808,
     dep_RemnawaveNodeUUID := Some ''n'', dep_SSHHostKeyFingerprint := Some ''k''\<rparr>"

theorem DNS_Resolve_splits_witness:
  "\<exists>res. DNS_Resolve (Inr demo_zone) (Inr [demo_item]) (Inr []) ''a.io'' = Inr res \<and>
     length (tgs_Managed res) = 1 \<and> length (tgs_Unmanaged res) = 1 \<and>
     sorted_wrt addr_less (tgs_Unmanaged res) \<and>
     list_all (\<lambda>t. tg_DeploymentID t = dep_ID demo_item) (tgs_Managed res)"
proof -
  have "case DNS_Resolve (Inr demo_zone) (Inr [demo_item]) (Inr []) ''a.io'' of
      Inl _ \<Rightarrow> False | Inr res \<Rightarrow> length (tgs_Managed res) = 1 \<and> length (tgs_Unmanaged res) = 1"
    by code_simp
  then obtain res where res: "DNS_Resolve (Inr demo_zone) (Inr [demo_item]) (Inr []) ''a.io'' = Inr res"
    and sizes: "length (tgs_Managed res) = 1" "length (tgs_Unmanaged res) = 1"
    by (auto split: sum.splits)
  show ?thesis
    using DNS_Resolve_splits [OF res] res sizes by (auto simp: list_all_iff)
qed

text \<open>The inventory names only verified deployments of the panel, each address once.\<close>

lemma inventory_targets_verified:
  "t \<in> set (inventory_targets panelID seen items) \<Longrightarrow>
     (\<exists>item \<in> set items. dep_PanelID item = panelID \<and> dep_RemnawaveNodeUUID item \<noteq> None \<and>
        dep_SSHHostKeyFingerprint item \<noteq> None \<and> dep_Status item \<noteq> StatusCancelled \<and>
        dep_ID item = tg_DeploymentID t \<and> Unmap (dep_TargetVPSIP item) = tg_IP t) \<and>
     addr_String (tg_IP t) \<notin> set seen"
  by (induction panelID seen items rule: inventory_targets.induct) (auto simp: Let_def split: if_splits)

lemma inventory_targets_distinct:
  "distinct (map (\<lambda>t. addr_String (tg_IP t)) (inventory_targets panelID seen items))"
  by (induction panelID seen items rule: inventory_targets.induct)
    (auto simp: Let_def dest: inventory_targets_verified)

lemma Inventory_Resolve_verified:
  assumes "Inventory_Resolve panelID (Inr items) = Inr res" and "t \<in> set (tgs_Managed res)"
  shows "\<exists>item \<in> set items. dep_PanelID item = panelID \<and> dep_RemnawaveNodeUUID item \<noteq> None \<and>
    dep_SSHHostKeyFingerprint item \<noteq> None \<and> dep_Status item \<noteq> StatusCancelled \<and>
    dep_ID item = tg_DeploymentID t \<and> Unmap (dep_TargetVPSIP item) = tg_IP t"
  using assms inventory_targets_verified by (auto simp: Inventory_Resolve_def)

end
