(* ===== verification/Cert_Manager.thy ===== *)
theory Cert_Manager
  imports Cert_Resolver
begin

text \<open>
  The certificate manager (\<^verbatim>\<open>internal/certmanager/manager.go\<close>) over the modelled tables, with the
  panel of its \<^verbatim>\<open>ScopedRepository\<close>.  The store, the issuer, the locker, the resolver, the
  distributor, the clock and the context answer from a world of any type; \<^verbatim>\<open>certificates.Validate\<close>
  is a function of the material, the domain and the time.  \<^verbatim>\<open>Material.Destroy\<close> overwrites memory and
  has no counterpart here: no path reads a material after it.
\<close>

section \<open>State and calls\<close>

datatype cert_event =
    CeLock string bool
  | CeUnlock string
  | CeClock time
  | CeIssue string "go_error + Material"
  | CeValidate Material string "go_error + Info"
  | CeStage string Material "go_error + string"
  | CeLoad string string "go_error + Material"
  | CeMarker string "go_error + string"
  | CeActivate string string "go_error option"
  | CeResolve string "go_error + TargetResolution"
  | CeDistribute string Material "Target list" "DistributionResult list"
  | CeGetActive string "go_error + Record"
  | CeListVersions string "go_error + Version list"
  | CeListExpiring
  | CeSaveVersion Version "go_error option"
  | CeVersionStatus string string VersionStatus
  | CeActivateVersion string string "go_error option"
  | CeStatus string CertStatus
  | CeDistribution DistributionRecord "go_error option"
  | CeReview TargetReview "go_error option"
  | CeExpiry string int
  | CeRenewalFailed string

record 'w cert_ports =
  ca_ctx_err :: "'w \<Rightarrow> go_error option \<times> 'w"
  ca_now :: "'w \<Rightarrow> time \<times> 'w"
  ca_Lock :: "string \<Rightarrow> 'w \<Rightarrow> go_error option \<times> 'w"
  ca_Unlock :: "string \<Rightarrow> 'w \<Rightarrow> unit \<times> 'w"
  ca_Issue :: "string \<Rightarrow> 'w \<Rightarrow> (go_error + Material) \<times> 'w"
  ca_Validate :: "Material \<Rightarrow> string \<Rightarrow> time \<Rightarrow> go_error + Info"
  ca_Stage :: "string \<Rightarrow> Material \<Rightarrow> 'w \<Rightarrow> (go_error + string) \<times> 'w"
  ca_Load :: "string \<Rightarrow> string \<Rightarrow> 'w \<Rightarrow> (go_error + Material) \<times> 'w"
  ca_ActiveVersion :: "string \<Rightarrow> 'w \<Rightarrow> (go_error + string) \<times> 'w"
  ca_Activate :: "string \<Rightarrow> string \<Rightarrow> 'w \<Rightarrow> go_error option \<times> 'w"
  ca_Resolve :: "string \<Rightarrow> cert_db \<Rightarrow> 'w \<Rightarrow> (go_error + TargetResolution) \<times> 'w"
  ca_Distribute :: "string \<Rightarrow> Material \<Rightarrow> Target list \<Rightarrow> 'w \<Rightarrow> DistributionResult list \<times> 'w"
  ca_db :: "'w \<Rightarrow> (db_outcome \<times> time) \<times> 'w"
  ca_others :: "'w \<Rightarrow> cert_db \<Rightarrow> cert_db"

text \<open>The fields of \<^verbatim>\<open>Manager\<close>: which optional interfaces there are, and \<^verbatim>\<open>Config\<close>.\<close>

record CertManager =
  cm_PanelID :: string
  cm_resolver :: bool
  cm_distributor :: bool
  cm_observer :: bool
  cm_RenewBefore :: int
  cm_IssueTimeout :: int
  cm_RenewInterval :: int
  cm_RenewBatchSize :: int

record 'w cert =
  ct_world :: 'w
  ct_db :: cert_db
  ct_log :: "cert_event list"

type_synonym ('w, 'a) cert_op = "('w cert, go_error + 'a) state"

definition cert_call :: "('w \<Rightarrow> 'a \<times> 'w) \<Rightarrow> ('a \<Rightarrow> cert_event list) \<Rightarrow> ('w cert, 'a) state" where
  "cert_call port ev = State (\<lambda>s. case port (ct_world s) of (a, w) \<Rightarrow>
     (a, s\<lparr>ct_world := w, ct_log := ct_log s @ ev a\<rparr>))"

definition cert_tables ::
  "'w cert_ports \<Rightarrow> (db_outcome \<Rightarrow> time \<Rightarrow> cert_db \<Rightarrow> 'r \<times> cert_db) \<Rightarrow> ('r \<Rightarrow> cert_event) \<Rightarrow> ('w cert, 'r) state" where
  "cert_tables p f ev = State (\<lambda>s.
     case ca_db p (ct_world s) of ((oc, now), w) \<Rightarrow>
     case f oc now (ca_others p (ct_world s) (ct_db s)) of (r, db) \<Rightarrow>
       (r, s\<lparr>ct_world := w, ct_db := db, ct_log := ct_log s @ [ev r]\<rparr>))"

definition cert_note :: "cert_event \<Rightarrow> ('w cert, unit) state" where
  "cert_note e = State_Monad.update (\<lambda>s. s\<lparr>ct_log := ct_log s @ [e]\<rparr>)"

definition cert_clock :: "'w cert_ports \<Rightarrow> ('w cert, time) state" where
  "cert_clock p = cert_call (ca_now p) (\<lambda>now. [CeClock now])"

text \<open>\<^verbatim>\<open>if err := f(); err != nil { return ..., err }\<close>, with the error as it is or another one.\<close>

definition or_return :: "('w cert, go_error option) state \<Rightarrow> (go_error \<Rightarrow> go_error) \<Rightarrow> ('w, unit) cert_op" where
  "or_return m f = do {
     e \<leftarrow> m;
     case e of Some err \<Rightarrow> failE (f err) | None \<Rightarrow> okE ()
   }"

definition store_Activate :: "'w cert_ports \<Rightarrow> string \<Rightarrow> string \<Rightarrow> ('w cert, go_error option) state" where
  "store_Activate p domain version = cert_call (ca_Activate p domain version) (\<lambda>r. [CeActivate domain version r])"

definition store_ActiveVersion :: "'w cert_ports \<Rightarrow> string \<Rightarrow> ('w cert, go_error + string) state" where
  "store_ActiveVersion p domain = cert_call (ca_ActiveVersion p domain) (\<lambda>r. [CeMarker domain r])"

definition store_Load :: "'w cert_ports \<Rightarrow> string \<Rightarrow> string \<Rightarrow> ('w cert, go_error + Material) state" where
  "store_Load p domain version = cert_call (ca_Load p domain version) (\<lambda>r. [CeLoad domain version r])"

definition cert_Validate :: "'w cert_ports \<Rightarrow> Material \<Rightarrow> string \<Rightarrow> ('w cert, go_error + Info) state" where
  "cert_Validate p material domain = do {
     now \<leftarrow> cert_clock p;
     let r = ca_Validate p material domain now;
     cert_note (CeValidate material domain r);
     State_Monad.return r
   }"

definition cert_GetActive :: "'w cert_ports \<Rightarrow> CertManager \<Rightarrow> string \<Rightarrow> ('w, Record) cert_op" where
  "cert_GetActive p m domain =
     cert_tables p (\<lambda>oc now db. (GetActiveForPanel oc (cm_PanelID m) domain db, db)) (CeGetActive domain)"

definition cert_ListVersions :: "'w cert_ports \<Rightarrow> CertManager \<Rightarrow> string \<Rightarrow> ('w, Version list) cert_op" where
  "cert_ListVersions p m domain =
     cert_tables p (\<lambda>oc now db. (ListVersionsForPanel oc (cm_PanelID m) domain db, db)) (CeListVersions domain)"

definition cert_ListExpiring :: "'w cert_ports \<Rightarrow> CertManager \<Rightarrow> time \<Rightarrow> ('w, Record list) cert_op" where
  "cert_ListExpiring p m before =
     cert_tables p (\<lambda>oc now db. (ListExpiringForPanel oc (cm_PanelID m) before (cm_RenewBatchSize m) db, db)) (\<lambda>_. CeListExpiring)"

definition cert_SaveVersion :: "'w cert_ports \<Rightarrow> CertManager \<Rightarrow> Version \<Rightarrow> ('w cert, go_error option) state" where
  "cert_SaveVersion p m version =
     cert_tables p (\<lambda>oc now. SaveVersionForPanel oc now (cm_PanelID m) version) (CeSaveVersion version)"

definition cert_SetVersionStatus ::
  "'w cert_ports \<Rightarrow> CertManager \<Rightarrow> string \<Rightarrow> string \<Rightarrow> VersionStatus \<Rightarrow> ('w cert, go_error option) state" where
  "cert_SetVersionStatus p m domain version status =
     cert_tables p (\<lambda>oc now. SetVersionStatusForPanel oc (cm_PanelID m) domain version status)
       (\<lambda>_. CeVersionStatus domain version status)"

definition cert_ActivateVersion ::
  "'w cert_ports \<Rightarrow> CertManager \<Rightarrow> string \<Rightarrow> string \<Rightarrow> bool \<Rightarrow> ('w cert, go_error option) state" where
  "cert_ActivateVersion p m domain version renewed =
     cert_tables p (\<lambda>oc now. ActivateVersionForPanel oc now (cm_PanelID m) domain version renewed)
       (CeActivateVersion domain version)"

definition cert_SetStatus :: "'w cert_ports \<Rightarrow> CertManager \<Rightarrow> string \<Rightarrow> CertStatus \<Rightarrow> ('w cert, go_error option) state" where
  "cert_SetStatus p m domain status =
     cert_tables p (\<lambda>oc now. SetStatusForPanel oc now (cm_PanelID m) domain status) (\<lambda>_. CeStatus domain status)"

definition cert_RecordDistribution ::
  "'w cert_ports \<Rightarrow> CertManager \<Rightarrow> DistributionRecord \<Rightarrow> ('w cert, go_error option) state" where
  "cert_RecordDistribution p m rec =
     cert_tables p (\<lambda>oc now. RecordDistributionForPanel oc (cm_PanelID m) rec) (CeDistribution rec)"

definition cert_RecordTargetReview ::
  "'w cert_ports \<Rightarrow> CertManager \<Rightarrow> TargetReview \<Rightarrow> ('w cert, go_error option) state" where
  "cert_RecordTargetReview p m review =
     cert_tables p (\<lambda>oc now. RecordTargetReviewForPanel oc now (cm_PanelID m) review) (CeReview review)"

text \<open>The resolver reads the tables and the DNS balancer.\<close>

definition cert_Resolve :: "'w cert_ports \<Rightarrow> string \<Rightarrow> ('w, TargetResolution) cert_op" where
  "cert_Resolve p domain = do {
     s \<leftarrow> State_Monad.get;
     cert_call (ca_Resolve p domain (ct_db s)) (\<lambda>r. [CeResolve domain r])
   }"

section \<open>Parts of the operations\<close>

definition hour :: int where
  "hour = 3600000000000"

text \<open>\<^verbatim>\<open>New\<close>: the defaults and the limits; the flags say which of the required interfaces there are.\<close>

definition New :: "bool \<Rightarrow> bool \<Rightarrow> bool \<Rightarrow> CertManager \<Rightarrow> go_error + CertManager" where
  "New repository store issuer config =
     (if \<not> repository \<or> \<not> store \<or> \<not> issuer then Inl (CertErr CertInvalidInput [])
      else
        let config = (if cm_RenewBefore config \<le> 0 then config\<lparr>cm_RenewBefore := 30 * 24 * hour\<rparr> else config);
            config = (if cm_IssueTimeout config \<le> 0 then config\<lparr>cm_IssueTimeout := hour div 6\<rparr> else config);
            config = (if cm_RenewInterval config \<le> 0 then config\<lparr>cm_RenewInterval := 12 * hour\<rparr> else config);
            config = (if cm_RenewBatchSize config \<le> 0 then config\<lparr>cm_RenewBatchSize := 50\<rparr> else config)
        in if 365 * 24 * hour \<le> cm_RenewBefore config \<or> 100 < cm_RenewBatchSize config
           then Inl (CertErr CertInvalidInput []) else Inr config)"

definition observeExpiry :: "'w cert_ports \<Rightarrow> CertManager \<Rightarrow> string \<Rightarrow> time \<Rightarrow> ('w cert, unit) state" where
  "observeExpiry p m sni expires =
     (if cm_observer m \<and> \<not> IsZero expires then do {
        now \<leftarrow> cert_clock p;
        cert_note (CeExpiry sni (expires - now))
      }
      else State_Monad.return ())"

definition renewalFailed :: "CertManager \<Rightarrow> string \<Rightarrow> ('w cert, unit) state" where
  "renewalFailed m domain = (if cm_observer m then cert_note (CeRenewalFailed domain) else State_Monad.return ())"

definition repair_marker :: "'w cert_ports \<Rightarrow> string \<Rightarrow> Record \<Rightarrow> bool \<Rightarrow> go_error + string \<Rightarrow> ('w, unit) cert_op" where
  "repair_marker p domain record repairMarker marker =
     (if (case marker of Inl _ \<Rightarrow> True | Inr version \<Rightarrow> version \<noteq> rec_ActiveVersion record)
      then
        if \<not> repairMarker then failE (CertErr CertStorageFailed ''Active certificate storage is inconsistent'')
        else or_return (store_Activate p domain (rec_ActiveVersion record)) (\<lambda>err. err)
      else okE ())"

definition loadActive :: "'w cert_ports \<Rightarrow> CertManager \<Rightarrow> string \<Rightarrow> bool \<Rightarrow> ('w, Record \<times> Material) cert_op" where
  "loadActive p m domain repairMarker = bindE (cert_GetActive p m domain) (\<lambda>record. do {
     marker \<leftarrow> store_ActiveVersion p domain;
     bindE (repair_marker p domain record repairMarker marker) (\<lambda>_.
     bindE (store_Load p domain (rec_ActiveVersion record)) (\<lambda>material. do {
       info \<leftarrow> cert_Validate p material domain;
       case info of
         Inl _ \<Rightarrow> failE (CertErr CertInvalidMaterial [])
       | Inr info \<Rightarrow>
           if info_Fingerprint info \<noteq> rec_Fingerprint record then failE (CertErr CertInvalidMaterial [])
           else okE (record, material)
     }))
   })"

text \<open>The loop over the results of a distribution: a record each, and whether one failed.\<close>

fun record_results ::
  "'w cert_ports \<Rightarrow> CertManager \<Rightarrow> string \<Rightarrow> string \<Rightarrow> DistributionResult list \<Rightarrow> bool \<Rightarrow> ('w, bool) cert_op" where
  "record_results p m domain version [] failed = okE failed"
| "record_results p m domain version (result # results) failed = do {
     now \<leftarrow> cert_clock p;
     let rec = \<lparr>dr_SNI = domain, dr_Version = version, dr_DeploymentID = tg_DeploymentID (dres_Target result),
       dr_NodeIP = tg_IP (dres_Target result), dr_Status = dres_Status result,
       dr_SafeErrorMessage = (if dres_Status result \<noteq> DistributionSucceeded
         then cert_safeMessage (dres_SafeMessage result) else []),
       dr_AttemptedAt = now\<rparr>;
     bindE (or_return (cert_RecordDistribution p m rec)
         (\<lambda>_. CertErr CertPersistenceFailed ''Certificate distribution result could not be saved''))
       (\<lambda>_. record_results p m domain version results (failed \<or> dres_Status result \<noteq> DistributionSucceeded))
   }"

definition distributeTargets ::
  "'w cert_ports \<Rightarrow> CertManager \<Rightarrow> string \<Rightarrow> string \<Rightarrow> Material \<Rightarrow> Target list \<Rightarrow> ('w, unit) cert_op" where
  "distributeTargets p m domain version material targets =
     (if targets = [] then okE ()
      else if \<not> cm_distributor m then failE (CertErr CertDistributionFailed ''Certificate distributor is unavailable'')
      else do {
        results \<leftarrow> cert_call (ca_Distribute p domain material targets) (\<lambda>r. [CeDistribute domain material targets r]);
        bindE (record_results p m domain version results (length results \<noteq> length targets)) (\<lambda>failed.
          if failed then failE (CertErr CertDistributionFailed ''Certificate distribution was incomplete'')
          else okE ())
      })"

fun review_unmanaged :: "'w cert_ports \<Rightarrow> CertManager \<Rightarrow> (addr \<Rightarrow> TargetReview) \<Rightarrow> string \<Rightarrow> addr list \<Rightarrow> ('w, unit) cert_op" where
  "review_unmanaged p m review message [] = okE ()"
| "review_unmanaged p m review message (ip # ips) =
     bindE (or_return (cert_RecordTargetReview p m (review ip)) (\<lambda>_. CertErr CertPersistenceFailed message))
       (\<lambda>_. review_unmanaged p m review message ips)"

definition manual_review :: "string \<Rightarrow> addr \<Rightarrow> TargetReview" where
  "manual_review domain ip = \<lparr>tr_SNI = domain, tr_IP = ip, tr_State = TargetManualReview,
     tr_Reason = ''DNS target has no verified deployment SSH identity'', tr_AcknowledgedBy = None,
     tr_CreatedAt = 0, tr_UpdatedAt = 0, tr_AcknowledgedAt = None\<rparr>"

definition resolve_targets :: "'w cert_ports \<Rightarrow> string \<Rightarrow> ('w, TargetResolution) cert_op" where
  "resolve_targets p domain = do {
     r \<leftarrow> cert_Resolve p domain;
     case r of
       Inl err \<Rightarrow> failE (CertErr CertDistributionFailed (SafeMessage err ''Certificate distribution targets are unavailable''))
     | Inr resolution \<Rightarrow> okE resolution
   }"

definition distribute ::
  "'w cert_ports \<Rightarrow> CertManager \<Rightarrow> string \<Rightarrow> string \<Rightarrow> Material \<Rightarrow> ('w, unit) cert_op" where
  "distribute p m domain version material =
     (if \<not> cm_resolver m then okE ()
      else bindE (resolve_targets p domain) (\<lambda>resolution.
        if 0 < length (tgs_Unmanaged resolution)
        then bindE (review_unmanaged p m (manual_review domain) ''Certificate target review could not be saved''
               (tgs_Unmanaged resolution))
             (\<lambda>_. failE (CertErr CertDistributionFailed ''Certificate distribution requires review of unmanaged DNS targets''))
        else distributeTargets p m domain version material (tgs_Managed resolution)))"

definition restoreDistributedVersion ::
  "'w cert_ports \<Rightarrow> CertManager \<Rightarrow> string \<Rightarrow> Record option \<Rightarrow> ('w cert, unit) state" where
  "restoreDistributedVersion p m domain previous =
     (case previous of
        None \<Rightarrow> State_Monad.return ()
      | Some previous \<Rightarrow>
          if rec_ActiveVersion previous = [] then State_Monad.return ()
          else do {
            loaded \<leftarrow> store_Load p domain (rec_ActiveVersion previous);
            case loaded of
              Inl _ \<Rightarrow> State_Monad.return ()
            | Inr material \<Rightarrow> do {
                info \<leftarrow> cert_Validate p material domain;
                case info of
                  Inl _ \<Rightarrow> State_Monad.return ()
                | Inr info \<Rightarrow>
                    if info_Fingerprint info \<noteq> rec_Fingerprint previous then State_Monad.return ()
                    else do {
                      _ \<leftarrow> distribute p m domain (rec_ActiveVersion previous) material;
                      State_Monad.return ()
                    }
              }
          })"

text \<open>The compensation the three failures of an activation share.\<close>

definition activation_failed ::
  "'w cert_ports \<Rightarrow> CertManager \<Rightarrow> string \<Rightarrow> string \<Rightarrow> Record option \<Rightarrow> ('w cert, unit) state" where
  "activation_failed p m domain version previous = do {
     restoreDistributedVersion p m domain previous;
     _ \<leftarrow> cert_SetVersionStatus p m domain version VersionDistribution;
     _ \<leftarrow> cert_SetStatus p m domain StatusDistributionFailed;
     State_Monad.return ()
   }"

definition old_version :: "Record option \<Rightarrow> string" where
  "old_version previous = (case previous of None \<Rightarrow> [] | Some record \<Rightarrow> rec_ActiveVersion record)"

definition restore_marker :: "'w cert_ports \<Rightarrow> string \<Rightarrow> string \<Rightarrow> ('w cert, unit) state" where
  "restore_marker p domain version =
     (if version \<noteq> [] then do { _ \<leftarrow> store_Activate p domain version; State_Monad.return () }
      else State_Monad.return ())"

definition activate_version ::
  "'w cert_ports \<Rightarrow> CertManager \<Rightarrow> string \<Rightarrow> string \<Rightarrow> Record option \<Rightarrow> ('w, unit) cert_op" where
  "activate_version p m domain version previous = do {
     activated \<leftarrow> store_Activate p domain version;
     case activated of
       Some err \<Rightarrow> do { activation_failed p m domain version previous; failE err }
     | None \<Rightarrow> do {
         stored \<leftarrow> cert_ActivateVersion p m domain version (previous \<noteq> None);
         case stored of
           Some _ \<Rightarrow> do {
             restore_marker p domain (old_version previous);
             activation_failed p m domain version previous;
             failE (CertErr CertPersistenceFailed ''Certificate metadata could not be activated'')
           }
         | None \<Rightarrow> okE ()
       }
   }"

definition issue_version ::
  "'w cert_ports \<Rightarrow> CertManager \<Rightarrow> string \<Rightarrow> Material \<Rightarrow> Info \<Rightarrow> ('w, string) cert_op" where
  "issue_version p m domain material info =
     bindE (cert_call (ca_Stage p domain material) (\<lambda>r. [CeStage domain material r])) (\<lambda>version. do {
       now \<leftarrow> cert_clock p;
       bindE (or_return (cert_SaveVersion p m \<lparr>ver_SNI = domain, ver_Version = version,
           ver_Fingerprint = info_Fingerprint info, ver_Serial = info_Serial info, ver_IssuedAt = info_IssuedAt info,
           ver_ExpiresAt = info_ExpiresAt info, ver_Status = VersionPending, ver_CreatedAt = now\<rparr>)
         (\<lambda>_. CertErr CertPersistenceFailed ''Certificate metadata could not be saved''))
       (\<lambda>_. okE version)
     })"

definition issued_material :: "'w cert_ports \<Rightarrow> CertManager \<Rightarrow> string \<Rightarrow> ('w, Material \<times> Info) cert_op" where
  "issued_material p m domain = do {
     issued \<leftarrow> cert_call (ca_Issue p domain) (\<lambda>r. [CeIssue domain r]);
     case issued of
       Inl err \<Rightarrow> failE (CertErr CertIssuanceFailed (SafeMessage err ''Certificate issuance failed''))
     | Inr material \<Rightarrow> do {
         info \<leftarrow> cert_Validate p material domain;
         case info of
           Inl _ \<Rightarrow> do {
             _ \<leftarrow> cert_SetStatus p m domain StatusInvalid;
             failE (CertErr CertInvalidMaterial ''Issued certificate is invalid'')
           }
         | Inr info \<Rightarrow> okE (material, info)
       }
   }"

definition distribute_version ::
  "'w cert_ports \<Rightarrow> CertManager \<Rightarrow> string \<Rightarrow> string \<Rightarrow> Material \<Rightarrow> Record option \<Rightarrow> ('w, unit) cert_op" where
  "distribute_version p m domain version material previous = do {
     distributed \<leftarrow> distribute p m domain version material;
     case distributed of
       Inl err \<Rightarrow> do { activation_failed p m domain version previous; failE err }
     | Inr _ \<Rightarrow> okE ()
   }"

definition issueAndActivate ::
  "'w cert_ports \<Rightarrow> CertManager \<Rightarrow> string \<Rightarrow> Record option \<Rightarrow> ('w, Material) cert_op" where
  "issueAndActivate p m domain previous =
     bindE (issued_material p m domain) (\<lambda>(material, info).
     bindE (issue_version p m domain material info) (\<lambda>version.
     bindE (distribute_version p m domain version material previous) (\<lambda>_.
     bindE (activate_version p m domain version previous) (\<lambda>_. do {
       observeExpiry p m domain (info_ExpiresAt info);
       okE material
     }))))"

section \<open>Operations\<close>

definition is_missing :: "go_error \<Rightarrow> bool" where
  "is_missing err \<longleftrightarrow> errors_Is err (CertErr CertNotFound []) \<or> errors_Is err (CertErr CertInvalidMaterial [])"

text \<open>\<^verbatim>\<open>unlock, err := m.locker.Lock(ctx, domain)\<close> with \<^verbatim>\<open>defer unlock()\<close>, and the two ways to report a failed lock.\<close>

definition with_cert_lock :: "'w cert_ports \<Rightarrow> string \<Rightarrow> ('w, 'a) cert_op \<Rightarrow> ('w, 'a) cert_op \<Rightarrow> ('w, 'a) cert_op" where
  "with_cert_lock p domain failed body = do {
     locked \<leftarrow> cert_call (ca_Lock p domain) (\<lambda>e. [CeLock domain (e = None)]);
     case locked of
       Some _ \<Rightarrow> failed
     | None \<Rightarrow> do {
         r \<leftarrow> body;
         cert_call (ca_Unlock p domain) (\<lambda>_. [CeUnlock domain]);
         State_Monad.return r
       }
   }"

definition lock_failed :: "'w cert_ports \<Rightarrow> string \<Rightarrow> ('w, 'a) cert_op" where
  "lock_failed p message = do {
     e \<leftarrow> cert_call (ca_ctx_err p) (\<lambda>_. []);
     failE (case e of Some err \<Rightarrow> err | None \<Rightarrow> CertErr CertPersistenceFailed message)
   }"

definition Readiness :: "'w cert_ports \<Rightarrow> CertManager \<Rightarrow> string \<Rightarrow> ('w cert, Readiness \<times> go_error option) state" where
  "Readiness p m sni =
     (case canonicalSNI sni of
        Inl err \<Rightarrow> State_Monad.return (ReadinessUnknown, Some err)
      | Inr domain \<Rightarrow> do {
          loaded \<leftarrow> loadActive p m domain False;
          case loaded of
            Inl err \<Rightarrow> State_Monad.return
              (if is_missing err then (ReadinessNotReady, None) else (ReadinessUnknown, Some err))
          | Inr (record, _) \<Rightarrow> do {
              observeExpiry p m (rec_SNI record) (rec_ExpiresAt record);
              State_Monad.return (ReadinessReady, None)
            }
        })"

definition renew_active :: "'w cert_ports \<Rightarrow> CertManager \<Rightarrow> string \<Rightarrow> Record \<Rightarrow> Material \<Rightarrow> ('w, Material) cert_op" where
  "renew_active p m domain record active = do {
     renewed \<leftarrow> issueAndActivate p m domain (Some record);
     case renewed of
       Inr material \<Rightarrow> okE material
     | Inl err \<Rightarrow> do {
         renewalFailed m domain;
         now \<leftarrow> cert_clock p;
         if now < rec_ExpiresAt record then okE active else failE err
       }
   }"

definition prepare_loaded ::
  "'w cert_ports \<Rightarrow> CertManager \<Rightarrow> string \<Rightarrow> go_error + (Record \<times> Material) \<Rightarrow> ('w, Material) cert_op" where
  "prepare_loaded p m domain loaded =
     (case loaded of
        Inr (record, active) \<Rightarrow> do {
          observeExpiry p m (rec_SNI record) (rec_ExpiresAt record);
          now \<leftarrow> cert_clock p;
          if cm_RenewBefore m < rec_ExpiresAt record - now then okE active
          else renew_active p m domain record active
        }
      | Inl err \<Rightarrow> if is_missing err then issueAndActivate p m domain None else failE err)"

definition prepare_locked :: "'w cert_ports \<Rightarrow> CertManager \<Rightarrow> string \<Rightarrow> ('w, Material) cert_op" where
  "prepare_locked p m domain = do {
     loaded \<leftarrow> loadActive p m domain True;
     prepare_loaded p m domain loaded
   }"

definition Cert_Prepare :: "'w cert_ports \<Rightarrow> CertManager \<Rightarrow> string \<Rightarrow> ('w, Material) cert_op" where
  "Cert_Prepare p m sni = bindE (liftE (canonicalSNI sni)) (\<lambda>domain.
     with_cert_lock p domain (lock_failed p ''Certificate issuance lock is unavailable'') (prepare_locked p m domain))"

definition renew_with :: "'w cert_ports \<Rightarrow> CertManager \<Rightarrow> string \<Rightarrow> Record option \<Rightarrow> ('w, unit) cert_op" where
  "renew_with p m domain previous = do {
     r \<leftarrow> issueAndActivate p m domain previous;
     case r of
       Inl err \<Rightarrow> do { renewalFailed m domain; failE err }
     | Inr _ \<Rightarrow> okE ()
   }"

definition renew_locked :: "'w cert_ports \<Rightarrow> CertManager \<Rightarrow> string \<Rightarrow> ('w, unit) cert_op" where
  "renew_locked p m domain = do {
     loaded \<leftarrow> loadActive p m domain True;
     case loaded of
       Inr (record, _) \<Rightarrow> renew_with p m domain (Some record)
     | Inl err \<Rightarrow> if is_missing err then renew_with p m domain None else failE err
   }"

definition Renew :: "'w cert_ports \<Rightarrow> CertManager \<Rightarrow> string \<Rightarrow> ('w, unit) cert_op" where
  "Renew p m sni = bindE (liftE (canonicalSNI sni)) (\<lambda>domain.
     with_cert_lock p domain (lock_failed p ''Certificate renewal lock is unavailable'') (renew_locked p m domain))"

definition acknowledged_review :: "string \<Rightarrow> int \<Rightarrow> addr \<Rightarrow> TargetReview" where
  "acknowledged_review domain operatorUserID ip = \<lparr>tr_SNI = domain, tr_IP = ip, tr_State = TargetLegacyAcknowledged,
     tr_Reason = ''Legacy DNS target explicitly acknowledged during certificate bootstrap'',
     tr_AcknowledgedBy = Some operatorUserID, tr_CreatedAt = 0, tr_UpdatedAt = 0, tr_AcknowledgedAt = None\<rparr>"

definition acknowledgeLegacyTargets ::
  "'w cert_ports \<Rightarrow> CertManager \<Rightarrow> string \<Rightarrow> TargetResolution \<Rightarrow> int \<Rightarrow> ('w, nat) cert_op" where
  "acknowledgeLegacyTargets p m domain resolution operatorUserID =
     bindE (review_unmanaged p m (acknowledged_review domain operatorUserID)
         ''Legacy target acknowledgement could not be saved'' (tgs_Unmanaged resolution))
       (\<lambda>_. okE (length (tgs_Unmanaged resolution) + length (tgs_LegacyAcknowledged resolution)))"

text \<open>The loop over the versions: the first staged one that can be loaded and is valid.\<close>

fun staged_candidate :: "'w cert_ports \<Rightarrow> string \<Rightarrow> Version list \<Rightarrow> ('w cert, (Version \<times> Material) option) state" where
  "staged_candidate p domain [] = State_Monad.return None"
| "staged_candidate p domain (version # versions) =
     (if ver_Status version \<noteq> VersionDistribution \<and> ver_Status version \<noteq> VersionPending
      then staged_candidate p domain versions
      else do {
        loaded \<leftarrow> store_Load p domain (ver_Version version);
        case loaded of
          Inl _ \<Rightarrow> staged_candidate p domain versions
        | Inr material \<Rightarrow> do {
            info \<leftarrow> cert_Validate p material domain;
            case info of
              Inl _ \<Rightarrow> staged_candidate p domain versions
            | Inr info \<Rightarrow>
                if info_Fingerprint info \<noteq> ver_Fingerprint version then staged_candidate p domain versions
                else State_Monad.return (Some (version, material))
          }
      })"

definition marker_or_empty :: "'w cert_ports \<Rightarrow> string \<Rightarrow> ('w cert, string) state" where
  "marker_or_empty p domain = do {
     marker \<leftarrow> store_ActiveVersion p domain;
     State_Monad.return (case marker of Inl _ \<Rightarrow> [] | Inr version \<Rightarrow> version)
   }"

definition bootstrap_activate :: "'w cert_ports \<Rightarrow> CertManager \<Rightarrow> string \<Rightarrow> string \<Rightarrow> ('w, unit) cert_op" where
  "bootstrap_activate p m domain version = do {
     previousMarker \<leftarrow> marker_or_empty p domain;
     bindE (or_return (store_Activate p domain version) (\<lambda>err. err)) (\<lambda>_. do {
       stored \<leftarrow> cert_ActivateVersion p m domain version False;
       case stored of
         Some _ \<Rightarrow> do {
           restore_marker p domain previousMarker;
           failE (CertErr CertPersistenceFailed ''Bootstrap certificate metadata could not be activated'')
         }
       | None \<Rightarrow> okE ()
     })
   }"

definition bootstrap_candidate ::
  "'w cert_ports \<Rightarrow> CertManager \<Rightarrow> string \<Rightarrow> int \<Rightarrow> Version \<Rightarrow> Material \<Rightarrow> ('w, BootstrapResult) cert_op" where
  "bootstrap_candidate p m domain operatorUserID candidate material =
     bindE (resolve_targets p domain) (\<lambda>resolution.
     bindE (acknowledgeLegacyTargets p m domain resolution operatorUserID) (\<lambda>acknowledged.
     bindE (distributeTargets p m domain (ver_Version candidate) material (tgs_Managed resolution)) (\<lambda>_.
     bindE (bootstrap_activate p m domain (ver_Version candidate)) (\<lambda>_. do {
       observeExpiry p m domain (ver_ExpiresAt candidate);
       okE \<lparr>br_SNI = domain, br_Version = ver_Version candidate,
            br_ManagedTargets = length (tgs_Managed resolution), br_AcknowledgedLegacyIPs = acknowledged\<rparr>
     }))))"

definition bootstrap_staged :: "'w cert_ports \<Rightarrow> CertManager \<Rightarrow> string \<Rightarrow> int \<Rightarrow> ('w, BootstrapResult) cert_op" where
  "bootstrap_staged p m domain operatorUserID = do {
     listed \<leftarrow> cert_ListVersions p m domain;
     case listed of
       Inl _ \<Rightarrow> failE (CertErr CertPersistenceFailed ''Certificate versions could not be loaded'')
     | Inr versions \<Rightarrow> do {
         found \<leftarrow> staged_candidate p domain versions;
         case found of
           None \<Rightarrow> failE (CertErr CertNotFound ''No valid staged certificate is available'')
         | Some (candidate, material) \<Rightarrow>
             if ver_Version candidate = []
             then failE (CertErr CertNotFound ''No valid staged certificate is available'')
             else bootstrap_candidate p m domain operatorUserID candidate material
       }
   }"

definition bootstrap_active :: "'w cert_ports \<Rightarrow> CertManager \<Rightarrow> string \<Rightarrow> int \<Rightarrow> Record \<Rightarrow> ('w, BootstrapResult) cert_op" where
  "bootstrap_active p m domain operatorUserID active =
     bindE (resolve_targets p domain) (\<lambda>resolution.
     bindE (acknowledgeLegacyTargets p m domain resolution operatorUserID) (\<lambda>acknowledged.
       okE \<lparr>br_SNI = domain, br_Version = rec_ActiveVersion active,
            br_ManagedTargets = length (tgs_Managed resolution), br_AcknowledgedLegacyIPs = acknowledged\<rparr>))"

definition bootstrap_locked :: "'w cert_ports \<Rightarrow> CertManager \<Rightarrow> string \<Rightarrow> int \<Rightarrow> ('w, BootstrapResult) cert_op" where
  "bootstrap_locked p m domain operatorUserID = do {
     loaded \<leftarrow> loadActive p m domain True;
     case loaded of
       Inr (active, _) \<Rightarrow> bootstrap_active p m domain operatorUserID active
     | Inl err \<Rightarrow>
         if is_missing err then bootstrap_staged p m domain operatorUserID
         else failE (CertErr CertPersistenceFailed ''Active certificate state could not be checked'')
   }"

definition Bootstrap :: "'w cert_ports \<Rightarrow> CertManager \<Rightarrow> string \<Rightarrow> int \<Rightarrow> ('w, BootstrapResult) cert_op" where
  "Bootstrap p m sni operatorUserID =
     (case canonicalSNI sni of
        Inl _ \<Rightarrow> failE (CertErr CertInvalidInput [])
      | Inr domain \<Rightarrow>
          if operatorUserID \<le> 0 then failE (CertErr CertInvalidInput [])
          else if \<not> cm_resolver m then failE (CertErr CertDistributionFailed ''Certificate target resolver is unavailable'')
          else with_cert_lock p domain (failE (CertErr CertPersistenceFailed ''Certificate bootstrap lock is unavailable''))
                 (bootstrap_locked p m domain operatorUserID))"

definition rollback_activate ::
  "'w cert_ports \<Rightarrow> CertManager \<Rightarrow> string \<Rightarrow> string \<Rightarrow> Record option \<Rightarrow> ('w, unit) cert_op" where
  "rollback_activate p m domain version previousRecord = do {
     previous \<leftarrow> marker_or_empty p domain;
     activated \<leftarrow> store_Activate p domain version;
     case activated of
       Some err \<Rightarrow> do { restoreDistributedVersion p m domain previousRecord; failE err }
     | None \<Rightarrow> do {
         stored \<leftarrow> cert_ActivateVersion p m domain version False;
         case stored of
           Some _ \<Rightarrow> do {
             restore_marker p domain previous;
             restoreDistributedVersion p m domain previousRecord;
             failE (CertErr CertPersistenceFailed ''Rollback metadata could not be activated'')
           }
         | None \<Rightarrow> okE ()
       }
   }"

definition rollback_to ::
  "'w cert_ports \<Rightarrow> CertManager \<Rightarrow> string \<Rightarrow> string \<Rightarrow> Record option \<Rightarrow> Material \<Rightarrow> ('w, unit) cert_op" where
  "rollback_to p m domain version previousRecord material = do {
     distributed \<leftarrow> distribute p m domain version material;
     case distributed of
       Inl err \<Rightarrow> do { restoreDistributedVersion p m domain previousRecord; failE err }
     | Inr _ \<Rightarrow> rollback_activate p m domain version previousRecord
   }"

definition rollback_locked :: "'w cert_ports \<Rightarrow> CertManager \<Rightarrow> string \<Rightarrow> string \<Rightarrow> ('w, unit) cert_op" where
  "rollback_locked p m domain version = do {
     listed \<leftarrow> cert_ListVersions p m domain;
     case listed of
       Inl _ \<Rightarrow> failE (CertErr CertPersistenceFailed ''Certificate versions could not be loaded'')
     | Inr versions \<Rightarrow>
         if \<not> list_ex (\<lambda>item. ver_Version item = version) versions then failE (CertErr CertNotFound [])
         else do {
           active \<leftarrow> cert_GetActive p m domain;
           bindE (store_Load p domain version) (\<lambda>material. do {
             info \<leftarrow> cert_Validate p material domain;
             case info of
               Inl _ \<Rightarrow> failE (CertErr CertInvalidMaterial ''Rollback certificate is invalid'')
             | Inr _ \<Rightarrow>
                 rollback_to p m domain version (case active of Inl _ \<Rightarrow> None | Inr record \<Rightarrow> Some record) material
           })
         }
   }"

definition Rollback :: "'w cert_ports \<Rightarrow> CertManager \<Rightarrow> string \<Rightarrow> string \<Rightarrow> ('w, unit) cert_op" where
  "Rollback p m sni version =
     (case canonicalSNI sni of
        Inl _ \<Rightarrow> failE (CertErr CertInvalidInput [])
      | Inr domain \<Rightarrow>
          if TrimSpace version = [] then failE (CertErr CertInvalidInput [])
          else with_cert_lock p domain (lock_failed p ''Certificate rollback lock is unavailable'')
                 (rollback_locked p m domain version))"

text \<open>\<^verbatim>\<open>RenewDue\<close> goes on after a failure and returns all errors, joined; \<open>Run\<close> calls it on every tick.\<close>

fun renew_records :: "'w cert_ports \<Rightarrow> CertManager \<Rightarrow> Record list \<Rightarrow> go_error list \<Rightarrow> ('w cert, go_error list) state" where
  "renew_records p m [] errs = State_Monad.return errs"
| "renew_records p m (record # records) errs = do {
     r \<leftarrow> Renew p m (rec_SNI record);
     renew_records p m records (case r of Inl err \<Rightarrow> errs @ [err] | Inr _ \<Rightarrow> errs)
   }"

fun join_errors :: "go_error list \<Rightarrow> go_error option" where
  "join_errors [] = None"
| "join_errors (err # errs) = Some (case join_errors errs of None \<Rightarrow> err | Some rest \<Rightarrow> ErrJoin err rest)"

definition RenewDue :: "'w cert_ports \<Rightarrow> CertManager \<Rightarrow> ('w cert, go_error option) state" where
  "RenewDue p m = do {
     now \<leftarrow> cert_clock p;
     listed \<leftarrow> cert_ListExpiring p m (now + cm_RenewBefore m);
     case listed of
       Inl _ \<Rightarrow> State_Monad.return (Some (CertErr CertPersistenceFailed ''Expiring certificates could not be listed''))
     | Inr records \<Rightarrow> do {
         errs \<leftarrow> renew_records p m records [];
         State_Monad.return (join_errors errs)
       }
   }"

end
