(* ===== verification/Cert_Safety.thy ===== *)
theory Cert_Safety
  imports Cert_Manager
begin

text \<open>
  What the certificate manager guarantees.  A relation between the states before and after a call
  that every single call keeps is kept by every part of the manager (\<open>cert_frame\<close>) and by every
  operation (\<open>cert_ops\<close>); the properties are three such relations: the tables stay well-formed,
  changes happen under the lock of their domain, and a version is activated in the tables only
  after it was validated, delivered to every target and activated in the store.
\<close>

section \<open>Relations kept by the manager\<close>

text \<open>The domain an event changes something for; the others only look, or are the lock itself.\<close>

fun event_sni :: "cert_event \<Rightarrow> string option" where
  "event_sni (CeIssue domain _) = Some domain"
| "event_sni (CeStage domain _ _) = Some domain"
| "event_sni (CeActivate domain _ _) = Some domain"
| "event_sni (CeDistribute domain _ _ _) = Some domain"
| "event_sni (CeSaveVersion version _) = Some (ver_SNI version)"
| "event_sni (CeVersionStatus domain _ _) = Some domain"
| "event_sni (CeActivateVersion domain _ _) = Some domain"
| "event_sni (CeStatus domain _) = Some domain"
| "event_sni (CeDistribution rec _) = Some (dr_SNI rec)"
| "event_sni (CeReview review _) = Some (tr_SNI review)"
| "event_sni _ = None"

fun is_lock :: "cert_event \<Rightarrow> bool" where
  "is_lock (CeLock _ _) = True"
| "is_lock (CeUnlock _) = True"
| "is_lock _ = False"

fun is_activation :: "cert_event \<Rightarrow> bool" where
  "is_activation (CeActivateVersion _ _ _) = True"
| "is_activation _ = False"

text \<open>An event of the work on one domain.\<close>

definition on_domain :: "string \<Rightarrow> cert_event \<Rightarrow> bool" where
  "on_domain domain e \<longleftrightarrow> \<not> is_lock e \<and> event_sni e \<in> {None, Some domain}"

locale cert_frame = state_preorder R
  for R :: "'w cert \<Rightarrow> 'w cert \<Rightarrow> bool" +
  fixes p :: "'w cert_ports" and m :: CertManager and domain :: string and ok :: "cert_event \<Rightarrow> bool"
  assumes R_call: "ok e \<Longrightarrow> R s (s\<lparr>ct_world := w, ct_log := ct_log s @ [e]\<rparr>)"
    and R_world: "R s (s\<lparr>ct_world := w\<rparr>)"
    and R_tables: "ok e \<Longrightarrow> (cert_wf (ca_others p (ct_world s) (ct_db s)) \<Longrightarrow> cert_wf db) \<Longrightarrow>
      R s (s\<lparr>ct_world := w, ct_db := db, ct_log := ct_log s @ [e]\<rparr>)"
    and ok_domain: "on_domain domain e \<Longrightarrow> \<not> is_activation e \<Longrightarrow> ok e"
begin

lemma ok_events:
  "ok (CeClock t)" "ok (CeIssue domain issued)" "ok (CeValidate material name info)" "ok (CeStage domain material staged)"
  "ok (CeLoad domain version loaded)" "ok (CeMarker domain marker)" "ok (CeActivate domain version err)"
  "ok (CeResolve domain resolved)" "ok (CeDistribute domain material targets results)" "ok (CeGetActive domain found)"
  "ok (CeListVersions domain listed)" "ok CeListExpiring" "ver_SNI saved = domain \<Longrightarrow> ok (CeSaveVersion saved err)"
  "ok (CeVersionStatus domain version vs)" "ok (CeStatus domain status)" "dr_SNI rec = domain \<Longrightarrow> ok (CeDistribution rec err)"
  "tr_SNI review = domain \<Longrightarrow> ok (CeReview review err)" "ok (CeExpiry name left)" "ok (CeRenewalFailed name)"
  by (simp_all add: ok_domain on_domain_def)

lemma io_call: "(\<And>a. ok (ev a)) \<Longrightarrow> state_io_rel R (cert_call port (\<lambda>a. [ev a]))"
  unfolding cert_call_def by (rule io_State) (simp add: R_call split: prod.split)

lemma io_call_silent: "state_io_rel R (cert_call port (\<lambda>_. []))"
  unfolding cert_call_def by (rule io_State) (simp add: R_world split: prod.split)

lemma io_note: "ok e \<Longrightarrow> state_io_rel R (cert_note e)"
  unfolding cert_note_def by (rule io_update) (metis R_call cert.surjective cert.update_convs(1))

lemma io_tables:
  assumes "\<And>oc now db. cert_wf db \<Longrightarrow> cert_wf (snd (f oc now db))" and "\<And>r. ok (ev r)"
  shows "state_io_rel R (cert_tables p f ev)"
  unfolding cert_tables_def
  by (rule io_State) (simp add: case_prod_beta R_tables assms)

lemma io_clock: "state_io_rel R (cert_clock p)"
  unfolding cert_clock_def by (intro io_call ok_events)

lemma io_or_return: "state_io_rel R c \<Longrightarrow> state_io_rel R (or_return c f)"
  unfolding or_return_def by (intro io_rules)

lemma io_store:
  "state_io_rel R (store_Activate p domain version)"
  "state_io_rel R (store_ActiveVersion p domain)"
  "state_io_rel R (store_Load p domain version)"
  unfolding store_Activate_def store_ActiveVersion_def store_Load_def by (intro io_call ok_events)+

lemma io_Validate: "state_io_rel R (cert_Validate p material name)"
  unfolding cert_Validate_def Let_def by (intro io_rules io_clock io_note ok_events)

lemma io_reads:
  "state_io_rel R (cert_GetActive p m domain)"
  "state_io_rel R (cert_ListVersions p m domain)"
  "state_io_rel R (cert_ListExpiring p m before)"
  unfolding cert_GetActive_def cert_ListVersions_def cert_ListExpiring_def
  by (intro io_tables; simp add: ok_events)+

lemma io_writes:
  "ver_SNI saved = domain \<Longrightarrow> ver_Status saved \<noteq> VersionActive \<Longrightarrow> state_io_rel R (cert_SaveVersion p m saved)"
  "vs \<noteq> VersionActive \<Longrightarrow> state_io_rel R (cert_SetVersionStatus p m domain version vs)"
  "state_io_rel R (cert_SetStatus p m domain status)"
  "dr_SNI rec = domain \<Longrightarrow> state_io_rel R (cert_RecordDistribution p m rec)"
  "tr_SNI review = domain \<Longrightarrow> state_io_rel R (cert_RecordTargetReview p m review)"
  unfolding cert_SaveVersion_def cert_SetVersionStatus_def cert_SetStatus_def cert_RecordDistribution_def
    cert_RecordTargetReview_def
  by (intro io_tables; simp add: ok_events cert_repository_wf)+

lemma io_Resolve: "state_io_rel R (cert_Resolve p domain)"
  unfolding cert_Resolve_def by (intro io_rules io_call ok_events)

lemma io_observe: "state_io_rel R (observeExpiry p m name expires)" "state_io_rel R (renewalFailed m name)"
  unfolding observeExpiry_def renewalFailed_def by (intro io_rules io_clock io_note ok_events)+

lemmas io_primitive = io_rules io_clock io_or_return io_store io_Validate io_reads io_writes io_Resolve io_observe

lemma io_repair_marker: "state_io_rel R (repair_marker p domain record repairMarker marker)"
  unfolding repair_marker_def by (intro io_primitive)

lemma io_loadActive: "state_io_rel R (loadActive p m domain repairMarker)"
  unfolding loadActive_def by (intro io_primitive io_repair_marker)

lemma io_record_results: "state_io_rel R (record_results p m domain version results failed)"
proof (induction results arbitrary: failed)
  case Nil
  then show ?case by (simp add: io_okE)
next
  case (Cons result results)
  then show ?case
    unfolding record_results.simps Let_def by (intro io_primitive) simp_all
qed

lemma io_distributeTargets: "state_io_rel R (distributeTargets p m domain version material targets)"
  unfolding distributeTargets_def by (intro io_primitive io_record_results io_call ok_events)

lemma io_review_unmanaged:
  "(\<And>ip. tr_SNI (review ip) = domain) \<Longrightarrow> state_io_rel R (review_unmanaged p m review message ips)"
  by (induction ips) (auto intro!: io_primitive)

lemma io_resolve_targets: "state_io_rel R (resolve_targets p domain)"
  unfolding resolve_targets_def by (intro io_primitive)

lemma io_distribute: "state_io_rel R (distribute p m domain version material)"
  unfolding distribute_def
  by (intro io_primitive io_resolve_targets io_distributeTargets io_review_unmanaged) (simp add: manual_review_def)

lemma io_restoreDistributedVersion: "state_io_rel R (restoreDistributedVersion p m domain previous)"
  unfolding restoreDistributedVersion_def by (intro io_primitive io_distribute)

lemma io_activation_failed: "state_io_rel R (activation_failed p m domain version previous)"
  unfolding activation_failed_def by (intro io_primitive io_restoreDistributedVersion) simp

lemma io_restore_marker: "state_io_rel R (restore_marker p domain version)"
  unfolding restore_marker_def by (intro io_primitive)

lemma io_issue_version: "state_io_rel R (issue_version p m domain material info)"
  unfolding issue_version_def by (intro io_primitive io_call ok_events) simp_all

lemma io_issued_material: "state_io_rel R (issued_material p m domain)"
  unfolding issued_material_def by (intro io_primitive io_call ok_events)

lemma io_distribute_version: "state_io_rel R (distribute_version p m domain version material previous)"
  unfolding distribute_version_def by (intro io_primitive io_distribute io_activation_failed)

lemma io_staged_candidate: "state_io_rel R (staged_candidate p domain versions)"
  by (induction versions) (auto intro!: io_primitive simp del: not_imp)

lemma io_acknowledgeLegacyTargets: "state_io_rel R (acknowledgeLegacyTargets p m domain resolution operatorUserID)"
  unfolding acknowledgeLegacyTargets_def by (intro io_primitive io_review_unmanaged) (simp add: acknowledged_review_def)

lemma io_marker_or_empty: "state_io_rel R (marker_or_empty p domain)"
  unfolding marker_or_empty_def by (intro io_primitive)

lemma io_ctx: "state_io_rel R (lock_failed p message)"
  unfolding lock_failed_def by (intro io_rules io_call_silent)

end

text \<open>Where the three ways to activate a version keep the relation, every operation does.\<close>

locale cert_ops = cert_frame +
  assumes io_issue: "state_io_rel R (issueAndActivate p m domain previous)"
    and io_staged: "state_io_rel R (bootstrap_staged p m domain operatorUserID)"
    and io_rollback: "state_io_rel R (rollback_locked p m domain version)"
begin

lemma io_prepare_locked: "state_io_rel R (prepare_locked p m domain)"
  unfolding prepare_locked_def prepare_loaded_def renew_active_def
  by (intro io_primitive io_loadActive io_issue)

lemma io_renew_locked: "state_io_rel R (renew_locked p m domain)"
  unfolding renew_locked_def renew_with_def by (intro io_primitive io_loadActive io_issue)

lemma io_bootstrap_locked: "state_io_rel R (bootstrap_locked p m domain operatorUserID)"
  unfolding bootstrap_locked_def bootstrap_active_def
  by (intro io_primitive io_loadActive io_staged io_resolve_targets io_acknowledgeLegacyTargets)

end

text \<open>A relation that allows the activation in the tables as well.\<close>

locale cert_frame_all = cert_frame +
  assumes ok_activate: "ok (CeActivateVersion domain version err)"
begin

lemma io_ActivateVersion: "state_io_rel R (cert_ActivateVersion p m domain version renewed)"
  unfolding cert_ActivateVersion_def by (intro io_tables) (simp_all add: ok_activate cert_repository_wf)

end

sublocale cert_frame_all \<subseteq> cert_ops
proof
  show "state_io_rel R (issueAndActivate p m domain previous)" for previous
    unfolding issueAndActivate_def activate_version_def
    by (intro io_primitive io_issued_material io_issue_version io_distribute_version io_ActivateVersion
        io_restore_marker io_activation_failed)
  show "state_io_rel R (bootstrap_staged p m domain operatorUserID)" for operatorUserID
    unfolding bootstrap_staged_def bootstrap_candidate_def bootstrap_activate_def
    by (intro io_primitive io_staged_candidate io_resolve_targets io_acknowledgeLegacyTargets io_distributeTargets io_marker_or_empty
        io_ActivateVersion io_restore_marker)
  show "state_io_rel R (rollback_locked p m domain version)" for version
    unfolding rollback_locked_def rollback_to_def rollback_activate_def
    by (intro io_primitive io_distribute io_restoreDistributedVersion io_marker_or_empty io_ActivateVersion io_restore_marker)
qed

text \<open>A relation that does not depend on the domain is kept by the operations themselves.\<close>

locale cert_service =
  fixes R :: "'w cert \<Rightarrow> 'w cert \<Rightarrow> bool" and p :: "'w cert_ports" and m :: CertManager and ok :: "cert_event \<Rightarrow> bool"
  assumes ops: "cert_ops R p m domain ok"
    and ok_lock: "ok (CeLock domain got)" "ok (CeUnlock domain)"
begin

lemma frame: "cert_frame R p domain ok"
  using ops by (rule cert_ops.axioms)

lemma preorder: "state_preorder R"
  using frame by (rule cert_frame.axioms)

lemmas io = state_preorder.io_rules [OF preorder]

lemma io_with_cert_lock:
  "state_io_rel R failed \<Longrightarrow> state_io_rel R body \<Longrightarrow> state_io_rel R (with_cert_lock p domain failed body)"
  unfolding with_cert_lock_def by (intro io cert_frame.io_call [OF frame] ok_lock)

lemma io_Readiness: "state_io_rel R (Readiness p m sni)"
  unfolding Readiness_def by (intro io cert_frame.io_loadActive [OF frame] cert_frame.io_observe [OF frame])

lemma io_Prepare: "state_io_rel R (Cert_Prepare p m sni)"
  unfolding Cert_Prepare_def
  by (intro io io_with_cert_lock cert_frame.io_ctx [OF frame] cert_ops.io_prepare_locked [OF ops])

lemma io_Renew: "state_io_rel R (Renew p m sni)"
  unfolding Renew_def
  by (intro io io_with_cert_lock cert_frame.io_ctx [OF frame] cert_ops.io_renew_locked [OF ops])

lemma io_Bootstrap: "state_io_rel R (Bootstrap p m sni operatorUserID)"
  unfolding Bootstrap_def by (intro io io_with_cert_lock cert_ops.io_bootstrap_locked [OF ops])

lemma io_Rollback: "state_io_rel R (Rollback p m sni version)"
  unfolding Rollback_def
  by (intro io io_with_cert_lock cert_frame.io_ctx [OF frame] cert_ops.io_rollback [OF ops])

lemma io_renew_records: "state_io_rel R (renew_records p m records errs)"
  by (induction records arbitrary: errs) (auto intro!: io io_Renew)

lemma io_RenewDue: "state_io_rel R (RenewDue p m)"
  unfolding RenewDue_def
  by (intro io io_renew_records cert_frame.io_clock [OF frame] cert_frame.io_reads [OF frame])

lemmas io_manager = io_Readiness io_Prepare io_Renew io_Bootstrap io_Rollback io_RenewDue

end

section \<open>The tables stay well-formed\<close>

text \<open>Whatever other processes do to the tables, they keep them well-formed.\<close>

definition others_wf :: "'w cert_ports \<Rightarrow> bool" where
  "others_wf p \<longleftrightarrow> (\<forall>w db. cert_wf db \<longrightarrow> cert_wf (ca_others p w db))"

definition tables_kept :: "'w cert_ports \<Rightarrow> 'w cert \<Rightarrow> 'w cert \<Rightarrow> bool" where
  "tables_kept p s t \<longleftrightarrow> (others_wf p \<longrightarrow> cert_wf (ct_db s) \<longrightarrow> cert_wf (ct_db t))"

interpretation tables: cert_frame_all "tables_kept p" p m domain "\<lambda>_. True"
  for p :: "'w cert_ports" and m :: CertManager and domain :: string
  by unfold_locales (auto simp: tables_kept_def others_wf_def)

interpretation table_service: cert_service "tables_kept p" p m "\<lambda>_. True"
  for p :: "'w cert_ports" and m :: CertManager
  by unfold_locales simp_all

lemma tables_keptD:
  "others_wf p \<Longrightarrow> cert_wf (ct_db s) \<Longrightarrow> state_io_rel (tables_kept p) c \<Longrightarrow> cert_wf (ct_db (exec_state c s))"
  by (simp add: state_io_rel_def tables_kept_def)

text \<open>
  C12. Every operation of the certificate manager keeps the certificate tables well-formed, whatever
  the store, the issuer, the distribution and the database answer, as long as other processes do:
  the active version of a record is a stored version with the record's fingerprint and expiry, and
  no other version of the domain is \<open>ACTIVE\<close>.
\<close>

theorem manager_keeps_cert_wf:
  assumes "others_wf p" and "cert_wf (ct_db s)"
  shows "cert_wf (ct_db (exec_state (Readiness p m sni) s)) \<and>
    cert_wf (ct_db (exec_state (Cert_Prepare p m sni) s)) \<and>
    cert_wf (ct_db (exec_state (Renew p m sni) s)) \<and>
    cert_wf (ct_db (exec_state (Bootstrap p m sni operatorUserID) s)) \<and>
    cert_wf (ct_db (exec_state (Rollback p m sni version) s)) \<and>
    cert_wf (ct_db (exec_state (RenewDue p m) s))"
  by (intro conjI tables_keptD [OF assms] table_service.io_manager)

text \<open>A store with one version, an issuer that fails, and a clock that stands still.\<close>

definition demo_material :: Material where
  "demo_material = \<lparr>mat_FullchainPEM = ''c'', mat_PrivateKeyPEM = ''k''\<rparr>"

definition demo_cert_ports :: "unit cert_ports" where
  "demo_cert_ports = \<lparr>ca_ctx_err = Pair None, ca_now = Pair 5, ca_Lock = (\<lambda>_. Pair None), ca_Unlock = (\<lambda>_. Pair ()),
     ca_Issue = (\<lambda>_. Pair (Inl (OtherErr ''acme''))),
     ca_Validate = (\<lambda>_ _ _. Inr \<lparr>info_Fingerprint = ''f'', info_Serial = ''1'', info_IssuedAt = 1, info_ExpiresAt = 9\<rparr>),
     ca_Stage = (\<lambda>_ _. Pair (Inr ''w'')), ca_Load = (\<lambda>_ _. Pair (Inr demo_material)),
     ca_ActiveVersion = (\<lambda>_. Pair (Inr ''v'')), ca_Activate = (\<lambda>_ _. Pair None),
     ca_Resolve = (\<lambda>_ _. Pair (Inr no_targets)), ca_Distribute = (\<lambda>_ _ _. Pair []),
     ca_db = Pair (DbOk, 6), ca_others = (\<lambda>_ db. db)\<rparr>"

definition demo_manager :: CertManager where
  "demo_manager = \<lparr>cm_PanelID = ''p'', cm_resolver = True, cm_distributor = True, cm_observer = True,
     cm_RenewBefore = 8, cm_IssueTimeout = 1, cm_RenewInterval = 1, cm_RenewBatchSize = 50\<rparr>"

definition demo_cert :: "unit cert" where
  "demo_cert = \<lparr>ct_world = (),
     ct_db = snd (ActivateVersionForPanel DbOk 4 ''p'' ''a.io'' ''v'' False saved_certs), ct_log = []\<rparr>"

lemma demo_cert_wf: "others_wf demo_cert_ports" "cert_wf (ct_db demo_cert)"
  by (simp_all add: others_wf_def demo_cert_ports_def demo_cert_def ActivateVersionForPanel_wf saved_certs_wf)

theorem manager_keeps_cert_wf_witness:
  "cert_wf (ct_db demo_cert) \<and> cert_wf (ct_db (exec_state (RenewDue demo_cert_ports demo_manager) demo_cert))"
  using manager_keeps_cert_wf [OF demo_cert_wf] demo_cert_wf by blast

section \<open>Changes happen under the lock\<close>

text \<open>A run of events: the domain whose lock is held, if any.\<close>

fun lock_step :: "string option \<Rightarrow> cert_event \<Rightarrow> string option option" where
  "lock_step held (CeLock domain got) = (if held = None then Some (if got then Some domain else None) else None)"
| "lock_step held (CeUnlock domain) = (if held = Some domain then Some None else None)"
| "lock_step held e = (if event_sni e \<in> {None, held} then Some held else None)"

fun lock_run :: "string option \<Rightarrow> cert_event list \<Rightarrow> string option option" where
  "lock_run held [] = Some held"
| "lock_run held (e # es) = (case lock_step held e of None \<Rightarrow> None | Some held' \<Rightarrow> lock_run held' es)"

lemma lock_run_append:
  "lock_run held (es @ es') = (case lock_run held es of None \<Rightarrow> None | Some held' \<Rightarrow> lock_run held' es')"
  by (induction es arbitrary: held) (auto split: option.splits)

lemma lock_step_domain: "on_domain domain e \<Longrightarrow> lock_step (Some domain) e = Some (Some domain)"
  by (cases e) (auto simp: on_domain_def)

definition works_on :: "string \<Rightarrow> 'w cert \<Rightarrow> 'w cert \<Rightarrow> bool" where
  "works_on domain s t \<longleftrightarrow> (\<exists>es. ct_log t = ct_log s @ es \<and> lock_run (Some domain) es = Some (Some domain))"

interpretation worked: cert_frame_all "works_on domain" p m domain "on_domain domain"
  for domain :: string and p :: "'w cert_ports" and m :: CertManager
proof unfold_locales
  show "works_on domain s s" for s :: "'w cert" by (simp add: works_on_def)
  show "works_on domain s u" if "works_on domain s t" "works_on domain t u" for s t u :: "'w cert"
    using that by (auto simp: works_on_def lock_run_append)
qed (auto simp: works_on_def lock_step_domain on_domain_def)

definition tidy :: "'w cert \<Rightarrow> 'w cert \<Rightarrow> bool" where
  "tidy s t \<longleftrightarrow> (\<exists>es. ct_log t = ct_log s @ es \<and> lock_run None es = Some None)"

interpretation tidy: state_preorder "tidy :: 'w cert \<Rightarrow> 'w cert \<Rightarrow> bool"
proof
  show "tidy s s" for s :: "'w cert" by (simp add: tidy_def)
  show "tidy s u" if "tidy s t" "tidy t u" for s t u :: "'w cert"
    using that by (auto simp: tidy_def lock_run_append)
qed

lemma tidy_call: "(\<And>a. lock_run None (ev a) = Some None) \<Longrightarrow> state_io_rel tidy (cert_call port ev)"
  unfolding cert_call_def by (rule tidy.io_State) (simp add: tidy_def split: prod.split)

lemma tidy_tables: "(\<And>r. lock_run None [ev r] = Some None) \<Longrightarrow> state_io_rel tidy (cert_tables p f ev)"
  unfolding cert_tables_def by (rule tidy.io_State) (simp add: tidy_def split: prod.split)

lemma tidy_note: "lock_run None [e] = Some None \<Longrightarrow> state_io_rel tidy (cert_note e)"
  unfolding cert_note_def by (rule tidy.io_update) (simp add: tidy_def)

lemmas tidy_primitive = tidy.io_rules tidy_call tidy_tables tidy_note

lemma tidy_lock_failed: "state_io_rel tidy (lock_failed p message)"
  unfolding lock_failed_def by (intro tidy_primitive) simp

lemma tidy_with_cert_lock:
  assumes "state_io_rel tidy failed" and "state_io_rel (works_on domain) body"
  shows "state_io_rel tidy (with_cert_lock p domain failed body)"
proof (rule state_io_relI)
  fix s r t
  assume run: "run_state (with_cert_lock p domain failed body) s = (r, t)"
  obtain got w where lock: "ca_Lock p domain (ct_world s) = (got, w)" by fastforce
  let ?s = "s\<lparr>ct_world := w, ct_log := ct_log s @ [CeLock domain (got = None)]\<rparr>"
  show "tidy s t"
  proof (cases got)
    case (Some err)
    with run lock have "t = exec_state failed ?s" by (simp add: with_cert_lock_def cert_call_def)
    then have "tidy ?s t" using assms(1) by (simp add: state_io_rel_def)
    then show ?thesis using Some by (force simp: tidy_def)
  next
    case None
    let ?t = "exec_state body ?s"
    have "works_on domain ?s ?t" using assms(2) by (simp add: state_io_rel_def)
    moreover have "ct_log t = ct_log ?t @ [CeUnlock domain]"
      using run lock None by (auto simp: with_cert_lock_def cert_call_def split: prod.splits)
    ultimately show ?thesis using None by (auto simp: works_on_def tidy_def lock_run_append)
  qed
qed

lemma tidy_Readiness: "state_io_rel tidy (Readiness p m sni)"
  unfolding Readiness_def loadActive_def repair_marker_def cert_GetActive_def store_ActiveVersion_def store_Load_def
    cert_Validate_def observeExpiry_def cert_clock_def Let_def
  by (intro tidy_primitive) simp_all

lemma tidy_Renew: "state_io_rel tidy (Renew p m sni)"
  unfolding Renew_def by (intro tidy_primitive tidy_with_cert_lock tidy_lock_failed worked.io_renew_locked)

lemma tidy_renew_records: "state_io_rel tidy (renew_records p m records errs)"
  by (induction records arbitrary: errs) (auto intro!: tidy_primitive tidy_Renew)

text \<open>The log of every run of \<open>c\<close>: locks are taken one at a time, given back, and cover every change.\<close>

definition locked_changes :: "('w cert, 'a) state \<Rightarrow> bool" where
  "locked_changes c \<longleftrightarrow> (\<forall>s. \<exists>es. ct_log (exec_state c s) = ct_log s @ es \<and> lock_run None es = Some None)"

lemma locked_changes_tidy: "locked_changes c \<longleftrightarrow> state_io_rel tidy c"
  by (simp add: locked_changes_def state_io_rel_def tidy_def)

text \<open>
  C11. The manager changes something for a domain, in the store, in the tables or on a Node, only while
  it holds the lock of that domain, and it gives every lock back, whichever way the operation ends:
  the events of every operation are runs of lock, work on that domain, unlock.
\<close>

theorem manager_writes_locked:
  "locked_changes (Readiness p m sni) \<and> locked_changes (Cert_Prepare p m sni) \<and> locked_changes (Renew p m sni) \<and>
   locked_changes (Bootstrap p m sni operatorUserID) \<and> locked_changes (Rollback p m sni version) \<and>
   locked_changes (RenewDue p m)"
proof (intro conjI; unfold locked_changes_tidy)
  show "state_io_rel tidy (Readiness p m sni)" "state_io_rel tidy (Renew p m sni)"
    by (rule tidy_Readiness, rule tidy_Renew)
  show "state_io_rel tidy (Cert_Prepare p m sni)"
    unfolding Cert_Prepare_def by (intro tidy_primitive tidy_with_cert_lock tidy_lock_failed worked.io_prepare_locked)
  show "state_io_rel tidy (Bootstrap p m sni operatorUserID)"
    unfolding Bootstrap_def by (intro tidy_primitive tidy_with_cert_lock worked.io_bootstrap_locked)
  show "state_io_rel tidy (Rollback p m sni version)"
    unfolding Rollback_def by (intro tidy_primitive tidy_with_cert_lock tidy_lock_failed worked.io_rollback)
  show "state_io_rel tidy (RenewDue p m)"
    unfolding RenewDue_def cert_clock_def cert_ListExpiring_def by (intro tidy_primitive tidy_renew_records) simp_all
qed

end
