(* ===== verification/Cert_Activation.thy ===== *)
theory Cert_Activation
  imports Cert_Safety
begin

text \<open>
  When a certificate version becomes the active one: every activation in the tables is justified by
  the events before it.  As in the trace arguments for protocols, \<open>justified\<close> looks back from the
  activation: the store marker was just set, the material of the version was staged or loaded, it
  was valid for the domain, and every Node behind the domain accepted it.
\<close>

section \<open>Justified activations\<close>

definition accepted :: "string \<Rightarrow> Material \<Rightarrow> Target list \<Rightarrow> cert_event list \<Rightarrow> bool" where
  "accepted domain material targets es \<longleftrightarrow> targets = [] \<or>
     (\<exists>results. CeDistribute domain material targets results \<in> set es \<and> length results = length targets \<and>
        list_all (\<lambda>r. dres_Status r = DistributionSucceeded) results)"

text \<open>Every managed target accepted the material, and an operator acknowledged every unmanaged one.\<close>

definition delivered :: "CertManager \<Rightarrow> string \<Rightarrow> Material \<Rightarrow> cert_event list \<Rightarrow> bool" where
  "delivered m domain material es \<longleftrightarrow> \<not> cm_resolver m \<or>
     (\<exists>res. CeResolve domain (Inr res) \<in> set es \<and> accepted domain material (tgs_Managed res) es \<and>
        list_all (\<lambda>ip. \<exists>operator. CeReview (acknowledged_review domain operator ip) None \<in> set es) (tgs_Unmanaged res))"

definition checked :: "CertManager \<Rightarrow> string \<Rightarrow> string \<Rightarrow> cert_event list \<Rightarrow> bool" where
  "checked m domain version es \<longleftrightarrow>
     (\<exists>material info. (CeStage domain material (Inr version) \<in> set es \<or> CeLoad domain version (Inr material) \<in> set es) \<and>
        CeValidate material domain (Inr info) \<in> set es \<and> delivered m domain material es)"

definition justified :: "CertManager \<Rightarrow> string \<Rightarrow> string \<Rightarrow> cert_event list \<Rightarrow> bool" where
  "justified m domain version before \<longleftrightarrow>
     (\<exists>es. before = es @ [CeActivate domain version None] \<and> checked m domain version es)"

fun all_justified :: "CertManager \<Rightarrow> cert_event list \<Rightarrow> cert_event list \<Rightarrow> bool" where
  "all_justified m before [] = True"
| "all_justified m before (e # es) =
     ((case e of CeActivateVersion domain version _ \<Rightarrow> justified m domain version before | _ \<Rightarrow> True)
        \<and> all_justified m (before @ [e]) es)"

lemma accepted_mono: "accepted domain material targets es \<Longrightarrow> set es \<subseteq> set es' \<Longrightarrow> accepted domain material targets es'"
  unfolding accepted_def by blast

lemma delivered_mono: "delivered m domain material es \<Longrightarrow> set es \<subseteq> set es' \<Longrightarrow> delivered m domain material es'"
  unfolding delivered_def list_all_iff using accepted_mono by (meson subsetD)

lemma checked_mono: "checked m domain version es \<Longrightarrow> set es \<subseteq> set es' \<Longrightarrow> checked m domain version es'"
  unfolding checked_def using delivered_mono by (meson subsetD)

lemma justified_mono: "justified m domain version before \<Longrightarrow> justified m domain version (earlier @ before)"
  unfolding justified_def using checked_mono by (metis append.assoc set_append sup_ge2)

lemma all_justified_append:
  "all_justified m before (es @ es') \<longleftrightarrow> all_justified m before es \<and> all_justified m (before @ es) es'"
  by (induction es arbitrary: before) auto

lemma all_justified_mono: "all_justified m before es \<Longrightarrow> all_justified m (earlier @ before) es"
proof (induction es arbitrary: before)
  case (Cons e es)
  from Cons.prems have "all_justified m (before @ [e]) es" by simp
  from Cons.IH [OF this] show ?case
    using Cons.prems justified_mono by (auto split: cert_event.split)
qed simp

definition inactive :: "cert_event list \<Rightarrow> bool" where
  "inactive es \<longleftrightarrow> list_all (\<lambda>e. \<not> is_activation e) es"

lemma inactive_simps [simp]:
  "inactive []" "inactive (e # es) \<longleftrightarrow> \<not> is_activation e \<and> inactive es"
  "inactive (es @ es') \<longleftrightarrow> inactive es \<and> inactive es'"
  by (simp_all add: inactive_def)

lemma inactive_justified: "inactive es \<Longrightarrow> all_justified m before es"
  by (induction es arbitrary: before) (auto split: cert_event.split)

lemma activation_justified:
  assumes "inactive before" "checked m domain version before" "inactive after"
  shows "all_justified m [] (before @ CeActivate domain version None # CeActivateVersion domain version err # after)"
  using assms by (simp add: all_justified_append inactive_justified justified_def)

section \<open>Logs of the parts\<close>

lemma logs_cert_call [log_rules]: "(\<And>a. P a (ev a)) \<Longrightarrow> logs ct_log (cert_call port ev) P"
  by (auto simp: logs_def cert_call_def split: prod.splits)

lemma logs_cert_tables [log_rules]: "(\<And>r. P r [ev r]) \<Longrightarrow> logs ct_log (cert_tables p f ev) P"
  by (auto simp: logs_def cert_tables_def split: prod.splits)

lemma logs_cert_note [log_rules]: "P () [e] \<Longrightarrow> logs ct_log (cert_note e) P"
  by (auto simp: logs_def cert_note_def)

lemma logs_or_return [log_rules]:
  "logs ct_log c (\<lambda>e es. P (case e of Some err \<Rightarrow> Inl (f err) | None \<Rightarrow> Inr ()) es) \<Longrightarrow> logs ct_log (or_return c f) P"
  unfolding or_return_def
  by (intro logs_bind, erule logs_mono) (auto split: option.split intro!: log_rules)

lemma logs_Validate [log_rules]:
  "(\<And>r t. P r [CeClock t, CeValidate material domain r]) \<Longrightarrow> logs ct_log (cert_Validate p material domain) P"
  unfolding cert_Validate_def cert_clock_def Let_def by (intro log_rules) simp

lemma logs_both:
  assumes "logs ct_log c P" and "logs ct_log c Q"
  shows "logs ct_log c (\<lambda>r es. P r es \<and> Q r es)"
  unfolding logs_def
proof
  fix s
  obtain es es' where "ct_log (exec_state c s) = ct_log s @ es" "P (result_of c s) es"
      "ct_log (exec_state c s) = ct_log s @ es'" "Q (result_of c s) es'"
    using assms unfolding logs_def by blast
  then show "\<exists>es. ct_log (exec_state c s) = ct_log s @ es \<and> P (result_of c s) es \<and> Q (result_of c s) es" by auto
qed

definition stays_inactive :: "'w cert \<Rightarrow> 'w cert \<Rightarrow> bool" where
  "stays_inactive s t \<longleftrightarrow> (\<exists>es. ct_log t = ct_log s @ es \<and> inactive es)"

interpretation quiet: cert_frame stays_inactive p m domain "\<lambda>e. \<not> is_activation e"
  for p :: "'w cert_ports" and m :: CertManager and domain :: string
proof unfold_locales
  show "stays_inactive s u" if "stays_inactive s t" "stays_inactive t u" for s t u :: "'w cert"
    using that by (auto simp: stays_inactive_def)
qed (auto simp: stays_inactive_def)

lemma logs_quiet: "state_io_rel stays_inactive c \<Longrightarrow> logs ct_log c P \<Longrightarrow> logs ct_log c (\<lambda>r es. inactive es \<and> P r es)"
  by (rule logs_both) (simp_all add: state_io_rel_def stays_inactive_def logs_def)

lemma logs_inactive: "state_io_rel stays_inactive c \<Longrightarrow> logs ct_log c (\<lambda>_ es. inactive es)"
  by (simp add: state_io_rel_def stays_inactive_def logs_def)

lemma logs_fails:
  assumes "state_io_rel stays_inactive c"
  shows "logs ct_log (State_Monad.bind c (\<lambda>_. failE err)) (\<lambda>r es. inactive es \<and> r = Inl err)"
  by (intro logs_bind logs_mono [OF logs_inactive [OF assms]] logs_failE) simp

lemma logs_issued_material:
  "logs ct_log (issued_material p m domain) (\<lambda>r es. inactive es \<and>
     (\<forall>material info. r = Inr (material, info) \<longrightarrow> CeValidate material domain (Inr info) \<in> set es))"
  by (rule logs_quiet [OF quiet.io_issued_material]) (unfold issued_material_def cert_SetStatus_def, intro log_rules; simp)

lemma logs_issue_version:
  "logs ct_log (issue_version p m domain material info) (\<lambda>r es. inactive es \<and>
     (\<forall>version. r = Inr version \<longrightarrow> CeStage domain material (Inr version) \<in> set es))"
  by (rule logs_quiet [OF quiet.io_issue_version])
    (unfold issue_version_def cert_clock_def cert_SaveVersion_def, intro log_rules; auto split: sum.split option.split intro!: log_rules)

lemma logs_record_results:
  "logs ct_log (record_results p m domain version results failed)
     (\<lambda>r es. r = Inr False \<longrightarrow> \<not> failed \<and> list_all (\<lambda>r. dres_Status r = DistributionSucceeded) results)"
proof (induction results arbitrary: failed)
  case Nil
  then show ?case by (simp add: logs_okE)
next
  case (Cons result results)
  show ?case
    unfolding record_results.simps Let_def cert_clock_def cert_RecordDistribution_def
    by (intro log_rules)
      (auto split: option.split intro!: logs_mono [OF Cons.IH])
qed

lemma logs_distributeTargets:
  "logs ct_log (distributeTargets p m domain version material targets)
     (\<lambda>r es. inactive es \<and> (r = Inr () \<longrightarrow> accepted domain material targets es))"
proof (rule logs_quiet [OF quiet.io_distributeTargets])
  have step: "logs ct_log (bindE (record_results p m domain version results (length results \<noteq> length targets)) (\<lambda>failed.
      if failed then failE (CertErr CertDistributionFailed ''Certificate distribution was incomplete'') else okE ()))
    (\<lambda>r es. r = Inr () \<longrightarrow> accepted domain material targets ([CeDistribute domain material targets results] @ es))" for results
    by (intro logs_bindE logs_mono [OF logs_record_results])
      (auto simp: accepted_def split: sum.split intro!: log_rules)
  show "logs ct_log (distributeTargets p m domain version material targets)
      (\<lambda>r es. r = Inr () \<longrightarrow> accepted domain material targets es)"
    unfolding distributeTargets_def
    by (intro logs_if logs_okE logs_failE logs_bind logs_cert_call step) (simp_all add: accepted_def)
qed

lemma logs_review_unmanaged:
  "logs ct_log (review_unmanaged p m review message ips)
     (\<lambda>r es. r = Inr () \<longrightarrow> list_all (\<lambda>ip. CeReview (review ip) None \<in> set es) ips)"
proof (induction ips)
  case Nil
  then show ?case by (simp add: logs_okE)
next
  case (Cons ip ips)
  show ?case
    unfolding review_unmanaged.simps cert_RecordTargetReview_def
    by (intro log_rules) (auto simp: list_all_iff split: option.split intro!: logs_mono [OF Cons.IH])
qed

lemma logs_resolve_targets:
  "logs ct_log (resolve_targets p domain)
     (\<lambda>r es. inactive es \<and> (\<forall>resolution. r = Inr resolution \<longrightarrow> CeResolve domain (Inr resolution) \<in> set es))"
proof -
  have "logs ct_log (cert_Resolve p domain) (\<lambda>r es. es = [CeResolve domain r])"
    by (auto simp: logs_def cert_Resolve_def cert_call_def split: prod.splits)
  then show ?thesis
    unfolding resolve_targets_def
    by (intro logs_quiet [OF quiet.io_resolve_targets [unfolded resolve_targets_def]] logs_bind)
      (erule logs_mono, auto split: sum.split intro!: log_rules)
qed

lemma logs_distribute:
  "logs ct_log (distribute p m domain version material)
     (\<lambda>r es. inactive es \<and> (r = Inr () \<longrightarrow> delivered m domain material es))"
proof (rule logs_quiet [OF quiet.io_distribute])
  have targets: "logs ct_log (distributeTargets p m domain version material (tgs_Managed resolution))
      (\<lambda>r es'. r = Inr () \<longrightarrow> delivered m domain material (es @ es'))"
    if "CeResolve domain (Inr resolution) \<in> set es" "tgs_Unmanaged resolution = []" for resolution es
    by (rule logs_mono [OF logs_distributeTargets])
      (use that in \<open>fastforce simp: delivered_def intro: accepted_mono\<close>)
  have review: "logs ct_log (bindE (review_unmanaged p m (manual_review domain) msg ips) (\<lambda>_. failE err))
      (\<lambda>r es'. r = Inr () \<longrightarrow> delivered m domain material (es @ es'))" for msg ips err es
    by (intro logs_bindE logs_mono [OF logs_review_unmanaged]) (auto split: sum.split intro!: log_rules)
  show "logs ct_log (distribute p m domain version material) (\<lambda>r es. r = Inr () \<longrightarrow> delivered m domain material es)"
    unfolding distribute_def
    by (intro logs_if logs_okE logs_bindE logs_mono [OF logs_resolve_targets])
      (auto simp: delivered_def [of m domain material "[]"] split: sum.split intro!: logs_if targets review)
qed

lemma logs_distribute_version:
  "logs ct_log (distribute_version p m domain version material previous)
     (\<lambda>r es. inactive es \<and> (r = Inr () \<longrightarrow> delivered m domain material es))"
proof (rule logs_quiet [OF quiet.io_distribute_version])
  have failed: "logs ct_log (State_Monad.bind (activation_failed p m domain version previous) (\<lambda>_. failE err))
      (\<lambda>r es. r = Inr () \<longrightarrow> P es)" for err P
    by (rule logs_mono [OF logs_fails [OF quiet.io_activation_failed]]) simp
  show "logs ct_log (distribute_version p m domain version material previous)
      (\<lambda>r es. r = Inr () \<longrightarrow> delivered m domain material es)"
    unfolding distribute_version_def
    by (intro logs_bind logs_mono [OF logs_distribute]) (auto split: sum.split intro!: logs_okE failed)
qed

text \<open>The marker is set directly before the activation in the tables, which happens at most once.\<close>

definition activates :: "string \<Rightarrow> string \<Rightarrow> cert_event list \<Rightarrow> bool" where
  "activates domain version es \<longleftrightarrow> inactive es \<or>
     (\<exists>before err after. es = before @ CeActivate domain version None # CeActivateVersion domain version err # after \<and>
        inactive before \<and> inactive after)"

lemma activates_after:
  assumes "activates domain version es" and "inactive before"
  shows "activates domain version (before @ es)"
proof (cases "inactive es")
  case True
  then show ?thesis using assms(2) by (simp add: activates_def)
next
  case False
  with assms(1) obtain first err after where "es = first @ CeActivate domain version None # CeActivateVersion domain version err # after"
    and "inactive first" "inactive after" by (auto simp: activates_def)
  with assms(2) show ?thesis unfolding activates_def by (intro disjI2 exI [of _ "before @ first"] exI [of _ err] exI [of _ after]) simp
qed

lemma activates_justified:
  assumes "activates domain version es" and "inactive before" and "checked m domain version before"
  shows "all_justified m [] (before @ es)"
proof -
  have "activates domain version (before @ es)" by (rule activates_after [OF assms(1,2)])
  show ?thesis
  proof (cases "inactive es")
    case True
    then show ?thesis using assms(2) by (simp add: inactive_justified)
  next
    case False
    with assms(1) obtain first err after where es: "es = first @ CeActivate domain version None # CeActivateVersion domain version err # after"
      and quiet: "inactive first" "inactive after" by (auto simp: activates_def)
    have "checked m domain version (before @ first)" by (rule checked_mono [OF assms(3)]) simp
    then show ?thesis
      using activation_justified [of "before @ first" m domain version after err] assms(2) quiet by (simp add: es)
  qed
qed

lemma activates_then:
  assumes "activates domain version es" and "inactive es'"
  shows "activates domain version (es @ es')"
proof (cases "inactive es")
  case True
  then show ?thesis using assms(2) by (simp add: activates_def)
next
  case False
  with assms(1) obtain first err after where "es = first @ CeActivate domain version None # CeActivateVersion domain version err # after"
    and "inactive first" "inactive after" by (auto simp: activates_def)
  with assms(2) show ?thesis unfolding activates_def by (intro disjI2 exI [of _ first] exI [of _ err] exI [of _ "after @ es'"]) simp
qed

lemma activates_now: "inactive es \<Longrightarrow> activates domain version (CeActivate domain version None # CeActivateVersion domain version err # es)"
  unfolding activates_def by (metis append_Nil inactive_simps(1))

lemma logs_store_Activate [log_rules]:
  "(\<And>r. P r [CeActivate domain version r]) \<Longrightarrow> logs ct_log (store_Activate p domain version) P"
  unfolding store_Activate_def by (rule logs_cert_call)

lemma logs_ActivateVersion [log_rules]:
  "(\<And>r. P r [CeActivateVersion domain version r]) \<Longrightarrow> logs ct_log (cert_ActivateVersion p m domain version renewed) P"
  unfolding cert_ActivateVersion_def by (rule logs_cert_tables)

lemma logs_after:
  "logs ct_log c (\<lambda>_ es. activates domain version es) \<Longrightarrow> inactive before \<Longrightarrow>
     logs ct_log c (\<lambda>_ es. activates domain version (before @ es))"
  by (erule logs_mono) (simp add: activates_after)

text \<open>After the two calls of an activation, after a refused marker, and after a look at the marker.\<close>

lemma logs_tail:
  "state_io_rel stays_inactive c \<Longrightarrow> logs ct_log c
     (\<lambda>_ es. activates domain version ([CeActivate domain version None] @ [CeActivateVersion domain version err] @ es))"
  by (rule logs_mono [OF logs_inactive]) (simp_all add: activates_now)

lemma logs_refused:
  "state_io_rel stays_inactive c \<Longrightarrow> logs ct_log c (\<lambda>_ es. activates domain version ([CeActivate domain version (Some err)] @ es))"
  by (rule logs_mono [OF logs_inactive]) (simp_all add: activates_def)

lemma logs_looked:
  "logs ct_log c (\<lambda>_ es. activates domain version es) \<Longrightarrow>
     logs ct_log c (\<lambda>_ es. activates domain version ([CeMarker domain marker] @ es))"
  by (rule logs_after) simp_all

lemmas quiet_rules = quiet.io_rules quiet.io_restore_marker quiet.io_activation_failed quiet.io_restoreDistributedVersion

lemma logs_marker: "(\<And>r marker. P r [CeMarker domain marker]) \<Longrightarrow> logs ct_log (marker_or_empty p domain) P"
  unfolding marker_or_empty_def store_ActiveVersion_def by (intro log_rules) simp

lemmas activation_rules = logs_tail logs_refused logs_looked logs_bind logs_store_Activate logs_ActivateVersion logs_marker

lemma logs_case_activated:
  assumes "\<And>err. logs ct_log (k err) (\<lambda>_ es. activates domain version ([CeActivate domain version (Some err)] @ es))"
    and "logs ct_log c (\<lambda>_ es. activates domain version ([CeActivate domain version None] @ es))"
  shows "logs ct_log (case activated of Some err \<Rightarrow> k err | None \<Rightarrow> c)
    (\<lambda>_ es. activates domain version ([CeActivate domain version activated] @ es))"
  using assms by (cases activated) simp_all

lemma logs_activate_version:
  "logs ct_log (activate_version p m domain version previous) (\<lambda>_ es. activates domain version es)"
  unfolding activate_version_def by (intro logs_case_activated activation_rules quiet_rules)

lemma logs_rollback_activate:
  "logs ct_log (rollback_activate p m domain version previous) (\<lambda>_ es. activates domain version es)"
  unfolding rollback_activate_def by (intro logs_case_activated activation_rules quiet_rules)

lemma bind_or_return:
  "bindE (or_return c (\<lambda>err. err)) f = State_Monad.bind c (\<lambda>e. case e of Some err \<Rightarrow> failE err | None \<Rightarrow> f ())"
  unfolding or_return_def bindE_bind
  by (rule arg_cong [where f = "State_Monad.bind c"]) (auto simp: fun_eq_iff bindE_failE bindE_okE split: option.split)

lemma logs_bootstrap_activate:
  "logs ct_log (bootstrap_activate p m domain version) (\<lambda>_ es. activates domain version es)"
  unfolding bootstrap_activate_def bind_or_return by (intro logs_case_activated activation_rules quiet_rules)

section \<open>Logs of the operations\<close>

text \<open>A call without an activation comes before the rest; the activation comes last.\<close>

lemma logs_step:
  assumes "logs ct_log c (\<lambda>r es. inactive es \<and> Q r es)" and "inactive before"
    and "\<And>a es. inactive es \<Longrightarrow> Q (Inr a) es \<Longrightarrow> logs ct_log (k a) (\<lambda>_ es'. all_justified m [] ((before @ es) @ es'))"
  shows "logs ct_log (bindE c k) (\<lambda>_ es. all_justified m [] (before @ es))"
proof (rule logs_bindE, rule logs_mono [OF assms(1)])
  fix r es
  assume r: "inactive es \<and> Q r es"
  show "case r of Inl err \<Rightarrow> all_justified m [] (before @ es)
    | Inr a \<Rightarrow> logs ct_log (k a) (\<lambda>_ es'. all_justified m [] (before @ es @ es'))"
    using r assms(2,3) by (cases r) (auto simp: inactive_justified)
qed

lemma logs_last:
  assumes "logs ct_log c (\<lambda>_ es. activates domain version es)" and "inactive before" and "checked m domain version before"
  shows "logs ct_log c (\<lambda>_ es. all_justified m [] (before @ es))"
  by (rule logs_mono [OF assms(1)]) (rule activates_justified [OF _ assms(2,3)])

lemma logs_then_quiet:
  assumes "logs ct_log c (\<lambda>_ es. activates domain version es)" and "\<And>a. state_io_rel stays_inactive (k a)"
  shows "logs ct_log (bindE c k) (\<lambda>_ es. activates domain version es)"
proof (rule logs_bindE, rule logs_mono [OF assms(1)])
  fix r es
  assume es: "activates domain version es"
  have "logs ct_log (k a) (\<lambda>_ es'. activates domain version (es @ es'))" for a
    by (rule logs_mono [OF logs_inactive [OF assms(2)]]) (rule activates_then [OF es])
  then show "case r of Inl err \<Rightarrow> activates domain version es | Inr a \<Rightarrow> logs ct_log (k a) (\<lambda>_ es'. activates domain version (es @ es'))"
    using es by (cases r) simp_all
qed

lemma logs_issueAndActivate:
  "logs ct_log (issueAndActivate p m domain previous) (\<lambda>_ es. all_justified m [] ([] @ es))"
  unfolding issueAndActivate_def
proof (rule logs_step [OF logs_issued_material])
  fix issued :: "Material \<times> Info" and es1
  assume 1: "inactive es1" "\<forall>material info. Inr issued = (Inr (material, info) :: go_error + Material \<times> Info) \<longrightarrow>
    CeValidate material domain (Inr info) \<in> set es1"
  obtain material info where issued: "issued = (material, info)" by fastforce
  have activate: "logs ct_log (bindE (activate_version p m domain version previous) (\<lambda>_. do {
      observeExpiry p m domain (info_ExpiresAt info); okE material })) (\<lambda>_ es. activates domain version es)" for version
    by (intro logs_then_quiet logs_activate_version quiet.io_primitive)
  show "logs ct_log (case issued of (material, info) \<Rightarrow>
      bindE (issue_version p m domain material info) (\<lambda>version.
      bindE (distribute_version p m domain version material previous) (\<lambda>_.
      bindE (activate_version p m domain version previous) (\<lambda>_. do {
        observeExpiry p m domain (info_ExpiresAt info);
        okE material
      })))) (\<lambda>_ es'. all_justified m [] (([] @ es1) @ es'))"
    unfolding issued prod.case
  proof (rule logs_step [OF logs_issue_version])
    fix version es2
    assume 2: "inactive es2" "\<forall>v. Inr version = (Inr v :: go_error + string) \<longrightarrow> CeStage domain material (Inr v) \<in> set es2"
    show "logs ct_log (bindE (distribute_version p m domain version material previous) (\<lambda>_.
        bindE (activate_version p m domain version previous) (\<lambda>_. do {
          observeExpiry p m domain (info_ExpiresAt info);
          okE material
        }))) (\<lambda>_ es'. all_justified m [] ((([] @ es1) @ es2) @ es'))"
    proof (rule logs_step [OF logs_distribute_version])
      fix u :: unit and es3
      assume 3: "inactive es3" "Inr u = (Inr () :: go_error + unit) \<longrightarrow> delivered m domain material es3"
      have "checked m domain version ((([] @ es1) @ es2) @ es3)"
        unfolding checked_def using 1(2) 2(2) 3(2) issued
        by (intro exI [of _ material] exI [of _ info]) (auto elim: delivered_mono)
      then show "logs ct_log (bindE (activate_version p m domain version previous) (\<lambda>_. do {
          observeExpiry p m domain (info_ExpiresAt info); okE material }))
        (\<lambda>_ es'. all_justified m [] (((([] @ es1) @ es2) @ es3) @ es'))"
        using 1(1) 2(1) 3(1) by (intro logs_last [OF activate]) simp_all
    qed (simp add: 1 2)
  qed (simp add: 1)
qed simp

text \<open>A found candidate was loaded and is valid.\<close>

definition seen :: "string \<Rightarrow> (Version \<times> Material) option \<Rightarrow> cert_event list \<Rightarrow> bool" where
  "seen domain found es \<longleftrightarrow> (case found of None \<Rightarrow> True | Some (version, material) \<Rightarrow>
     CeLoad domain (ver_Version version) (Inr material) \<in> set es \<and> (\<exists>info. CeValidate material domain (Inr info) \<in> set es))"

lemma seen_None: "seen domain None es"
  by (simp add: seen_def)

lemma seen_after: "seen domain found es' \<Longrightarrow> seen domain found (es @ es')"
  unfolding seen_def by (auto split: option.splits)

lemma seen_now: "seen domain (Some (version, material)) ([CeLoad domain (ver_Version version) (Inr material)] @
    [CeClock t, CeValidate material domain (Inr info)] @ [])"
  by (auto simp: seen_def)

lemma logs_staged_candidate:
  "logs ct_log (staged_candidate p domain versions) (\<lambda>r es. inactive es \<and> seen domain r es)"
proof (rule logs_quiet [OF quiet.io_staged_candidate], induction versions)
  case Nil
  then show ?case by (simp add: logs_return seen_None)
next
  case (Cons version versions)
  have rest: "logs ct_log (staged_candidate p domain versions) (\<lambda>r es'. seen domain r (es @ es'))" for es
    by (rule logs_mono [OF Cons.IH]) (rule seen_after)
  have rest2: "logs ct_log (staged_candidate p domain versions) (\<lambda>r es'. seen domain r (es1 @ es2 @ es'))" for es1 es2
    using rest [of "es1 @ es2"] by simp
  have found: "logs ct_log (State_Monad.return (Some (version, material)))
      (\<lambda>r es'. seen domain r ([CeLoad domain (ver_Version version) (Inr material)] @ [CeClock t, CeValidate material domain (Inr info)] @ es'))"
    for material t info
    by (intro logs_return seen_now)
  show ?case
    unfolding staged_candidate.simps store_Load_def
    by (intro logs_if Cons.IH logs_bind logs_cert_call)
      (split sum.split, intro conjI allI impI rest logs_bind logs_Validate, split sum.split,
        intro conjI allI impI rest2 logs_if; hypsubst?; rule found)
qed

lemma logs_rollback_to:
  assumes "CeLoad domain version (Inr material) \<in> set before" and "CeValidate material domain (Inr info) \<in> set before"
    and "inactive before"
  shows "logs ct_log (rollback_to p m domain version previous material) (\<lambda>_ es. all_justified m [] (before @ es))"
proof -
  have failed: "logs ct_log (State_Monad.bind (restoreDistributedVersion p m domain previous) (\<lambda>_. failE err))
      (\<lambda>_ es'. all_justified m [] (before @ es @ es'))" if "inactive es" for es and err :: go_error
    by (rule logs_mono [OF logs_fails [OF quiet.io_restoreDistributedVersion]])
      (use assms(3) that in \<open>auto intro!: inactive_justified\<close>)
  have activate: "logs ct_log (rollback_activate p m domain version previous) (\<lambda>_ es'. all_justified m [] (before @ es @ es'))"
    if "inactive es" "delivered m domain material es" for es
  proof -
    have "checked m domain version (before @ es)"
      unfolding checked_def using assms(1,2) that(2) by (intro exI [of _ material] exI [of _ info]) (auto elim: delivered_mono)
    then show ?thesis
      using logs_last [OF logs_rollback_activate, of "before @ es"] assms(3) that(1) by simp
  qed
  show ?thesis
    unfolding rollback_to_def
    by (intro logs_bind logs_mono [OF logs_distribute]) (auto split: sum.split intro!: failed activate)
qed

lemma logs_rollback_locked:
  "logs ct_log (rollback_locked p m domain version) (\<lambda>_ es. all_justified m [] es)"
proof -
  have loaded: "logs ct_log (rollback_to p m domain version previous material) (\<lambda>_ es. all_justified m []
      ([CeListVersions domain listed] @ [CeGetActive domain active] @ [CeLoad domain version (Inr material)] @
        [CeClock t, CeValidate material domain (Inr info)] @ es))" for previous material listed active t info
    using logs_rollback_to [of domain version material "[CeListVersions domain listed] @ [CeGetActive domain active] @
      [CeLoad domain version (Inr material)] @ [CeClock t, CeValidate material domain (Inr info)]" info]
    by simp
  have invalid: "logs ct_log (failE err) (\<lambda>_ es. all_justified m []
      ([CeListVersions domain listed] @ [CeGetActive domain active] @ [CeLoad domain version (Inr material)] @
        [CeClock t, CeValidate material domain (Inl err')] @ es))" for err err' material listed active t
    by (intro logs_failE) simp
  show ?thesis
    unfolding rollback_locked_def cert_ListVersions_def cert_GetActive_def store_Load_def
    by (intro logs_bind logs_cert_tables)
      (auto split: sum.split intro!: log_rules loaded [simplified] invalid [simplified])
qed

lemma logs_acknowledge:
  "logs ct_log (acknowledgeLegacyTargets p m domain resolution operatorUserID) (\<lambda>r es. inactive es \<and>
     (r \<in> range Inr \<longrightarrow> list_all (\<lambda>ip. \<exists>operator. CeReview (acknowledged_review domain operator ip) None \<in> set es) (tgs_Unmanaged resolution)))"
proof (rule logs_quiet [OF quiet.io_acknowledgeLegacyTargets])
  show "logs ct_log (acknowledgeLegacyTargets p m domain resolution operatorUserID) (\<lambda>r es.
      r \<in> range Inr \<longrightarrow> list_all (\<lambda>ip. \<exists>operator. CeReview (acknowledged_review domain operator ip) None \<in> set es) (tgs_Unmanaged resolution))"
    unfolding acknowledgeLegacyTargets_def
    by (intro logs_bindE logs_mono [OF logs_review_unmanaged])
      (auto split: sum.split intro!: logs_okE simp: list_all_iff)
qed

lemma logs_bootstrap_candidate:
  assumes "CeLoad domain (ver_Version candidate) (Inr material) \<in> set before"
    and "CeValidate material domain (Inr info) \<in> set before" and "inactive before"
  shows "logs ct_log (bootstrap_candidate p m domain operatorUserID candidate material) (\<lambda>_ es. all_justified m [] (before @ es))"
  unfolding bootstrap_candidate_def
proof (rule logs_step [OF logs_resolve_targets])
  fix resolution es1
  assume 1: "inactive es1" "\<forall>res. Inr resolution = (Inr res :: go_error + TargetResolution) \<longrightarrow> CeResolve domain (Inr res) \<in> set es1"
  let ?activate = "\<lambda>acknowledged. bindE (bootstrap_activate p m domain (ver_Version candidate)) (\<lambda>_. do {
       observeExpiry p m domain (ver_ExpiresAt candidate);
       okE \<lparr>br_SNI = domain, br_Version = ver_Version candidate,
            br_ManagedTargets = length (tgs_Managed resolution), br_AcknowledgedLegacyIPs = acknowledged\<rparr>
     })"
  have activate: "logs ct_log (?activate acknowledged) (\<lambda>_ es. activates domain (ver_Version candidate) es)" for acknowledged
    by (intro logs_then_quiet logs_bootstrap_activate quiet.io_primitive)
  show "logs ct_log (bindE (acknowledgeLegacyTargets p m domain resolution operatorUserID) (\<lambda>acknowledged.
      bindE (distributeTargets p m domain (ver_Version candidate) material (tgs_Managed resolution)) (\<lambda>_. ?activate acknowledged)))
    (\<lambda>_ es'. all_justified m [] ((before @ es1) @ es'))"
  proof (rule logs_step [OF logs_acknowledge])
    fix acknowledged es2
    assume 2: "inactive es2" "(Inr acknowledged :: go_error + nat) \<in> range Inr \<longrightarrow>
      list_all (\<lambda>ip. \<exists>operator. CeReview (acknowledged_review domain operator ip) None \<in> set es2) (tgs_Unmanaged resolution)"
    show "logs ct_log (bindE (distributeTargets p m domain (ver_Version candidate) material (tgs_Managed resolution))
        (\<lambda>_. ?activate acknowledged)) (\<lambda>_ es'. all_justified m [] (((before @ es1) @ es2) @ es'))"
    proof (rule logs_step [OF logs_distributeTargets])
      fix u :: unit and es3
      assume 3: "inactive es3" "Inr u = (Inr () :: go_error + unit) \<longrightarrow> accepted domain material (tgs_Managed resolution) es3"
      have "CeResolve domain (Inr resolution) \<in> set (((before @ es1) @ es2) @ es3)" using 1(2) by simp
      moreover have "accepted domain material (tgs_Managed resolution) (((before @ es1) @ es2) @ es3)"
        using 3(2) by (auto elim: accepted_mono)
      moreover have "list_all (\<lambda>ip. \<exists>operator. CeReview (acknowledged_review domain operator ip) None \<in>
          set (((before @ es1) @ es2) @ es3)) (tgs_Unmanaged resolution)"
        using 2(2) by (auto simp: list_all_iff)
      ultimately have "delivered m domain material (((before @ es1) @ es2) @ es3)" unfolding delivered_def by blast
      then have "checked m domain (ver_Version candidate) (((before @ es1) @ es2) @ es3)"
        unfolding checked_def using assms(1,2) by (intro exI [of _ material] exI [of _ info]) simp
      then show "logs ct_log (?activate acknowledged) (\<lambda>_ es'. all_justified m [] ((((before @ es1) @ es2) @ es3) @ es'))"
        using assms(3) 1(1) 2(1) 3(1) by (intro logs_last [OF activate]) simp_all
    qed (simp add: assms 1 2)
  qed (simp add: assms 1)
qed (rule assms)

lemma logs_bootstrap_staged:
  "logs ct_log (bootstrap_staged p m domain operatorUserID) (\<lambda>_ es. all_justified m [] es)"
proof -
  have candidate: "logs ct_log (bootstrap_candidate p m domain operatorUserID candidate material)
      (\<lambda>_ es'. all_justified m [] ([CeListVersions domain listed] @ es @ es'))"
    if quiet: "inactive es" and found: "seen domain (Some (candidate, material)) es" for candidate material listed es
  proof -
    obtain info where "CeLoad domain (ver_Version candidate) (Inr material) \<in> set es"
      "CeValidate material domain (Inr info) \<in> set es" using found by (auto simp: seen_def)
    then show ?thesis
      using logs_bootstrap_candidate [of domain candidate material "CeListVersions domain listed # es" info] quiet by simp
  qed
  show ?thesis
    unfolding bootstrap_staged_def cert_ListVersions_def
    by (intro logs_bind logs_cert_tables)
      (auto split: sum.split option.split intro!: logs_failE logs_bind logs_if logs_mono [OF logs_staged_candidate]
        inactive_justified candidate [simplified])
qed

section \<open>Every activation is justified\<close>

definition activations_justified :: "CertManager \<Rightarrow> 'w cert \<Rightarrow> 'w cert \<Rightarrow> bool" where
  "activations_justified m s t \<longleftrightarrow> (\<exists>es. ct_log t = ct_log s @ es \<and> all_justified m [] es)"

lemma logs_justified:
  "logs ct_log c (\<lambda>_ es. all_justified m [] es) \<longleftrightarrow> state_io_rel (activations_justified m) c"
  by (simp add: logs_def state_io_rel_def activations_justified_def)

interpretation active: cert_ops "activations_justified m" p m domain "\<lambda>e. \<not> is_activation e"
  for p :: "'w cert_ports" and m :: CertManager and domain :: string
proof unfold_locales
  show "activations_justified m s s" for s :: "'w cert" by (simp add: activations_justified_def)
  show "activations_justified m s u" if "activations_justified m s t" "activations_justified m t u" for s t u :: "'w cert"
    using that all_justified_mono [of m "[]"] by (auto simp: activations_justified_def all_justified_append)
  show "state_io_rel (activations_justified m) (issueAndActivate p m domain previous)" for previous
    using logs_issueAndActivate [of p m domain previous] by (simp add: logs_justified)
  show "state_io_rel (activations_justified m) (bootstrap_staged p m domain operatorUserID)" for operatorUserID
    using logs_bootstrap_staged by (simp add: logs_justified)
  show "state_io_rel (activations_justified m) (rollback_locked p m domain version)" for version
    using logs_rollback_locked by (simp add: logs_justified)
qed (auto simp: activations_justified_def split: cert_event.split)

interpretation active_service: cert_service "activations_justified m" p m "\<lambda>e. \<not> is_activation e"
  for p :: "'w cert_ports" and m :: CertManager
  by unfold_locales simp_all

text \<open>The log of every run of \<open>c\<close>: each activation in the tables is justified by the events before it.\<close>

definition activates_justified_only :: "CertManager \<Rightarrow> ('w cert, 'a) state \<Rightarrow> bool" where
  "activates_justified_only m c \<longleftrightarrow> (\<forall>s. \<exists>es. ct_log (exec_state c s) = ct_log s @ es \<and> all_justified m [] es)"

lemma justified_only: "activates_justified_only m c \<longleftrightarrow> state_io_rel (activations_justified m) c"
  by (simp add: activates_justified_only_def state_io_rel_def activations_justified_def)

text \<open>
  C9. Whatever the manager is asked to do and the store, the issuer, the Nodes and the database
  answer, it makes a version active in the tables only directly after it has set the store marker
  to that version, and only when its material was staged or loaded, validated for the domain in the
  same run, accepted by every Node behind the domain, and every other address behind the domain was
  acknowledged by an operator (a manager without a resolver delivers to no Node).
\<close>

theorem manager_activation_justified:
  "activates_justified_only m (Readiness p m sni) \<and> activates_justified_only m (Cert_Prepare p m sni) \<and>
   activates_justified_only m (Renew p m sni) \<and> activates_justified_only m (Bootstrap p m sni operatorUserID) \<and>
   activates_justified_only m (Rollback p m sni version) \<and> activates_justified_only m (RenewDue p m)"
  unfolding justified_only by (intro conjI active_service.io_manager)

section \<open>What Prepare answers\<close>

definition validated :: "string \<Rightarrow> go_error + Material \<Rightarrow> cert_event list \<Rightarrow> bool" where
  "validated domain r es \<longleftrightarrow> (case r of Inl _ \<Rightarrow> True | Inr material \<Rightarrow>
     \<exists>info. CeValidate material domain (Inr info) \<in> set es)"

lemma validated_Inl [simp]: "validated domain (Inl err) es"
  by (simp add: validated_def)

lemma validated_now: "CeValidate material domain (Inr info) \<in> set es \<Longrightarrow> validated domain (Inr material) es"
  by (auto simp: validated_def)

lemma validated_mono: "validated domain r es \<Longrightarrow> set es \<subseteq> set es' \<Longrightarrow> validated domain r es'"
  unfolding validated_def by (auto split: sum.splits)

lemma logs_loadActive:
  "logs ct_log (loadActive p m domain repairMarker) (\<lambda>r es.
     \<forall>record material. r = Inr (record, material) \<longrightarrow> validated domain (Inr material) es)"
  unfolding loadActive_def repair_marker_def cert_GetActive_def store_ActiveVersion_def store_Load_def store_Activate_def
  by (intro log_rules) (auto simp: validated_def split: sum.split option.split intro!: log_rules)

text \<open>Calls after the validation only append to the log.\<close>

lemma logs_appends: "logs ct_log c P \<Longrightarrow> logs ct_log c (\<lambda>_ _. True)"
  by (erule logs_mono) simp

lemmas logs_parts_append = logs_appends [OF logs_issue_version] logs_appends [OF logs_distribute_version]
  logs_appends [OF logs_activate_version] logs_appends [OF logs_inactive [OF quiet.io_observe(1)]]
  logs_appends [OF logs_inactive [OF quiet.io_observe(2)]] logs_appends [OF logs_inactive [OF quiet.io_clock]]

lemma validated_bindE:
  assumes "logs ct_log c (\<lambda>_ _. True)"
    and "\<And>a after. set before \<subseteq> set after \<Longrightarrow> logs ct_log (k a) (\<lambda>r es. validated domain r (after @ es))"
  shows "logs ct_log (bindE c k) (\<lambda>r es. validated domain r (before @ es))"
  by (intro logs_bindE logs_mono [OF assms(1)]) (use assms(2) [of "before @ _"] in \<open>auto split: sum.split\<close>)

lemma validated_bind:
  assumes "logs ct_log c (\<lambda>_ _. True)"
    and "\<And>a after. set before \<subseteq> set after \<Longrightarrow> logs ct_log (k a) (\<lambda>r es. validated domain r (after @ es))"
  shows "logs ct_log (State_Monad.bind c k) (\<lambda>r es. validated domain r (before @ es))"
  by (intro logs_bind logs_mono [OF assms(1)]) (use assms(2) [of "before @ _"] in auto)

lemma validated_okE:
  "validated domain (Inr material) before \<Longrightarrow> set before \<subseteq> set after \<Longrightarrow>
     logs ct_log (okE material) (\<lambda>r es. validated domain r (after @ es))"
  by (rule logs_okE) (erule validated_mono, auto)

lemma logs_issue_validated:
  "logs ct_log (issueAndActivate p m domain previous) (\<lambda>r es. validated domain r ([] @ es))"
proof -
  have rest: "logs ct_log (bindE (issue_version p m domain material info) (\<lambda>version.
      bindE (distribute_version p m domain version material previous) (\<lambda>_.
      bindE (activate_version p m domain version previous) (\<lambda>_. do {
        observeExpiry p m domain (info_ExpiresAt info);
        okE material
      })))) (\<lambda>r es'. validated domain r (before @ es'))"
    if "validated domain (Inr material) before" for material info before
    by (intro validated_bindE validated_bind logs_parts_append validated_okE [OF that]) simp
  show ?thesis
    unfolding issueAndActivate_def
    by (intro logs_bindE logs_mono [OF logs_issued_material])
      (auto split: sum.split intro!: rest intro: validated_now)
qed

lemma logs_prepare_validated:
  "logs ct_log (prepare_locked p m domain) (\<lambda>r es. validated domain r es)"
proof -
  have issue: "logs ct_log (issueAndActivate p m domain previous) (\<lambda>r es. validated domain r (before @ es))" for previous before
    by (rule logs_mono [OF logs_issue_validated]) (erule validated_mono, simp)
  have renew: "logs ct_log (renew_active p m domain old material) (\<lambda>r es. validated domain r (before @ es))"
    if "validated domain (Inr material) before" for old material before
    unfolding renew_active_def
  proof (intro logs_bind logs_mono [OF issue])
    fix renewed es
    assume r: "validated domain renewed (before @ es)"
    have keep: "logs ct_log (do { renewalFailed m domain; now \<leftarrow> cert_clock p;
        if now < rec_ExpiresAt old then okE material else failE err }) (\<lambda>r es'. validated domain r (after @ es'))"
      if "set before \<subseteq> set after" for err after
      by (intro validated_bind logs_parts_append logs_if logs_failE validated_Inl validated_okE [OF \<open>validated domain (Inr material) before\<close>])
        (use that in auto)
    show "logs ct_log (case renewed of Inr material \<Rightarrow> okE material | Inl err \<Rightarrow> do { renewalFailed m domain; now \<leftarrow> cert_clock p;
        if now < rec_ExpiresAt old then okE material else failE err }) (\<lambda>r es'. validated domain r (before @ es @ es'))"
      using r keep [of "before @ es"] by (cases renewed) (auto intro: logs_okE)
  qed
  have loaded: "logs ct_log (prepare_loaded p m domain loaded) (\<lambda>r es. validated domain r (before @ es))"
    if "\<And>record material. loaded = Inr (record, material) \<Longrightarrow> validated domain (Inr material) before" for loaded before
  proof (cases loaded)
    case (Inl err)
    then show ?thesis unfolding prepare_loaded_def by (auto intro!: logs_if logs_failE issue)
  next
    case (Inr found)
    then obtain old material where found: "loaded = Inr (old, material)" by (cases found) auto
    have valid: "validated domain (Inr material) after" if "set before \<subseteq> set after" for after
      by (rule validated_mono [OF \<open>\<And>record material. loaded = Inr (record, material) \<Longrightarrow> validated domain (Inr material) before\<close>])
        (use found that in auto)
    show ?thesis
      unfolding prepare_loaded_def found sum.case prod.case
      by (intro validated_bind logs_parts_append logs_if validated_okE [OF valid] renew valid) auto
  qed
  show ?thesis
    unfolding prepare_locked_def
    by (intro logs_bind logs_mono [OF logs_loadActive] loaded) simp
qed

definition served :: "string \<Rightarrow> go_error + Material \<Rightarrow> cert_event list \<Rightarrow> bool" where
  "served sni r es \<longleftrightarrow> (case r of Inl _ \<Rightarrow> True | Inr material \<Rightarrow>
     \<exists>domain info. canonicalSNI sni = Inr domain \<and> CeValidate material domain (Inr info) \<in> set es)"

text \<open>
  C37. Prepare hands out material only for a canonical domain, and only material that was found valid for
  that domain in the same run, whether it was the active version or a new one.
\<close>

theorem Prepare_only_valid: "logs ct_log (Cert_Prepare p m sni) (served sni)"
  unfolding Cert_Prepare_def with_cert_lock_def lock_failed_def
  by (rule logs_bindE_liftE)
    (auto intro!: log_rules logs_mono [OF logs_prepare_validated] simp: validated_def served_def split: option.split sum.splits)

text \<open>
  C10. A failed renewal does not take the service down: as long as the active version has not
  expired, Prepare answers with material once it holds the lock and has loaded the active version,
  whatever the issuer, the store, the Nodes and the tables answer to the renewal.
\<close>

theorem Prepare_keeps_serving:
  assumes "canonicalSNI sni = Inr domain" and "ca_Lock p domain (ct_world s) = (None, w)"
    and "run_state (loadActive p m domain True) (s\<lparr>ct_world := w, ct_log := ct_log s @ [CeLock domain True]\<rparr>) = (Inr (old, active), t)"
    and "\<And>v. fst (ca_now p v) < rec_ExpiresAt old"
  shows "\<exists>material. result_of (Cert_Prepare p m sni) s = Inr material"
proof -
  have clock: "result_of (cert_clock p) u < rec_ExpiresAt old" for u
    using assms(4) [of "ct_world u"] by (simp add: cert_clock_def cert_call_def case_prod_beta)
  have renew: "\<exists>material. result_of (renew_active p m domain old active) u = Inr material" for u
    unfolding renew_active_def
    by (cases "run_state (issueAndActivate p m domain (Some old)) u") (auto simp: clock okE_def case_prod_beta split: sum.split)
  have "\<exists>material. result_of (prepare_loaded p m domain (Inr (old, active))) u = Inr material" for u
    unfolding prepare_loaded_def by (auto simp: renew okE_def case_prod_beta)
  then have "\<exists>material. result_of (prepare_locked p m domain) (s\<lparr>ct_world := w, ct_log := ct_log s @ [CeLock domain True]\<rparr>) = Inr material"
    unfolding prepare_locked_def using assms(3) by simp
  then show ?thesis
    unfolding Cert_Prepare_def with_cert_lock_def
    using assms(1,2) by (auto simp: cert_call_def case_prod_beta bindE_def liftE_def)
qed

definition demo_record :: Record where
  "demo_record = \<lparr>rec_SNI = ''a.io'', rec_Fingerprint = ''f'', rec_Serial = ''1'', rec_IssuedAt = 1, rec_ExpiresAt = 9,
     rec_LastRenewedAt = None, rec_Status = StatusActive, rec_ActiveVersion = ''v'', rec_UpdatedAt = 4\<rparr>"

lemma demo_loadActive:
  "result_of (loadActive demo_cert_ports demo_manager ''a.io'' True)
     (demo_cert\<lparr>ct_world := (), ct_log := ct_log demo_cert @ [CeLock ''a.io'' True]\<rparr>) = Inr (demo_record, demo_material)"
  by code_simp

theorem Prepare_keeps_serving_witness:
  "\<exists>material. result_of (Cert_Prepare demo_cert_ports demo_manager ''A.io.'') demo_cert = Inr material"
proof -
  have sni: "canonicalSNI ''A.io.'' = Inr ''a.io''" by code_simp
  have lock: "ca_Lock demo_cert_ports ''a.io'' (ct_world demo_cert) = (None, ())"
    and clock: "fst (ca_now demo_cert_ports v) < rec_ExpiresAt demo_record" for v
    by (simp_all add: demo_cert_ports_def demo_record_def)
  obtain t where run: "run_state (loadActive demo_cert_ports demo_manager ''a.io'' True)
      (demo_cert\<lparr>ct_world := (), ct_log := ct_log demo_cert @ [CeLock ''a.io'' True]\<rparr>) = (Inr (demo_record, demo_material), t)"
    using demo_loadActive by (metis prod.collapse)
  show ?thesis by (rule Prepare_keeps_serving [OF sni lock run clock])
qed

end
