(* ===== verification/Host_Keys.thy ===== *)
theory Host_Keys
  imports Repository
begin

text \<open>
  Trust on first use of SSH host keys: the two stores of trusted fingerprints
  (\<^verbatim>\<open>internal/ssh/hostkey.go\<close>, \<^verbatim>\<open>internal/repository/postgres/hostkey.go\<close>), the host key session of
  one connection attempt, and the client (\<^verbatim>\<open>internal/ssh/client.go\<close>) as a machine in which any number
  of connections interleave.  The SSH library is the environment: it calls the host key callback
  with the key the server presents, and a handshake succeeds only when no callback of the attempt
  returned an error, as its documentation says.
\<close>

section \<open>Stores of trusted fingerprints\<close>

text \<open>
  \<^verbatim>\<open>HostKeyStore\<close>: what becomes of a call is an argument (for the store in memory, anything but
  \<open>DbOk\<close> is an ended context).
\<close>

record 'st HostKeyStore =
  hk_Get :: "db_outcome \<Rightarrow> string \<Rightarrow> 'st \<Rightarrow> go_error + (string \<times> bool)"
  hk_StoreIfAbsent :: "db_outcome \<Rightarrow> time \<Rightarrow> string \<Rightarrow> string \<Rightarrow> 'st \<Rightarrow> (go_error + (string \<times> bool)) \<times> 'st"

type_synonym fingerprints = "string \<Rightarrow> string option"

definition memory_Get :: "db_outcome \<Rightarrow> string \<Rightarrow> fingerprints \<Rightarrow> go_error + (string \<times> bool)" where
  "memory_Get oc deploymentID fingerprints =
     (if oc \<noteq> DbOk then Inl CtxCanceled
      else case fingerprints deploymentID of
        None \<Rightarrow> Inr ([], False)
      | Some fingerprint \<Rightarrow> Inr (fingerprint, True))"

definition memory_StoreIfAbsent ::
  "db_outcome \<Rightarrow> time \<Rightarrow> string \<Rightarrow> string \<Rightarrow> fingerprints \<Rightarrow> (go_error + (string \<times> bool)) \<times> fingerprints" where
  "memory_StoreIfAbsent oc now deploymentID fingerprint fingerprints =
     (if oc \<noteq> DbOk then (Inl CtxCanceled, fingerprints)
      else case fingerprints deploymentID of
        Some trusted \<Rightarrow> (Inr (trusted, False), fingerprints)
      | None \<Rightarrow> (Inr (fingerprint, True), fingerprints(deploymentID \<mapsto> fingerprint)))"

definition MemoryHostKeyStore :: "fingerprints HostKeyStore" where
  "MemoryHostKeyStore = \<lparr>hk_Get = memory_Get, hk_StoreIfAbsent = memory_StoreIfAbsent\<rparr>"

text \<open>The column \<^verbatim>\<open>ssh_host_key_fingerprint\<close> of the deployments, beside the other columns.\<close>

record hostkey_rows =
  hr_database :: database
  hr_fingerprint :: fingerprints

definition postgres_Get :: "db_outcome \<Rightarrow> string \<Rightarrow> hostkey_rows \<Rightarrow> go_error + (string \<times> bool)" where
  "postgres_Get oc deploymentID rows =
     (if \<not> validUUID deploymentID then Inl RepoInvalidArgument
      else case uuid_column deploymentID of
        None \<Rightarrow> Inl RepoQueryFailed
      | Some key \<Rightarrow>
          if oc \<noteq> DbOk then Inl RepoQueryFailed
          else case dep_lookup key (deployments (hr_database rows)) of
            None \<Rightarrow> Inl RepoNotFound
          | Some _ \<Rightarrow> (case hr_fingerprint rows key of
              None \<Rightarrow> Inr ([], False)
            | Some fingerprint \<Rightarrow> Inr (fingerprint, True)))"

definition pin :: "string \<Rightarrow> time \<Rightarrow> string \<Rightarrow> hostkey_rows \<Rightarrow> hostkey_rows" where
  "pin key now fingerprint rows =
     (case dep_lookup key (deployments (hr_database rows)) of
        None \<Rightarrow> rows
      | Some _ \<Rightarrow> rows\<lparr>
          hr_database := (hr_database rows)\<lparr>deployments :=
            dep_modify key (\<lambda>row. row\<lparr>dep_UpdatedAt := now\<rparr>) (deployments (hr_database rows))\<rparr>,
          hr_fingerprint := (hr_fingerprint rows)(key :=
            Some (case hr_fingerprint rows key of None \<Rightarrow> fingerprint | Some trusted \<Rightarrow> trusted))\<rparr>)"

definition postgres_StoreIfAbsent ::
  "db_outcome \<Rightarrow> time \<Rightarrow> string \<Rightarrow> string \<Rightarrow> hostkey_rows \<Rightarrow> (go_error + (string \<times> bool)) \<times> hostkey_rows" where
  "postgres_StoreIfAbsent oc now deploymentID fingerprint rows =
     (if \<not> validUUID deploymentID then (Inl RepoInvalidArgument, rows)
      else if \<not> HasPrefix fingerprint ''SHA256:'' \<or> length fingerprint \<le> length ''SHA256:''
      then (Inl RepoInvalidArgument, rows)
      else case uuid_column deploymentID of
        None \<Rightarrow> (Inl RepoQueryFailed, rows)
      | Some key \<Rightarrow>
          (case oc of
             DbError \<Rightarrow> (Inl RepoQueryFailed, rows)
           | DbLost \<Rightarrow> (Inl RepoQueryFailed, pin key now fingerprint rows)
           | DbOk \<Rightarrow>
               (case dep_lookup key (deployments (hr_database rows)) of
                  None \<Rightarrow> (Inl RepoNotFound, rows)
                | Some _ \<Rightarrow> (Inr (case hr_fingerprint rows key of
                      None \<Rightarrow> (fingerprint, True) | Some trusted \<Rightarrow> (trusted, False)),
                    pin key now fingerprint rows))))"

definition PostgresHostKeyStore :: "hostkey_rows HostKeyStore" where
  "PostgresHostKeyStore = \<lparr>hk_Get = postgres_Get, hk_StoreIfAbsent = postgres_StoreIfAbsent\<rparr>"

text \<open>
  The contract of a store: \<open>trusted\<close> is the fingerprint it holds for a deployment.  A successful
  store answers with it, and no call ever replaces it.
\<close>

locale host_key_store =
  fixes store :: "'st HostKeyStore" and trusted :: "'st \<Rightarrow> string \<Rightarrow> string option"
  assumes get_found: "hk_Get store oc d st = Inr (fingerprint, True) \<Longrightarrow> trusted st d = Some fingerprint"
    and get_absent: "hk_Get store oc d st = Inr (fingerprint, False) \<Longrightarrow> trusted st d = None"
    and store_answers: "hk_StoreIfAbsent store oc now d candidate st = (Inr (fingerprint, stored), st') \<Longrightarrow>
      trusted st' d = Some fingerprint"
    and store_keeps: "hk_StoreIfAbsent store oc now d candidate st = (r, st') \<Longrightarrow>
      trusted st d' = Some fingerprint \<Longrightarrow> trusted st' d' = Some fingerprint"

interpretation memory_keys: host_key_store MemoryHostKeyStore "\<lambda>fingerprints. fingerprints"
  by unfold_locales
    (auto simp: MemoryHostKeyStore_def memory_Get_def memory_StoreIfAbsent_def split: if_splits option.splits)

definition pinned_fingerprint :: "hostkey_rows \<Rightarrow> string \<Rightarrow> string option" where
  "pinned_fingerprint rows deploymentID =
     (case uuid_column deploymentID of None \<Rightarrow> None | Some key \<Rightarrow> hr_fingerprint rows key)"

lemma pin_keeps: "hr_fingerprint rows key' = Some f \<Longrightarrow> hr_fingerprint (pin key now fingerprint rows) key' = Some f"
  by (auto simp: pin_def split: option.splits)

interpretation postgres_keys: host_key_store PostgresHostKeyStore pinned_fingerprint
proof
  fix oc now d candidate fingerprint stored r d' and st st' :: hostkey_rows
  show "pinned_fingerprint st d = Some fingerprint" if "hk_Get PostgresHostKeyStore oc d st = Inr (fingerprint, True)"
    using that by (simp add: PostgresHostKeyStore_def postgres_Get_def pinned_fingerprint_def split: if_splits option.splits)
  show "pinned_fingerprint st d = None" if "hk_Get PostgresHostKeyStore oc d st = Inr (fingerprint, False)"
    using that by (simp add: PostgresHostKeyStore_def postgres_Get_def pinned_fingerprint_def split: if_splits option.splits)
  show "pinned_fingerprint st' d = Some fingerprint"
    if "hk_StoreIfAbsent PostgresHostKeyStore oc now d candidate st = (Inr (fingerprint, stored), st')"
    using that by (auto simp: PostgresHostKeyStore_def postgres_StoreIfAbsent_def pinned_fingerprint_def pin_def
        split: if_splits option.splits db_outcome.splits)
  show "pinned_fingerprint st' d' = Some fingerprint"
    if "hk_StoreIfAbsent PostgresHostKeyStore oc now d candidate st = (r, st')" "pinned_fingerprint st d' = Some fingerprint"
    using that by (auto simp: PostgresHostKeyStore_def postgres_StoreIfAbsent_def pinned_fingerprint_def pin_keeps
        split: if_splits option.splits db_outcome.splits)
qed

section \<open>The session of one attempt\<close>

datatype ssh_error =
    InvalidConfiguration
  | HostKeyChanged string string
  | HostKeyStoreFailed go_error
  | NoHostKey
  | NotEstablished
  | ContextEnded

record hostKeySession =
  hs_deploymentID :: string
  hs_candidate :: string

definition newHostKeySession :: "string \<Rightarrow> hostKeySession" where
  "newHostKeySession deploymentID = \<lparr>hs_deploymentID = deploymentID, hs_candidate = []\<rparr>"

text \<open>\<^verbatim>\<open>callback\<close> under \<^verbatim>\<open>s.mu\<close>, after the fingerprint was compared with the trusted one.\<close>

definition propose :: "string \<Rightarrow> hostKeySession \<Rightarrow> ssh_error option \<times> hostKeySession" where
  "propose fingerprint session =
     (if hs_candidate session \<noteq> [] \<and> hs_candidate session \<noteq> fingerprint
      then (Some (HostKeyChanged (hs_candidate session) fingerprint), session)
      else (None, session\<lparr>hs_candidate := fingerprint\<rparr>))"

definition callback ::
  "'st HostKeyStore \<Rightarrow> db_outcome \<Rightarrow> string \<Rightarrow> 'st \<Rightarrow> hostKeySession \<Rightarrow> ssh_error option \<times> hostKeySession" where
  "callback store oc fingerprint st session =
     (case hk_Get store oc (hs_deploymentID session) st of
        Inl err \<Rightarrow> (Some (HostKeyStoreFailed err), session)
      | Inr (trusted, found) \<Rightarrow>
          if found \<and> trusted \<noteq> fingerprint then (Some (HostKeyChanged trusted fingerprint), session)
          else propose fingerprint session)"

definition accepted_key :: "hostKeySession \<Rightarrow> bool" where
  "accepted_key session \<longleftrightarrow> hs_candidate session \<noteq> []"

definition commit_key ::
  "'st HostKeyStore \<Rightarrow> db_outcome \<Rightarrow> time \<Rightarrow> hostKeySession \<Rightarrow> 'st \<Rightarrow> ssh_error option \<times> 'st" where
  "commit_key store oc now session st =
     (let candidate = hs_candidate session in
      if candidate = [] then (Some NoHostKey, st)
      else case hk_StoreIfAbsent store oc now (hs_deploymentID session) candidate st of
        (Inl err, st') \<Rightarrow> (Some (HostKeyStoreFailed err), st')
      | (Inr (trusted, _), st') \<Rightarrow>
          (if trusted \<noteq> candidate then Some (HostKeyChanged trusted candidate) else None, st'))"

section \<open>The client\<close>

text \<open>The names of the library's constants, one list of algorithms for each attempt.\<close>

definition pinnedHostKeyAlgorithmAttempts :: "string list list" where
  "pinnedHostKeyAlgorithmAttempts = map (\<lambda>name. [name])
     [''CertAlgoED25519v01'', ''CertAlgoECDSA256v01'', ''CertAlgoECDSA384v01'', ''CertAlgoECDSA521v01'',
      ''CertAlgoRSASHA512v01'', ''CertAlgoRSASHA256v01'', ''KeyAlgoED25519'', ''KeyAlgoECDSA256'',
      ''KeyAlgoECDSA384'', ''KeyAlgoECDSA521'', ''KeyAlgoRSASHA512'', ''KeyAlgoRSASHA256'']"

text \<open>
  Where a connection is: in the handshake of an attempt (with the attempts that are left, and whether
  a callback has refused a key), authenticated but not yet committed, established, or given up.
\<close>

datatype ssh_pc =
    NotStarted
  | Handshake hostKeySession "string list list" bool
  | Authenticated hostKeySession "string list list"
  | Established string string
  | GivenUp ssh_error

record 'st ssh =
  ssh_store :: 'st
  ssh_pc :: "nat \<Rightarrow> ssh_pc"

fun next_attempt :: "string \<Rightarrow> ssh_error \<Rightarrow> string list list \<Rightarrow> ssh_pc" where
  "next_attempt deploymentID lastErr [] = GivenUp lastErr"
| "next_attempt deploymentID lastErr (algorithms # attempts) =
     Handshake (newHostKeySession deploymentID) attempts False"

text \<open>\<^verbatim>\<open>connect\<close> up to its loop, and what the loop does with a failed attempt.\<close>

definition connect_start :: "'st HostKeyStore \<Rightarrow> db_outcome \<Rightarrow> string \<Rightarrow> 'st \<Rightarrow> ssh_pc" where
  "connect_start store oc deploymentID st =
     (if TrimSpace deploymentID = [] then GivenUp InvalidConfiguration
      else case hk_Get store oc deploymentID st of
        Inl err \<Rightarrow> GivenUp (HostKeyStoreFailed err)
      | Inr (_, pinned) \<Rightarrow>
          next_attempt deploymentID NotEstablished (if pinned then pinnedHostKeyAlgorithmAttempts else [[]]))"

definition attempt_failed :: "bool \<Rightarrow> ssh_error \<Rightarrow> hostKeySession \<Rightarrow> string list list \<Rightarrow> ssh_pc" where
  "attempt_failed ctx_ended err session attempts =
     (if accepted_key session then GivenUp err
      else if ctx_ended then GivenUp ContextEnded
      else next_attempt (hs_deploymentID session) err attempts)"

text \<open>One step of connection \<open>t\<close>; a step that is not due changes nothing.\<close>

datatype ssh_action =
    Connect nat db_outcome string
  | PresentKey nat db_outcome string
  | HandshakeFailed nat bool
  | HandshakeOk nat
  | Commit nat db_outcome time bool

fun ssh_exec :: "'st HostKeyStore \<Rightarrow> ssh_action \<Rightarrow> 'st ssh \<Rightarrow> 'st ssh" where
  "ssh_exec store (Connect t oc deploymentID) s =
     (if ssh_pc s t = NotStarted
      then s\<lparr>ssh_pc := (ssh_pc s)(t := connect_start store oc deploymentID (ssh_store s))\<rparr> else s)"
| "ssh_exec store (PresentKey t oc fingerprint) s =
     (case ssh_pc s t of
        Handshake session attempts refused \<Rightarrow>
          (case callback store oc fingerprint (ssh_store s) session of (err, session') \<Rightarrow>
             s\<lparr>ssh_pc := (ssh_pc s)(t := Handshake session' attempts (refused \<or> err \<noteq> None))\<rparr>)
      | _ \<Rightarrow> s)"
| "ssh_exec store (HandshakeFailed t ctx_ended) s =
     (case ssh_pc s t of
        Handshake session attempts refused \<Rightarrow>
          s\<lparr>ssh_pc := (ssh_pc s)(t := attempt_failed ctx_ended NotEstablished session attempts)\<rparr>
      | _ \<Rightarrow> s)"
| "ssh_exec store (HandshakeOk t) s =
     (case ssh_pc s t of
        Handshake session attempts False \<Rightarrow> s\<lparr>ssh_pc := (ssh_pc s)(t := Authenticated session attempts)\<rparr>
      | _ \<Rightarrow> s)"
| "ssh_exec store (Commit t oc now ctx_ended) s =
     (case ssh_pc s t of
        Authenticated session attempts \<Rightarrow>
          (case commit_key store oc now session (ssh_store s) of (err, st) \<Rightarrow>
             s\<lparr>ssh_store := st, ssh_pc := (ssh_pc s)(t := (case err of
               None \<Rightarrow> Established (hs_deploymentID session) (hs_candidate session)
             | Some err \<Rightarrow> attempt_failed ctx_ended err session attempts))\<rparr>)
      | _ \<Rightarrow> s)"

definition ssh_start :: "'st \<Rightarrow> 'st ssh" where
  "ssh_start st = \<lparr>ssh_store = st, ssh_pc = (\<lambda>_. NotStarted)\<rparr>"

definition ssh_run :: "'st HostKeyStore \<Rightarrow> 'st \<Rightarrow> ssh_action list \<Rightarrow> 'st ssh" where
  "ssh_run store st actions = fold (ssh_exec store) actions (ssh_start st)"

section \<open>Every connection has the trusted key\<close>

text \<open>
  Every established connection has the key the store now holds for its deployment, and the store
  held no other at the start.
\<close>

definition verified :: "('st \<Rightarrow> string \<Rightarrow> string option) \<Rightarrow> 'st \<Rightarrow> 'st ssh \<Rightarrow> bool" where
  "verified trusted st s \<longleftrightarrow> (\<forall>t. case ssh_pc s t of
     Established d fingerprint \<Rightarrow> trusted (ssh_store s) d = Some fingerprint \<and> trusted st d \<in> {None, Some fingerprint}
   | _ \<Rightarrow> True)"

context host_key_store
begin

definition established_trusted :: "'st ssh \<Rightarrow> bool" where
  "established_trusted s \<longleftrightarrow> (\<forall>t d fingerprint. ssh_pc s t = Established d fingerprint \<longrightarrow>
     trusted (ssh_store s) d = Some fingerprint)"

definition keeps_trust :: "'st \<Rightarrow> 'st ssh \<Rightarrow> bool" where
  "keeps_trust st s \<longleftrightarrow> (\<forall>d fingerprint. trusted st d = Some fingerprint \<longrightarrow> trusted (ssh_store s) d = Some fingerprint)"

lemma commit_trusts: "commit_key store oc now session st = (None, st') \<Longrightarrow>
    trusted st' (hs_deploymentID session) = Some (hs_candidate session)"
  by (auto simp: commit_key_def Let_def split: if_splits prod.splits sum.splits dest: store_answers)

lemma commit_keeps: "commit_key store oc now session st = (err, st') \<Longrightarrow>
    trusted st d = Some fingerprint \<Longrightarrow> trusted st' d = Some fingerprint"
  by (auto simp: commit_key_def Let_def split: if_splits prod.splits sum.splits dest: store_keeps)

lemma not_established [simp]:
  "connect_start store oc deploymentID st \<noteq> Established d fingerprint"
  "attempt_failed ctx_ended err session attempts \<noteq> Established d fingerprint"
  "next_attempt deploymentID err attempts \<noteq> Established d fingerprint"
proof -
  show attempts: "next_attempt deploymentID err attempts \<noteq> Established d fingerprint" for deploymentID err attempts
    by (cases attempts) simp_all
  show "connect_start store oc deploymentID st \<noteq> Established d fingerprint"
    "attempt_failed ctx_ended err session attempts \<noteq> Established d fingerprint"
    by (auto simp: connect_start_def attempt_failed_def attempts split: sum.split)
qed

lemma exec_established:
  assumes "established_trusted s"
  shows "established_trusted (ssh_exec store action s)"
proof (cases action)
  case (Commit t oc now ctx_ended)
  then show ?thesis
    using assms
    by (auto simp: established_trusted_def commit_keeps dest: commit_trusts commit_keeps
        split: ssh_pc.split prod.split option.splits if_splits)
qed (use assms in \<open>auto simp: established_trusted_def split: ssh_pc.split prod.split bool.split\<close>)

lemma exec_keeps_trust: "keeps_trust st s \<Longrightarrow> keeps_trust st (ssh_exec store action s)"
  by (cases action) (auto simp: keeps_trust_def split: ssh_pc.split prod.split bool.split dest: commit_keeps)

lemma run_trusted: "established_trusted (ssh_run store st actions) \<and> keeps_trust st (ssh_run store st actions)"
proof -
  have "established_trusted (fold (ssh_exec store) actions s) \<and> keeps_trust st (fold (ssh_exec store) actions s)"
    if "established_trusted s" "keeps_trust st s" for s
    using that by (induction actions arbitrary: s) (simp_all add: exec_established exec_keeps_trust)
  then show ?thesis
    unfolding ssh_run_def by (rule) (simp_all add: ssh_start_def established_trusted_def keeps_trust_def)
qed

lemma run_verified: "verified trusted st (ssh_run store st actions)"
proof -
  have "trusted st d \<in> {None, Some fingerprint}" if "keeps_trust st s" "trusted (ssh_store s) d = Some fingerprint" for s d fingerprint
    using that by (cases "trusted st d") (auto simp: keeps_trust_def)
  then show ?thesis
    using run_trusted [of st actions]
    unfolding verified_def established_trusted_def by (auto split: ssh_pc.split) metis
qed

end

text \<open>
  C19. An SSH connection is only ever established with the trusted key of its deployment, in any
  interleaving of connections, and whatever the servers present and the store answers: the key is the
  one the store holds, which is the one it held before, if any.  So two connections for a deployment
  never saw different keys, also when both were the first, and a server whose key changed is refused.
  This holds of the store in memory and of the PostgreSQL one.
\<close>

theorem ssh_connections_verified:
  "verified pinned_fingerprint rows (ssh_run PostgresHostKeyStore rows actions) \<and>
   verified (\<lambda>keys. keys) keys (ssh_run MemoryHostKeyStore keys actions)"
  by (intro conjI postgres_keys.run_verified memory_keys.run_verified)

text \<open>A first connection that pins its key, one that races it with another key, and a later one.\<close>

definition race :: "ssh_action list" where
  "race = [Connect 0 DbOk ''d'', Connect 1 DbOk ''d'', PresentKey 0 DbOk ''k'', PresentKey 1 DbOk ''x'', HandshakeOk 1,
     HandshakeOk 0, Commit 0 DbOk 1 False, Commit 1 DbOk 2 False, Connect 2 DbOk ''d'', PresentKey 2 DbOk ''x'',
     HandshakeOk 2, HandshakeFailed 2 False, PresentKey 2 DbOk ''k'', HandshakeOk 2, Commit 2 DbOk 3 False]"

lemma race_run:
  "map (ssh_pc (ssh_run MemoryHostKeyStore Map.empty race)) [0, 1, 2] =
     [Established ''d'' ''k'', GivenUp (HostKeyChanged ''k'' ''x''), Established ''d'' ''k'']"
  by code_simp

end
