(* ===== verification/Node_Monitor.thy ===== *)
theory Node_Monitor
  imports Deployment
begin

text \<open>
  The monitor of low-online Nodes (\<^verbatim>\<open>internal/telegram/node_monitor.go\<close>) and the classification of
  the Nodes of every panel it shares with the inventory (\<^verbatim>\<open>node_inventory.go\<close>).  A sample asks the
  application for panels and Nodes and tells every operator about incidents; the application, the
  messenger and the clock answer from a world of any type.  A message is the event it reports with
  the callback data of its buttons; the texts and labels are not modelled.
\<close>

section \<open>Classification of Nodes\<close>

record Panel =
  pn_ID :: string
  pn_Name :: string
  pn_DNSEnabled :: bool

record NodeSummary =
  ns_PanelID :: string
  ns_PanelName :: string
  ns_UUID :: string
  ns_Name :: string
  ns_Address :: string
  ns_Connected :: bool
  ns_Connecting :: bool
  ns_Disabled :: bool
  ns_Online :: int
  ns_OnlineKnown :: bool
  ns_LastStatusMessage :: string
  ns_LastStatusChange :: "time option"

record NodePolicy =
  CriticalOnlineThreshold :: int

definition DefaultNodePolicy :: NodePolicy where
  "DefaultNodePolicy = \<lparr>CriticalOnlineThreshold = 50\<rparr>"

definition normalizeNodePolicy :: "NodePolicy \<Rightarrow> NodePolicy" where
  "normalizeNodePolicy policy =
     (if CriticalOnlineThreshold policy < 1
      then policy\<lparr>CriticalOnlineThreshold := CriticalOnlineThreshold DefaultNodePolicy\<rparr> else policy)"

datatype nodeGroup = nodeGroupCritical | nodeGroupDisabled | nodeGroupActive | nodeGroupIgnored

record nodePanelSnapshot =
  snap_Panel :: Panel
  snap_All :: "NodeSummary list"
  snap_Critical :: "NodeSummary list"
  snap_Disabled :: "NodeSummary list"
  snap_Active :: "NodeSummary list"
  snap_Ignored :: "NodeSummary list"
  snap_Threshold :: int

text \<open>\<^verbatim>\<open>byID\<close>: of panels with the same ID, the last one.\<close>

fun byID :: "Panel list \<Rightarrow> nat \<Rightarrow> string \<Rightarrow> nat option" where
  "byID [] i panelID = None"
| "byID (panel # panels) i panelID = (case byID panels (Suc i) panelID of
     Some j \<Rightarrow> Some j | None \<Rightarrow> if pn_ID panel = panelID then Some i else None)"

fun collect_nodes :: "Panel list \<Rightarrow> NodeSummary list \<Rightarrow> nodePanelSnapshot list \<Rightarrow> nodePanelSnapshot list" where
  "collect_nodes panels [] result = result"
| "collect_nodes panels (node # nodes) result =
     (case byID panels 0 (ns_PanelID node) of
        None \<Rightarrow> collect_nodes panels nodes result
      | Some i \<Rightarrow>
          let snapshot = result ! i;
              snapshot = snapshot\<lparr>snap_All := snap_All snapshot @ [node]\<rparr>;
              snapshot = (if ns_Disabled node then snapshot\<lparr>snap_Disabled := snap_Disabled snapshot @ [node]\<rparr> else snapshot)
          in collect_nodes panels nodes (result[i := snapshot]))"

fun classify_nodes :: "NodeSummary list \<Rightarrow> nodePanelSnapshot \<Rightarrow> nodePanelSnapshot" where
  "classify_nodes [] snapshot = snapshot"
| "classify_nodes (node # nodes) snapshot = classify_nodes nodes
     (if ns_Disabled node then snapshot
      else if \<not> ns_Connected node \<or> \<not> ns_OnlineKnown node then snapshot\<lparr>snap_Ignored := snap_Ignored snapshot @ [node]\<rparr>
      else if ns_Online node \<le> snap_Threshold snapshot then snapshot\<lparr>snap_Critical := snap_Critical snapshot @ [node]\<rparr>
      else snapshot\<lparr>snap_Active := snap_Active snapshot @ [node]\<rparr>)"

definition name_less :: "NodeSummary \<Rightarrow> NodeSummary \<Rightarrow> bool" where
  "name_less a b \<longleftrightarrow> string_less (ns_Name a) (ns_Name b)"

definition critical_less :: "NodeSummary \<Rightarrow> NodeSummary \<Rightarrow> bool" where
  "critical_less a b \<longleftrightarrow> (if ns_Online a = ns_Online b then name_less a b else ns_Online a < ns_Online b)"

definition active_less :: "NodeSummary \<Rightarrow> NodeSummary \<Rightarrow> bool" where
  "active_less a b \<longleftrightarrow> (if ns_Online a = ns_Online b then name_less a b else ns_Online b < ns_Online a)"

definition sort_groups :: "nodePanelSnapshot \<Rightarrow> nodePanelSnapshot" where
  "sort_groups snapshot = snapshot\<lparr>
     snap_Critical := sort_by critical_less (snap_Critical snapshot),
     snap_Active := sort_by active_less (snap_Active snapshot),
     snap_Disabled := sort_by name_less (snap_Disabled snapshot),
     snap_Ignored := sort_by name_less (snap_Ignored snapshot)\<rparr>"

definition classifyNodePanels :: "Panel list \<Rightarrow> NodeSummary list \<Rightarrow> NodePolicy \<Rightarrow> nodePanelSnapshot list" where
  "classifyNodePanels panels nodes policy =
     (let policy = normalizeNodePolicy policy;
          result = map (\<lambda>panel. \<lparr>snap_Panel = panel, snap_All = [], snap_Critical = [], snap_Disabled = [],
            snap_Active = [], snap_Ignored = [], snap_Threshold = 0\<rparr>) panels;
          result = collect_nodes panels nodes result
      in map (\<lambda>snapshot. sort_groups (classify_nodes (snap_All snapshot)
           (snapshot\<lparr>snap_Threshold := CriticalOnlineThreshold policy\<rparr>))) result)"

fun snapshot_nodes :: "nodePanelSnapshot \<Rightarrow> nodeGroup \<Rightarrow> NodeSummary list" where
  "snapshot_nodes s nodeGroupCritical = snap_Critical s"
| "snapshot_nodes s nodeGroupDisabled = snap_Disabled s"
| "snapshot_nodes s nodeGroupActive = snap_Active s"
| "snapshot_nodes s nodeGroupIgnored = snap_Ignored s"

section \<open>The monitor\<close>

record nodeAlertState =
  consecutive :: int
  lastNotification :: "int \<Rightarrow> time"

text \<open>\<^verbatim>\<open>NodeMonitor\<close> without its ports; the flags say which optional interfaces the application has.\<close>

record NodeMonitor =
  nm_users :: "int list"
  nm_interval :: int
  nm_repeatInterval :: int
  nm_confirmations :: int
  nm_policy :: NodePolicy
  nm_changes_ip :: bool
  nm_moves_host :: bool

datatype operator_message =
    NodeAlert NodeSummary "string list"
  | NodeRecovery NodeSummary "string list"

text \<open>
  What a sample does: a Node counted as critical, an alert to a user at a time with whether it was
  delivered, a recovery to a user, the end of the incident of a Node that recovered or is disabled,
  and of every Node that was not seen.
\<close>

datatype monitor_event =
    MoCritical string
  | MoAlert string int time bool
  | MoRecovery string int bool
  | MoRecovered string
  | MoDisabled string
  | MoSeen "string list"

record 'w monitor_ports =
  mo_ListPanels :: "'w \<Rightarrow> Panel list option \<times> 'w"
  mo_ListNodes :: "'w \<Rightarrow> NodeSummary list option \<times> 'w"
  mo_now :: "'w \<Rightarrow> time \<times> 'w"
  mo_Send :: "int \<Rightarrow> operator_message \<Rightarrow> 'w \<Rightarrow> bool \<times> 'w"

record 'w monitor =
  mo_world :: 'w
  mo_states :: "string \<Rightarrow> nodeAlertState option"
  mo_log :: "monitor_event list"

fun distinct_users :: "int list \<Rightarrow> int list \<Rightarrow> int list option" where
  "distinct_users [] users = Some users"
| "distinct_users (userID # allowed) users =
     (if userID \<le> 0 then None
      else distinct_users allowed (if userID \<in> set users then users else users @ [userID]))"

definition minute :: int where
  "minute = 60000000000"

definition NewNodeMonitor ::
  "int list \<Rightarrow> bool \<Rightarrow> bool \<Rightarrow> int \<Rightarrow> int \<Rightarrow> int \<Rightarrow> NodePolicy \<Rightarrow> bool \<Rightarrow> bool \<Rightarrow> NodeMonitor option" where
  "NewNodeMonitor allowedUsers app messenger interval repeatInterval confirmations policy changes_ip moves_host =
     (if allowedUsers = [] \<or> \<not> app \<or> \<not> messenger then None
      else case distinct_users allowedUsers [] of
        None \<Rightarrow> None
      | Some users \<Rightarrow> Some \<lparr>nm_users = users,
          nm_interval = (if interval \<le> 0 then 5 * minute else interval),
          nm_repeatInterval = (if repeatInterval \<le> 0 then 15 * minute else repeatInterval),
          nm_confirmations = (if confirmations \<le> 0 then 2 else confirmations),
          nm_policy = normalizeNodePolicy policy, nm_changes_ip = changes_ip, nm_moves_host = moves_host\<rparr>)"

definition nodeMonitorKey :: "NodeSummary \<Rightarrow> string" where
  "nodeMonitorKey node = ns_PanelID node @ '':'' @ ns_UUID node"

definition mo_call :: "('w \<Rightarrow> 'a \<times> 'w) \<Rightarrow> ('a \<Rightarrow> monitor_event list) \<Rightarrow> ('w monitor, 'a) state" where
  "mo_call port ev = State (\<lambda>s. case port (mo_world s) of (a, w) \<Rightarrow>
     (a, s\<lparr>mo_world := w, mo_log := mo_log s @ ev a\<rparr>))"

definition put_state :: "string \<Rightarrow> nodeAlertState option \<Rightarrow> monitor_event list \<Rightarrow> ('w monitor, unit) state" where
  "put_state key v ev = State_Monad.update (\<lambda>s. s\<lparr>mo_states := (mo_states s)(key := v), mo_log := mo_log s @ ev\<rparr>)"

definition open_card :: "NodeSummary \<Rightarrow> string" where
  "open_card node = ''nodes:o:'' @ ns_UUID node"

definition alert_keyboard :: "NodeMonitor \<Rightarrow> NodeSummary \<Rightarrow> string list" where
  "alert_keyboard m node =
     (if nm_changes_ip m then [''nodes:ip:'' @ ns_UUID node] else []) @
     (if nm_moves_host m then [''nodes:move:'' @ ns_UUID node] else []) @ [open_card node]"

text \<open>The loop over the users for a critical Node, and for a Node that recovered.\<close>

fun alert_users ::
  "'w monitor_ports \<Rightarrow> NodeMonitor \<Rightarrow> time \<Rightarrow> NodeSummary \<Rightarrow> nodeAlertState \<Rightarrow> int list \<Rightarrow> ('w monitor, nodeAlertState) state" where
  "alert_users p m now node st [] = State_Monad.return st"
| "alert_users p m now node st (userID # users) =
     (if lastNotification st userID \<noteq> 0 \<and> now < lastNotification st userID + nm_repeatInterval m
      then alert_users p m now node st users
      else do {
        sent \<leftarrow> mo_call (mo_Send p userID (NodeAlert node (alert_keyboard m node)))
          (\<lambda>sent. [MoAlert (nodeMonitorKey node) userID now sent]);
        alert_users p m now node
          (if sent then st\<lparr>lastNotification := (lastNotification st)(userID := now)\<rparr> else st) users
      })"

fun recover_users ::
  "'w monitor_ports \<Rightarrow> NodeSummary \<Rightarrow> nodeAlertState \<Rightarrow> int list \<Rightarrow> ('w monitor, unit) state" where
  "recover_users p node st [] = State_Monad.return ()"
| "recover_users p node st (userID # users) =
     (if lastNotification st userID = 0 then recover_users p node st users
      else do {
        mo_call (mo_Send p userID (NodeRecovery node [open_card node]))
          (\<lambda>sent. [MoRecovery (nodeMonitorKey node) userID sent]);
        recover_users p node st users
      })"

definition fresh_state :: nodeAlertState where
  "fresh_state = \<lparr>consecutive = 0, lastNotification = (\<lambda>_. 0)\<rparr>"

definition state_of :: "nodeAlertState option \<Rightarrow> nodeAlertState" where
  "state_of found = (case found of None \<Rightarrow> fresh_state | Some st \<Rightarrow> st)"

definition node_state :: "string \<Rightarrow> ('w monitor, nodeAlertState option) state" where
  "node_state key = do { s \<leftarrow> State_Monad.get; State_Monad.return (mo_states s key) }"

definition critical_node :: "'w monitor_ports \<Rightarrow> NodeMonitor \<Rightarrow> time \<Rightarrow> NodeSummary \<Rightarrow> ('w monitor, unit) state" where
  "critical_node p m now node = do {
     let key = nodeMonitorKey node;
     found \<leftarrow> node_state key;
     let st = state_of found;
     let st = st\<lparr>consecutive := consecutive st + 1\<rparr>;
     put_state key (Some st) [MoCritical key];
     if consecutive st < nm_confirmations m then State_Monad.return ()
     else do {
       st \<leftarrow> alert_users p m now node st (nm_users m);
       put_state key (Some st) []
     }
   }"

definition active_node :: "'w monitor_ports \<Rightarrow> NodeMonitor \<Rightarrow> NodeSummary \<Rightarrow> ('w monitor, unit) state" where
  "active_node p m node = do {
     let key = nodeMonitorKey node;
     found \<leftarrow> node_state key;
     case found of
       None \<Rightarrow> State_Monad.return ()
     | Some st \<Rightarrow> do {
         recover_users p node st (nm_users m);
         put_state key None [MoRecovered key]
       }
   }"

definition disabled_node :: "NodeSummary \<Rightarrow> ('w monitor, unit) state" where
  "disabled_node node = put_state (nodeMonitorKey node) None [MoDisabled (nodeMonitorKey node)]"

fun each :: "('a \<Rightarrow> ('s, unit) state) \<Rightarrow> 'a list \<Rightarrow> ('s, unit) state" where
  "each f [] = State_Monad.return ()"
| "each f (x # xs) = do { f x; each f xs }"

definition monitor_snapshot ::
  "'w monitor_ports \<Rightarrow> NodeMonitor \<Rightarrow> time \<Rightarrow> nodePanelSnapshot \<Rightarrow> ('w monitor, unit) state" where
  "monitor_snapshot p m now snapshot = do {
     each (critical_node p m now) (snap_Critical snapshot);
     each (active_node p m) (snap_Active snapshot);
     each disabled_node (snap_Disabled snapshot)
   }"

text \<open>The last loop: the incidents of Nodes that are gone end as well.\<close>

definition forget_removed :: "string list \<Rightarrow> ('w monitor, unit) state" where
  "forget_removed seenNodes = State_Monad.update (\<lambda>s.
     s\<lparr>mo_states := (mo_states s) |` set seenNodes, mo_log := mo_log s @ [MoSeen seenNodes]\<rparr>)"

definition sample :: "'w monitor_ports \<Rightarrow> NodeMonitor \<Rightarrow> ('w monitor, bool) state" where
  "sample p m = do {
     panels \<leftarrow> mo_call (mo_ListPanels p) (\<lambda>_. []);
     case panels of
       None \<Rightarrow> State_Monad.return False
     | Some panels \<Rightarrow> do {
         nodes \<leftarrow> mo_call (mo_ListNodes p) (\<lambda>_. []);
         case nodes of
           None \<Rightarrow> State_Monad.return False
         | Some nodes \<Rightarrow> do {
             let snapshots = classifyNodePanels panels nodes (nm_policy m);
             now \<leftarrow> mo_call (mo_now p) (\<lambda>_. []);
             each (monitor_snapshot p m now) snapshots;
             forget_removed (map nodeMonitorKey (concat (map snap_All snapshots)));
             State_Monad.return True
           }
       }
   }"

text \<open>\<^verbatim>\<open>Run\<close>: a first sample, then one on every tick until the context ends.\<close>

fun Run_ticks :: "'w monitor_ports \<Rightarrow> NodeMonitor \<Rightarrow> nat \<Rightarrow> ('w monitor, unit) state" where
  "Run_ticks p m 0 = do { _ \<leftarrow> sample p m; State_Monad.return () }"
| "Run_ticks p m (Suc ticks) = do { _ \<leftarrow> sample p m; Run_ticks p m ticks }"

section \<open>Every Node is in one group\<close>

lemma collect_nodes_length [simp]: "length (collect_nodes panels nodes result) = length result"
  by (induction panels nodes result rule: collect_nodes.induct) (auto simp: Let_def split: option.split)

lemma byID_bound: "byID panels i panelID = Some j \<Longrightarrow> i \<le> j \<and> j < i + length panels"
  by (induction panels i panelID rule: byID.induct) (auto split: option.splits if_splits)

definition belongs :: "Panel list \<Rightarrow> nat \<Rightarrow> NodeSummary \<Rightarrow> bool" where
  "belongs panels i node \<longleftrightarrow> byID panels 0 (ns_PanelID node) = Some i"

lemma collect_nodes_nth:
  assumes "length result = length panels" and "i < length panels"
  shows "collect_nodes panels nodes result ! i = (result ! i)\<lparr>
      snap_All := snap_All (result ! i) @ filter (belongs panels i) nodes,
      snap_Disabled := snap_Disabled (result ! i) @ filter ns_Disabled (filter (belongs panels i) nodes)\<rparr>"
  using assms
proof (induction panels nodes result rule: collect_nodes.induct)
  case (2 panels node nodes result)
  then show ?case
    using byID_bound [of panels 0 "ns_PanelID node"]
    by (auto simp: belongs_def Let_def nth_list_update split: option.splits)
qed simp

definition ignored_node :: "NodeSummary \<Rightarrow> bool" where
  "ignored_node node \<longleftrightarrow> \<not> ns_Disabled node \<and> (\<not> ns_Connected node \<or> \<not> ns_OnlineKnown node)"

definition online_node :: "NodeSummary \<Rightarrow> bool" where
  "online_node node \<longleftrightarrow> \<not> ns_Disabled node \<and> ns_Connected node \<and> ns_OnlineKnown node"

lemma classify_nodes_eq:
  "classify_nodes nodes snapshot = snapshot\<lparr>
     snap_Critical := snap_Critical snapshot @ filter (\<lambda>n. online_node n \<and> ns_Online n \<le> snap_Threshold snapshot) nodes,
     snap_Active := snap_Active snapshot @ filter (\<lambda>n. online_node n \<and> snap_Threshold snapshot < ns_Online n) nodes,
     snap_Ignored := snap_Ignored snapshot @ filter ignored_node nodes\<rparr>"
  by (induction nodes snapshot rule: classify_nodes.induct) (auto simp: online_node_def ignored_node_def)

definition threshold_of :: "NodePolicy \<Rightarrow> int" where
  "threshold_of policy = (if CriticalOnlineThreshold policy < 1 then 50 else CriticalOnlineThreshold policy)"

lemma classifyNodePanels_nth:
  assumes "i < length panels"
  shows "classifyNodePanels panels nodes policy ! i =
    (let mine = filter (belongs panels i) nodes; online = filter online_node mine
     in \<lparr>snap_Panel = panels ! i, snap_All = mine,
         snap_Critical = sort_by critical_less (filter (\<lambda>n. ns_Online n \<le> threshold_of policy) online),
         snap_Disabled = sort_by name_less (filter ns_Disabled mine),
         snap_Active = sort_by active_less (filter (\<lambda>n. threshold_of policy < ns_Online n) online),
         snap_Ignored = sort_by name_less (filter ignored_node mine), snap_Threshold = threshold_of policy\<rparr>)"
  using assms
  by (simp add: classifyNodePanels_def Let_def collect_nodes_nth classify_nodes_eq sort_groups_def conj_commute
      normalizeNodePolicy_def threshold_of_def DefaultNodePolicy_def)

text \<open>
  C25. The Nodes of the inventory are split between the panels and the groups: the snapshot of a panel
  holds the Nodes of that panel, each of them in exactly one of the four groups as often as it was listed:
  disabled ones in the disabled group, those without fresh metrics in the ignored one, and the others by
  the threshold.
\<close>

theorem classifyNodePanels_partition:
  assumes "i < length panels"
  shows "let s = classifyNodePanels panels nodes policy ! i in
    snap_Panel s = panels ! i \<and> snap_All s = filter (belongs panels i) nodes \<and>
    mset (snap_Critical s) + mset (snap_Active s) + mset (snap_Disabled s) + mset (snap_Ignored s) = mset (snap_All s) \<and>
    list_all ns_Disabled (snap_Disabled s) \<and> list_all ignored_node (snap_Ignored s) \<and>
    list_all (\<lambda>n. online_node n \<and> ns_Online n \<le> snap_Threshold s) (snap_Critical s) \<and>
    list_all (\<lambda>n. online_node n \<and> snap_Threshold s < ns_Online n) (snap_Active s)"
proof -
  have split: "mset (filter (\<lambda>n. online_node n \<and> ns_Online n \<le> t) ns) + mset (filter (\<lambda>n. online_node n \<and> t < ns_Online n) ns) +
      mset (filter ns_Disabled ns) + mset (filter ignored_node ns) = mset ns" for t and ns :: "NodeSummary list"
  proof (induction ns)
    case (Cons a ns)
    have a: "online_node a \<longleftrightarrow> \<not> ns_Disabled a \<and> ns_Connected a \<and> ns_OnlineKnown a"
      "ignored_node a \<longleftrightarrow> \<not> ns_Disabled a \<and> \<not> (ns_Connected a \<and> ns_OnlineKnown a)"
      by (auto simp: online_node_def ignored_node_def)
    show ?case
      using Cons.IH
      by (cases "ns_Online a \<le> t"; cases "ns_Disabled a"; cases "ns_Connected a \<and> ns_OnlineKnown a") (simp_all add: a del: mset_filter)
  qed simp
  show ?thesis
    using split [of "threshold_of policy" "filter (belongs panels i) nodes"]
    by (simp add: classifyNodePanels_nth [OF assms] Let_def list_all_iff conj_commute del: mset_filter)
qed

text \<open>A panel with a disabled, a busy and a quiet Node, and one without metrics.\<close>

definition demo_panels :: "Panel list" where
  "demo_panels = [\<lparr>pn_ID = ''p'', pn_Name = ''P'', pn_DNSEnabled = True\<rparr>]"

definition demo_node :: "string \<Rightarrow> bool \<Rightarrow> int \<Rightarrow> bool \<Rightarrow> NodeSummary" where
  "demo_node uuid disabled online known = \<lparr>ns_PanelID = ''p'', ns_PanelName = ''P'', ns_UUID = uuid, ns_Name = uuid,
     ns_Address = ''a.io'', ns_Connected = True, ns_Connecting = False, ns_Disabled = disabled, ns_Online = online,
     ns_OnlineKnown = known, ns_LastStatusMessage = [], ns_LastStatusChange = None\<rparr>"

definition demo_nodes :: "NodeSummary list" where
  "demo_nodes = [demo_node ''d'' True 1 True, demo_node ''b'' False 90 True, demo_node ''q'' False 3 True, demo_node ''n'' False 0 False]"

theorem classifyNodePanels_partition_witness:
  "0 < length demo_panels \<and> (let s = classifyNodePanels demo_panels demo_nodes DefaultNodePolicy ! 0 in
    mset (snap_Critical s) + mset (snap_Active s) + mset (snap_Disabled s) + mset (snap_Ignored s) = mset (snap_All s))"
  using classifyNodePanels_partition [of 0 demo_panels demo_nodes DefaultNodePolicy] by (simp add: demo_panels_def Let_def)

section \<open>The discipline of alerts\<close>

text \<open>The incident of a Node: the events since it last ended, the latest first.\<close>

fun ends :: "string \<Rightarrow> monitor_event \<Rightarrow> bool" where
  "ends key (MoRecovered key') = (key' = key)"
| "ends key (MoDisabled key') = (key' = key)"
| "ends key (MoSeen keys) = (key \<notin> set keys)"
| "ends key _ = False"

definition incident :: "string \<Rightarrow> monitor_event list \<Rightarrow> monitor_event list" where
  "incident key log = takeWhile (\<lambda>e. \<not> ends key e) (rev log)"

lemma incident_simps [simp]:
  "incident key [] = []"
  "incident key (log @ [e]) = (if ends key e then [] else e # incident key log)"
  by (simp_all add: incident_def)

fun criticals :: "string \<Rightarrow> monitor_event list \<Rightarrow> int" where
  "criticals key [] = 0"
| "criticals key (e # es) = (if e = MoCritical key then 1 else 0) + criticals key es"

text \<open>When an alert was last delivered to a user; 0 (Go's zero time) when none was.\<close>

fun last_alert :: "string \<Rightarrow> int \<Rightarrow> monitor_event list \<Rightarrow> time" where
  "last_alert key userID [] = 0"
| "last_alert key userID (MoAlert key' userID' t True # es) =
     (if key' = key \<and> userID' = userID then t else last_alert key userID es)"
| "last_alert key userID (e # es) = last_alert key userID es"

text \<open>A recovery message was sent to the user, and Telegram took it or refused it.\<close>

definition attempted :: "string \<Rightarrow> int \<Rightarrow> monitor_event list \<Rightarrow> bool" where
  "attempted key userID es \<longleftrightarrow> MoRecovery key userID True \<in> set es \<or> MoRecovery key userID False \<in> set es"

fun guarded_event :: "NodeMonitor \<Rightarrow> monitor_event \<Rightarrow> monitor_event list \<Rightarrow> bool" where
  "guarded_event m (MoAlert key userID t sent) before \<longleftrightarrow>
     userID \<in> set (nm_users m) \<and> nm_confirmations m \<le> criticals key (incident key before) \<and>
     (last_alert key userID (incident key before) = 0 \<or>
      last_alert key userID (incident key before) + nm_repeatInterval m \<le> t)"
| "guarded_event m (MoRecovery key userID sent) before \<longleftrightarrow>
     userID \<in> set (nm_users m) \<and> last_alert key userID (incident key before) \<noteq> 0 \<and>
     \<not> attempted key userID (incident key before)"
| "guarded_event m (MoRecovered key) before \<longleftrightarrow>
     list_all (\<lambda>userID. last_alert key userID (incident key before) = 0 \<or> attempted key userID (incident key before)) (nm_users m)"
| "guarded_event m _ before \<longleftrightarrow> True"

fun disciplined :: "NodeMonitor \<Rightarrow> monitor_event list \<Rightarrow> monitor_event list \<Rightarrow> bool" where
  "disciplined m before [] = True"
| "disciplined m before (e # es) = (guarded_event m e before \<and> disciplined m (before @ [e]) es)"

lemma disciplined_snoc [simp]:
  "disciplined m before (es @ [e]) \<longleftrightarrow> disciplined m before es \<and> guarded_event m e (before @ es)"
  by (induction es arbitrary: before) auto

text \<open>The state of the monitor is what the log says of the incidents.\<close>

definition recorded :: "string \<Rightarrow> nodeAlertState \<Rightarrow> monitor_event list \<Rightarrow> bool" where
  "recorded key st log \<longleftrightarrow> consecutive st = criticals key (incident key log) \<and>
     lastNotification st = (\<lambda>userID. last_alert key userID (incident key log))"





lemma wp_mo_call [wp_simps]:
  "wp (mo_call port ev) Q s = (case port (mo_world s) of (a, w) \<Rightarrow> Q a (s\<lparr>mo_world := w, mo_log := mo_log s @ ev a\<rparr>))"
  by (simp add: mo_call_def wp_simps split: prod.split)

lemma wp_put_state [wp_simps]:
  "wp (put_state key v ev) Q = (\<lambda>s. Q () (s\<lparr>mo_states := (mo_states s)(key := v), mo_log := mo_log s @ ev\<rparr>))"
  by (rule ext) (simp add: put_state_def wp_simps)

lemma wp_node_state [wp_simps]: "wp (node_state key) Q s = Q (mo_states s key) s"
  by (simp add: node_state_def wp_simps)






lemma recorded_recovery [simp]: "recorded key st (log @ [MoRecovery key' userID sent]) = recorded key st log"
  by (cases sent) (simp_all add: recorded_def)

lemma attempted_recovery [simp]:
  "attempted key userID (MoRecovery key' userID' sent # es) \<longleftrightarrow> key = key' \<and> userID = userID' \<or> attempted key userID es"
  by (cases sent) (auto simp: attempted_def)












definition new_monitor :: "'w \<Rightarrow> 'w monitor" where
  "new_monitor w = \<lparr>mo_world = w, mo_states = Map.empty, mo_log = []\<rparr>"





text \<open>Two quiet samples, a third one after ten minutes, and a busy one.\<close>

definition demo_monitor_ports :: "nat monitor_ports" where
  "demo_monitor_ports = \<lparr>mo_ListPanels = Pair (Some demo_panels),
     mo_ListNodes = (\<lambda>w. (Some [demo_node ''q'' False (if w < 3 then 3 else 90) True], w)),
     mo_now = (\<lambda>w. (int w * 5 * minute + 1, Suc w)), mo_Send = (\<lambda>_ _. Pair True)\<rparr>"

lemma demo_monitor_log:
  "map_option (\<lambda>m. mo_log (exec_state (Run_ticks demo_monitor_ports m 3) (new_monitor 0)))
     (NewNodeMonitor [7, 7] True True 0 0 0 DefaultNodePolicy True True) =
   Some [MoCritical ''p:q'', MoSeen [''p:q''], MoCritical ''p:q'', MoAlert ''p:q'' 7 (5 * minute + 1) True, MoSeen [''p:q''],
     MoCritical ''p:q'', MoSeen [''p:q''], MoRecovery ''p:q'' 7 True, MoRecovered ''p:q'', MoSeen [''p:q'']]"
  by code_simp

text \<open>
  A recovery message that Telegram refused is lost: the incident is over, and no later sample sends it
  again.
\<close>

lemma failed_recovery_not_repeated:
  "map_option (\<lambda>m. drop 7 (mo_log (exec_state
       (Run_ticks (demo_monitor_ports\<lparr>mo_Send := (\<lambda>_ message. Pair (case message of NodeRecovery _ _ \<Rightarrow> False | _ \<Rightarrow> True))\<rparr>) m 4)
       (new_monitor 0))))
     (NewNodeMonitor [7] True True 0 0 0 DefaultNodePolicy True True) =
   Some [MoRecovery ''p:q'' 7 False, MoRecovered ''p:q'', MoSeen [''p:q''], MoSeen [''p:q'']]"
  by code_simp

text \<open>A sample without metrics between two critical ones does not start the count again.\<close>

lemma confirmations_across_gap:
  "map_option (\<lambda>m. mo_log (exec_state (Run_ticks (demo_monitor_ports\<lparr>mo_ListNodes :=
       (\<lambda>w. (Some [demo_node ''q'' False 3 (w \<noteq> 1)], w))\<rparr>) m 2) (new_monitor 0)))
     (NewNodeMonitor [7] True True 0 0 0 DefaultNodePolicy True True) =
   Some [MoCritical ''p:q'', MoSeen [''p:q''], MoSeen [''p:q''], MoCritical ''p:q'', MoAlert ''p:q'' 7 (10 * minute + 1) True,
     MoSeen [''p:q'']]"
  by code_simp

end
