(* ===== verification/Spec2Isabelle.thy ===== *)
theory Spec2Isabelle
  imports Safe_Text Repository Dns_Spec Zone_Lock Remnawave_Client Deploy_Stages Deploy_Errors
    Service_Order Recovery Remote_Stage Cert_Activation Host_Keys Node_Monitor
begin

text \<open>
  The setup bot for Remnawave Nodes: a model of the Go program under \<^verbatim>\<open>src/\<close> and its properties.

  \<^bold>\<open>The program.\<close>  An operator asks a Telegram bot to turn a fresh VPS into a Node of a Remnawave panel.
  The deployment service (\<^verbatim>\<open>internal/orchestrator\<close>) stores the request in PostgreSQL
  (\<^verbatim>\<open>internal/repository/postgres\<close>), inspects the VPS (\<^verbatim>\<open>internal/provisioner/preflight.go\<close>), has the
  certificate manager (\<^verbatim>\<open>internal/certmanager\<close>) provide TLS material for the domain of the Host, installs the
  VPS in twelve stages over SSH (\<^verbatim>\<open>internal/provisioner\<close>, \<^verbatim>\<open>internal/ssh\<close>), creates the Node through the panel
  client (\<^verbatim>\<open>internal/remnawave\<close>), waits until the panel reports it connected, and only then adds its address
  to the DNS balancer (\<^verbatim>\<open>internal/dnsbalancer\<close>).  Later requests change the address of a Node, move it to
  another Host, or bring DNS in line with the panel.  After a restart a recovery service
  (\<^verbatim>\<open>internal/recovery\<close>) classifies what was left unfinished, and a monitor (\<^verbatim>\<open>internal/telegram\<close>) watches
  the traffic of the Nodes.

  \<^bold>\<open>How code becomes definitions.\<close>
  \<^item> A struct is a \<open>record\<close>, a constant group a \<open>datatype\<close> with its Go text as a function, an error a value of a
    sum \<open>go_error + 'a\<close>; the texts that \<^verbatim>\<open>fmt.Errorf\<close> wraps around an error are dropped, what
    \<^verbatim>\<open>errors.Is\<close> and \<^verbatim>\<open>errors.As\<close> see of it is kept (\<^verbatim>\<open>Go_Errors\<close>).
  \<^item> Code with effects is written in the state monad of the library.  Everything outside the program (the panel,
    the balancer, a VPS, the certificate store, the clock, the random source) is a world of any type; a port is a
    function that answers a call from the world and changes it.  No law is assumed of a port unless a statement
    names it.  Every call leaves an event in the log, so that a property can speak of the order of effects.
    Between two calls other requests may change the tables and the world (the ports \<open>others\<close>).
  \<^item> A Go string is a list of bytes; case folding is written out for ASCII.  \<^verbatim>\<open>net/netip\<close>, \<^verbatim>\<open>unicode/utf8\<close> and
    the parts of \<^verbatim>\<open>strings\<close> in use are definitions (\<^verbatim>\<open>Netip\<close>, \<^verbatim>\<open>Go_Strings\<close>), not parameters.
  \<^item> Integers that can reach their width (free memory in KiB times 1024, the back-off of a renewal) are 64-bit
    words; counters of Go's \<^verbatim>\<open>int\<close> that count elements of a list are naturals.  An instant is a number, Go's
    zero time is 0.  \<^verbatim>\<open>sort.Slice\<close> is a stable sort by the same comparison: where the comparison is not total
    the result is one of those the library allows.
  \<^item> SQL is a function of lists of rows, with the constraints of the migrations as errors (\<^verbatim>\<open>Repository\<close>,
    \<^verbatim>\<open>Cert_Repository\<close>); a failing connection is an answer of the world.
  \<^item> Concurrency is a step relation where it is the point: the zone lock (\<^verbatim>\<open>Zone_Lock\<close>) and concurrent SSH
    connections (\<^verbatim>\<open>Host_Keys\<close>).
  \<^item> SHA-256, \<^verbatim>\<open>certificates.Validate\<close> (X.509) and the handshake of the SSH library are parameters; what is
    assumed of the SSH library (an established connection was accepted by the callback it was given) is the
    shape of the step relation of \<^verbatim>\<open>Host_Keys\<close>.

  \<^bold>\<open>Theories.\<close>  In the order of their imports; each opens with what it holds.
  \<^item> \<^verbatim>\<open>Prelude\<close>: the state monad with errors, traces, the rules for them and the lemma collections;
    \<^verbatim>\<open>Go_Strings\<close>, \<^verbatim>\<open>Netip\<close>, \<^verbatim>\<open>Go_Errors\<close>, \<^verbatim>\<open>Http\<close>: the library code the program rests on.
  \<^item> \<^verbatim>\<open>Deployment\<close> (\<^verbatim>\<open>deployment.go\<close>) and \<^verbatim>\<open>Repository\<close> (\<^verbatim>\<open>postgres.go\<close>): statuses, steps, the two tables and
    every operation on them; the invariant \<open>db_wf\<close> and its preservation; the recovery query.
  \<^item> \<^verbatim>\<open>Safe_Text\<close>: the functions that clean text for the operator (bounds, one line, valid UTF-8).
  \<^item> \<^verbatim>\<open>Dns_Zone\<close>, \<^verbatim>\<open>Dns_Client\<close>, \<^verbatim>\<open>Dns_Spec\<close>, \<^verbatim>\<open>Zone_Lock\<close> (\<^verbatim>\<open>internal/dnsbalancer\<close>): zone lookup, the client
    over a transport and a locker, what it sends, and the keyed mutex with its interleavings.
  \<^item> \<^verbatim>\<open>Remnawave\<close>, \<^verbatim>\<open>Remnawave_Client\<close> (\<^verbatim>\<open>internal/remnawave\<close>): validation of responses and input, the operations.
  \<^item> \<^verbatim>\<open>Deploy_State\<close>, \<^verbatim>\<open>Deploy_Service\<close>, \<^verbatim>\<open>Deploy_Workflow\<close> (\<^verbatim>\<open>orchestrator/service.go\<close>, \<^verbatim>\<open>types.go\<close>): state and ports of
    the service, its helpers and steps, and its requests; \<^verbatim>\<open>Deploy_Frame\<close> holds the locale of trace properties,
    \<^verbatim>\<open>Deploy_Order\<close> the creation of a Node, \<^verbatim>\<open>Deploy_Stages\<close> the refinement of the abstract stage machine,
    \<^verbatim>\<open>Deploy_Limits\<close> the frames for slots and tables and the polling bound, \<^verbatim>\<open>Deploy_Errors\<close> the stored error codes, and
    \<^verbatim>\<open>Deploy_Demo\<close> concrete ports for the witnesses.
  \<^item> \<^verbatim>\<open>Node_Frame\<close>, \<^verbatim>\<open>Node_Address\<close> (\<^verbatim>\<open>ip_change.go\<close>), \<^verbatim>\<open>Node_Host_Move\<close> (\<^verbatim>\<open>node_host_move.go\<close>, \<^verbatim>\<open>node_sni.go\<close>),
    \<^verbatim>\<open>Dns_Sync\<close> (\<^verbatim>\<open>dns_sync.go\<close>): changes of a Node and their compensation.
  \<^item> \<^verbatim>\<open>Service\<close>: every exported method of the deployment service as a request, and what sequences of requests
    keep (slots, marks, tables); \<^verbatim>\<open>Service_Order\<close>: what requests do to DNS and when a deployment is completed, each
    such event justified by the events of its own request before it.
  \<^item> \<^verbatim>\<open>Recovery\<close> (\<^verbatim>\<open>recovery/service.go\<close>): the classification after a restart, of the rows the recovery
    query loads, and what is verified before a deployment is completed.
  \<^item> \<^verbatim>\<open>Provision_Engine\<close> (\<^verbatim>\<open>engine.go\<close>), \<^verbatim>\<open>Remote_Stage\<close> (\<^verbatim>\<open>remote.go\<close>), \<^verbatim>\<open>Preflight\<close> (\<^verbatim>\<open>preflight.go\<close>),
    \<^verbatim>\<open>Ssh_Command\<close> (\<^verbatim>\<open>ssh/command.go\<close>, the two \<^verbatim>\<open>shellQuote\<close>), \<^verbatim>\<open>Host_Keys\<close> (\<^verbatim>\<open>ssh/hostkey.go\<close>, \<^verbatim>\<open>client.go\<close>,
    \<^verbatim>\<open>postgres/hostkey.go\<close>).
  \<^item> \<^verbatim>\<open>Certificates\<close>, \<^verbatim>\<open>Cert_Repository\<close>, \<^verbatim>\<open>Cert_Resolver\<close>, \<^verbatim>\<open>Cert_Manager\<close>, \<^verbatim>\<open>Cert_Safety\<close>, \<^verbatim>\<open>Cert_Activation\<close>
    (\<^verbatim>\<open>internal/certmanager\<close>, \<^verbatim>\<open>postgres/certificates.go\<close>): types and names, tables, targets, the manager, its locks
    and invariant, and the justification of every activation.
  \<^item> \<^verbatim>\<open>Node_Monitor\<close> (\<^verbatim>\<open>telegram/node_monitor.go\<close>, the classification of \<^verbatim>\<open>node_inventory.go\<close>).

  \<^bold>\<open>Interfaces.\<close>  Where one part relies on another the contract is a locale with an interpretation on the
  model: the stores of host keys (\<^verbatim>\<open>host_key_store\<close>, both stores), the traces of the workflow (\<^verbatim>\<open>workflow_trace\<close>),
  what a run shows outside (\<^verbatim>\<open>outward\<close>), and those of the certificate theories.

  \<^bold>\<open>Loops.\<close>  Loops over lists are structural.  Waiting for a Node is a \<open>function\<close> with a measure on the time that
  is left, so that it ends for every answer of the panel (\<^verbatim>\<open>pollNode_bounded\<close>); the SSH client tries a fixed list of
  key algorithms.  The tickers of the monitor and of the renewal run for ever: the model has one tick, and a
  sequence of ticks of any length.  There is no fuel.

  \<^bold>\<open>Not modelled.\<close>
  \<^item> Rendering and dialogue of the bot (\<^verbatim>\<open>telegram/controller.go\<close>, \<^verbatim>\<open>botapi.go\<close>, the pages): texts and keyboards;
    what they call is modelled.
  \<^item> ACME and Cloudflare (\<^verbatim>\<open>acme.go\<close>, \<^verbatim>\<open>cloudflare.go\<close>): ports of the manager; X.509 validation is a parameter.
  \<^item> The shell scripts of the stages (\<^verbatim>\<open>stages.go\<close>, \<^verbatim>\<open>xray_sni*.go\<close>) and of the service agents (\<^verbatim>\<open>royalip\<close>,
    \<^verbatim>\<open>cherryip\<close>): programs of another language, which the code only sends.
  \<^item> Configuration, logging, metrics, the health endpoint, wiring (\<^verbatim>\<open>cmd/deployer\<close>) and migrations as files; the
    constraints the migrations state are in the tables.
  \<^item> Durations in results, log lines, and the clearing of secrets in memory, which no result depends on.
\<close>

end
